(* ===== verification/Prelude.thy ===== *)
theory Prelude
  imports Main "HOL-Library.Word"
begin

text \<open>
  What every component of the development shares: the C++ integer conversions the
  plugin uses, the parts of \<^verbatim>\<open>std::string\<close> it calls, decimal printing and
  parsing of the C and C++ standard libraries, and two generic interfaces (locales):
  a system of steps with an invariant, and a pair of an encoder and a decoder.
\<close>

unbundle bit_operations_syntax

named_theorems cxx_simps \<open>equations of the modelled language and library operations\<close>
named_theorems model_simps \<open>unfolding rules of the operations of the components\<close>

type_synonym byte = "8 word"

section \<open>Integers\<close>

text \<open>
  \<^verbatim>\<open>static_cast<int>\<close> and \<^verbatim>\<open>static_cast<unsigned>\<close> of a wider integer keep the
  low 32 bits; \<^verbatim>\<open>static_cast<std::uint64_t>\<close> keeps the low 64.
\<close>

definition cast_int :: "int \<Rightarrow> int" where
  "cast_int x = (x + 2 ^ 31) mod 2 ^ 32 - 2 ^ 31"

definition cast_unsigned :: "int \<Rightarrow> int" where
  "cast_unsigned x = x mod 2 ^ 32"

definition cast_u64 :: "int \<Rightarrow> int" where
  "cast_u64 x = x mod 2 ^ 64"

definition int_max :: int where
  "int_max = 2147483647"

text \<open>\<^verbatim>\<open>std::clamp(v, lo, hi)\<close>.\<close>

definition clamp :: "int \<Rightarrow> int \<Rightarrow> int \<Rightarrow> int" where
  "clamp v lo hi = (if v < lo then lo else if hi < v then hi else v)"

lemma cast_int_id [cxx_simps]:
  assumes "- (2 ^ 31) \<le> x" and "x < 2 ^ 31"
  shows "cast_int x = x"
  using assms by (simp add: cast_int_def)

lemma cast_int_bounds: "- (2 ^ 31) \<le> cast_int x" "cast_int x < 2 ^ 31"
proof -
  have "0 \<le> (x + 2 ^ 31) mod (2 ^ 32 :: int)" "(x + 2 ^ 31) mod (2 ^ 32 :: int) < 2 ^ 32"
    by simp_all
  then show "- (2 ^ 31) \<le> cast_int x" "cast_int x < 2 ^ 31"
    by (simp_all add: cast_int_def)
qed

lemma clamp_bounds:
  assumes "lo \<le> hi"
  shows "lo \<le> clamp v lo hi" "clamp v lo hi \<le> hi"
  using assms by (auto simp: clamp_def)

lemma clamp_id [cxx_simps]: "lo \<le> v \<Longrightarrow> v \<le> hi \<Longrightarrow> clamp v lo hi = v"
  by (auto simp: clamp_def)

lemma clamp_idem: "lo \<le> hi \<Longrightarrow> clamp (clamp v lo hi) lo hi = clamp v lo hi"
  by (auto simp: clamp_def)

section \<open>Strings\<close>

text \<open>
  \<^verbatim>\<open>std::string\<close> is a list of characters (bytes); a position is a natural number and
  \<^verbatim>\<open>npos\<close> is \<open>None\<close>.
\<close>

fun find_index :: "('a \<Rightarrow> bool) \<Rightarrow> 'a list \<Rightarrow> nat option" where
  "find_index P [] = None"
| "find_index P (x # xs) = (if P x then Some 0 else map_option Suc (find_index P xs))"

text \<open>\<^verbatim>\<open>s.find(c, pos)\<close> and \<^verbatim>\<open>s.find_first_of(set)\<close>.\<close>

definition str_find :: "('a \<Rightarrow> bool) \<Rightarrow> nat \<Rightarrow> 'a list \<Rightarrow> nat option" where
  "str_find P pos s = map_option (\<lambda>i. pos + i) (find_index P (drop pos s))"

text \<open>\<^verbatim>\<open>s.rfind(c)\<close>.\<close>

definition str_rfind :: "('a \<Rightarrow> bool) \<Rightarrow> 'a list \<Rightarrow> nat option" where
  "str_rfind P s = map_option (\<lambda>i. length s - Suc i) (find_index P (rev s))"

text \<open>\<^verbatim>\<open>s.find("pattern")\<close>.\<close>

fun str_find_sub :: "'a list \<Rightarrow> 'a list \<Rightarrow> nat option" where
  "str_find_sub p [] = (if p = [] then Some 0 else None)"
| "str_find_sub p (x # xs) =
     (if take (length p) (x # xs) = p then Some 0 else map_option Suc (str_find_sub p xs))"

lemma find_index_None: "find_index P xs = None \<longleftrightarrow> (\<forall>x\<in>set xs. \<not> P x)"
  by (induction xs) auto

lemma find_index_Some:
  "find_index P xs = Some i \<Longrightarrow> i < length xs \<and> P (xs ! i) \<and> (\<forall>j<i. \<not> P (xs ! j))"
proof (induction xs arbitrary: i)
  case (Cons x xs)
  show ?case
  proof (cases "P x")
    case False
    with Cons.prems obtain k where k: "find_index P xs = Some k" "i = Suc k"
      by auto
    with Cons.IH [of k] False show ?thesis
      by (auto simp: less_Suc_eq_0_disj)
  qed (use Cons.prems in auto)
qed simp

lemma find_index_takeWhile:
  "find_index P xs = Some i \<Longrightarrow> take i xs = takeWhile (\<lambda>x. \<not> P x) xs"
proof (induction xs arbitrary: i)
  case (Cons x xs)
  then show ?case by (cases "P x") auto
qed simp

lemma find_index_append:
  assumes "\<forall>x\<in>set xs. \<not> P x"
  shows "find_index P (xs @ ys) = map_option ((+) (length xs)) (find_index P ys)"
  using assms by (induction xs) (auto simp: option.map_comp o_def option.map_ident cong: option.map_cong)

lemma str_find_None [cxx_simps]: "str_find P pos s = None \<longleftrightarrow> (\<forall>x\<in>set (drop pos s). \<not> P x)"
  by (simp add: str_find_def find_index_None)

lemma str_find_Some:
  assumes "str_find P pos s = Some e"
  shows "pos \<le> e" "e < length s" "P (s ! e)"
    "take (e - pos) (drop pos s) = takeWhile (\<lambda>x. \<not> P x) (drop pos s)"
proof -
  from assms obtain i where i: "find_index P (drop pos s) = Some i" "e = pos + i"
    by (auto simp: str_find_def)
  from find_index_Some [OF i(1)] have "i < length s - pos" "P (drop pos s ! i)"
    by auto
  then show "pos \<le> e" "e < length s" "P (s ! e)"
    using i(2) by auto
  show "take (e - pos) (drop pos s) = takeWhile (\<lambda>x. \<not> P x) (drop pos s)"
    using find_index_takeWhile [OF i(1)] i(2) by simp
qed

subsection \<open>The token loop\<close>

text \<open>
  Three functions of the plugin split a string at a separator with the same loop:
  \<^verbatim>\<open>while (start <= value.size()) { end = value.find(sep, start); token = ...; if (end == npos)
  break; start = end + 1; }\<close>. The loop over positions is \<open>token_loop\<close>; \<open>split_on\<close> is the
  structural function it computes.
\<close>

function token_loop :: "char \<Rightarrow> string \<Rightarrow> nat \<Rightarrow> string list" where
  "token_loop sep s start =
     (if start \<le> length s then
        (case str_find (\<lambda>c. c = sep) start s of
           None \<Rightarrow> [drop start s]
         | Some e \<Rightarrow> take (e - start) (drop start s) # token_loop sep s (Suc e))
      else [])"
  by pat_completeness auto
termination
  by (relation "measure (\<lambda>(sep, s, start). Suc (length s) - start)")
     (auto dest: str_find_Some(1,2))

declare token_loop.simps [simp del]

fun split_on :: "'a \<Rightarrow> 'a list \<Rightarrow> 'a list list" where
  "split_on sep [] = [[]]"
| "split_on sep (x # xs) =
     (if x = sep then [] # split_on sep xs
      else (case split_on sep xs of [] \<Rightarrow> [[x]] | t # ts \<Rightarrow> (x # t) # ts))"

lemma split_on_nonempty [simp]: "split_on sep xs \<noteq> []"
  by (induction xs) (auto split: list.splits)

lemma split_on_no_sep: "sep \<notin> set xs \<Longrightarrow> split_on sep xs = [xs]"
  by (induction xs) auto

lemma split_on_append:
  "sep \<notin> set xs \<Longrightarrow> split_on sep (xs @ sep # ys) = xs # split_on sep ys"
  by (induction xs) auto

lemma token_loop_eq_split_on:
  "start \<le> length s \<Longrightarrow> token_loop sep s start = split_on sep (drop start s)"
proof (induction sep s start rule: token_loop.induct)
  case (1 sep s start)
  show ?case
  proof (cases "str_find (\<lambda>c. c = sep) start s")
    case None
    with 1 show ?thesis
      by (subst token_loop.simps)
        (use str_find_None [of "\<lambda>c. c = sep" start s] in \<open>auto simp: split_on_no_sep\<close>)
  next
    case (Some e)
    note F = str_find_Some [OF Some]
    let ?t = "takeWhile (\<lambda>x. x \<noteq> sep) (drop start s)"
    have drop_e: "drop start s = ?t @ sep # drop (Suc e) s"
    proof -
      have "drop start s = take (e - start) (drop start s) @ drop (e - start) (drop start s)"
        by (rule append_take_drop_id [symmetric])
      also have "drop (e - start) (drop start s) = s ! e # drop (Suc e) s"
        using F(1,2) by (simp add: Cons_nth_drop_Suc)
      finally show ?thesis using F(3,4) by simp
    qed
    have "token_loop sep s start = ?t # split_on sep (drop (Suc e) s)"
      using 1 Some F by (subst token_loop.simps) simp
    also have "\<dots> = split_on sep (drop start s)"
      using split_on_append [of sep ?t "drop (Suc e) s"] drop_e by (metis set_takeWhileD)
    finally show ?thesis .
  qed
qed

text \<open>Joining with a separator (\<^verbatim>\<open>if (!s.empty()) s += ','; s += id;\<close>) and splitting again.\<close>

fun join_loop :: "char \<Rightarrow> string \<Rightarrow> string list \<Rightarrow> string" where
  "join_loop sep acc [] = acc"
| "join_loop sep acc (t # ts) =
     join_loop sep ((if acc \<noteq> [] then acc @ [sep] else acc) @ t) ts"

lemma split_on_join_loop:
  assumes "acc \<noteq> []" and "\<forall>t\<in>set ts. t \<noteq> [] \<and> sep \<notin> set t"
  shows "split_on sep (join_loop sep acc ts) = split_on sep acc @ ts"
  using assms
proof (induction ts arbitrary: acc)
  case (Cons t ts)
  have split_snoc: "split_on sep (u @ sep # t) = split_on sep u @ [t]" for u
    using Cons.prems(2) by (induction u) (auto simp: split_on_no_sep split: list.splits)
  have "split_on sep (join_loop sep (acc @ sep # t) ts) = split_on sep (acc @ sep # t) @ ts"
    using Cons.prems by (intro Cons.IH) auto
  with split_snoc Cons.prems show ?case by simp
qed simp

lemma split_on_join:
  assumes "\<forall>t\<in>set ts. t \<noteq> [] \<and> sep \<notin> set t"
  shows "filter (\<lambda>t. t \<noteq> []) (split_on sep (join_loop sep [] ts)) = ts"
proof (cases ts)
  case (Cons t us)
  with assms have "split_on sep (join_loop sep t us) = t # us"
    by (subst split_on_join_loop) (auto simp: split_on_no_sep)
  with Cons assms show ?thesis by (simp add: filter_id_conv)
qed simp

section \<open>Decimal numbers\<close>

definition digit_char :: "nat \<Rightarrow> char" where
  "digit_char d = char_of (48 + d)"

definition is_digit :: "char \<Rightarrow> bool" where
  "is_digit c \<longleftrightarrow> 48 \<le> (of_char c :: nat) \<and> (of_char c :: nat) \<le> 57"

definition digit_val :: "char \<Rightarrow> nat" where
  "digit_val c = of_char c - 48"

text \<open>\<^verbatim>\<open>std::to_string\<close> of an unsigned and of a signed integer.\<close>

fun dec_digits :: "nat \<Rightarrow> string" where
  "dec_digits n =
     (if n < 10 then [digit_char n] else dec_digits (n div 10) @ [digit_char (n mod 10)])"

declare dec_digits.simps [simp del]

definition to_string :: "int \<Rightarrow> string" where
  "to_string x = (if x < 0 then CHR ''-'' # dec_digits (nat (- x)) else dec_digits (nat x))"

definition dec_value :: "string \<Rightarrow> nat" where
  "dec_value s = foldl (\<lambda>a c. 10 * a + digit_val c) 0 s"

lemma digit_char_props:
  assumes "d < 10"
  shows "is_digit (digit_char d)" "digit_val (digit_char d) = d"
  using assms by (simp_all add: is_digit_def digit_val_def digit_char_def)

lemma dec_value_snoc: "dec_value (s @ [c]) = 10 * dec_value s + digit_val c"
  by (simp add: dec_value_def)

lemma dec_digits_props:
  "list_all is_digit (dec_digits n)" "dec_digits n \<noteq> []" "dec_value (dec_digits n) = n"
proof (induction n rule: dec_digits.induct)
  case (1 n)
  show "list_all is_digit (dec_digits n)"
    using 1 by (cases "n < 10") (subst dec_digits.simps, simp add: digit_char_props)+
  show "dec_digits n \<noteq> []"
    by (subst dec_digits.simps) simp
  show "dec_value (dec_digits n) = n"
  proof (cases "n < 10")
    case True
    then show ?thesis
      by (subst dec_digits.simps) (simp add: dec_value_def digit_char_props)
  next
    case False
    then have "dec_value (dec_digits n) = 10 * dec_value (dec_digits (n div 10)) + n mod 10"
      by (subst dec_digits.simps) (simp add: dec_value_snoc digit_char_props)
    with 1 False show ?thesis by simp
  qed
qed

lemma dec_digits_span:
  assumes "rest = [] \<or> \<not> is_digit (hd rest)"
  shows "takeWhile is_digit (dec_digits n @ rest) = dec_digits n"
    "dropWhile is_digit (dec_digits n @ rest) = rest"
proof -
  have "\<forall>c\<in>set (dec_digits n). is_digit c"
    using dec_digits_props(1) by (simp add: list_all_iff)
  then show "takeWhile is_digit (dec_digits n @ rest) = dec_digits n"
    "dropWhile is_digit (dec_digits n @ rest) = rest"
    using assms by (cases rest; simp add: takeWhile_append2 dropWhile_append2)+
qed

text \<open>
  \<^verbatim>\<open>strtoul(s, nullptr, 10)\<close>: white space, an optional sign, digits; the value saturates at
  \<^verbatim>\<open>ULONG_MAX\<close>, whose width (32 or 64 bits) is the platform's, and a minus sign negates
  modulo that width. \<^verbatim>\<open>strtoll\<close> saturates at both ends of 64 bits.
\<close>

definition is_space :: "char \<Rightarrow> bool" where
  "is_space c \<longleftrightarrow> (of_char c :: nat) = 32 \<or> (9 \<le> (of_char c :: nat) \<and> (of_char c :: nat) \<le> 13)"

definition scan_sign :: "string \<Rightarrow> bool \<times> string" where
  "scan_sign s =
     (case s of
        [] \<Rightarrow> (False, [])
      | c # cs \<Rightarrow> if c = CHR ''-'' then (True, cs) else if c = CHR ''+'' then (False, cs) else (False, s))"

definition strtoul :: "nat \<Rightarrow> string \<Rightarrow> int" where
  "strtoul bits s =
     (let (neg, s') = scan_sign (dropWhile is_space s);
          v = int (dec_value (takeWhile is_digit s'))
      in if 2 ^ bits \<le> v then 2 ^ bits - 1 else if neg then (- v) mod 2 ^ bits else v)"

definition strtoll :: "string \<Rightarrow> int" where
  "strtoll s =
     (let (neg, s') = scan_sign (dropWhile is_space s);
          v = int (dec_value (takeWhile is_digit s'))
      in if neg then max (- (2 ^ 63)) (- v) else min (2 ^ 63 - 1) v)"

text \<open>\<^verbatim>\<open>std::from_chars\<close> into a \<^verbatim>\<open>std::uint64_t\<close>: no white space, no sign.\<close>

datatype errc = InvalidArgument | ResultOutOfRange

definition from_chars_u64 :: "string \<Rightarrow> errc + (nat \<times> string)" where
  "from_chars_u64 s =
     (let ds = takeWhile is_digit s
      in if ds = [] then Inl InvalidArgument
         else if 2 ^ 64 \<le> dec_value ds then Inl ResultOutOfRange
         else Inr (dec_value ds, dropWhile is_digit s))"

lemma dec_digits_hd: "is_digit (hd (dec_digits n))"
  using dec_digits_props(1,2) [of n] by (cases "dec_digits n") auto

lemma digit_not_space_sign:
  assumes "is_digit c"
  shows "\<not> is_space c" "c \<noteq> CHR ''-''" "c \<noteq> CHR ''+''"
  using assms by (auto simp: is_digit_def is_space_def)

lemma scan_dec_digits:
  assumes "rest = [] \<or> \<not> is_digit (hd rest)"
  shows "scan_sign (dropWhile is_space (dec_digits n @ rest)) = (False, dec_digits n @ rest)"
    "takeWhile is_digit (dec_digits n @ rest) = dec_digits n"
proof -
  obtain c cs where c: "dec_digits n = c # cs" "is_digit c"
    using dec_digits_props(2) [of n] dec_digits_hd [of n] by (cases "dec_digits n") auto
  show "scan_sign (dropWhile is_space (dec_digits n @ rest)) = (False, dec_digits n @ rest)"
    using c digit_not_space_sign [of c] by (simp add: scan_sign_def)
  show "takeWhile is_digit (dec_digits n @ rest) = dec_digits n"
    using assms by (rule dec_digits_span)
qed

lemma strtoul_dec_digits:
  assumes "int n < 2 ^ bits" and "rest = [] \<or> \<not> is_digit (hd rest)"
  shows "strtoul bits (dec_digits n @ rest) = int n"
  using assms by (simp add: strtoul_def scan_dec_digits dec_digits_props)

lemma strtoul_range: "0 \<le> strtoul bits s" "strtoul bits s < 2 ^ bits"
  by (auto simp: strtoul_def Let_def split: prod.splits)

section \<open>Generic interfaces\<close>

text \<open>The states reachable from an initial state by steps.\<close>

inductive reach :: "('s \<Rightarrow> bool) \<Rightarrow> ('s \<Rightarrow> 's \<Rightarrow> bool) \<Rightarrow> 's \<Rightarrow> bool"
  for init :: "'s \<Rightarrow> bool" and step :: "'s \<Rightarrow> 's \<Rightarrow> bool" where
  reach_init: "init s \<Longrightarrow> reach init step s"
| reach_step: "reach init step s \<Longrightarrow> step s t \<Longrightarrow> reach init step t"

text \<open>A property that the initial states have and every step keeps.\<close>

locale invariant_system =
  fixes init :: "'s \<Rightarrow> bool"
    and step :: "'s \<Rightarrow> 's \<Rightarrow> bool"
    and inv :: "'s \<Rightarrow> bool"
  assumes inv_init: "init s \<Longrightarrow> inv s"
    and inv_step: "step s t \<Longrightarrow> inv s \<Longrightarrow> inv t"
begin

lemma reach_inv: "reach init step s \<Longrightarrow> inv s"
  by (induction rule: reach.induct) (auto intro: inv_init inv_step)

lemma steps_inv: "step\<^sup>*\<^sup>* s t \<Longrightarrow> inv s \<Longrightarrow> inv t"
  by (induction rule: rtranclp_induct) (auto intro: inv_step)

end

text \<open>An encoder whose valid inputs a decoder recovers.\<close>

locale text_codec =
  fixes enc :: "'a \<Rightarrow> 'b"
    and dec :: "'b \<Rightarrow> 'a option"
    and valid :: "'a \<Rightarrow> bool"
  assumes dec_enc: "valid x \<Longrightarrow> dec (enc x) = Some x"
begin

lemma enc_inj: "valid x \<Longrightarrow> valid y \<Longrightarrow> enc x = enc y \<Longrightarrow> x = y"
  using dec_enc by (metis option.inject)

lemma enc_inj_on: "inj_on enc {x. valid x}"
  by (auto intro: inj_onI enc_inj)

end

end
