(* ===== verification/Endpoint_Text.thy ===== *)
theory Endpoint_Text
  imports Prelude
begin

text \<open>
  The text functions of \<^verbatim>\<open>plugin/srtla-output.cpp\<close> (lines 113 to 247): JSON escaping,
  endpoint parsing, percent decoding, link identifiers and the list of enabled links.
  Their callers are in \<open>Obs_Settings\<close>, \<open>Srtla_Output\<close> and \<open>Srtla_Dock\<close>.
\<close>

section \<open>JSON escaping\<close>

definition json_escape_char :: "char \<Rightarrow> string" where
  "json_escape_char c =
     (if c = CHR 0x5C then [CHR 0x5C, CHR 0x5C]
      else if c = CHR 0x22 then [CHR 0x5C, CHR 0x22]
      else if c = CHR 0x0A then [CHR 0x5C, CHR ''n'']
      else if c = CHR 0x0D then [CHR 0x5C, CHR ''r'']
      else if c = CHR 0x09 then [CHR 0x5C, CHR ''t'']
      else [c])"

definition json_escape :: "string \<Rightarrow> string" where
  "json_escape value = foldl (\<lambda>escaped c. escaped @ json_escape_char c) [] value"

lemma json_escape_concat: "json_escape s = concat (map json_escape_char s)"
proof -
  have "foldl (\<lambda>e c. e @ json_escape_char c) acc s = acc @ concat (map json_escape_char s)" for acc
    by (induction s arbitrary: acc) simp_all
  then show ?thesis by (simp add: json_escape_def)
qed

lemma json_escape_simps [simp]:
  "json_escape [] = []"
  "json_escape (c # s) = json_escape_char c @ json_escape s"
  by (simp_all add: json_escape_concat)

text \<open>
  Reference: reading the body of a JSON string (RFC 8259, section 7) up to its closing
  quotation mark. A control character below 0x20 must be escaped, so an unescaped one is an
  error. The \<^verbatim>\<open>\uXXXX\<close> escape, which \<open>json_escape\<close> never writes, is left out.
\<close>

definition json_simple_escape :: "char \<Rightarrow> char option" where
  "json_simple_escape c =
     (if c = CHR 0x5C \<or> c = CHR 0x22 \<or> c = CHR ''/'' then Some c
      else if c = CHR ''b'' then Some (CHR 0x08)
      else if c = CHR ''f'' then Some (CHR 0x0C)
      else if c = CHR ''n'' then Some (CHR 0x0A)
      else if c = CHR ''r'' then Some (CHR 0x0D)
      else if c = CHR ''t'' then Some (CHR 0x09)
      else None)"

definition json_control :: "char \<Rightarrow> bool" where
  "json_control c \<longleftrightarrow> (of_char c :: nat) < 32"

fun json_read_string :: "string \<Rightarrow> (string \<times> string) option" where
  "json_read_string [] = None"
| "json_read_string (c # s) =
     (if c = CHR 0x22 then Some ([], s)
      else if c = CHR 0x5C then
        (case s of
           [] \<Rightarrow> None
         | e # s' \<Rightarrow>
             (case json_simple_escape e of
                None \<Rightarrow> None
              | Some d \<Rightarrow> map_option (map_prod (Cons d) id) (json_read_string s')))
      else if json_control c then None
      else map_option (map_prod (Cons c) id) (json_read_string s))"

text \<open>The characters that \<open>json_escape\<close> leaves unescaped although JSON forbids them raw.\<close>

definition json_unescaped_control :: "char \<Rightarrow> bool" where
  "json_unescaped_control c \<longleftrightarrow>
     json_control c \<and> c \<noteq> CHR 0x0A \<and> c \<noteq> CHR 0x0D \<and> c \<noteq> CHR 0x09"

lemma json_read_escape_char:
  "json_read_string (json_escape_char c @ s) =
     (if json_unescaped_control c then None
      else map_option (map_prod (Cons c) id) (json_read_string s))"
  by (auto simp: json_escape_char_def json_unescaped_control_def json_control_def
      json_simple_escape_def)

lemma json_read_escape:
  "json_read_string (json_escape s @ CHR 0x22 # rest) =
     (if list_ex json_unescaped_control s then None else Some (s, rest))"
  by (induction s) (auto simp: json_read_escape_char)

definition json_string_decode :: "string \<Rightarrow> string option" where
  "json_string_decode s =
     (case json_read_string (s @ [CHR 0x22]) of Some (v, []) \<Rightarrow> Some v | _ \<Rightarrow> None)"

interpretation json: text_codec json_escape json_string_decode "list_all (\<lambda>c. \<not> json_unescaped_control c)"
  by unfold_locales
    (simp add: json_string_decode_def json_read_escape list_ex_iff list_all_iff)

text \<open>
  A string escaped by \<^verbatim>\<open>json_escape\<close> and followed by its closing quotation mark is read
  back by a JSON reader as exactly the original string, with everything after the quotation mark
  left over, so no value can end its string literal early or inject a key into the engine
  configuration. The only exceptions are strings with a control character other than line feed,
  carriage return and tab: those are copied raw and the document is rejected as a whole.
\<close>

theorem json_escape_reads_back:
  "json_read_string (json_escape s @ CHR 0x22 # rest) =
     (if list_ex json_unescaped_control s then None else Some (s, rest))"
  by (rule json_read_escape)

section \<open>The receiver endpoint\<close>

definition default_url :: string where
  "default_url = ''srtla://receiver.example:5000''"

definition strip_scheme :: "string \<Rightarrow> string" where
  "strip_scheme endpoint =
     (case str_find_sub ''://'' endpoint of
        None \<Rightarrow> endpoint
      | Some scheme \<Rightarrow> drop (scheme + 3) endpoint)"

definition strip_suffix :: "string \<Rightarrow> string" where
  "strip_suffix endpoint =
     (case str_find (\<lambda>c. c = CHR ''?'' \<or> c = CHR ''/'') 0 endpoint of
        None \<Rightarrow> endpoint
      | Some suffix \<Rightarrow> take suffix endpoint)"

definition port_of :: "nat \<Rightarrow> string \<Rightarrow> int" where
  "port_of ulong_bits text = cast_unsigned (strtoul ulong_bits text)"

definition split_host_port :: "nat \<Rightarrow> string \<Rightarrow> string \<times> int" where
  "split_host_port ulong_bits endpoint =
     (if endpoint \<noteq> [] \<and> hd endpoint = CHR ''['' then
        (case str_find (\<lambda>c. c = CHR '']'') 0 endpoint of
           None \<Rightarrow> (endpoint, 5000)
         | Some close \<Rightarrow>
             (take (close - 1) (drop 1 endpoint),
              (case str_find (\<lambda>c. c = CHR '':'') close endpoint of
                 None \<Rightarrow> 5000
               | Some colon \<Rightarrow> port_of ulong_bits (drop (colon + 1) endpoint))))
      else
        (case str_rfind (\<lambda>c. c = CHR '':'') endpoint of
           None \<Rightarrow> (endpoint, 5000)
         | Some colon \<Rightarrow> (take colon endpoint, port_of ulong_bits (drop (colon + 1) endpoint))))"

definition endpoint_rejected :: "string \<Rightarrow> int \<Rightarrow> bool" where
  "endpoint_rejected host port \<longleftrightarrow>
     host = [] \<or> 240 < length host \<or> list_ex (\<lambda>c. c = CHR 0x5C \<or> c = CHR 0x22) host
     \<or> port = 0 \<or> 65535 < port"

text \<open>\<^verbatim>\<open>ulong_bits\<close> is the width of \<^verbatim>\<open>unsigned long\<close>: 64 on Linux and macOS, 32 on Windows.\<close>

definition parse_endpoint :: "nat \<Rightarrow> string option \<Rightarrow> string \<times> int" where
  "parse_endpoint ulong_bits url =
     (let endpoint = (case url of None \<Rightarrow> default_url | Some u \<Rightarrow> if u = [] then default_url else u);
          (host, port) = split_host_port ulong_bits (strip_suffix (strip_scheme endpoint))
      in if endpoint_rejected host port then (''receiver.example'', 5000) else (host, port))"

lemma port_of_nonneg: "0 \<le> port_of bits s"
  by (simp add: port_of_def cast_unsigned_def)

lemma split_host_port_nonneg: "split_host_port bits e = (host, port) \<Longrightarrow> 0 \<le> port"
  by (auto simp: split_host_port_def port_of_nonneg split: if_splits option.splits)

text \<open>
  C37. Whatever the user typed, the endpoint is usable: the host is not empty, has at most 240
  characters and no quotation mark or backslash, and the port is between 1 and 65535, so the
  later cast to a 16-bit port loses nothing.
\<close>

theorem parse_endpoint_wellformed:
  "case parse_endpoint bits url of (host, port) \<Rightarrow>
     host \<noteq> [] \<and> length host \<le> 240 \<and> CHR 0x22 \<notin> set host \<and> CHR 0x5C \<notin> set host
     \<and> 1 \<le> port \<and> port \<le> 65535"
proof -
  obtain host port where hp: "split_host_port bits (strip_suffix (strip_scheme
      (case url of None \<Rightarrow> default_url | Some u \<Rightarrow> if u = [] then default_url else u))) = (host, port)"
    by fastforce
  then show ?thesis
    using split_host_port_nonneg [OF hp]
    by (auto simp: parse_endpoint_def Let_def endpoint_rejected_def list_ex_iff)
qed

subsection \<open>Reading back a printed endpoint\<close>

definition plain_host_char :: "char \<Rightarrow> bool" where
  "plain_host_char c \<longleftrightarrow>
     c \<notin> {CHR '':'', CHR ''/'', CHR ''?'', CHR ''['', CHR 0x22, CHR 0x5C}"

definition plain_host :: "string \<Rightarrow> bool" where
  "plain_host h \<longleftrightarrow> h \<noteq> [] \<and> length h \<le> 240 \<and> list_all plain_host_char h"

lemma strip_scheme_srtla: "strip_scheme (''srtla://'' @ rest) = rest"
  by (simp add: strip_scheme_def)

lemma strip_suffix_id:
  "list_all (\<lambda>c. c \<noteq> CHR ''?'' \<and> c \<noteq> CHR ''/'') e \<Longrightarrow> strip_suffix e = e"
  using str_find_None [of "\<lambda>c. c = CHR ''?'' \<or> c = CHR ''/''" 0 e]
  by (auto simp: strip_suffix_def list_all_iff)

lemma str_rfind_append:
  assumes "\<not> list_ex P ys" and "P x"
  shows "str_rfind P (xs @ x # ys) = Some (length xs)"
proof -
  have "find_index P (rev ys @ x # rev xs) = Some (length ys)"
    using assms by (subst find_index_append) (auto simp: list_ex_iff)
  then show ?thesis by (simp add: str_rfind_def)
qed

lemma digit_plain: "is_digit c \<Longrightarrow> plain_host_char c"
  by (auto simp: is_digit_def plain_host_char_def)

lemma dec_digits_plain: "list_all plain_host_char (dec_digits n)"
  using dec_digits_props(1) [of n] by (auto simp: list_all_iff digit_plain)

lemma port_of_dec_digits:
  assumes "32 \<le> bits" and "p \<le> 65535"
  shows "port_of bits (dec_digits p) = int p"
proof -
  have "(2::int) ^ 32 \<le> 2 ^ bits"
    using assms(1) by (intro power_increasing) auto
  moreover have "int p < 2 ^ 32"
    using assms(2) by simp
  ultimately have "int p < 2 ^ bits"
    by (rule less_le_trans [rotated])
  then show ?thesis
    using strtoul_dec_digits [of p bits "[]"] assms(2)
    by (simp add: port_of_def cast_unsigned_def)
qed

lemma split_plain_host_port:
  assumes "plain_host h" and "32 \<le> bits" and "p \<le> 65535"
  shows "split_host_port bits (h @ CHR '':'' # dec_digits p) = (h, int p)"
proof -
  have "\<not> list_ex (\<lambda>c. c = CHR '':'') (dec_digits p)"
    using dec_digits_plain [of p] by (auto simp: list_ex_iff list_all_iff plain_host_char_def)
  then have "str_rfind (\<lambda>c. c = CHR '':'') (h @ CHR '':'' # dec_digits p) = Some (length h)"
    by (rule str_rfind_append) simp
  moreover have "hd (h @ CHR '':'' # dec_digits p) \<noteq> CHR ''[''"
    using assms(1) by (cases h) (auto simp: plain_host_def plain_host_char_def)
  ultimately show ?thesis
    using assms(2,3) by (simp add: split_host_port_def port_of_dec_digits)
qed

text \<open>
  Round trip: the URL printed from a host name and a port is parsed back to that host and
  port, on 32-bit and on 64-bit \<^verbatim>\<open>unsigned long\<close> alike.
\<close>

theorem parse_endpoint_roundtrip:
  assumes "plain_host h" and "32 \<le> bits" and "1 \<le> p" and "p \<le> 65535"
  shows "parse_endpoint bits (Some (''srtla://'' @ h @ CHR '':'' # dec_digits p)) = (h, int p)"
proof -
  let ?e = "h @ CHR '':'' # dec_digits p"
  have "list_all (\<lambda>c. c \<noteq> CHR ''?'' \<and> c \<noteq> CHR ''/'') ?e"
    using assms(1) dec_digits_plain [of p]
    by (auto simp: plain_host_def plain_host_char_def list_all_iff)
  then have "strip_suffix (strip_scheme (''srtla://'' @ ?e)) = ?e"
    by (simp only: strip_scheme_srtla strip_suffix_id)
  moreover have "\<not> endpoint_rejected h (int p)"
    using assms by (auto simp: endpoint_rejected_def plain_host_def plain_host_char_def
        list_ex_iff list_all_iff)
  ultimately show ?thesis
    using split_plain_host_port [OF assms(1,2,4)] by (simp add: parse_endpoint_def)
qed

theorem parse_endpoint_roundtrip_witness:
  "parse_endpoint 64 (Some (''srtla://'' @ ''relay.example'' @ CHR '':'' # dec_digits 5001))
     = (''relay.example'', 5001)"
  using parse_endpoint_roundtrip [of "''relay.example''" 64 5001]
  by (simp add: plain_host_def plain_host_char_def)

subsection \<open>Port numbers beyond 32 bits\<close>

text \<open>
  Where \<^verbatim>\<open>unsigned long\<close> has 64 bits, the cast to \<^verbatim>\<open>unsigned\<close> drops the high half of the
  parsed number before the range check, so a port that is out of range by a multiple of
  \<open>2 ^ 32\<close> is accepted as a different, valid port.
\<close>

theorem parse_endpoint_port_truncated:
  assumes "plain_host h" and "1 \<le> p" and "p \<le> 65535" and "p + k * 2 ^ 32 < (2 ^ 64 :: nat)"
  shows "parse_endpoint 64 (Some (''srtla://'' @ h @ CHR '':'' # dec_digits (p + k * 2 ^ 32)))
    = (h, int p)"
proof -
  let ?n = "p + k * 2 ^ 32"
  let ?e = "h @ CHR '':'' # dec_digits ?n"
  have "list_all (\<lambda>c. c \<noteq> CHR ''?'' \<and> c \<noteq> CHR ''/'') ?e"
    using assms(1) dec_digits_plain [of ?n]
    by (auto simp: plain_host_def plain_host_char_def list_all_iff)
  then have strip: "strip_suffix (strip_scheme (''srtla://'' @ ?e)) = ?e"
    by (simp only: strip_scheme_srtla strip_suffix_id)
  have "int ?n < 2 ^ 64"
    using assms(4) by (metis of_nat_less_iff of_nat_numeral of_nat_power)
  then have "strtoul 64 (dec_digits ?n) = int ?n"
    using strtoul_dec_digits [of ?n 64 "[]"] by simp
  moreover have "int ?n mod 2 ^ 32 = int p"
    using assms(3) by simp
  ultimately have "port_of 64 (dec_digits ?n) = int p"
    by (simp add: port_of_def cast_unsigned_def)
  moreover have "str_rfind (\<lambda>c. c = CHR '':'') ?e = Some (length h)"
    using dec_digits_plain [of ?n]
    by (intro str_rfind_append) (auto simp: list_ex_iff list_all_iff plain_host_char_def)
  moreover have "hd ?e \<noteq> CHR ''[''"
    using assms(1) by (cases h) (auto simp: plain_host_def plain_host_char_def)
  ultimately have "split_host_port 64 ?e = (h, int p)"
    by (simp add: split_host_port_def)
  moreover have "\<not> endpoint_rejected h (int p)"
    using assms by (auto simp: endpoint_rejected_def plain_host_def plain_host_char_def
        list_ex_iff list_all_iff)
  ultimately show ?thesis
    using strip by (simp add: parse_endpoint_def)
qed

theorem parse_endpoint_port_truncated_witness:
  "parse_endpoint 64 (Some (''srtla://'' @ ''relay'' @ CHR '':'' # dec_digits (80 + 1 * 2 ^ 32)))
     = (''relay'', 80)"
  using parse_endpoint_port_truncated [of "''relay''" 80 1]
  by (simp add: plain_host_def plain_host_char_def)

section \<open>Percent decoding\<close>

definition hex_value :: "char \<Rightarrow> nat option" where
  "hex_value c =
     (let n = (of_char c :: nat) in
      if 48 \<le> n \<and> n \<le> 57 then Some (n - 48)
      else if 97 \<le> n \<and> n \<le> 102 then Some (n - 97 + 10)
      else if 65 \<le> n \<and> n \<le> 70 then Some (n - 65 + 10)
      else None)"

definition plus_to_space :: "char \<Rightarrow> char" where
  "plus_to_space c = (if c = CHR ''+'' then CHR '' '' else c)"

fun url_decode_component :: "string \<Rightarrow> string" where
  "url_decode_component [] = []"
| "url_decode_component (c # cs) =
     (case cs of
        h # l # rest \<Rightarrow>
          (if c = CHR ''%'' then
             (case (hex_value h, hex_value l) of
                (Some hi, Some lo) \<Rightarrow> char_of (hi * 16 + lo) # url_decode_component rest
              | _ \<Rightarrow> plus_to_space c # url_decode_component cs)
           else plus_to_space c # url_decode_component cs)
      | _ \<Rightarrow> plus_to_space c # url_decode_component cs)"

text \<open>
  Reference: an encoder that writes any chosen set of characters as \<^verbatim>\<open>%XX\<close> (upper case) and
  leaves the others alone; it has to escape the percent sign and the plus sign.
\<close>

definition hex_upper :: "nat \<Rightarrow> char" where
  "hex_upper d = (if d < 10 then char_of (48 + d) else char_of (55 + d))"

definition url_encode_char :: "(char \<Rightarrow> bool) \<Rightarrow> char \<Rightarrow> string" where
  "url_encode_char esc c =
     (if esc c then [CHR ''%'', hex_upper (of_char c div 16), hex_upper (of_char c mod 16)] else [c])"

definition url_encode :: "(char \<Rightarrow> bool) \<Rightarrow> string \<Rightarrow> string" where
  "url_encode esc s = concat (map (url_encode_char esc) s)"

lemma hex_value_upper: "d < 16 \<Longrightarrow> hex_value (hex_upper d) = Some d"
  by (auto simp: hex_value_def hex_upper_def Let_def)

lemma url_decode_encode_char:
  assumes "esc CHR ''%''" and "esc CHR ''+''"
  shows "url_decode_component (url_encode_char esc c @ s) = c # url_decode_component s"
proof (cases "esc c")
  case True
  have lt: "(of_char c :: nat) < 256"
    by simp
  then have "(of_char c :: nat) div 16 < 16"
    by (simp add: less_mult_imp_div_less)
  moreover have "char_of ((of_char c :: nat) div 16 * 16 + of_char c mod 16) = c"
    by simp
  ultimately show ?thesis
    using True by (simp add: url_encode_char_def hex_value_upper)
next
  case False
  then have "c \<noteq> CHR ''%''" "c \<noteq> CHR ''+''"
    using assms by auto
  with False show ?thesis
    by (simp add: url_encode_char_def plus_to_space_def split: list.splits)
qed

lemma url_decode_encode:
  assumes "esc CHR ''%''" and "esc CHR ''+''"
  shows "url_decode_component (url_encode esc s) = s"
  using assms by (induction s) (simp_all add: url_encode_def url_decode_encode_char)

interpretation url_codec: text_codec "url_encode (\<lambda>c. c = CHR ''%'' \<or> c = CHR ''+'' \<or> c = CHR ''&'')"
    "\<lambda>s. Some (url_decode_component s)" "\<lambda>_. True"
  by unfold_locales (simp add: url_decode_encode)

text \<open>
  Round trip: the decoder recovers every byte string from its percent encoding, whichever
  characters the encoder chose to escape, as long as it escapes the percent and plus signs.
\<close>

theorem url_decode_roundtrip:
  assumes "esc CHR ''%''" and "esc CHR ''+''"
  shows "url_decode_component (url_encode esc s) = s"
  using assms by (rule url_decode_encode)

theorem url_decode_roundtrip_witness:
  "url_decode_component (url_encode (\<lambda>c. c = CHR ''%'' \<or> c = CHR ''+'') ''50%+x y'') = ''50%+x y''"
  using url_decode_roundtrip [of "\<lambda>c. c = CHR ''%'' \<or> c = CHR ''+''" "''50%+x y''"] by simp

section \<open>Link identifiers\<close>

definition link_hash_step :: "64 word \<Rightarrow> char \<Rightarrow> 64 word" where
  "link_hash_step h c = (h XOR of_nat (of_char c)) * 1099511628211"

definition stable_link_id :: "string \<Rightarrow> 64 word" where
  "stable_link_id value = foldl link_hash_step 1469598103934665603 value"

lemma link_hash_mult_inj:
  assumes "x * (1099511628211 :: 64 word) = y * 1099511628211"
  shows "x = y"
proof -
  have inv: "(1099511628211 :: 64 word) * 14886173955864302971 = 1"
    by simp
  have "x * 1099511628211 * 14886173955864302971 = y * 1099511628211 * 14886173955864302971"
    using assms by simp
  then show ?thesis
    by (simp only: mult.assoc inv mult_1_right)
qed

lemma word_xor_left_cancel: "(h XOR a) = (h XOR b) \<Longrightarrow> a = (b :: 'a::len word)"
  by (metis xor.left_commute xor_self_eq xor.right_neutral)

lemma word_xor_right_cancel: "(a XOR h) = (b XOR h) \<Longrightarrow> a = (b :: 'a::len word)"
  by (metis word_xor_left_cancel xor.commute)

lemma link_hash_step_inj_hash: "link_hash_step g c = link_hash_step h c \<Longrightarrow> g = h"
  unfolding link_hash_step_def by (drule link_hash_mult_inj) (erule word_xor_right_cancel)

lemma link_hash_step_inj_char:
  assumes "link_hash_step h c = link_hash_step h d"
  shows "c = d"
proof -
  have "(of_nat (of_char c) :: 64 word) = of_nat (of_char d)"
    using assms link_hash_mult_inj word_xor_left_cancel unfolding link_hash_step_def by blast
  then have "unat (of_nat (of_char c) :: 64 word) = unat (of_nat (of_char d) :: 64 word)"
    by simp
  moreover have "(of_char c :: nat) < 2 ^ 64" "(of_char d :: nat) < 2 ^ 64"
    by (rule less_trans [of _ 256]; simp)+
  ultimately have "(of_char c :: nat) = of_char d"
    by (simp add: unat_of_nat)
  then show ?thesis by simp
qed

lemma link_hash_foldl_inj: "foldl link_hash_step g s = foldl link_hash_step h s \<Longrightarrow> g = h"
  by (induction s arbitrary: g h) (auto dest: link_hash_step_inj_hash)

text \<open>
  Two adapter identifiers that differ in exactly one character have different link
  identifiers, in particular the same adapter's IPv4 and IPv6 links when the address families
  are single digits, and adapters that differ in one digit of their number.
\<close>

theorem stable_link_id_one_char:
  "stable_link_id (xs @ a # ys) = stable_link_id (xs @ b # ys) \<longleftrightarrow> a = b"
proof
  assume "stable_link_id (xs @ a # ys) = stable_link_id (xs @ b # ys)"
  then show "a = b"
    unfolding stable_link_id_def foldl_append foldl_Cons
    by (drule_tac link_hash_foldl_inj) (rule link_hash_step_inj_char)
qed simp

section \<open>The list of enabled links\<close>

definition parse_enabled_links :: "string option \<Rightarrow> string set" where
  "parse_enabled_links csv =
     (case csv of
        None \<Rightarrow> {}
      | Some value \<Rightarrow>
          foldl (\<lambda>enabled token. if token \<noteq> [] then insert token enabled else enabled) {}
            (token_loop CHR '','' value 0))"

lemma insert_nonempty_foldl:
  "foldl (\<lambda>enabled token. if token \<noteq> [] then insert token enabled else enabled) A ts
     = A \<union> set (filter (\<lambda>t. t \<noteq> []) ts)"
  by (induction ts arbitrary: A) auto

lemma parse_enabled_links_split:
  "parse_enabled_links (Some s) = set (filter (\<lambda>t. t \<noteq> []) (split_on CHR '','' s))"
  unfolding parse_enabled_links_def
  by (simp only: option.case insert_nonempty_foldl token_loop_eq_split_on [OF le0] drop_0 Un_empty_left)

end
