(* ===== verification/Utf8.thy ===== *)
theory Utf8
  imports Prelude
begin

text \<open>
  \<^verbatim>\<open>valid_utf8\<close> of \<^verbatim>\<open>plugin/srt-session.cpp\<close>, the check on the passphrase before a session
  starts, and its equivalence with the definition of UTF-8: the concatenation of the
  encodings of Unicode scalar values. The position \<^verbatim>\<open>i\<close> of the source is the suffix of the
  byte list that is left; the 32-bit \<^verbatim>\<open>codepoint\<close> never needs more than 21 bits, so it is a
  natural number.
\<close>

section \<open>The check\<close>

definition utf8_lead :: "nat \<Rightarrow> (nat \<times> nat) option" where
  "utf8_lead b =
     (if b \<le> 0x7f then Some (1, b)
      else if 0xc2 \<le> b \<and> b \<le> 0xdf then Some (2, b AND 0x1f)
      else if 0xe0 \<le> b \<and> b \<le> 0xef then Some (3, b AND 0x0f)
      else if 0xf0 \<le> b \<and> b \<le> 0xf4 then Some (4, b AND 0x07)
      else None)"

fun utf8_continue :: "nat \<Rightarrow> nat list \<Rightarrow> nat option" where
  "utf8_continue codepoint [] = Some codepoint"
| "utf8_continue codepoint (c # cs) =
     (if c AND 0xc0 \<noteq> 0x80 then None
      else utf8_continue (push_bit 6 codepoint OR (c AND 0x3f)) cs)"

definition utf8_bad :: "nat \<Rightarrow> nat \<Rightarrow> bool" where
  "utf8_bad width codepoint \<longleftrightarrow>
     (width = 2 \<and> codepoint < 0x80) \<or> (width = 3 \<and> codepoint < 0x800)
     \<or> (width = 4 \<and> (codepoint < 0x10000 \<or> 0x10ffff < codepoint))
     \<or> (0xd800 \<le> codepoint \<and> codepoint \<le> 0xdfff)"

function valid_utf8_bytes :: "nat list \<Rightarrow> bool" where
  "valid_utf8_bytes [] = True"
| "valid_utf8_bytes (b # bs) =
     (case utf8_lead b of
        None \<Rightarrow> False
      | Some (width, codepoint) \<Rightarrow>
          if Suc (length bs) < width then False
          else
            (case utf8_continue codepoint (take (width - 1) bs) of
               None \<Rightarrow> False
             | Some cp \<Rightarrow>
                 if utf8_bad width cp then False else valid_utf8_bytes (drop (width - 1) bs)))"
  by pat_completeness auto
termination by (relation "measure length") auto

declare valid_utf8_bytes.simps(2) [simp del]

definition valid_utf8 :: "string \<Rightarrow> bool" where
  "valid_utf8 value = valid_utf8_bytes (map of_char value)"

section \<open>Reference: UTF-8 as an encoding of scalar values\<close>

definition unicode_scalar :: "nat \<Rightarrow> bool" where
  "unicode_scalar cp \<longleftrightarrow> cp < 0xd800 \<or> (0xe000 \<le> cp \<and> cp \<le> 0x10ffff)"

definition utf8_encode :: "nat \<Rightarrow> nat list" where
  "utf8_encode cp =
     (if cp < 0x80 then [cp]
      else if cp < 0x800 then [0xc0 + cp div 64, 0x80 + cp mod 64]
      else if cp < 0x10000 then [0xe0 + cp div 4096, 0x80 + cp div 64 mod 64, 0x80 + cp mod 64]
      else [0xf0 + cp div 262144, 0x80 + cp div 4096 mod 64, 0x80 + cp div 64 mod 64, 0x80 + cp mod 64])"

section \<open>Bit operations as arithmetic\<close>

lemma and_mask_mod:
  "(b::nat) AND 0x1f = b mod 32" "b AND 0x0f = b mod 16" "b AND 0x07 = b mod 8" "b AND 0x3f = b mod 64"
  using take_bit_eq_mask [of 5 b] take_bit_eq_mask [of 4 b] take_bit_eq_mask [of 3 b]
    take_bit_eq_mask [of 6 b]
  by (simp_all add: take_bit_eq_mod mask_eq_exp_minus_1)

lemma shift_or_add: "push_bit 6 (cp::nat) OR (c mod 64) = cp * 64 + c mod 64"
proof -
  have "push_bit 6 cp AND take_bit 6 c = 0"
    by (rule bit_eqI) (auto simp: bit_simps)
  then have "push_bit 6 cp + take_bit 6 c = push_bit 6 cp OR take_bit 6 c"
    by (rule disjunctive_add_eq_or)
  then show ?thesis
    by (simp add: push_bit_eq_mult take_bit_eq_mod)
qed

lemma continuation_range:
  assumes "c < 256"
  shows "(c::nat) AND 0xc0 = 0x80 \<longleftrightarrow> 128 \<le> c \<and> c < 192"
proof -
  have "c AND push_bit 6 m = push_bit 6 (drop_bit 6 c AND m)" for m
    by (rule bit_eqI) (auto simp: bit_simps)
  from this [of 3] have "c AND push_bit 6 3 = push_bit 6 (drop_bit 6 c AND 3)" .
  moreover have "drop_bit 6 c AND 3 = c div 64"
    using assms take_bit_eq_mask [of 2 "c div 64"]
    by (simp add: drop_bit_eq_div take_bit_eq_mod mask_eq_exp_minus_1 less_mult_imp_div_less)
  ultimately have eq: "c AND 0xc0 = c div 64 * 64"
    by (simp add: push_bit_eq_mult)
  obtain q r where qr: "c = q * 64 + r" "r < 64" "c div 64 = q"
    using div_mult_mod_eq [of c 64] by (metis mod_less_divisor zero_less_numeral)
  consider "q \<le> 1" | "q = 2" | "3 \<le> q"
    by linarith
  then have "q * 64 = 128 \<longleftrightarrow> 128 \<le> q * 64 + r \<and> q * 64 + r < 192"
    using qr(2) by cases auto
  then show ?thesis
    unfolding eq qr(3) using qr(1) by simp
qed

lemma utf8_continue_byte:
  "c < 256 \<Longrightarrow> utf8_continue cp (c # cs) =
     (if 128 \<le> c \<and> c < 192 then utf8_continue (cp * 64 + c mod 64) cs else None)"
  by (simp add: continuation_range and_mask_mod shift_or_add)

lemmas utf8_lead_arith = utf8_lead_def [unfolded and_mask_mod]

declare utf8_continue.simps(2) [simp del]

section \<open>One code point\<close>

lemma mod_shift:
  "x < 32 \<Longrightarrow> (192 + x) mod 32 = x" "x < 16 \<Longrightarrow> (224 + x) mod 16 = x"
  "x < 8 \<Longrightarrow> (240 + x) mod 8 = x" "x < 64 \<Longrightarrow> (128 + x) mod 64 = x" for x :: nat
  using mod_mult_self2 [of x 32 6] mod_mult_self2 [of x 16 14] mod_mult_self2 [of x 8 30]
    mod_mult_self2 [of x 64 2]
  by (simp_all add: add.commute)

lemma base64_div:
  "n div 4096 = n div 64 div 64" "n div 262144 = n div 64 div 64 div 64" for n :: nat
  using div_mult2_eq [of n 64 64] div_mult2_eq [of n 64 4096] div_mult2_eq [of "n div 64" 64 64]
  by simp_all

lemma base64_digit: "y < 64 \<Longrightarrow> (x * 64 + y) div 64 = x" "y < 64 \<Longrightarrow> (x * 64 + y) mod 64 = y"
  for x y :: nat
  by simp_all

lemma valid_utf8_encode_one:
  assumes "unicode_scalar cp"
  shows "valid_utf8_bytes (utf8_encode cp @ rest) = valid_utf8_bytes rest"
proof -
  have m: "x mod 64 < 64" "(128 + x mod 64) mod 64 = x mod 64" "128 + x mod 64 < 192" for x :: nat
    by (simp_all add: mod_shift)
  consider "cp < 0x80" | "0x80 \<le> cp" "cp < 0x800" | "0x800 \<le> cp" "cp < 0x10000"
    | "0x10000 \<le> cp" "cp \<le> 0x10ffff"
    using assms unfolding unicode_scalar_def by linarith
  then show ?thesis
  proof cases
    case 1
    then show ?thesis
      by (simp add: utf8_encode_def valid_utf8_bytes.simps utf8_lead_arith utf8_bad_def)
  next
    case 2
    then have "2 \<le> cp div 64" "cp div 64 < 32"
      by (simp_all add: less_mult_imp_div_less div_le_mono [of 128 cp 64, simplified])
    then have lead: "utf8_lead (192 + cp div 64) = Some (2, cp div 64)"
      by (simp add: utf8_lead_arith mod_shift)
    with 2 assms show ?thesis
      by (simp add: utf8_encode_def valid_utf8_bytes.simps utf8_continue_byte m utf8_bad_def)
  next
    case 3
    then have "cp div 4096 < 16"
      by (simp add: less_mult_imp_div_less)
    then have lead: "utf8_lead (224 + cp div 4096) = Some (3, cp div 4096)"
      by (simp add: utf8_lead_arith mod_shift)
    have "(cp div 4096 * 64 + cp div 64 mod 64) * 64 + cp mod 64 = cp"
      by (simp add: base64_div)
    moreover have "\<not> utf8_bad 3 cp"
      using 3 assms by (auto simp: utf8_bad_def unicode_scalar_def)
    ultimately show ?thesis
      using 3 lead
      by (simp add: utf8_encode_def valid_utf8_bytes.simps utf8_continue_byte m)
  next
    case 4
    then have "cp div 262144 < 5"
      by (simp add: less_mult_imp_div_less)
    then have lead: "utf8_lead (240 + cp div 262144) = Some (4, cp div 262144)"
      by (simp add: utf8_lead_arith mod_shift)
    have "((cp div 262144 * 64 + cp div 4096 mod 64) * 64 + cp div 64 mod 64) * 64 + cp mod 64 = cp"
      by (simp add: base64_div)
    with 4 lead assms show ?thesis
      by (simp add: utf8_encode_def valid_utf8_bytes.simps utf8_continue_byte m utf8_bad_def)
  qed
qed

lemma utf8_continue_Some:
  assumes "utf8_continue cp0 (c # cs) = Some cp" and "c < 256"
  obtains y where "c = 128 + y" "y < 64" "utf8_continue (cp0 * 64 + y) cs = Some cp"
proof -
  have c: "128 \<le> c" "c < 192" "utf8_continue (cp0 * 64 + c mod 64) cs = Some cp"
    using assms by (auto simp: utf8_continue_byte split: if_splits)
  then have "c = 128 + (c - 128)" "c - 128 < 64"
    by auto
  moreover from this have "c mod 64 = c - 128"
    using mod_shift(4) [of "c - 128"] by simp
  ultimately show thesis
    using c(3) that by metis
qed

lemma utf8_lead_Some:
  assumes "utf8_lead b = Some (w, cp0)"
  obtains "w = 1" "b < 128" "cp0 = b"
  | "w = 2" "2 \<le> cp0" "cp0 < 32" "b = 192 + cp0"
  | "w = 3" "cp0 < 16" "b = 224 + cp0"
  | "w = 4" "cp0 < 5" "b = 240 + cp0"
proof -
  consider "b \<le> 127" | "194 \<le> b" "b \<le> 223" | "224 \<le> b" "b \<le> 239" | "240 \<le> b" "b \<le> 244"
    using assms by (auto simp: utf8_lead_arith split: if_splits)
  then show thesis
  proof cases
    case 1
    with assms show thesis by (intro that(1)) (simp_all add: utf8_lead_arith)
  next
    case 2
    define x where "x = b - 192"
    with 2 have "b = 192 + x" by simp
    with 2 assms show thesis by (intro that(2)) (auto simp: utf8_lead_arith mod_shift)
  next
    case 3
    define x where "x = b - 224"
    with 3 have "b = 224 + x" by simp
    with 3 assms show thesis by (intro that(3)) (auto simp: utf8_lead_arith mod_shift)
  next
    case 4
    define x where "x = b - 240"
    with 4 have "b = 240 + x" by simp
    with 4 assms show thesis by (intro that(4)) (auto simp: utf8_lead_arith mod_shift)
  qed
qed

text \<open>What the check accepts first is the encoding of one scalar value.\<close>

lemma utf8_sequence_encodes:
  assumes lead: "utf8_lead b = Some (w, cp0)" and len: "w \<le> Suc (length bs)"
    and cont: "utf8_continue cp0 (take (w - 1) bs) = Some cp" and ok: "\<not> utf8_bad w cp"
    and byte: "\<forall>x\<in>set bs. x < 256"
  shows "unicode_scalar cp \<and> b # take (w - 1) bs = utf8_encode cp"
  using lead
proof (cases rule: utf8_lead_Some)
  case 1
  with cont show ?thesis
    by (auto simp: utf8_encode_def unicode_scalar_def)
next
  case 2
  then obtain c bs' where bs: "bs = c # bs'"
    using len by (cases bs) auto
  then obtain y where "c = 128 + y" "y < 64" "cp = cp0 * 64 + y"
    using cont 2 byte by (auto elim!: utf8_continue_Some)
  with 2 bs show ?thesis
    by (simp add: utf8_encode_def unicode_scalar_def)
next
  case 3
  then obtain c d bs' where bs: "bs = c # d # bs'"
    using len by (cases bs; cases "tl bs") auto
  then obtain y z where "c = 128 + y" "y < 64" "d = 128 + z" "z < 64"
    "cp = (cp0 * 64 + y) * 64 + z"
    using cont 3 byte by (auto elim!: utf8_continue_Some)
  moreover from this have "cp div 64 = cp0 * 64 + y" "cp mod 64 = z"
    by (simp_all only: base64_digit)
  moreover have "cp = cp0 * 4096 + y * 64 + z"
    using calculation by simp
  moreover from this have "cp < 65536"
    using calculation 3 by linarith
  ultimately show ?thesis
    using 3 bs ok by (auto simp: utf8_encode_def unicode_scalar_def utf8_bad_def base64_div)
next
  case 4
  then obtain c d e bs' where bs: "bs = c # d # e # bs'"
    using len by (cases bs; cases "tl bs"; cases "tl (tl bs)") auto
  then obtain y z v where "c = 128 + y" "y < 64" "d = 128 + z" "z < 64" "e = 128 + v" "v < 64"
    "cp = ((cp0 * 64 + y) * 64 + z) * 64 + v"
    using cont 4 byte by (auto elim!: utf8_continue_Some)
  moreover from this have "cp div 64 = (cp0 * 64 + y) * 64 + z" "cp mod 64 = v"
    by (simp_all only: base64_digit)
  moreover have "((cp0 * 64 + y) * 64 + z) div 64 = cp0 * 64 + y" "((cp0 * 64 + y) * 64 + z) mod 64 = z"
    using calculation by (simp_all only: base64_digit)
  ultimately show ?thesis
    using 4 bs ok by (auto simp: utf8_encode_def unicode_scalar_def utf8_bad_def base64_div)
qed

lemma valid_utf8_first:
  assumes "valid_utf8_bytes (b # bs)" and "\<forall>x\<in>set bs. x < 256"
  obtains cp rest where "unicode_scalar cp" "b # bs = utf8_encode cp @ rest"
    "valid_utf8_bytes rest" "length rest \<le> length bs" "set rest \<subseteq> set bs"
proof -
  from assms(1) obtain w cp0 where lead: "utf8_lead b = Some (w, cp0)"
    by (auto simp: valid_utf8_bytes.simps split: option.splits)
  with assms(1) have len: "w \<le> Suc (length bs)"
    by (auto simp: valid_utf8_bytes.simps not_less split: if_splits)
  with assms(1) lead obtain cp where
    cont: "utf8_continue cp0 (take (w - 1) bs) = Some cp" and ok: "\<not> utf8_bad w cp"
    and rest: "valid_utf8_bytes (drop (w - 1) bs)"
    by (cases "utf8_continue cp0 (take (w - 1) bs)")
      (auto simp: valid_utf8_bytes.simps split: if_splits)
  note enc = utf8_sequence_encodes [OF lead len cont ok assms(2)]
  have "b # bs = (b # take (w - 1) bs) @ drop (w - 1) bs"
    by simp
  with enc rest that [of cp "drop (w - 1) bs"] show thesis
    by (metis diff_le_self length_drop set_drop_subset)
qed

lemma valid_utf8_bytes_encodes:
  assumes "list_all unicode_scalar cps"
  shows "valid_utf8_bytes (concat (map utf8_encode cps))"
  using assms by (induction cps) (simp_all add: valid_utf8_encode_one)

lemma valid_utf8_bytes_decodes:
  assumes "valid_utf8_bytes bs" and "\<forall>x\<in>set bs. x < 256"
  shows "\<exists>cps. list_all unicode_scalar cps \<and> bs = concat (map utf8_encode cps)"
  using assms
proof (induction "length bs" arbitrary: bs rule: less_induct)
  case less
  show ?case
  proof (cases bs)
    case Nil
    then show ?thesis by (intro exI [of _ "[]"]) simp
  next
    case (Cons b bs')
    obtain cp rest where cp: "unicode_scalar cp" "b # bs' = utf8_encode cp @ rest"
      "valid_utf8_bytes rest" "length rest \<le> length bs'" "set rest \<subseteq> set bs'"
      by (rule valid_utf8_first [of b bs']) (use less.prems Cons in auto)
    moreover have "length rest < length bs" "\<forall>x\<in>set rest. x < 256"
      using cp(4,5) less.prems(2) Cons by auto
    ultimately obtain cps where "list_all unicode_scalar cps" "rest = concat (map utf8_encode cps)"
      using less.hyps [of rest] by blast
    with cp Cons show ?thesis
      by (intro exI [of _ "cp # cps"]) simp
  qed
qed

text \<open>
  C34. The hand-written check accepts exactly UTF-8: a byte string passes if and only if it is the
  concatenation of the encodings of some Unicode scalar values, so over-long forms, surrogates,
  truncated sequences, stray continuation bytes and values above U+10FFFF are all rejected.
\<close>

theorem valid_utf8_iff_encoding:
  "valid_utf8 s \<longleftrightarrow>
     (\<exists>cps. list_all unicode_scalar cps \<and> map of_char s = concat (map utf8_encode cps))"
proof -
  have "\<forall>x\<in>set (map of_char s). (x::nat) < 256"
    by auto
  then show ?thesis
    unfolding valid_utf8_def
    using valid_utf8_bytes_decodes [of "map of_char s"] valid_utf8_bytes_encodes by metis
qed

end
