(* ===== verification/Capture_Lifecycle.thy ===== *)
theory Capture_Lifecycle
  imports Prelude
begin

text \<open>
  \<^verbatim>\<open>OutputCaptureLifecycle\<close> (\<^verbatim>\<open>plugin/output-capture-lifecycle.hpp\<close>), the seam around the OBS
  capture calls. The callbacks are OBS code: each call appears as an event of a trace with
  the answer OBS gave, and an operation takes those answers as arguments.
\<close>

record lifecycle =
  lc_can_begin :: bool \<comment> \<open>whether each \<^verbatim>\<open>std::function\<close> is set\<close>
  lc_initialize :: bool
  lc_begin :: bool
  lc_end :: bool
  lc_wait_end :: bool
  lc_stop_signal :: bool
  lc_prepared :: bool
  lc_active :: bool

datatype capture_event =
  CallCanBegin bool | CallInitialize bool | CallBegin bool | CallEnd | CallWaitEnd | CallStopSignal

definition new_lifecycle :: "bool \<Rightarrow> bool \<Rightarrow> bool \<Rightarrow> bool \<Rightarrow> bool \<Rightarrow> bool \<Rightarrow> lifecycle" where
  "new_lifecycle can_begin initialize begin_cb end_cb stop_signal wait_end =
     \<lparr>lc_can_begin = can_begin, lc_initialize = initialize, lc_begin = begin_cb, lc_end = end_cb,
      lc_wait_end = wait_end, lc_stop_signal = stop_signal, lc_prepared = False, lc_active = False\<rparr>"

text \<open>An operation returns the error text it writes (\<open>None\<close>: untouched), the state and the calls.\<close>

definition prepare :: "bool \<Rightarrow> lifecycle \<Rightarrow> bool \<times> string option \<times> lifecycle \<times> capture_event list" where
  "prepare can lc =
     (if lc_prepared lc then (True, None, lc, [])
      else if \<not> lc_can_begin lc then (False, Some ''OBS cannot begin encoded data capture'', lc, [])
      else if \<not> can then
        (False, Some ''OBS cannot begin encoded data capture'', lc, [CallCanBegin False])
      else (True, None, lc\<lparr>lc_prepared := True\<rparr>, [CallCanBegin True]))"

definition initialize_and_begin ::
    "bool \<Rightarrow> bool \<Rightarrow> lifecycle \<Rightarrow> bool \<times> string option \<times> lifecycle \<times> capture_event list" where
  "initialize_and_begin init_ok begin_ok lc =
     (if \<not> lc_prepared lc then (False, Some ''OBS capture was not prepared'', lc, [])
      else if lc_active lc then (True, None, lc, [])
      else if \<not> lc_initialize lc then (False, Some ''OBS encoder initialization failed'', lc, [])
      else if \<not> init_ok then
        (False, Some ''OBS encoder initialization failed'', lc, [CallInitialize False])
      else if \<not> lc_begin lc then
        (False, Some ''OBS data capture failed'', lc, [CallInitialize True])
      else if \<not> begin_ok then
        (False, Some ''OBS data capture failed'', lc, [CallInitialize True, CallBegin False])
      else (True, None, lc\<lparr>lc_active := True\<rparr>, [CallInitialize True, CallBegin True]))"

definition end_capture :: "lifecycle \<Rightarrow> lifecycle \<times> capture_event list" where
  "end_capture lc =
     (if \<not> lc_active lc then (lc, [])
      else
        (lc\<lparr>lc_active := False\<rparr>,
         (if lc_end lc then [CallEnd] else []) @ (if lc_wait_end lc then [CallWaitEnd] else [])
         @ (if lc_stop_signal lc then [CallStopSignal] else [])))"

lemmas lifecycle_simps [model_simps] = prepare_def initialize_and_begin_def end_capture_def

text \<open>Any sequence of operations, as the output and the UI may call them.\<close>

datatype lifecycle_op = OpPrepare bool | OpBegin bool bool | OpEnd

fun lifecycle_step :: "lifecycle_op \<Rightarrow> lifecycle \<Rightarrow> lifecycle \<times> capture_event list" where
  "lifecycle_step (OpPrepare can) lc = (case prepare can lc of (_, _, lc', es) \<Rightarrow> (lc', es))"
| "lifecycle_step (OpBegin i b) lc = (case initialize_and_begin i b lc of (_, _, lc', es) \<Rightarrow> (lc', es))"
| "lifecycle_step OpEnd lc = end_capture lc"

fun lifecycle_run :: "lifecycle_op list \<Rightarrow> lifecycle \<Rightarrow> lifecycle \<times> capture_event list" where
  "lifecycle_run [] lc = (lc, [])"
| "lifecycle_run (x # xs) lc =
     (case lifecycle_step x lc of (lc1, es1) \<Rightarrow>
      case lifecycle_run xs lc1 of (lc2, es2) \<Rightarrow> (lc2, es1 @ es2))"

text \<open>
  What OBS demands of the calls: encoders are initialised and capture begins only after OBS said
  that it can, no second capture begins while one is active or is still ending, capture is
  ended only when it is active, and every end is followed by the wait for its completion.
\<close>

datatype capture_phase = Inactive | Active | Ending

fun capture_monitor :: "capture_event \<Rightarrow> bool \<times> capture_phase \<Rightarrow> (bool \<times> capture_phase) option" where
  "capture_monitor (CallCanBegin ok) (can, ph) = (if ph = Inactive then Some (can \<or> ok, ph) else None)"
| "capture_monitor (CallInitialize ok) (can, ph) = (if can \<and> ph = Inactive then Some (can, ph) else None)"
| "capture_monitor (CallBegin ok) (can, ph) =
     (if can \<and> ph = Inactive then Some (can, if ok then Active else Inactive) else None)"
| "capture_monitor CallEnd (can, ph) = (if ph = Active then Some (can, Ending) else None)"
| "capture_monitor CallWaitEnd (can, ph) = (if ph = Ending then Some (can, Inactive) else None)"
| "capture_monitor CallStopSignal (can, ph) = (if ph = Inactive then Some (can, ph) else None)"

fun monitor_run :: "capture_event list \<Rightarrow> bool \<times> capture_phase \<Rightarrow> (bool \<times> capture_phase) option" where
  "monitor_run [] m = Some m"
| "monitor_run (e # es) m = Option.bind (capture_monitor e m) (monitor_run es)"

definition lifecycle_phase :: "lifecycle \<Rightarrow> bool \<times> capture_phase" where
  "lifecycle_phase lc = (lc_prepared lc, if lc_active lc then Active else Inactive)"

text \<open>The state in which the production output creates it, and that only starts when prepared.\<close>

definition lifecycle_inv :: "lifecycle \<Rightarrow> bool" where
  "lifecycle_inv lc \<longleftrightarrow> lc_end lc \<and> lc_wait_end lc \<and> (lc_active lc \<longrightarrow> lc_prepared lc)"

lemma monitor_run_append: "monitor_run (xs @ ys) m = Option.bind (monitor_run xs m) (monitor_run ys)"
  by (induction xs arbitrary: m) (auto split: Option.bind_splits)

lemma lifecycle_step_monitored:
  assumes "lifecycle_inv lc" and "lifecycle_step x lc = (lc', es)"
  shows "lifecycle_inv lc' \<and> monitor_run es (lifecycle_phase lc) = Some (lifecycle_phase lc')"
  using assms
  by (cases x) (auto simp: model_simps lifecycle_inv_def lifecycle_phase_def split: if_splits)

lemma lifecycle_run_monitored:
  "lifecycle_inv lc \<Longrightarrow> lifecycle_run xs lc = (lc', es) \<Longrightarrow>
     lifecycle_inv lc' \<and> monitor_run es (lifecycle_phase lc) = Some (lifecycle_phase lc')"
proof (induction xs arbitrary: lc es)
  case Nil
  then show ?case by simp
next
  case (Cons x xs)
  obtain lc1 es1 where x: "lifecycle_step x lc = (lc1, es1)"
    by fastforce
  with Cons.prems(2) obtain es2 where xs: "lifecycle_run xs lc1 = (lc', es2)" and es: "es = es1 @ es2"
    by (auto split: prod.splits)
  from lifecycle_step_monitored [OF Cons.prems(1) x]
  have "lifecycle_inv lc1" "monitor_run es1 (lifecycle_phase lc) = Some (lifecycle_phase lc1)"
    by simp_all
  with Cons.IH [OF this(1) xs] es show ?case
    by (simp add: monitor_run_append)
qed

text \<open>
  C25. However the output's threads order \<^verbatim>\<open>prepare\<close>, \<^verbatim>\<open>initialize_and_begin\<close> and \<^verbatim>\<open>end\<close>, and
  whatever OBS answers, the calls that reach OBS obey its protocol, and the lifecycle's own flags
  always agree with the phase OBS is in. In particular \<^verbatim>\<open>end\<close> is idempotent and no capture is
  left running or ended twice.
\<close>

theorem lifecycle_obeys_protocol:
  assumes "lifecycle_run xs (new_lifecycle cb ib bb True sb True) = (lc', es)"
  shows "monitor_run es (False, Inactive) = Some (lifecycle_phase lc')"
  using lifecycle_run_monitored [OF _ assms]
  by (simp add: new_lifecycle_def lifecycle_inv_def lifecycle_phase_def)

theorem lifecycle_obeys_protocol_witness:
  "lifecycle_run [OpBegin True True, OpPrepare True, OpBegin True True, OpEnd, OpEnd]
     (new_lifecycle True True True True False True)
   = (new_lifecycle True True True True False True\<lparr>lc_prepared := True\<rparr>,
      [CallCanBegin True, CallInitialize True, CallBegin True, CallEnd, CallWaitEnd])
   \<and> monitor_run [CallCanBegin True, CallInitialize True, CallBegin True, CallEnd, CallWaitEnd]
       (False, Inactive) = Some (True, Inactive)"
proof -
  have run: "lifecycle_run [OpBegin True True, OpPrepare True, OpBegin True True, OpEnd, OpEnd]
      (new_lifecycle True True True True False True)
    = (new_lifecycle True True True True False True\<lparr>lc_prepared := True\<rparr>,
       [CallCanBegin True, CallInitialize True, CallBegin True, CallEnd, CallWaitEnd])"
    by (simp add: model_simps new_lifecycle_def)
  show ?thesis
    using run lifecycle_obeys_protocol [OF run] by (simp add: lifecycle_phase_def new_lifecycle_def)
qed

end
