(* ===== verification/Network_Monitor.thy ===== *)
theory Network_Monitor
  imports Prelude Endpoint_Text
begin

text \<open>
  \<^verbatim>\<open>NetworkMonitor::enumerate\<close> for POSIX (\<^verbatim>\<open>plugin/network-monitor-posix.cpp\<close>) and Windows
  (\<^verbatim>\<open>plugin/network-monitor-windows.cpp\<close>), and the JSON list of links that
  \<^verbatim>\<open>enumerate_links_json\<close> of \<^verbatim>\<open>plugin/srtla-output.cpp\<close> builds from it. What the operating
  system returns (the interface list, the result of \<^verbatim>\<open>inet_ntop\<close>, the UTF-8 form of a
  Windows adapter's name) is an argument.
\<close>

record network_adapter =
  na_id :: string
  na_label :: string
  na_address :: string
  na_family :: int
  na_enabled :: bool
  na_operational :: bool

section \<open>POSIX\<close>

text \<open>
  One \<^verbatim>\<open>ifaddrs\<close> entry. \<open>ifa_addr\<close> is the address family and the text \<^verbatim>\<open>inet_ntop\<close> makes of the
  address (\<open>None\<close>: it failed); the two address families are parameters because their
  numbers differ between Linux and macOS.
\<close>

record ifaddrs =
  ifa_name :: "string option"
  ifa_addr :: "(int \<times> string option) option"
  ifa_flags :: "32 word"

definition IFF_UP :: "32 word" where "IFF_UP = 1"
definition IFF_LOOPBACK :: "32 word" where "IFF_LOOPBACK = 8"

definition posix_adapter_id :: "string \<Rightarrow> int \<Rightarrow> string" where
  "posix_adapter_id name family = name @ ''/'' @ to_string family"

fun posix_loop ::
    "int \<Rightarrow> int \<Rightarrow> ifaddrs list \<Rightarrow> string set \<Rightarrow> network_adapter list \<Rightarrow> network_adapter list" where
  "posix_loop af_inet af_inet6 [] families_seen result = result"
| "posix_loop af_inet af_inet6 (entry # entries) families_seen result =
     (case (ifa_name entry, ifa_addr entry) of
        (Some name, Some (family, text)) \<Rightarrow>
          if ifa_flags entry AND IFF_LOOPBACK \<noteq> 0 then
            posix_loop af_inet af_inet6 entries families_seen result
          else if family \<noteq> af_inet \<and> family \<noteq> af_inet6 then
            posix_loop af_inet af_inet6 entries families_seen result
          else if posix_adapter_id name family \<in> families_seen then
            posix_loop af_inet af_inet6 entries families_seen result
          else
            posix_loop af_inet af_inet6 entries (insert (posix_adapter_id name family) families_seen)
              (case text of
                 None \<Rightarrow> result
               | Some address \<Rightarrow>
                   result @ [\<lparr>na_id = posix_adapter_id name family, na_label = name,
                              na_address = address, na_family = cast_unsigned family,
                              na_enabled = False,
                              na_operational = (ifa_flags entry AND IFF_UP \<noteq> 0)\<rparr>])
      | _ \<Rightarrow> posix_loop af_inet af_inet6 entries families_seen result)"

definition enumerate_posix :: "int \<Rightarrow> int \<Rightarrow> ifaddrs list option \<Rightarrow> network_adapter list" where
  "enumerate_posix af_inet af_inet6 getifaddrs_result =
     (case getifaddrs_result of None \<Rightarrow> [] | Some head \<Rightarrow> posix_loop af_inet af_inet6 head {} [])"

text \<open>
  What an adapter of the list has to be: the description of one entry that has a name, an IPv4
  or IPv6 address \<^verbatim>\<open>inet_ntop\<close> could print, and is no loopback interface.
\<close>

definition usable_entry :: "int \<Rightarrow> int \<Rightarrow> ifaddrs \<Rightarrow> bool" where
  "usable_entry af_inet af_inet6 e \<longleftrightarrow>
     ifa_name e \<noteq> None \<and> ifa_flags e AND IFF_LOOPBACK = 0 \<and>
     (case ifa_addr e of None \<Rightarrow> False | Some (family, _) \<Rightarrow> family = af_inet \<or> family = af_inet6)"

definition entry_id :: "ifaddrs \<Rightarrow> string" where
  "entry_id e = posix_adapter_id (the (ifa_name e)) (fst (the (ifa_addr e)))"

definition printable_entry :: "ifaddrs \<Rightarrow> bool" where
  "printable_entry e \<longleftrightarrow> (case ifa_addr e of Some (_, Some _) \<Rightarrow> True | _ \<Rightarrow> False)"

definition entry_adapter :: "ifaddrs \<Rightarrow> network_adapter" where
  "entry_adapter e =
     \<lparr>na_id = entry_id e, na_label = the (ifa_name e), na_address = the (snd (the (ifa_addr e))),
      na_family = cast_unsigned (fst (the (ifa_addr e))), na_enabled = False,
      na_operational = (ifa_flags e AND IFF_UP \<noteq> 0)\<rparr>"

lemma posix_loop_step:
  "posix_loop af4 af6 (e # es) seen result =
     (if usable_entry af4 af6 e \<and> entry_id e \<notin> seen then
        posix_loop af4 af6 es (insert (entry_id e) seen)
          (if printable_entry e then result @ [entry_adapter e] else result)
      else posix_loop af4 af6 es seen result)"
  by (auto simp: usable_entry_def entry_id_def printable_entry_def entry_adapter_def split: option.splits)

declare posix_loop.simps(2) [simp del]

lemma entry_adapter_id [simp]: "na_id (entry_adapter e) = entry_id e"
  by (simp add: entry_adapter_def)

lemma posix_loop_sound:
  assumes "distinct (map na_id result)" and "na_id ` set result \<subseteq> seen"
    and "\<forall>a\<in>set result. \<exists>e\<in>set all. usable_entry af4 af6 e \<and> printable_entry e \<and> a = entry_adapter e"
    and "set es \<subseteq> set all"
  shows "distinct (map na_id (posix_loop af4 af6 es seen result)) \<and>
    (\<forall>a\<in>set (posix_loop af4 af6 es seen result).
       \<exists>e\<in>set all. usable_entry af4 af6 e \<and> printable_entry e \<and> a = entry_adapter e)"
  using assms
proof (induction es arbitrary: seen result)
  case Nil
  then show ?case by simp
next
  case (Cons e es)
  show ?case
  proof (cases "usable_entry af4 af6 e \<and> entry_id e \<notin> seen")
    case False
    with Cons.prems Cons.IH [of result seen] show ?thesis
      by (auto simp: posix_loop_step)
  next
    case True
    let ?res = "if printable_entry e then result @ [entry_adapter e] else result"
    have "distinct (map na_id ?res)" "na_id ` set ?res \<subseteq> insert (entry_id e) seen"
      using Cons.prems(1,2) True by auto
    moreover have "\<forall>a\<in>set ?res. \<exists>e\<in>set all. usable_entry af4 af6 e \<and> printable_entry e \<and> a = entry_adapter e"
      using Cons.prems(3,4) True by auto
    moreover have "set es \<subseteq> set all"
      using Cons.prems(4) by simp
    ultimately have "distinct (map na_id (posix_loop af4 af6 es (insert (entry_id e) seen) ?res)) \<and>
      (\<forall>a\<in>set (posix_loop af4 af6 es (insert (entry_id e) seen) ?res).
         \<exists>e\<in>set all. usable_entry af4 af6 e \<and> printable_entry e \<and> a = entry_adapter e)"
      by (rule Cons.IH)
    with True show ?thesis by (simp add: posix_loop_step)
  qed
qed

lemma posix_loop_ids:
  assumes "list_all printable_entry es" and "na_id ` set result = seen"
  shows "na_id ` set (posix_loop af4 af6 es seen result)
    = seen \<union> entry_id ` set (filter (usable_entry af4 af6) es)"
  using assms
proof (induction es arbitrary: seen result)
  case Nil
  then show ?case by simp
next
  case (Cons e es)
  show ?case
  proof (cases "usable_entry af4 af6 e \<and> entry_id e \<notin> seen")
    case True
    with Cons.prems Cons.IH [of "result @ [entry_adapter e]" "insert (entry_id e) seen"] show ?thesis
      by (auto simp: posix_loop_step)
  next
    case False
    with Cons.prems Cons.IH [of result seen] show ?thesis
      by (auto simp: posix_loop_step)
  qed
qed

text \<open>
  C39. On POSIX every listed adapter is the description of a non-loopback IPv4 or IPv6 entry and
  is disabled until the user opts in, and no identifier is listed twice: one adapter per
  interface and address family.
\<close>

theorem enumerate_posix_sound:
  "distinct (map na_id (enumerate_posix af4 af6 (Some entries)))
   \<and> list_all (\<lambda>a. \<not> na_enabled a \<and>
        list_ex (\<lambda>e. usable_entry af4 af6 e \<and> printable_entry e \<and> a = entry_adapter e) entries)
      (enumerate_posix af4 af6 (Some entries))"
  using posix_loop_sound [of "[]" "{}" entries af4 af6 entries]
  by (auto simp: enumerate_posix_def list_all_iff list_ex_iff entry_adapter_def)

text \<open>
  And no link is lost: when every address can be printed, the identifiers of the list are
  exactly those of the usable entries.
\<close>

theorem enumerate_posix_complete:
  assumes "list_all printable_entry entries"
  shows "na_id ` set (enumerate_posix af4 af6 (Some entries))
    = entry_id ` set (filter (usable_entry af4 af6) entries)"
  using posix_loop_ids [OF assms, of "[]" "{}"] by (simp add: enumerate_posix_def)

lemma digit_char_2: "digit_char 2 = CHR ''2''"
  by code_simp

theorem enumerate_posix_complete_witness:
  "na_id ` set (enumerate_posix 2 10 (Some
      [\<lparr>ifa_name = Some ''lo'', ifa_addr = Some (2, Some ''127.0.0.1''), ifa_flags = 9\<rparr>,
       \<lparr>ifa_name = Some ''eth0'', ifa_addr = Some (2, Some ''10.0.0.2''), ifa_flags = 1\<rparr>,
       \<lparr>ifa_name = Some ''eth0'', ifa_addr = Some (2, Some ''10.0.0.3''), ifa_flags = 1\<rparr>]))
     = {''eth0/2''}"
  using enumerate_posix_complete [of "[\<lparr>ifa_name = Some ''lo'', ifa_addr = Some (2, Some ''127.0.0.1''), ifa_flags = 9\<rparr>,
       \<lparr>ifa_name = Some ''eth0'', ifa_addr = Some (2, Some ''10.0.0.2''), ifa_flags = 1\<rparr>,
       \<lparr>ifa_name = Some ''eth0'', ifa_addr = Some (2, Some ''10.0.0.3''), ifa_flags = 1\<rparr>]" 2 10]
  by (simp add: printable_entry_def usable_entry_def entry_id_def posix_adapter_id_def
      IFF_LOOPBACK_def to_string_def dec_digits.simps digit_char_2)

section \<open>Windows\<close>

text \<open>
  One \<^verbatim>\<open>IP_ADAPTER_ADDRESSES\<close> element: its type, its GUID text, its name as
  \<^verbatim>\<open>WideCharToMultiByte\<close> wrote it, its unicast addresses (family and printed text, \<open>None\<close> for
  a null \<^verbatim>\<open>lpSockaddr\<close>) and whether its status is up.
\<close>

record ip_adapter =
  ip_if_type :: int
  ip_adapter_name :: "string option"
  ip_friendly_utf8 :: "string option"
  ip_unicast :: "(int \<times> string option) option list"
  ip_oper_up :: bool

definition AF_INET_win :: int where "AF_INET_win = 2"
definition AF_INET6_win :: int where "AF_INET6_win = 23"
definition IF_TYPE_SOFTWARE_LOOPBACK :: int where "IF_TYPE_SOFTWARE_LOOPBACK = 24"
definition IF_TYPE_TUNNEL :: int where "IF_TYPE_TUNNEL = 131"

fun win_addresses ::
    "string \<Rightarrow> string \<Rightarrow> bool \<Rightarrow> (int \<times> string option) option list \<Rightarrow> int set \<Rightarrow> network_adapter list" where
  "win_addresses guid label up [] families_seen = []"
| "win_addresses guid label up (None # addrs) families_seen =
     win_addresses guid label up addrs families_seen"
| "win_addresses guid label up (Some (family, shown) # addrs) families_seen =
     (if family \<noteq> AF_INET_win \<and> family \<noteq> AF_INET6_win then
        win_addresses guid label up addrs families_seen
      else if family \<in> families_seen then win_addresses guid label up addrs families_seen
      else
        (case shown of
           None \<Rightarrow> []
         | Some address \<Rightarrow>
             let item_id = guid @ ''/'' @ to_string family in
             [\<lparr>na_id = item_id, na_label = (if label = [] then item_id else label),
               na_address = address, na_family = family, na_enabled = False, na_operational = up\<rparr>])
        @ win_addresses guid label up addrs (insert family families_seen))"

definition win_skipped :: "ip_adapter \<Rightarrow> bool" where
  "win_skipped adapter \<longleftrightarrow>
     ip_if_type adapter = IF_TYPE_SOFTWARE_LOOPBACK \<or> ip_if_type adapter = IF_TYPE_TUNNEL"

definition win_guid :: "ip_adapter \<Rightarrow> string" where
  "win_guid adapter = (case ip_adapter_name adapter of None \<Rightarrow> [] | Some n \<Rightarrow> take 63 n)"

definition win_adapter :: "ip_adapter \<Rightarrow> network_adapter list" where
  "win_adapter adapter =
     (if win_skipped adapter then []
      else
        win_addresses
          (win_guid adapter)
          (case ip_friendly_utf8 adapter of None \<Rightarrow> [] | Some l \<Rightarrow> l)
          (ip_oper_up adapter) (ip_unicast adapter) {})"

text \<open>\<^verbatim>\<open>GetAdaptersAddresses\<close> is called again with a larger buffer when the first was too small.\<close>

datatype adapters_result = NoError "ip_adapter list" | BufferOverflow | OtherError

definition enumerate_windows :: "adapters_result \<Rightarrow> adapters_result \<Rightarrow> network_adapter list" where
  "enumerate_windows first second =
     (case (case first of BufferOverflow \<Rightarrow> second | _ \<Rightarrow> first) of
        NoError adapters \<Rightarrow> concat (map win_adapter adapters)
      | _ \<Rightarrow> [])"

subsection \<open>Identifiers\<close>

lemma to_string_no_slash: "CHR ''/'' \<notin> set (to_string x)"
proof -
  have "\<forall>c\<in>set (dec_digits n). c \<noteq> CHR ''/''" for n
    using dec_digits_plain [of n] by (auto simp: list_all_iff plain_host_char_def)
  then show ?thesis
    by (auto simp: to_string_def)
qed

lemma to_string_inj: "to_string x = to_string y \<Longrightarrow> x = y"
proof -
  have hd: "dec_digits n \<noteq> CHR ''-'' # s" for n s
    using dec_digits_hd [of n] digit_not_space_sign(2) by (metis list.sel(1))
  have inj: "dec_digits m = dec_digits n \<Longrightarrow> m = n" for m n
    using dec_digits_props(3) by metis
  assume "to_string x = to_string y"
  then show ?thesis
    using hd inj [of "nat x" "nat y"] inj [of "nat (- x)" "nat (- y)"] hd [symmetric]
    by (auto simp: to_string_def split: if_splits)
qed

lemma adapter_id_inj:
  assumes "a @ ''/'' @ to_string f = b @ ''/'' @ to_string g"
  shows "a = b \<and> f = g"
proof -
  have tw: "takeWhile (\<lambda>c. c \<noteq> CHR ''/'') (rev (s @ ''/'' @ to_string x)) = rev (to_string x)"
      for s and x
    using to_string_no_slash [of x] by (simp add: takeWhile_append2 takeWhile_append)
  have "rev (to_string f) = rev (to_string g)"
    using tw [of a f] tw [of b g] assms by metis
  then have "f = g"
    by (simp add: to_string_inj)
  with assms show ?thesis by simp
qed

lemma win_addresses_ids:
  "a \<in> set (win_addresses guid label up addrs seen) \<Longrightarrow>
     \<exists>f. f \<notin> seen \<and> na_id a = guid @ ''/'' @ to_string f"
  by (induction guid label up addrs seen rule: win_addresses.induct)
    (auto simp: Let_def split: if_splits option.splits)

lemma win_addresses_distinct: "distinct (map na_id (win_addresses guid label up addrs seen))"
proof (induction guid label up addrs seen rule: win_addresses.induct)
  case (3 guid label up family shown addrs seen)
  have "guid @ ''/'' @ to_string family \<notin> na_id ` set (win_addresses guid label up addrs (insert family seen))"
    using win_addresses_ids [of _ guid label up addrs "insert family seen"]
      to_string_inj [of family] by fastforce
  with 3 show ?case
    by (auto simp: Let_def split: option.splits)
qed simp_all

lemma win_adapter_ids:
  "a \<in> set (win_adapter adapter) \<Longrightarrow>
     \<not> win_skipped adapter \<and> (\<exists>f. na_id a = win_guid adapter @ ''/'' @ to_string f)"
  using win_addresses_ids by (fastforce simp: win_adapter_def split: if_splits)

lemma win_adapters_distinct:
  "distinct (map win_guid (filter (\<lambda>a. \<not> win_skipped a) adapters)) \<Longrightarrow>
     distinct (map na_id (concat (map win_adapter adapters)))"
proof (induction adapters)
  case (Cons x xs)
  have "distinct (map na_id (win_adapter x))"
    by (simp add: win_adapter_def win_addresses_distinct)
  moreover have "na_id ` set (win_adapter x) \<inter> na_id ` set (concat (map win_adapter xs)) = {}"
  proof (rule ccontr)
    assume "\<not> ?thesis"
    then obtain a b y where ab: "a \<in> set (win_adapter x)" "y \<in> set xs" "b \<in> set (win_adapter y)"
      "na_id a = na_id b"
      by auto
    then have "win_guid x = win_guid y" "\<not> win_skipped x" "\<not> win_skipped y"
      using win_adapter_ids [OF ab(1)] win_adapter_ids [OF ab(3)] adapter_id_inj by metis+
    with ab(2) Cons.prems show False by auto
  qed
  ultimately show ?case
    using Cons by (auto split: if_splits)
qed simp

text \<open>
  On Windows, with adapters whose (truncated) GUIDs differ, the identifiers of all listed
  links are pairwise distinct, across adapters and address families.
\<close>

theorem enumerate_windows_distinct:
  assumes "distinct (map win_guid (filter (\<lambda>a. \<not> win_skipped a) adapters))"
  shows "distinct (map na_id (enumerate_windows (NoError adapters) second))"
  using win_adapters_distinct [OF assms] by (simp add: enumerate_windows_def)

theorem enumerate_windows_distinct_witness:
  "distinct (map na_id (enumerate_windows (NoError
     [\<lparr>ip_if_type = 6, ip_adapter_name = Some ''{A}'', ip_friendly_utf8 = Some ''LAN'',
       ip_unicast = [Some (2, Some ''10.0.0.2''), Some (23, Some ''fe80::1''), Some (2, Some ''10.0.0.3'')],
       ip_oper_up = True\<rparr>,
      \<lparr>ip_if_type = 71, ip_adapter_name = Some ''{B}'', ip_friendly_utf8 = None,
       ip_unicast = [Some (2, Some ''192.168.1.2'')], ip_oper_up = False\<rparr>]) OtherError))"
  by (rule enumerate_windows_distinct)
    (simp add: win_guid_def win_skipped_def IF_TYPE_SOFTWARE_LOOPBACK_def IF_TYPE_TUNNEL_def)

section \<open>The links document\<close>

definition link_json :: "string set option \<Rightarrow> network_adapter \<Rightarrow> string" where
  "link_json enabled_links adapter =
     ''{'' @ [CHR 0x22] @ ''id'' @ [CHR 0x22] @ '':'' @ dec_digits (unat (stable_link_id (na_id adapter)))
     @ '','' @ [CHR 0x22] @ ''label'' @ [CHR 0x22] @ '':'' @ [CHR 0x22]
     @ json_escape (na_label adapter @ '' / '' @ na_address adapter)
     @ [CHR 0x22] @ '','' @ [CHR 0x22] @ ''address'' @ [CHR 0x22] @ '':'' @ [CHR 0x22]
     @ json_escape (na_address adapter)
     @ [CHR 0x22] @ '','' @ [CHR 0x22] @ ''enabled'' @ [CHR 0x22] @ '':''
     @ (case enabled_links of
          Some links \<Rightarrow> (if na_id adapter \<in> links then ''true'' else ''false'')
        | None \<Rightarrow> ''false'')
     @ ''}''"

definition enumerate_links_json :: "network_adapter list \<Rightarrow> string set option \<Rightarrow> string" where
  "enumerate_links_json adapters enabled_links =
     ''['' @ foldl (\<lambda>links adapter.
        (if links \<noteq> [] then links @ '','' else links) @ link_json enabled_links adapter) [] adapters
     @ '']''"

end
