(* ===== verification/Obs_Settings.thy ===== *)
theory Obs_Settings
  imports Network_Monitor
begin

text \<open>
  The settings of the output: the part of \<^verbatim>\<open>plugin/srtla-output.cpp\<close> between OBS's
  \<^verbatim>\<open>obs_data_t\<close> and the plugin (bitrate limits, the query of a pasted URL, the passphrase and its
  legacy form, the JSON configuration of the engine, the defaults and the property form), and
  \<^verbatim>\<open>plugin/passphrase-store.cpp\<close>. The settings object belongs to OBS and is a parameter: a
  record of its operations, with the documented behaviour the plugin relies on as the predicate
  \<open>obs_data_laws\<close>. A null pointer is \<open>None\<close>.
\<close>

section \<open>The settings object of OBS\<close>

record 'd obs_data_api =
  obs_data_get_string :: "'d \<Rightarrow> string \<Rightarrow> string option"
  obs_data_set_string :: "string \<Rightarrow> string \<Rightarrow> 'd \<Rightarrow> 'd"
  obs_data_get_int :: "'d \<Rightarrow> string \<Rightarrow> int"
  obs_data_set_int :: "string \<Rightarrow> int \<Rightarrow> 'd \<Rightarrow> 'd"
  obs_data_get_bool :: "'d \<Rightarrow> string \<Rightarrow> bool"
  obs_data_set_bool :: "string \<Rightarrow> bool \<Rightarrow> 'd \<Rightarrow> 'd"
  obs_data_has_user_value :: "'d \<Rightarrow> string \<Rightarrow> bool"

text \<open>A value that was set is read back, and setting one name leaves the other names alone.\<close>

definition obs_data_laws :: "'d obs_data_api \<Rightarrow> bool" where
  "obs_data_laws api \<longleftrightarrow>
     (\<forall>d k v k'. obs_data_get_string api (obs_data_set_string api k v d) k' =
        (if k' = k then Some v else obs_data_get_string api d k'))
     \<and> (\<forall>d k v k'. k' \<noteq> k \<longrightarrow>
        obs_data_get_int api (obs_data_set_string api k v d) k' = obs_data_get_int api d k')
     \<and> (\<forall>d k v k'. obs_data_get_int api (obs_data_set_int api k v d) k' =
        (if k' = k then v else obs_data_get_int api d k'))
     \<and> (\<forall>d k v k'. k' \<noteq> k \<longrightarrow>
        obs_data_get_string api (obs_data_set_int api k v d) k' = obs_data_get_string api d k')"

lemma obs_data_lawsD:
  assumes "obs_data_laws api"
  shows "obs_data_get_string api (obs_data_set_string api k v d) k' =
      (if k' = k then Some v else obs_data_get_string api d k')"
    "k' \<noteq> k \<Longrightarrow> obs_data_get_int api (obs_data_set_string api k v d) k' = obs_data_get_int api d k'"
    "obs_data_get_int api (obs_data_set_int api k i d) k' =
      (if k' = k then i else obs_data_get_int api d k')"
    "k' \<noteq> k \<Longrightarrow> obs_data_get_string api (obs_data_set_int api k i d) k' = obs_data_get_string api d k'"
  using assms unfolding obs_data_laws_def by blast+

text \<open>A settings object that satisfies them: typed values by name, with OBS's empty answers.\<close>

datatype setting = SStr string | SInt int | SBool bool

definition map_settings :: "(string \<rightharpoonup> setting) obs_data_api" where
  "map_settings = \<lparr>
     obs_data_get_string = (\<lambda>d k. case d k of Some (SStr s) \<Rightarrow> Some s | _ \<Rightarrow> Some []),
     obs_data_set_string = (\<lambda>k v d. d(k \<mapsto> SStr v)),
     obs_data_get_int = (\<lambda>d k. case d k of Some (SInt i) \<Rightarrow> i | _ \<Rightarrow> 0),
     obs_data_set_int = (\<lambda>k v d. d(k \<mapsto> SInt v)),
     obs_data_get_bool = (\<lambda>d k. case d k of Some (SBool b) \<Rightarrow> b | _ \<Rightarrow> False),
     obs_data_set_bool = (\<lambda>k v d. d(k \<mapsto> SBool v)),
     obs_data_has_user_value = (\<lambda>d k. d k \<noteq> None)\<rparr>"

lemma map_settings_laws: "obs_data_laws map_settings"
  by (simp add: obs_data_laws_def map_settings_def)

text \<open>\<^verbatim>\<open>c_str()\<close> ends at the first NUL; a C string is empty if null or of length zero.\<close>

definition c_str :: "string \<Rightarrow> string" where
  "c_str s = takeWhile (\<lambda>c. c \<noteq> CHR 0x00) s"

definition nonempty_cstr :: "string option \<Rightarrow> bool" where
  "nonempty_cstr p \<longleftrightarrow> (case p of None \<Rightarrow> False | Some s \<Rightarrow> s \<noteq> [])"

lemma c_str_id: "CHR 0x00 \<notin> set s \<Longrightarrow> c_str s = s"
  by (auto simp: c_str_def)

section \<open>Bitrate limits\<close>

definition DEFAULT_MAX_BITRATE_KBPS :: int where "DEFAULT_MAX_BITRATE_KBPS = 6000"
definition ABSOLUTE_MAX_BITRATE_KBPS :: int where "ABSOLUTE_MAX_BITRATE_KBPS = 30000"
definition LEGACY_UNLIMITED_BITRATE_KBPS :: int where "LEGACY_UNLIMITED_BITRATE_KBPS = 100000"
definition MIN_VIDEO_BITRATE_KBPS :: int where "MIN_VIDEO_BITRATE_KBPS = 500"
definition MAX_MANUAL_BITRATE_KBPS :: int where "MAX_MANUAL_BITRATE_KBPS = 100000"

lemmas bitrate_consts [cxx_simps] =
  DEFAULT_MAX_BITRATE_KBPS_def ABSOLUTE_MAX_BITRATE_KBPS_def LEGACY_UNLIMITED_BITRATE_KBPS_def
  MIN_VIDEO_BITRATE_KBPS_def MAX_MANUAL_BITRATE_KBPS_def

definition configured_max_bitrate_kbps :: "'d obs_data_api \<Rightarrow> 'd option \<Rightarrow> int" where
  "configured_max_bitrate_kbps api settings =
     (let maximum = (case settings of
            Some d \<Rightarrow> cast_int (obs_data_get_int api d ''max_bitrate'')
          | None \<Rightarrow> DEFAULT_MAX_BITRATE_KBPS);
          maximum = (if maximum = LEGACY_UNLIMITED_BITRATE_KBPS then DEFAULT_MAX_BITRATE_KBPS
            else maximum)
      in clamp maximum MIN_VIDEO_BITRATE_KBPS ABSOLUTE_MAX_BITRATE_KBPS)"

definition configured_min_bitrate_kbps :: "'d obs_data_api \<Rightarrow> 'd option \<Rightarrow> int \<Rightarrow> int" where
  "configured_min_bitrate_kbps api settings maximum =
     (let minimum = (case settings of
            Some d \<Rightarrow> cast_int (obs_data_get_int api d ''min_bitrate'')
          | None \<Rightarrow> MIN_VIDEO_BITRATE_KBPS)
      in clamp minimum MIN_VIDEO_BITRATE_KBPS maximum)"

definition configured_manual_bitrate_kbps :: "'d obs_data_api \<Rightarrow> 'd option \<Rightarrow> int" where
  "configured_manual_bitrate_kbps api settings =
     (let manual = (case settings of
            Some d \<Rightarrow>
              if obs_data_has_user_value api d ''bitrate''
              then cast_int (obs_data_get_int api d ''bitrate'') else 1500
          | None \<Rightarrow> 1500)
      in clamp manual MIN_VIDEO_BITRATE_KBPS MAX_MANUAL_BITRATE_KBPS)"

lemma configured_max_bounds:
  "500 \<le> configured_max_bitrate_kbps api s" "configured_max_bitrate_kbps api s \<le> 30000"
  unfolding configured_max_bitrate_kbps_def Let_def
  by (simp_all add: clamp_bounds [of 500 30000] bitrate_consts)

lemma configured_min_bounds:
  assumes "500 \<le> maximum"
  shows "500 \<le> configured_min_bitrate_kbps api s maximum"
    "configured_min_bitrate_kbps api s maximum \<le> maximum"
  using assms unfolding configured_min_bitrate_kbps_def Let_def
  by (simp_all add: clamp_bounds bitrate_consts)

lemma configured_manual_bounds:
  "500 \<le> configured_manual_bitrate_kbps api s" "configured_manual_bitrate_kbps api s \<le> 100000"
  unfolding configured_manual_bitrate_kbps_def Let_def
  by (simp_all add: clamp_bounds [of 500 100000] bitrate_consts)

section \<open>The query of a pasted URL\<close>

definition apply_query_item :: "'d obs_data_api \<Rightarrow> string \<Rightarrow> 'd \<Rightarrow> 'd" where
  "apply_query_item api item settings =
     (case str_find (\<lambda>c. c = CHR ''='') 0 item of
        None \<Rightarrow> settings
      | Some equal \<Rightarrow>
          let key = take equal item;
              value = url_decode_component (drop (equal + 1) item)
          in if key = ''streamid'' \<or> key = ''stream_id'' then
               obs_data_set_string api ''stream_id'' (c_str value) settings
             else if key = ''passphrase'' \<or> key = ''password'' then
               obs_data_set_string api ''passphrase'' (c_str value) settings
             else if key = ''latency'' then
               obs_data_set_int api ''latency_ms'' (strtoll (c_str value)) settings
             else if key = ''pbkeylen'' then
               obs_data_set_int api ''pbkeylen'' (strtoll (c_str value)) settings
             else settings)"

definition split_url_query_into_settings :: "'d obs_data_api \<Rightarrow> 'd option \<Rightarrow> 'd option" where
  "split_url_query_into_settings api settings =
     map_option (\<lambda>d.
       case obs_data_get_string api d ''url'' of
         None \<Rightarrow> d
       | Some url \<Rightarrow>
           if url = [] then d
           else (case str_find (\<lambda>c. c = CHR ''?'') 0 url of
               None \<Rightarrow> d
             | Some query_pos \<Rightarrow>
                 let query = drop (query_pos + 1) url;
                     d' = foldl (\<lambda>d item. apply_query_item api item d) d (token_loop CHR ''&'' query 0)
                 in obs_data_set_string api ''url'' (c_str (take query_pos url)) d')) settings"

section \<open>The passphrase\<close>

definition store_srtla_passphrase :: "string \<Rightarrow> string" where
  "store_srtla_passphrase plaintext = plaintext"

definition load_srtla_passphrase :: "string \<Rightarrow> string" where
  "load_srtla_passphrase stored = stored"

text \<open>The Boolean is the result (an unreadable legacy secret), the settings are updated.\<close>

definition normalize_passphrase_setting :: "'d obs_data_api \<Rightarrow> 'd option \<Rightarrow> bool \<times> 'd option" where
  "normalize_passphrase_setting api settings =
     (case settings of
        None \<Rightarrow> (False, None)
      | Some d \<Rightarrow>
          let plain = obs_data_get_string api d ''passphrase'';
              stored = obs_data_get_string api d ''passphrase_secret''
          in if nonempty_cstr plain then
               (False,
                Some (obs_data_set_string api ''passphrase_dpapi'' []
                  (obs_data_set_string api ''passphrase'' []
                    (obs_data_set_string api ''passphrase_secret''
                      (c_str (store_srtla_passphrase (the plain))) d))))
             else if nonempty_cstr stored then
               (False, Some (obs_data_set_string api ''passphrase_dpapi'' [] d))
             else (nonempty_cstr (obs_data_get_string api d ''passphrase_dpapi''), Some d))"

text \<open>The passphrase and the \<^verbatim>\<open>legacy_error\<close> flag.\<close>

definition passphrase_from_settings :: "'d obs_data_api \<Rightarrow> 'd option \<Rightarrow> string \<times> bool" where
  "passphrase_from_settings api settings =
     (case settings of
        None \<Rightarrow> ([], False)
      | Some d \<Rightarrow>
          let stored = obs_data_get_string api d ''passphrase_secret'';
              plain = obs_data_get_string api d ''passphrase'';
              legacy = obs_data_get_string api d ''passphrase_dpapi''
          in if nonempty_cstr stored then (load_srtla_passphrase (the stored), False)
             else if nonempty_cstr plain then (load_srtla_passphrase (the plain), False)
             else ([], nonempty_cstr legacy))"

section \<open>The engine's configuration\<close>

definition json_key :: "string \<Rightarrow> string" where
  "json_key name = [CHR 0x22] @ name @ [CHR 0x22, CHR '':'']"

definition json_text :: "string \<Rightarrow> string" where
  "json_text s = [CHR 0x22] @ json_escape s @ [CHR 0x22]"

definition settings_string :: "'d obs_data_api \<Rightarrow> 'd option \<Rightarrow> string \<Rightarrow> string option" where
  "settings_string api settings name =
     (case settings of Some d \<Rightarrow> obs_data_get_string api d name | None \<Rightarrow> None)"

definition settings_int :: "'d obs_data_api \<Rightarrow> 'd option \<Rightarrow> string \<Rightarrow> int \<Rightarrow> int" where
  "settings_int api settings name missing =
     (case settings of Some d \<Rightarrow> obs_data_get_int api d name | None \<Rightarrow> missing)"

definition value_or :: "string option \<Rightarrow> string \<Rightarrow> string" where
  "value_or p missing = (case p of Some s \<Rightarrow> s | None \<Rightarrow> missing)"

text \<open>The text \<^verbatim>\<open>create_engine_from_settings\<close> hands to \<^verbatim>\<open>srtla_engine_create\<close>.\<close>

definition engine_config ::
    "'d obs_data_api \<Rightarrow> nat \<Rightarrow> network_adapter list \<Rightarrow> 'd option \<Rightarrow> string" where
  "engine_config api ulong_bits adapters settings =
     (let endpoint = parse_endpoint ulong_bits (settings_string api settings ''url'');
          enabled_links = parse_enabled_links (settings_string api settings ''enabled_links'');
          links = enumerate_links_json adapters (Some enabled_links);
          passphrase = fst (passphrase_from_settings api settings);
          stream_id = settings_string api settings ''stream_id'';
          latency = settings_int api settings ''latency_ms'' 2000;
          pbkeylen = settings_int api settings ''pbkeylen'' 16;
          scheduler = settings_string api settings ''scheduler'';
          max_bitrate = configured_max_bitrate_kbps api settings;
          min_bitrate = configured_min_bitrate_kbps api settings max_bitrate;
          audio_bitrate = settings_int api settings ''audio_bitrate'' 128
      in ''{'' @ json_key ''receiver_host'' @ json_text (fst endpoint)
         @ '','' @ json_key ''receiver_port'' @ to_string (snd endpoint)
         @ '','' @ json_key ''stream_id'' @ json_text (value_or stream_id [])
         @ '','' @ json_key ''latency_ms'' @ to_string latency
         @ '','' @ json_key ''passphrase'' @ json_text passphrase
         @ '','' @ json_key ''pbkeylen'' @ to_string pbkeylen
         @ '','' @ json_key ''scheduler'' @ json_text (value_or scheduler ''enhanced'')
         @ '','' @ json_key ''links'' @ links
         @ '','' @ json_key ''abr'' @ ''{'' @ json_key ''min_bps'' @ to_string (max 1 min_bitrate * 1000)
         @ '','' @ json_key ''start_bps'' @ to_string (max 1 max_bitrate * 1000)
         @ '','' @ json_key ''max_bps'' @ to_string (max 1 max_bitrate * 1000)
         @ ''},'' @ json_key ''audio_bps'' @ to_string (max 0 audio_bitrate * 1000) @ ''}'')"

definition create_engine_from_settings ::
    "(string \<Rightarrow> 'e option) \<Rightarrow> 'd obs_data_api \<Rightarrow> nat \<Rightarrow> network_adapter list \<Rightarrow> 'd option \<Rightarrow> 'e option" where
  "create_engine_from_settings srtla_engine_create api ulong_bits adapters settings =
     srtla_engine_create (c_str (engine_config api ulong_bits adapters settings))"

section \<open>Defaults and property form\<close>

definition srtla_output_defaults :: "(string \<times> setting) list" where
  "srtla_output_defaults =
     [(''url'', SStr ''srtla://receiver.example:5000''), (''video_codec'', SStr ''h264''),
      (''audio_codec'', SStr ''aac''), (''latency_ms'', SInt 2000), (''bitrate'', SInt 1500),
      (''min_bitrate'', SInt 500), (''max_bitrate'', SInt DEFAULT_MAX_BITRATE_KBPS),
      (''audio_bitrate'', SInt 128), (''auto_bitrate'', SBool True),
      (''encoder_mode'', SStr ''dedicated''), (''encoder_source'', SStr ''streaming''),
      (''audio_mix'', SStr ''track_1''), (''pbkeylen'', SInt 16), (''scheduler'', SStr ''enhanced'')]"

datatype form_field =
    FText | FPassword | FBool
  | FInt int int int
  | FStringList "(string \<times> string) list"
  | FIntList "(string \<times> int) list"

definition srtla_output_properties :: "(string \<times> string \<times> form_field) list" where
  "srtla_output_properties =
     [(''url'', ''SRTLA URL'', FText),
      (''stream_id'', ''Stream ID'', FText),
      (''video_codec'', ''Video codec'', FStringList [(''H.264'', ''h264''), (''HEVC'', ''hevc'')]),
      (''audio_codec'', ''Audio codec'', FStringList [(''AAC'', ''aac''), (''Opus'', ''opus'')]),
      (''latency_ms'', ''Latency (ms)'', FInt 120 60000 10),
      (''bitrate'', ''Manual video bitrate (kb/s)'', FInt MIN_VIDEO_BITRATE_KBPS MAX_MANUAL_BITRATE_KBPS 50),
      (''min_bitrate'', ''Automatic minimum bitrate (kb/s)'',
         FInt MIN_VIDEO_BITRATE_KBPS ABSOLUTE_MAX_BITRATE_KBPS 50),
      (''max_bitrate'', ''Automatic maximum bitrate (kb/s)'',
         FInt MIN_VIDEO_BITRATE_KBPS ABSOLUTE_MAX_BITRATE_KBPS 50),
      (''audio_bitrate'', ''Audio bitrate (kb/s)'', FInt 32 512 8),
      (''auto_bitrate'', ''Automatic bitrate'', FBool),
      (''encoder_source'', ''Encoder source'',
         FStringList [(''Streaming'', ''streaming''), (''Recording'', ''recording''), (''Custom'', ''custom'')]),
      (''encoder_mode'', ''Encoder mode'',
         FStringList [(''Dedicated'', ''dedicated''), (''Shared'', ''shared'')]),
      (''audio_mix'', ''Audio mix'', FStringList [(''Track 1'', ''track_1'')]),
      (''passphrase'', ''Passphrase'', FPassword),
      (''pbkeylen'', ''PB key length'', FIntList [(''16'', 16), (''24'', 24), (''32'', 32)]),
      (''scheduler'', ''Scheduler'', FStringList [(''Enhanced'', ''enhanced''), (''Classic'', ''classic'')])]"

fun form_accepts :: "form_field \<Rightarrow> setting \<Rightarrow> bool" where
  "form_accepts FText (SStr s) = True"
| "form_accepts FPassword (SStr s) = True"
| "form_accepts FBool (SBool b) = True"
| "form_accepts (FInt lo hi step) (SInt i) = (lo \<le> i \<and> i \<le> hi \<and> (i - lo) mod step = 0)"
| "form_accepts (FStringList choices) (SStr s) = (s \<in> set (map snd choices))"
| "form_accepts (FIntList choices) (SInt i) = (i \<in> set (map snd choices))"
| "form_accepts _ _ = False"

lemma defaults_fit_form:
  "list_all (\<lambda>(name, v).
     (case map_of srtla_output_properties name of None \<Rightarrow> False | Some (label, field) \<Rightarrow> form_accepts field v))
     srtla_output_defaults"
  by (simp add: srtla_output_defaults_def srtla_output_properties_def bitrate_consts)

section \<open>Properties\<close>

text \<open>
  Whatever the settings hold, including values beyond 32 bits and the legacy "unlimited"
  value, the configured limits are ordered and within the supported range.
\<close>

theorem configured_bitrates_ordered:
  "500 \<le> configured_min_bitrate_kbps api s (configured_max_bitrate_kbps api s)
   \<and> configured_min_bitrate_kbps api s (configured_max_bitrate_kbps api s)
       \<le> configured_max_bitrate_kbps api s
   \<and> configured_max_bitrate_kbps api s \<le> 30000
   \<and> 500 \<le> configured_manual_bitrate_kbps api s \<and> configured_manual_bitrate_kbps api s \<le> 100000"
  using configured_max_bounds [of api s] configured_manual_bounds [of api s]
    configured_min_bounds [of "configured_max_bitrate_kbps api s" api s]
  by simp

subsection \<open>The query\<close>

text \<open>The query of a list of parameters, printed with any escaping that covers \<open>%\<close>, \<open>+\<close> and \<open>&\<close>.\<close>

definition print_param :: "(char \<Rightarrow> bool) \<Rightarrow> string \<times> string \<Rightarrow> string" where
  "print_param esc = (\<lambda>(key, value). key @ CHR ''='' # url_encode esc value)"

definition print_query :: "(char \<Rightarrow> bool) \<Rightarrow> (string \<times> string) list \<Rightarrow> string" where
  "print_query esc ps = join_loop CHR ''&'' [] (map (print_param esc) ps)"

definition plain_param :: "string \<times> string \<Rightarrow> bool" where
  "plain_param = (\<lambda>(key, value).
     CHR ''='' \<notin> set key \<and> CHR ''&'' \<notin> set key \<and> CHR 0x00 \<notin> set value)"

definition last_param :: "string set \<Rightarrow> (string \<times> string) list \<Rightarrow> string option" where
  "last_param keys ps = map_option snd (find (\<lambda>(k, v). k \<in> keys) (rev ps))"

lemma last_param_simps [simp]:
  "last_param keys [] = None"
  "last_param keys (ps @ [(k, v)]) = (if k \<in> keys then Some v else last_param keys ps)"
  by (simp_all add: last_param_def)

lemma find_separator:
  assumes "sep \<notin> set xs"
  shows "str_find (\<lambda>c. c = sep) 0 (xs @ sep # ys) = Some (length xs)"
proof -
  have "\<forall>x\<in>set xs. \<not> x = sep"
    using assms by auto
  from find_index_append [OF this] show ?thesis by (simp add: str_find_def)
qed

definition escapes_query :: "(char \<Rightarrow> bool) \<Rightarrow> bool" where
  "escapes_query esc \<longleftrightarrow> esc CHR ''%'' \<and> esc CHR ''+'' \<and> esc CHR ''&''"

lemma apply_query_item_param:
  assumes "plain_param (key, v)" and "escapes_query esc"
  shows "apply_query_item api (print_param esc (key, v)) d =
     (if key = ''streamid'' \<or> key = ''stream_id'' then obs_data_set_string api ''stream_id'' v d
      else if key = ''passphrase'' \<or> key = ''password'' then obs_data_set_string api ''passphrase'' v d
      else if key = ''latency'' then obs_data_set_int api ''latency_ms'' (strtoll v) d
      else if key = ''pbkeylen'' then obs_data_set_int api ''pbkeylen'' (strtoll v) d
      else d)"
  using assms
  by (simp add: apply_query_item_def print_param_def plain_param_def escapes_query_def find_separator
      url_decode_encode c_str_id Let_def)

lemma hex_upper_not_amp: "d < 16 \<Longrightarrow> hex_upper d \<noteq> CHR ''&''"
  using hex_value_upper [of d] by (auto simp: hex_value_def)

lemma url_encode_no_amp: "esc CHR ''&'' \<Longrightarrow> CHR ''&'' \<notin> set (url_encode esc s)"
proof (induction s)
  case (Cons c s)
  have "(of_char c :: nat) < 256"
    by simp
  then have "(of_char c :: nat) div 16 < 16"
    by (simp add: less_mult_imp_div_less)
  with Cons hex_upper_not_amp [of "of_char c div 16"] hex_upper_not_amp [of "of_char c mod 16"]
  show ?case by (auto simp: url_encode_def url_encode_char_def)
qed (simp add: url_encode_def)

lemma print_param_plain:
  "plain_param p \<Longrightarrow> escapes_query esc \<Longrightarrow> print_param esc p \<noteq> [] \<and> CHR ''&'' \<notin> set (print_param esc p)"
  by (cases p) (auto simp: print_param_def plain_param_def escapes_query_def url_encode_no_amp)

definition apply_params :: "'d obs_data_api \<Rightarrow> (char \<Rightarrow> bool) \<Rightarrow> (string \<times> string) list \<Rightarrow> 'd \<Rightarrow> 'd" where
  "apply_params api esc ps d = foldl (\<lambda>d item. apply_query_item api item d) d (map (print_param esc) ps)"

lemma foldl_skip_empty:
  "foldl (\<lambda>d item. apply_query_item api item d) d items =
   foldl (\<lambda>d item. apply_query_item api item d) d (filter (\<lambda>t. t \<noteq> []) items)"
proof (induction items arbitrary: d)
  case (Cons item items)
  have "apply_query_item api [] d = d"
    by (simp add: apply_query_item_def str_find_def)
  with Cons.IH show ?case by simp
qed simp

lemma fold_query_tokens:
  assumes "list_all plain_param ps" and "escapes_query esc"
  shows "foldl (\<lambda>d item. apply_query_item api item d) d (token_loop CHR ''&'' (print_query esc ps) 0)
    = apply_params api esc ps d"
proof -
  have "filter (\<lambda>t. t \<noteq> []) (split_on CHR ''&'' (print_query esc ps)) = map (print_param esc) ps"
    unfolding print_query_def
    using assms print_param_plain by (intro split_on_join) (auto simp: list_all_iff)
  then show ?thesis
    using foldl_skip_empty [of api d "split_on CHR ''&'' (print_query esc ps)"]
    by (simp add: token_loop_eq_split_on apply_params_def)
qed

lemma apply_params_reads_conj:
  assumes "obs_data_laws api" and "escapes_query esc"
  shows "list_all plain_param ps \<Longrightarrow>
    obs_data_get_string api (apply_params api esc ps d) ''passphrase'' =
      (case last_param {''passphrase'', ''password''} ps of
         Some v \<Rightarrow> Some v | None \<Rightarrow> obs_data_get_string api d ''passphrase'')
    \<and> obs_data_get_string api (apply_params api esc ps d) ''stream_id'' =
      (case last_param {''streamid'', ''stream_id''} ps of
         Some v \<Rightarrow> Some v | None \<Rightarrow> obs_data_get_string api d ''stream_id'')
    \<and> obs_data_get_int api (apply_params api esc ps d) ''latency_ms'' =
      (case last_param {''latency''} ps of
         Some v \<Rightarrow> strtoll v | None \<Rightarrow> obs_data_get_int api d ''latency_ms'')
    \<and> obs_data_get_int api (apply_params api esc ps d) ''pbkeylen'' =
      (case last_param {''pbkeylen''} ps of
         Some v \<Rightarrow> strtoll v | None \<Rightarrow> obs_data_get_int api d ''pbkeylen'')"
proof (induction ps rule: rev_induct)
  case (snoc p ps)
  obtain k v where p: "p = (k, v)"
    by (cases p)
  have "apply_params api esc (ps @ [p]) d =
      apply_query_item api (print_param esc (k, v)) (apply_params api esc ps d)"
    by (simp add: apply_params_def p)
  moreover have "plain_param (k, v)" "list_all plain_param ps"
    using snoc.prems p by simp_all
  ultimately show ?case
    using snoc.IH
    by (simp add: p apply_query_item_param [OF _ assms(2)] obs_data_lawsD [OF assms(1)])
qed (simp add: apply_params_def)

lemmas apply_params_reads = apply_params_reads_conj [THEN conjunct1]
  apply_params_reads_conj [THEN conjunct2, THEN conjunct1]
  apply_params_reads_conj [THEN conjunct2, THEN conjunct2, THEN conjunct1]
  apply_params_reads_conj [THEN conjunct2, THEN conjunct2, THEN conjunct2]

lemma split_url_query_print:
  assumes "obs_data_get_string api d ''url'' = Some (base @ CHR ''?'' # print_query esc ps)"
    and "CHR ''?'' \<notin> set base" and "CHR 0x00 \<notin> set base"
    and "list_all plain_param ps" and "escapes_query esc"
  shows "split_url_query_into_settings api (Some d) =
    Some (obs_data_set_string api ''url'' base (apply_params api esc ps d))"
proof -
  have "str_find (\<lambda>c. c = CHR ''?'') 0 (base @ CHR ''?'' # print_query esc ps) = Some (length base)"
    using assms(2) by (rule find_separator)
  then show ?thesis
    using assms fold_query_tokens [OF assms(4,5), of api d]
    by (simp add: split_url_query_into_settings_def c_str_id)
qed



subsection \<open>The passphrase\<close>

text \<open>
  C36. Normalising the settings never loses a passphrase: a plain one wins and is moved to its
  new name, otherwise what is stored stays in force, the plain field is empty afterwards, and the
  result is an error exactly when only a legacy secret is left (which a second pass confirms).
\<close>

theorem normalize_passphrase_keeps_secret:
  assumes "obs_data_laws api"
    and "\<And>s. obs_data_get_string api d ''passphrase'' = Some s \<Longrightarrow> CHR 0x00 \<notin> set s"
  shows "case normalize_passphrase_setting api (Some d) of (err, d') \<Rightarrow>
     passphrase_from_settings api d' =
       (if nonempty_cstr (obs_data_get_string api d ''passphrase'')
        then (the (obs_data_get_string api d ''passphrase''), False)
        else passphrase_from_settings api (Some d))
     \<and> err = snd (passphrase_from_settings api d')
     \<and> \<not> nonempty_cstr (settings_string api d' ''passphrase'')
     \<and> fst (normalize_passphrase_setting api d') = err"
  using assms(2)
  by (auto simp: normalize_passphrase_setting_def passphrase_from_settings_def nonempty_cstr_def
      store_srtla_passphrase_def load_srtla_passphrase_def settings_string_def
      obs_data_lawsD [OF assms(1)] c_str_id Let_def split: option.splits)

theorem normalize_passphrase_keeps_secret_witness:
  "passphrase_from_settings map_settings
     (snd (normalize_passphrase_setting map_settings (Some [''passphrase'' \<mapsto> SStr ''0123456789''])))
   = (''0123456789'', False)"
  using normalize_passphrase_keeps_secret [OF map_settings_laws, of "[''passphrase'' \<mapsto> SStr ''0123456789'']"]
  by (simp add: map_settings_def nonempty_cstr_def case_prod_beta)

end
