(* ===== verification/Stats_Json.thy ===== *)
theory Stats_Json
  imports Prelude
begin

text \<open>
  \<^verbatim>\<open>parse_stats_json\<close> of \<^verbatim>\<open>plugin/stats-json.hpp\<close> and the two-call protocol of the dock
  (\<^verbatim>\<open>srtla_output_copy_stats_json\<close> for the size, then for the bytes). The JSON parser is Qt's and
  a parameter; a document it returns is \<open>Some\<close>, the empty \<^verbatim>\<open>QJsonDocument\<close> is \<open>None\<close>.
\<close>

definition parse_stats_json :: "(string \<Rightarrow> 'doc option) \<Rightarrow> string \<Rightarrow> nat \<Rightarrow> 'doc option" where
  "parse_stats_json from_json buffer required =
     (if required = 0 \<or> length buffer < required then None
      else if buffer ! (required - 1) \<noteq> CHR 0x00 then None
      else from_json (take (required - 1) buffer))"

text \<open>
  The snapshot of the dock (\<^verbatim>\<open>websocketStatusJson\<close> and \<^verbatim>\<open>refreshStatus\<close>): ask for the size,
  allocate, copy, and give up when the document grew in between. \<open>copy_stats\<close> is the engine:
  given a capacity it answers the size it needs, with the NUL, and what it wrote.
\<close>

definition stats_snapshot ::
    "(nat \<Rightarrow> nat \<times> string) \<Rightarrow> (nat \<Rightarrow> nat \<times> string) \<Rightarrow> (string \<Rightarrow> 'doc option)
      \<Rightarrow> ('doc \<times> string) option" where
  "stats_snapshot copy_size copy_bytes from_json =
     (let required = fst (copy_size 0) in
      if required = 0 then None
      else
        let (actual, written) = copy_bytes required;
            buffer = take required (written @ replicate required (CHR 0x00))
        in if actual = 0 \<or> required < actual then None
           else map_option (\<lambda>doc. (doc, take (actual - 1) buffer))
             (parse_stats_json from_json buffer actual))"

text \<open>
  The engine's side (\<^verbatim>\<open>srtla_engine_copy_stats_json\<close> of \<^verbatim>\<open>engine/src/lib.rs\<close>) for one state of
  its statistics: the reported size counts the document and its NUL; what is written is cut to
  the capacity and always ends in a NUL.
\<close>

definition engine_copy_stats_json :: "string \<Rightarrow> nat \<Rightarrow> nat \<times> string" where
  "engine_copy_stats_json json capacity =
     (let required = length json + 1 in
      if capacity = 0 then (required, [])
      else (required, take (min (length json) (capacity - 1)) json @ [CHR 0x00]))"

lemma parse_stats_json_exact:
  "parse_stats_json from_json (doc @ CHR 0x00 # pad) (Suc (length doc)) = from_json doc"
  by (simp add: parse_stats_json_def)

text \<open>
  C40. The snapshot never parses a truncated or padded document: when the statistics changed from
  \<open>doc0\<close> to \<open>doc1\<close> between the two calls, the result is exactly the parse of \<open>doc1\<close> if it
  still fits the buffer sized for \<open>doc0\<close>, and nothing otherwise.
\<close>

theorem stats_snapshot_exact:
  "stats_snapshot (engine_copy_stats_json doc0) (engine_copy_stats_json doc1) from_json =
     (if length doc1 \<le> length doc0 then map_option (\<lambda>d. (d, doc1)) (from_json doc1) else None)"
proof (cases "length doc1 \<le> length doc0")
  case True
  let ?n = "Suc (length doc0)"
  have "take ?n ((doc1 @ [CHR 0x00]) @ replicate ?n (CHR 0x00))
      = doc1 @ CHR 0x00 # replicate (length doc0 - length doc1) (CHR 0x00)"
    using True by (simp add: min_def Suc_diff_le flip: replicate_Suc)
  then show ?thesis
    using True by (simp add: stats_snapshot_def engine_copy_stats_json_def parse_stats_json_exact min_def)
next
  case False
  then show ?thesis
    by (simp add: stats_snapshot_def engine_copy_stats_json_def)
qed

end
