(* ===== verification/Media_Queue.thy ===== *)
theory Media_Queue
  imports Prelude "HOL-Library.Sublist"
begin

text \<open>
  The bounded, keyframe-aware media queue of \<^verbatim>\<open>plugin/srtla-output.cpp\<close>: the fields of
  \<^verbatim>\<open>SrtlaOutput\<close> it uses, \<^verbatim>\<open>enqueue_datagram\<close>, the sender thread of \<^verbatim>\<open>start_worker\<close>, and the
  parts of \<^verbatim>\<open>on_session_status\<close>, \<^verbatim>\<open>stop_worker\<close>, \<^verbatim>\<open>srtla_output_start\<close> and
  \<^verbatim>\<open>srtla_output_stop\<close> that change it. A section under \<^verbatim>\<open>queue_mutex\<close> is one operation; the
  threads interleave as the steps of \<open>pipeline_step\<close>.
\<close>

section \<open>State\<close>

record queued_ts_datagram =
  dg_bytes :: "byte list"
  dg_keyframe :: bool
  dg_pts90k :: int

record media_queue =
  running :: bool
  total_bytes :: "64 word"
  dropped_frames :: int
  queue :: "queued_ts_datagram list"
  queue_bytes :: "64 word"
  drop_until_keyframe :: bool
  worker_stop :: bool
  needs_muxer_reset :: bool

definition max_queue_bytes :: "64 word" where
  "max_queue_bytes = 8 * 1024 * 1024"

definition max_queue_duration :: int where
  "max_queue_duration = 2 * 90000"

section \<open>Operations\<close>

definition clear_queue :: "'a media_queue_scheme \<Rightarrow> 'a media_queue_scheme" where
  "clear_queue q = q\<lparr>queue := [], queue_bytes := 0\<rparr>"

text \<open>\<^verbatim>\<open>dropped_frames\<close> is an \<^verbatim>\<open>atomic<int>\<close>, whose \<^verbatim>\<open>fetch_add\<close> wraps.\<close>

definition count_drop :: "'a media_queue_scheme \<Rightarrow> 'a media_queue_scheme" where
  "count_drop q = q\<lparr>dropped_frames := cast_int (dropped_frames q + 1)\<rparr>"

definition resume_at_keyframe :: "bool \<Rightarrow> 'a media_queue_scheme \<Rightarrow> 'a media_queue_scheme" where
  "resume_at_keyframe keyframe q =
     (if keyframe \<and> drop_until_keyframe q then (clear_queue q)\<lparr>drop_until_keyframe := False\<rparr> else q)"

definition queue_overflows :: "byte list \<Rightarrow> int \<Rightarrow> 'a media_queue_scheme \<Rightarrow> bool" where
  "queue_overflows bytes pts90k q =
     (let duration = (case queue q of [] \<Rightarrow> 0 | front # _ \<Rightarrow> pts90k - dg_pts90k front)
      in max_queue_bytes < queue_bytes q + of_nat (length bytes) \<or> max_queue_duration < duration)"

text \<open>The part of \<^verbatim>\<open>enqueue_datagram\<close> under the lock, and the whole function.\<close>

definition enqueue_locked ::
    "byte list \<Rightarrow> bool \<Rightarrow> int \<Rightarrow> 'a media_queue_scheme \<Rightarrow> 'a media_queue_scheme" where
  "enqueue_locked bytes keyframe pts90k q =
     (if drop_until_keyframe q \<and> \<not> keyframe then count_drop q
      else
        let q1 = resume_at_keyframe keyframe q in
        if queue_overflows bytes pts90k q1 then
          count_drop (q1\<lparr>drop_until_keyframe := True, needs_muxer_reset := True\<rparr>)
        else
          q1\<lparr>total_bytes := total_bytes q1 + of_nat (length bytes),
             queue_bytes := queue_bytes q1 + of_nat (length bytes),
             queue := queue q1 @ [\<lparr>dg_bytes = bytes, dg_keyframe = keyframe, dg_pts90k = pts90k\<rparr>]\<rparr>)"

definition enqueue_datagram ::
    "byte list \<Rightarrow> bool \<Rightarrow> int \<Rightarrow> 'a media_queue_scheme \<Rightarrow> 'a media_queue_scheme" where
  "enqueue_datagram bytes keyframe pts90k q =
     (if \<not> running q \<or> bytes = [] then q else enqueue_locked bytes keyframe pts90k q)"

text \<open>The sender thread: taking the front item, and the two parts after a failed send.\<close>

definition worker_take ::
    "'a media_queue_scheme \<Rightarrow> (queued_ts_datagram \<times> 'a media_queue_scheme) option" where
  "worker_take q =
     (case queue q of
        [] \<Rightarrow> None
      | item # rest \<Rightarrow>
          Some (item, q\<lparr>queue := rest, queue_bytes := queue_bytes q - of_nat (length (dg_bytes item))\<rparr>))"

definition worker_send_failed :: "'a media_queue_scheme \<Rightarrow> 'a media_queue_scheme option" where
  "worker_send_failed q =
     (if worker_stop q then None
      else Some ((count_drop (clear_queue q))\<lparr>drop_until_keyframe := True\<rparr>))"

definition mark_muxer_reset :: "'a media_queue_scheme \<Rightarrow> 'a media_queue_scheme" where
  "mark_muxer_reset q = q\<lparr>needs_muxer_reset := True\<rparr>"

text \<open>\<^verbatim>\<open>on_session_status\<close> with the status Reconnecting, under the lock.\<close>

definition session_reconnecting :: "'a media_queue_scheme \<Rightarrow> 'a media_queue_scheme" where
  "session_reconnecting q = (clear_queue q)\<lparr>drop_until_keyframe := True\<rparr>"

text \<open>\<^verbatim>\<open>stop_worker\<close> under the lock.\<close>

definition stop_worker_locked :: "'a media_queue_scheme \<Rightarrow> 'a media_queue_scheme" where
  "stop_worker_locked q = (clear_queue q)\<lparr>worker_stop := True\<rparr>"

text \<open>The block of \<^verbatim>\<open>srtla_output_start\<close>: it clears the deque but does not touch \<^verbatim>\<open>queue_bytes\<close>.\<close>

definition start_queue :: "'a media_queue_scheme \<Rightarrow> 'a media_queue_scheme" where
  "start_queue q =
     q\<lparr>queue := [], drop_until_keyframe := False, needs_muxer_reset := False, worker_stop := False\<rparr>"

lemmas queue_op_simps [model_simps] =
  clear_queue_def count_drop_def resume_at_keyframe_def enqueue_locked_def enqueue_datagram_def
  worker_take_def worker_send_failed_def mark_muxer_reset_def session_reconnecting_def
  stop_worker_locked_def start_queue_def

section \<open>Accounting\<close>

definition payload :: "queued_ts_datagram list \<Rightarrow> nat" where
  "payload ds = sum_list (map (\<lambda>d. length (dg_bytes d)) ds)"

lemma payload_simps [simp]:
  "payload [] = 0" "payload (d # ds) = length (dg_bytes d) + payload ds"
  "payload (ds @ es) = payload ds + payload es"
  by (simp_all add: payload_def)

text \<open>
  The counter is the number of payload bytes in the deque, it is within the limit, and no
  empty datagram is queued. A vector cannot be longer than \<^verbatim>\<open>PTRDIFF_MAX\<close>.
\<close>

definition queue_inv :: "'a media_queue_scheme \<Rightarrow> bool" where
  "queue_inv q \<longleftrightarrow>
     queue_bytes q = of_nat (payload (queue q)) \<and> payload (queue q) \<le> 8388608
     \<and> list_all (\<lambda>d. dg_bytes d \<noteq> []) (queue q)"

definition vector_size_ok :: "byte list \<Rightarrow> bool" where
  "vector_size_ok bytes \<longleftrightarrow> length bytes < 2 ^ 63"

lemma max_queue_bytes_unat: "unat max_queue_bytes = 8388608"
  by (simp add: max_queue_bytes_def)

lemma byte_sum_exceeds:
  assumes "m \<le> 8388608" and "n < 2 ^ 63"
  shows "max_queue_bytes < of_nat m + of_nat n \<longleftrightarrow> 8388608 < m + n"
proof -
  have "m + n < 2 ^ LENGTH(64)"
    using assms by simp
  then have "unat (of_nat (m + n) :: 64 word) = m + n"
    by (simp add: unat_of_nat del: of_nat_add)
  then show ?thesis
    by (simp add: word_less_nat_alt max_queue_bytes_unat)
qed

lemma queue_inv_clear: "queue_inv (clear_queue q)"
  by (simp add: queue_inv_def clear_queue_def)

lemma queue_inv_cong:
  "queue q = queue r \<Longrightarrow> queue_bytes q = queue_bytes r \<Longrightarrow> queue_inv q = queue_inv r"
  by (simp add: queue_inv_def)

lemma queue_inv_update [simp]:
  "queue_inv (q\<lparr>drop_until_keyframe := a\<rparr>) = queue_inv q"
  "queue_inv (q\<lparr>needs_muxer_reset := a\<rparr>) = queue_inv q"
  "queue_inv (q\<lparr>dropped_frames := n\<rparr>) = queue_inv q"
  "queue_inv (q\<lparr>running := a\<rparr>) = queue_inv q"
  "queue_inv (q\<lparr>worker_stop := a\<rparr>) = queue_inv q"
  "queue_inv (q\<lparr>total_bytes := w\<rparr>) = queue_inv q"
  by (simp_all add: queue_inv_def)

lemma queue_inv_resume: "queue_inv q \<Longrightarrow> queue_inv (resume_at_keyframe k q)"
  by (simp add: resume_at_keyframe_def queue_inv_clear)

lemma queue_overflows_iff:
  assumes "queue_inv q" and "vector_size_ok bytes"
  shows "queue_overflows bytes pts q \<longleftrightarrow>
    8388608 < payload (queue q) + length bytes
    \<or> (queue q \<noteq> [] \<and> max_queue_duration < pts - dg_pts90k (hd (queue q)))"
  using assms byte_sum_exceeds [of "payload (queue q)" "length bytes"]
  by (auto simp: queue_overflows_def queue_inv_def vector_size_ok_def Let_def max_queue_duration_def
      split: list.splits)

lemma queue_inv_enqueue:
  assumes "queue_inv q" and "bytes \<noteq> []" and "vector_size_ok bytes"
  shows "queue_inv (enqueue_locked bytes k pts q)"
proof (cases "drop_until_keyframe q \<and> \<not> k")
  case True
  with assms(1) show ?thesis by (simp add: enqueue_locked_def count_drop_def)
next
  case False
  let ?r = "resume_at_keyframe k q"
  have r: "queue_inv ?r"
    using assms(1) by (rule queue_inv_resume)
  show ?thesis
  proof (cases "queue_overflows bytes pts ?r")
    case True
    with False r show ?thesis by (auto simp: enqueue_locked_def count_drop_def Let_def)
  next
    case ok: False
    then have "payload (queue ?r) + length bytes \<le> 8388608"
      using queue_overflows_iff [OF r assms(3)] by auto
    with False ok r assms(2) show ?thesis
      by (auto simp: enqueue_locked_def Let_def queue_inv_def)
  qed
qed

lemma queue_inv_take:
  "queue_inv q \<Longrightarrow> worker_take q = Some (item, q') \<Longrightarrow> queue_inv q'"
  by (auto simp: worker_take_def queue_inv_def split: list.splits)

section \<open>An abstract bounded queue\<close>

text \<open>
  What the component promises, without the cached counter and its 64-bit arithmetic: a list of
  datagrams, whether the queue waits for a keyframe, and how often something was dropped.
\<close>

record bounded_queue =
  bq_items :: "queued_ts_datagram list"
  bq_gated :: bool

definition bq_fits :: "byte list \<Rightarrow> int \<Rightarrow> queued_ts_datagram list \<Rightarrow> bool" where
  "bq_fits bytes pts items \<longleftrightarrow>
     payload items + length bytes \<le> 8 * 1024 * 1024
     \<and> (items = [] \<or> pts - dg_pts90k (hd items) \<le> 2 * 90000)"

definition bq_push :: "byte list \<Rightarrow> bool \<Rightarrow> int \<Rightarrow> bounded_queue \<Rightarrow> bounded_queue" where
  "bq_push bytes k pts b =
     (if bq_gated b \<and> \<not> k then b
      else
        let items = (if bq_gated b then [] else bq_items b) in
        if bq_fits bytes pts items then
          \<lparr>bq_items = items @ [\<lparr>dg_bytes = bytes, dg_keyframe = k, dg_pts90k = pts\<rparr>], bq_gated = False\<rparr>
        else \<lparr>bq_items = items, bq_gated = True\<rparr>)"

definition abs_queue :: "'a media_queue_scheme \<Rightarrow> bounded_queue" where
  "abs_queue q = \<lparr>bq_items = queue q, bq_gated = drop_until_keyframe q\<rparr>"

lemma bq_fits_iff:
  assumes "queue_inv q" and "vector_size_ok bytes"
  shows "bq_fits bytes pts (queue q) \<longleftrightarrow> \<not> queue_overflows bytes pts q"
  unfolding queue_overflows_iff [OF assms] bq_fits_def max_queue_duration_def
  by (simp add: not_less disj_not1)

lemma abs_queue_enqueue_locked:
  assumes "queue_inv q" and "vector_size_ok bytes"
  shows "abs_queue (enqueue_locked bytes k pts q) = bq_push bytes k pts (abs_queue q)"
proof -
  have "bq_fits bytes pts (queue (resume_at_keyframe k q))
      \<longleftrightarrow> \<not> queue_overflows bytes pts (resume_at_keyframe k q)"
    using assms by (intro bq_fits_iff queue_inv_resume)
  then show ?thesis
    by (cases "drop_until_keyframe q"; cases k)
      (simp_all add: abs_queue_def bq_push_def enqueue_locked_def resume_at_keyframe_def
        clear_queue_def count_drop_def Let_def)
qed

section \<open>The threads\<close>

text \<open>
  \<open>producer\<close> is the encoder callback between its check of \<^verbatim>\<open>running\<close> and the lock, \<open>worker\<close> the
  program counter of the sender thread, \<open>reconnect_mark\<close> the connector thread between its
  section under the lock and its store to \<^verbatim>\<open>needs_muxer_reset\<close>. Two fields only record
  what happened: every datagram that was queued, and every datagram the session accepted.
\<close>

datatype worker_pc = WAbsent | WWaiting | WSending queued_ts_datagram | WMarkReset | WExited

record pipeline = media_queue +
  producer :: "(byte list \<times> bool \<times> int) option"
  worker :: worker_pc
  reconnect_mark :: bool
  accepted :: "queued_ts_datagram list"
  sent :: "queued_ts_datagram list"

definition enqueue_accepts :: "byte list \<Rightarrow> bool \<Rightarrow> int \<Rightarrow> 'a media_queue_scheme \<Rightarrow> bool" where
  "enqueue_accepts bytes k pts q \<longleftrightarrow>
     \<not> (drop_until_keyframe q \<and> \<not> k) \<and> \<not> queue_overflows bytes pts (resume_at_keyframe k q)"

inductive pipeline_step :: "pipeline \<Rightarrow> pipeline \<Rightarrow> bool" where
  produce_enter:
    "running p \<Longrightarrow> producer p = None \<Longrightarrow> bytes \<noteq> [] \<Longrightarrow> vector_size_ok bytes \<Longrightarrow>
     pipeline_step p (p\<lparr>producer := Some (bytes, k, pts)\<rparr>)"
| produce_accept:
    "producer p = Some (bytes, k, pts) \<Longrightarrow> enqueue_accepts bytes k pts p \<Longrightarrow>
     pipeline_step p ((enqueue_locked bytes k pts p)
       \<lparr>producer := None,
        accepted := accepted p @ [\<lparr>dg_bytes = bytes, dg_keyframe = k, dg_pts90k = pts\<rparr>]\<rparr>)"
| produce_drop:
    "producer p = Some (bytes, k, pts) \<Longrightarrow> \<not> enqueue_accepts bytes k pts p \<Longrightarrow>
     pipeline_step p ((enqueue_locked bytes k pts p)\<lparr>producer := None\<rparr>)"
| take_item:
    "worker p = WWaiting \<Longrightarrow> worker_take p = Some (item, p') \<Longrightarrow>
     pipeline_step p (p'\<lparr>worker := WSending item\<rparr>)"
| worker_exit:
    "worker p = WWaiting \<Longrightarrow> worker_take p = None \<Longrightarrow> worker_stop p \<Longrightarrow>
     pipeline_step p (p\<lparr>worker := WExited\<rparr>)"
| send_ok:
    "worker p = WSending item \<Longrightarrow>
     pipeline_step p (p\<lparr>worker := WWaiting, sent := sent p @ [item]\<rparr>)"
| send_fail:
    "worker p = WSending item \<Longrightarrow> worker_send_failed p = Some p' \<Longrightarrow>
     pipeline_step p (p'\<lparr>worker := WMarkReset\<rparr>)"
| send_fail_stop:
    "worker p = WSending item \<Longrightarrow> worker_send_failed p = None \<Longrightarrow>
     pipeline_step p (p\<lparr>worker := WExited\<rparr>)"
| send_fail_mark:
    "worker p = WMarkReset \<Longrightarrow> pipeline_step p ((mark_muxer_reset p)\<lparr>worker := WWaiting\<rparr>)"
| reconnect:
    "\<not> reconnect_mark p \<Longrightarrow> pipeline_step p ((session_reconnecting p)\<lparr>reconnect_mark := True\<rparr>)"
| reconnect_done:
    "reconnect_mark p \<Longrightarrow> pipeline_step p ((mark_muxer_reset p)\<lparr>reconnect_mark := False\<rparr>)"
| muxer_reset:
    "needs_muxer_reset p \<Longrightarrow> pipeline_step p (p\<lparr>needs_muxer_reset := False\<rparr>)"
| stop_begin: "pipeline_step p (p\<lparr>running := False\<rparr>)"
| stop_worker:
    "\<not> running p \<Longrightarrow> producer p = None \<Longrightarrow> pipeline_step p (stop_worker_locked p)"
| start:
    "\<not> running p \<Longrightarrow> producer p = None \<Longrightarrow> worker p \<in> {WAbsent, WExited} \<Longrightarrow>
     pipeline_step p ((start_queue p)\<lparr>running := True, worker := WWaiting\<rparr>)"

text \<open>
  The guard of \<open>stop_worker\<close> and \<open>start\<close> that no encoder callback is in flight is what OBS
  guarantees once \<^verbatim>\<open>obs_output_end_data_capture\<close> has been waited for (the \<^verbatim>\<open>wait_end\<close> callback of
  the capture lifecycle).
\<close>

definition pipeline_init :: "pipeline \<Rightarrow> bool" where
  "pipeline_init p \<longleftrightarrow>
     \<not> running p \<and> queue p = [] \<and> queue_bytes p = 0 \<and> \<not> drop_until_keyframe p \<and> \<not> worker_stop p
     \<and> producer p = None \<and> worker p = WAbsent \<and> \<not> reconnect_mark p \<and> accepted p = [] \<and> sent p = []"

definition in_flight :: "pipeline \<Rightarrow> queued_ts_datagram list" where
  "in_flight p = (case worker p of WSending item \<Rightarrow> [item] | _ \<Rightarrow> [])"

lemma in_flight_simps [simp]:
  "in_flight (p\<lparr>worker := w\<rparr>) = (case w of WSending item \<Rightarrow> [item] | _ \<Rightarrow> [])"
  "worker p = w \<Longrightarrow> in_flight p = (case w of WSending item \<Rightarrow> [item] | _ \<Rightarrow> [])"
  by (simp_all add: in_flight_def)

definition pipeline_inv :: "pipeline \<Rightarrow> bool" where
  "pipeline_inv p \<longleftrightarrow>
     queue_inv p
     \<and> subseq (sent p @ in_flight p @ queue p) (accepted p)
     \<and> (\<forall>bytes k pts. producer p = Some (bytes, k, pts) \<longrightarrow> bytes \<noteq> [] \<and> vector_size_ok bytes)
     \<and> (worker_stop p \<longrightarrow> \<not> running p \<and> producer p = None \<and> queue p = [])
     \<and> (worker p = WExited \<longrightarrow> worker_stop p)
     \<and> (worker p = WAbsent \<longrightarrow> \<not> running p \<and> producer p = None \<and> queue p = [])"

lemma enqueue_locked_frame [simp]:
  "running (enqueue_locked b k t p) = running p"
  "worker_stop (enqueue_locked b k t p) = worker_stop p"
  "producer (enqueue_locked b k t (p::pipeline)) = producer p"
  "worker (enqueue_locked b k t p) = worker p"
  "reconnect_mark (enqueue_locked b k t p) = reconnect_mark p"
  "accepted (enqueue_locked b k t p) = accepted p"
  "sent (enqueue_locked b k t p) = sent p"
  by (simp_all add: enqueue_locked_def resume_at_keyframe_def clear_queue_def count_drop_def Let_def)

lemma queue_enqueue_locked:
  "queue (enqueue_locked b k t q) =
     (if drop_until_keyframe q \<and> \<not> k then queue q
      else if enqueue_accepts b k t q then
        queue (resume_at_keyframe k q) @ [\<lparr>dg_bytes = b, dg_keyframe = k, dg_pts90k = t\<rparr>]
      else queue (resume_at_keyframe k q))"
  by (simp add: enqueue_locked_def enqueue_accepts_def count_drop_def Let_def)

lemma subseq_queue_resume: "subseq (queue (resume_at_keyframe k q)) (queue q)"
  by (simp add: resume_at_keyframe_def clear_queue_def)

lemma subseq_append_right: "subseq (xs @ ys) zs \<Longrightarrow> subseq ys' ys \<Longrightarrow> subseq (xs @ ys') zs"
  by (meson subseq_order.order_trans subseq_order.order_refl list_emb_append_mono)

lemma subseq_drop_tail: "subseq (xs @ ys) zs \<Longrightarrow> subseq xs zs"
  using subseq_append_right [of xs ys zs "[]"] by simp

lemma subseq_drop_queue: "subseq (xs @ ys @ us) zs \<Longrightarrow> subseq (xs @ ys) zs"
  using subseq_drop_tail [of "xs @ ys" us zs] by simp

lemma pipeline_inv_produce:
  assumes "pipeline_inv p" and "producer p = Some (bytes, k, pts)"
  shows "queue_inv (enqueue_locked bytes k pts p)"
    and "\<not> worker_stop p" and "worker p \<noteq> WAbsent" and "worker p \<noteq> WExited"
    and "subseq (sent p @ in_flight p @ queue (resume_at_keyframe k p)) (accepted p)"
proof -
  from assms have ok: "bytes \<noteq> []" "vector_size_ok bytes" "queue_inv p"
    "subseq (sent p @ in_flight p @ queue p) (accepted p)"
    unfolding pipeline_inv_def by blast+
  then show "queue_inv (enqueue_locked bytes k pts p)"
    by (intro queue_inv_enqueue)
  show "\<not> worker_stop p" "worker p \<noteq> WAbsent" "worker p \<noteq> WExited"
    using assms by (auto simp: pipeline_inv_def)
  show "subseq (sent p @ in_flight p @ queue (resume_at_keyframe k p)) (accepted p)"
    using subseq_append_right [of "sent p @ in_flight p" "queue p"] ok(4) subseq_queue_resume
    by (metis append.assoc)
qed

lemma pipeline_inv_init: "pipeline_init p \<Longrightarrow> pipeline_inv p"
  by (auto simp: pipeline_init_def pipeline_inv_def queue_inv_def)

lemma pipeline_step_inv: "pipeline_step p p' \<Longrightarrow> pipeline_inv p \<Longrightarrow> pipeline_inv p'"
proof (induction rule: pipeline_step.induct)
  case (produce_accept p bytes k pts)
  note P = pipeline_inv_produce [OF produce_accept.prems produce_accept.hyps(1)]
  have "queue (enqueue_locked bytes k pts p)
      = queue (resume_at_keyframe k p) @ [\<lparr>dg_bytes = bytes, dg_keyframe = k, dg_pts90k = pts\<rparr>]"
    using produce_accept.hyps(2) by (auto simp: queue_enqueue_locked enqueue_accepts_def)
  moreover have "subseq ((sent p @ in_flight p @ queue (resume_at_keyframe k p))
      @ [\<lparr>dg_bytes = bytes, dg_keyframe = k, dg_pts90k = pts\<rparr>])
      (accepted p @ [\<lparr>dg_bytes = bytes, dg_keyframe = k, dg_pts90k = pts\<rparr>])"
    using P(5) by (intro list_emb_append_mono) auto
  ultimately show ?case
    using P(1-4) by (auto simp: pipeline_inv_def in_flight_def queue_inv_def)
next
  case (produce_drop p bytes k pts)
  note P = pipeline_inv_produce [OF produce_drop.prems produce_drop.hyps(1)]
  have "subseq (sent p @ in_flight p @ queue (enqueue_locked bytes k pts p)) (accepted p)"
    using P(5) produce_drop by (simp add: queue_enqueue_locked pipeline_inv_def)
  then show ?case
    using P(1-4) by (auto simp: pipeline_inv_def in_flight_def queue_inv_def)
next
  case (take_item p item p')
  then have p': "p' = p\<lparr>queue := tl (queue p), queue_bytes := queue_bytes p - of_nat (length (dg_bytes item))\<rparr>"
    "queue p = item # tl (queue p)"
    by (auto simp: worker_take_def split: list.splits)
  moreover have "queue_inv p'"
    using take_item by (auto simp: pipeline_inv_def intro: queue_inv_take)
  ultimately show ?case
    using take_item by (auto simp: pipeline_inv_def queue_inv_def)
qed (auto simp: pipeline_inv_def queue_inv_def model_simps worker_take_def in_flight_def
      split: if_splits list.splits dest: subseq_drop_tail subseq_drop_queue)

interpretation media_pipeline: invariant_system pipeline_init pipeline_step pipeline_inv
  by unfold_locales (auto intro: pipeline_inv_init pipeline_step_inv)

section \<open>Properties\<close>

text \<open>A run of the pipeline to a state with one queued datagram, for the witnesses.\<close>

definition idle_pipeline :: pipeline where
  "idle_pipeline =
     \<lparr>running = False, total_bytes = 0, dropped_frames = 0, queue = [], queue_bytes = 0,
      drop_until_keyframe = False, worker_stop = False, needs_muxer_reset = False,
      producer = None, worker = WAbsent, reconnect_mark = False, accepted = [], sent = []\<rparr>"

definition one_datagram_pipeline :: pipeline where
  "one_datagram_pipeline =
     \<lparr>running = True, total_bytes = 2, dropped_frames = 0,
      queue = [\<lparr>dg_bytes = [71, 64], dg_keyframe = True, dg_pts90k = 3000\<rparr>], queue_bytes = 2,
      drop_until_keyframe = False, worker_stop = False, needs_muxer_reset = False,
      producer = None, worker = WWaiting, reconnect_mark = False,
      accepted = [\<lparr>dg_bytes = [71, 64], dg_keyframe = True, dg_pts90k = 3000\<rparr>], sent = []\<rparr>"

lemma reach_one_datagram: "reach pipeline_init pipeline_step one_datagram_pipeline"
proof -
  let ?p1 = "(start_queue idle_pipeline)\<lparr>running := True, worker := WWaiting\<rparr>"
  let ?p2 = "?p1\<lparr>producer := Some ([71, 64], True, 3000)\<rparr>"
  have "reach pipeline_init pipeline_step idle_pipeline"
    by (rule reach_init) (simp add: pipeline_init_def idle_pipeline_def)
  then have "reach pipeline_init pipeline_step ?p1"
    by (rule reach_step) (rule pipeline_step.start, simp_all add: idle_pipeline_def)
  then have "reach pipeline_init pipeline_step ?p2"
    by (rule reach_step)
      (rule pipeline_step.produce_enter, simp_all add: idle_pipeline_def start_queue_def vector_size_ok_def)
  then have "reach pipeline_init pipeline_step ((enqueue_locked [71, 64] True 3000 ?p2)
      \<lparr>producer := None, accepted := accepted ?p2 @ [\<lparr>dg_bytes = [71, 64], dg_keyframe = True, dg_pts90k = 3000\<rparr>]\<rparr>)"
    by (rule reach_step)
      (rule pipeline_step.produce_accept, simp_all add: idle_pipeline_def start_queue_def
        enqueue_accepts_def resume_at_keyframe_def queue_overflows_def max_queue_bytes_def
        max_queue_duration_def)
  moreover have "(enqueue_locked [71, 64] True 3000 ?p2)
      \<lparr>producer := None, accepted := accepted ?p2 @ [\<lparr>dg_bytes = [71, 64], dg_keyframe = True, dg_pts90k = 3000\<rparr>]\<rparr>
      = one_datagram_pipeline"
    by (simp add: idle_pipeline_def one_datagram_pipeline_def start_queue_def enqueue_locked_def
        resume_at_keyframe_def queue_overflows_def max_queue_bytes_def max_queue_duration_def)
  ultimately show ?thesis by simp
qed

text \<open>
  C2. In every interleaving of the encoder callback, the sender thread, the connector thread and
  start and stop, the byte counter is exactly the number of payload bytes in the deque: it
  never underflows or wraps, and the queue holds at most 8 MiB. This also covers
  \<^verbatim>\<open>srtla_output_start\<close>, which clears the deque without clearing the counter.
\<close>

theorem pipeline_accounting:
  assumes "reach pipeline_init pipeline_step p"
  shows "unat (queue_bytes p) = payload (queue p) \<and> payload (queue p) \<le> 8 * 1024 * 1024"
proof -
  have "queue_bytes p = of_nat (payload (queue p))" "payload (queue p) \<le> 8388608"
    using media_pipeline.reach_inv [OF assms] by (simp_all add: pipeline_inv_def queue_inv_def)
  then show ?thesis by (simp add: unat_of_nat)
qed

theorem pipeline_accounting_witness:
  "unat (queue_bytes one_datagram_pipeline) = payload (queue one_datagram_pipeline)
   \<and> payload (queue one_datagram_pipeline) \<le> 8 * 1024 * 1024"
  by (rule pipeline_accounting [OF reach_one_datagram])

text \<open>
  C3. Nothing is duplicated or reordered: in every reachable state the datagrams the session has
  accepted, the one being sent and those still queued form, in this order, a subsequence of the
  datagrams that were queued.
\<close>

theorem pipeline_fifo:
  assumes "reach pipeline_init pipeline_step p"
  shows "subseq (sent p @ in_flight p @ queue p) (accepted p)"
  using media_pipeline.reach_inv [OF assms] by (simp add: pipeline_inv_def)

theorem pipeline_fifo_witness:
  "subseq (sent one_datagram_pipeline @ in_flight one_datagram_pipeline @ queue one_datagram_pipeline)
     (accepted one_datagram_pipeline)"
  by (rule pipeline_fifo [OF reach_one_datagram])

text \<open>
  C31. \<^verbatim>\<open>enqueue_datagram\<close> implements the abstract bounded queue: with the invariant, its test on
  the cached 64-bit counter and the front's time stamp decides exactly whether the datagram fits
  8 MiB and two seconds, and the deque and the gate change as the abstract push says.
\<close>

theorem enqueue_datagram_refines:
  assumes "queue_inv q" and "vector_size_ok bytes"
  shows "abs_queue (enqueue_datagram bytes k pts q) =
    (if running q \<and> bytes \<noteq> [] then bq_push bytes k pts (abs_queue q) else abs_queue q)"
  using abs_queue_enqueue_locked [OF assms] by (simp add: enqueue_datagram_def)

theorem enqueue_datagram_refines_witness:
  "abs_queue (enqueue_datagram [71] False 3100 one_datagram_pipeline) =
     bq_push [71] False 3100 (abs_queue one_datagram_pipeline)"
proof -
  have "queue_inv one_datagram_pipeline" "vector_size_ok [71]"
    by (simp_all add: queue_inv_def vector_size_ok_def one_datagram_pipeline_def)
  from enqueue_datagram_refines [OF this, of False 3100] show ?thesis
    by (simp add: one_datagram_pipeline_def)
qed

subsection \<open>The two-second bound\<close>

definition queue_timely :: "'a media_queue_scheme \<Rightarrow> bool" where
  "queue_timely q \<longleftrightarrow>
     sorted (map dg_pts90k (queue q))
     \<and> list_all (\<lambda>d. dg_pts90k d - dg_pts90k (hd (queue q)) \<le> max_queue_duration) (queue q)"

lemma queue_timely_resume: "queue_timely q \<Longrightarrow> queue_timely (resume_at_keyframe k q)"
  by (simp add: queue_timely_def resume_at_keyframe_def clear_queue_def)

lemma queue_timely_enqueue_locked:
  assumes "queue_timely q" and "list_all (\<lambda>d. dg_pts90k d \<le> pts) (queue q)"
  shows "queue_timely (enqueue_locked bytes k pts q)"
proof (cases "enqueue_accepts bytes k pts q")
  case False
  then show ?thesis
    using assms(1) queue_timely_resume [OF assms(1), of k]
    by (auto simp: queue_timely_def queue_enqueue_locked)
next
  case True
  let ?r = "queue (resume_at_keyframe k q)"
  have "list_all (\<lambda>d. dg_pts90k d \<le> pts) ?r"
    using assms(2) by (simp add: resume_at_keyframe_def clear_queue_def)
  moreover have "?r \<noteq> [] \<Longrightarrow> pts - dg_pts90k (hd ?r) \<le> max_queue_duration"
    using True by (auto simp: enqueue_accepts_def queue_overflows_def Let_def split: list.splits)
  ultimately show ?thesis
    using True queue_timely_resume [OF assms(1), of k]
    by (cases ?r) (auto simp: queue_timely_def queue_enqueue_locked enqueue_accepts_def list_all_iff
        sorted_append max_queue_duration_def)
qed

lemma queue_timely_take:
  assumes "queue_timely q" and "worker_take q = Some (item, q')"
  shows "queue_timely q'"
proof -
  obtain rest where q: "queue q = item # rest" "queue q' = rest"
    using assms(2) by (auto simp: worker_take_def split: list.splits)
  show ?thesis
  proof (cases rest)
    case (Cons front more)
    have "dg_pts90k item \<le> dg_pts90k front" and "sorted (map dg_pts90k rest)"
      and late: "d \<in> set rest \<Longrightarrow> dg_pts90k d - dg_pts90k item \<le> max_queue_duration" for d
      using assms(1) q Cons by (auto simp: queue_timely_def list_all_iff)
    moreover have "dg_pts90k d - dg_pts90k front \<le> max_queue_duration" if "d \<in> set rest" for d
      using late [OF that] \<open>dg_pts90k item \<le> dg_pts90k front\<close> by linarith
    ultimately show ?thesis
      using q Cons by (simp add: queue_timely_def list_all_iff)
  qed (simp add: queue_timely_def q)
qed

text \<open>
  C32. While time stamps do not go backwards, the queue never spans more than two seconds:
  neither queueing a datagram nor taking the front one off can break the bound.
\<close>

theorem queue_two_second_bound:
  assumes "queue_timely q" and "list_all (\<lambda>d. dg_pts90k d \<le> pts) (queue q)"
  shows "queue_timely (enqueue_datagram bytes k pts q)
    \<and> (case worker_take q of None \<Rightarrow> True | Some (item, q') \<Rightarrow> queue_timely q')"
  using assms queue_timely_enqueue_locked queue_timely_take
  by (fastforce simp: enqueue_datagram_def split: option.splits)

theorem queue_two_second_bound_witness:
  "queue_timely (enqueue_datagram [71] False 3100 one_datagram_pipeline)
   \<and> (case worker_take one_datagram_pipeline of None \<Rightarrow> True | Some (item, q') \<Rightarrow> queue_timely q')"
  by (rule queue_two_second_bound)
    (simp_all add: queue_timely_def one_datagram_pipeline_def max_queue_duration_def)

subsection \<open>The keyframe gate\<close>

definition enqueue_all ::
    "(byte list \<times> bool \<times> int) list \<Rightarrow> 'a media_queue_scheme \<Rightarrow> 'a media_queue_scheme" where
  "enqueue_all ds q = fold (\<lambda>(bytes, k, pts). enqueue_datagram bytes k pts) ds q"

lemma enqueue_all_simps [simp]:
  "enqueue_all [] q = q"
  "enqueue_all ((b, k, t) # ds) q = enqueue_all ds (enqueue_datagram b k t q)"
  "enqueue_all (ds @ es) q = enqueue_all es (enqueue_all ds q)"
  by (simp_all add: enqueue_all_def)

lemma enqueue_all_gated:
  assumes "drop_until_keyframe q" and "list_all (\<lambda>(b, k, t). \<not> k) ds"
  shows "queue (enqueue_all ds q) = queue q \<and> drop_until_keyframe (enqueue_all ds q)
    \<and> running (enqueue_all ds q) = running q \<and> queue_bytes (enqueue_all ds q) = queue_bytes q"
  using assms
proof (induction ds arbitrary: q)
  case (Cons d ds)
  obtain b k t where d: "d = (b, k, t)"
    by (cases d)
  let ?q = "enqueue_datagram b k t q"
  have "queue ?q = queue q" "drop_until_keyframe ?q" "running ?q = running q"
    "queue_bytes ?q = queue_bytes q"
    using Cons.prems d by (simp_all add: enqueue_datagram_def enqueue_locked_def count_drop_def)
  with Cons.IH [of ?q] Cons.prems d show ?case by simp
qed simp

lemma enqueue_keyframe_gated:
  assumes "running q" and "drop_until_keyframe q" and "b \<noteq> []" and "length b \<le> 8388608"
  shows "queue (enqueue_datagram b True t q) = [\<lparr>dg_bytes = b, dg_keyframe = True, dg_pts90k = t\<rparr>]
    \<and> \<not> drop_until_keyframe (enqueue_datagram b True t q)"
proof -
  have "\<not> max_queue_bytes < of_nat (length b)"
    using byte_sum_exceeds [of 0 "length b"] assms(4) by simp
  with assms show ?thesis
    by (simp add: enqueue_datagram_def enqueue_locked_def resume_at_keyframe_def clear_queue_def
        queue_overflows_def max_queue_duration_def)
qed

text \<open>
  C33. Once the queue drops (after an overflow, a failed send or a reconnect), no datagram without
  the keyframe flag is queued any more, however many arrive, and the first datagram with it
  replaces everything that was queued before: the session resumes there.
\<close>

theorem queue_resumes_at_keyframe:
  assumes "running q" and "drop_until_keyframe q" and "list_all (\<lambda>(b, k, t). \<not> k) ds"
    and "b \<noteq> []" and "length b \<le> 8 * 1024 * 1024"
  shows "queue (enqueue_all ds q) = queue q
    \<and> queue (enqueue_all (ds @ [(b, True, t)]) q) = [\<lparr>dg_bytes = b, dg_keyframe = True, dg_pts90k = t\<rparr>]"
  using enqueue_all_gated [OF assms(2,3)] enqueue_keyframe_gated [of "enqueue_all ds q" b t] assms
  by simp

theorem queue_resumes_at_keyframe_witness:
  "queue (enqueue_all [([1], False, 5)] (session_reconnecting one_datagram_pipeline)) = []
   \<and> queue (enqueue_all ([([1], False, 5)] @ [([2], True, 7)]) (session_reconnecting one_datagram_pipeline))
      = [\<lparr>dg_bytes = [2], dg_keyframe = True, dg_pts90k = 7\<rparr>]"
  using queue_resumes_at_keyframe [of "session_reconnecting one_datagram_pipeline" "[([1], False, 5)]" "[2]" 7]
  by (simp add: session_reconnecting_def clear_queue_def one_datagram_pipeline_def)

text \<open>
  The gate works on datagrams, not on frames: a keyframe is muxed into many datagrams that all
  carry the flag. When its first datagram overflows the queue, the queue is gated, but the next
  datagram of the same frame opens the gate again, so what is sent next starts in the
  middle of a keyframe, without fresh tables and without the frame's first bytes.
\<close>

theorem queue_resumes_inside_keyframe:
  assumes "running q" and "\<not> drop_until_keyframe q" and "queue q = front # rest"
    and "max_queue_duration < pts - dg_pts90k front"
    and "b1 \<noteq> []" and "b2 \<noteq> []" and "length b2 \<le> 8 * 1024 * 1024"
  shows "queue (enqueue_all [(b1, True, pts), (b2, True, pts)] q)
    = [\<lparr>dg_bytes = b2, dg_keyframe = True, dg_pts90k = pts\<rparr>]"
proof -
  let ?q1 = "enqueue_datagram b1 True pts q"
  have "running ?q1" "drop_until_keyframe ?q1"
    using assms by (simp_all add: enqueue_datagram_def enqueue_locked_def resume_at_keyframe_def
        queue_overflows_def count_drop_def)
  with assms(6,7) show ?thesis
    using enqueue_keyframe_gated [of ?q1 b2 pts] by simp
qed

theorem queue_resumes_inside_keyframe_witness:
  "queue (enqueue_all [([1], True, 200000), ([2], True, 200000)] one_datagram_pipeline)
     = [\<lparr>dg_bytes = [2], dg_keyframe = True, dg_pts90k = 200000\<rparr>]"
  using queue_resumes_inside_keyframe [of one_datagram_pipeline
      "\<lparr>dg_bytes = [71, 64], dg_keyframe = True, dg_pts90k = 3000\<rparr>" "[]" 200000 "[1]" "[2]"]
  by (simp add: one_datagram_pipeline_def max_queue_duration_def)

end
