(* ===== verification/Mpegts_Sink.thy ===== *)
theory Mpegts_Sink
  imports Media_Queue
begin

text \<open>
  The MPEG-TS sink of \<^verbatim>\<open>plugin/mpegts-avformat-sink.cpp\<close>: setting up the libavformat context,
  muxing OBS packets and cutting what libavformat writes into datagrams. libavformat and OBS
  are parameters: the record \<open>ffmpeg\<close> holds the answers of one call (each operation may get
  different ones), with the chunks of bytes it passes to \<^verbatim>\<open>write_callback\<close> before it returns;
  the record \<open>obs_view\<close> holds what the output's encoders answer. An operation returns the new
  sink and the calls of the datagram callback, in order.
\<close>

section \<open>Data\<close>

type_synonym datagram_call = "byte list \<times> bool \<times> int"

record av_rational =
  rat_num :: int
  rat_den :: int

datatype av_codec_id = AV_CODEC_ID_NONE | AV_CODEC_ID_H264 | AV_CODEC_ID_HEVC | AV_CODEC_ID_AAC | AV_CODEC_ID_OPUS

datatype av_media_type = AVMEDIA_TYPE_UNKNOWN | AVMEDIA_TYPE_VIDEO | AVMEDIA_TYPE_AUDIO

datatype av_sample_format = AV_SAMPLE_FMT_NONE | AV_SAMPLE_FMT_FLT | AV_SAMPLE_FMT_FLTP

record av_stream =
  st_index :: nat
  st_id :: int
  st_time_base :: av_rational
  st_avg_frame_rate :: av_rational
  st_codec_type :: av_media_type
  st_codec_id :: av_codec_id
  st_width :: int
  st_height :: int
  st_sample_rate :: int
  st_channels :: int
  st_format :: av_sample_format
  st_bit_rate :: int
  st_extradata :: "byte list"

record av_format =
  fmt_nb_streams :: nat
  fmt_custom_io :: bool
  fmt_auto_bsf :: bool

record av_packet =
  ap_data :: "byte list"
  ap_stream_index :: nat
  ap_pts :: int
  ap_dts :: int
  ap_key :: bool

datatype encoder_type = OBS_ENCODER_VIDEO | OBS_ENCODER_AUDIO

record encoder_packet =
  pk_type :: encoder_type
  pk_data :: "byte list option"
  pk_track_idx :: nat
  pk_timebase_num :: int
  pk_timebase_den :: int
  pk_pts :: int
  pk_dts :: int
  pk_keyframe :: bool

record encoder_view =
  ev_codec :: "string option"
  ev_extra :: "byte list option option"
  ev_bitrate :: "int option"

record obs_view =
  ov_video_encoder :: "encoder_view option"
  ov_video_info :: "(int \<times> int) option"
  ov_width :: int
  ov_height :: int
  ov_audio_encoder :: "encoder_view option"
  ov_audio :: "(int \<times> int) option"

record ffmpeg =
  av_guess_format :: bool
  avformat_alloc_output_context2 :: "int \<times> bool"
  av_malloc :: bool
  avio_alloc_context :: bool
  avformat_new_stream :: "nat \<Rightarrow> av_stream option"
  av_mallocz :: "nat \<Rightarrow> bool"
  avformat_write_header :: "int \<times> byte list list \<times> (av_stream \<Rightarrow> av_stream)"
  av_packet_alloc :: bool
  av_new_packet :: int
  av_interleaved_write_frame :: "av_packet \<Rightarrow> int \<times> byte list list"
  av_strerror :: "int \<Rightarrow> string"
  av_rescale_q :: "int \<Rightarrow> av_rational \<Rightarrow> av_rational \<Rightarrow> int"
  avio_flush :: "byte list list"
  av_write_trailer :: "byte list list"

record sink =
  sk_output :: bool
  sk_callback :: bool
  sk_format :: "av_format option"
  sk_io :: bool
  sk_video_stream :: "av_stream option"
  sk_audio_stream :: "av_stream option"
  sk_pending :: "byte list"
  sk_header_written :: bool
  sk_healthy :: bool
  sk_current_keyframe :: bool
  sk_current_pts90k :: int
  sk_last_error :: string

definition TS_DATAGRAM_SIZE :: nat where
  "TS_DATAGRAM_SIZE = 1316"

definition AV_NOPTS_VALUE :: int where
  "AV_NOPTS_VALUE = - (2 ^ 63)"

section \<open>Operations\<close>

definition new_sink :: "bool \<Rightarrow> bool \<Rightarrow> sink" where
  "new_sink output callback = \<lparr>sk_output = output, sk_callback = callback, sk_format = None, sk_io = False,
     sk_video_stream = None, sk_audio_stream = None, sk_pending = [], sk_header_written = False,
     sk_healthy = True, sk_current_keyframe = False, sk_current_pts90k = 0, sk_last_error = []\<rparr>"

definition packet_timebase :: "encoder_packet \<Rightarrow> av_rational \<Rightarrow> av_rational" where
  "packet_timebase packet fallback =
     (if pk_timebase_num packet \<le> 0 \<or> pk_timebase_den packet \<le> 0 then fallback
      else \<lparr>rat_num = pk_timebase_num packet, rat_den = pk_timebase_den packet\<rparr>)"

definition codec_id_for :: "string option \<Rightarrow> bool \<Rightarrow> av_codec_id" where
  "codec_id_for codec video =
     (case codec of
        None \<Rightarrow> AV_CODEC_ID_NONE
      | Some c \<Rightarrow>
          if video then
            (if c = ''h264'' then AV_CODEC_ID_H264
             else if c = ''hevc'' \<or> c = ''h265'' then AV_CODEC_ID_HEVC
             else AV_CODEC_ID_NONE)
          else
            (if c = ''aac'' then AV_CODEC_ID_AAC
             else if c = ''opus'' then AV_CODEC_ID_OPUS
             else AV_CODEC_ID_NONE))"

definition copy_extradata :: "ffmpeg \<Rightarrow> nat \<Rightarrow> encoder_view \<Rightarrow> av_stream \<Rightarrow> av_stream option" where
  "copy_extradata ff n encoder st =
     (case ev_extra encoder of
        Some (Some extra) \<Rightarrow>
          if extra = [] then None
          else if int_max < int (length extra) then None
          else if \<not> av_mallocz ff n then None
          else Some (st\<lparr>st_extradata := extra\<rparr>)
      | _ \<Rightarrow> None)"

definition set_error :: "string option \<Rightarrow> sink \<Rightarrow> sink" where
  "set_error message s =
     s\<lparr>sk_healthy := False,
       sk_last_error := (case message of Some m \<Rightarrow> m | None \<Rightarrow> ''MPEG-TS muxer error'')\<rparr>"

text \<open>The loop of \<^verbatim>\<open>emit_datagrams\<close>: the full datagrams and what is left of \<^verbatim>\<open>pending_\<close>.\<close>

function emit_full :: "byte list \<Rightarrow> byte list list \<times> byte list" where
  "emit_full pending =
     (if TS_DATAGRAM_SIZE \<le> length pending then
        let (datagrams, rest) = emit_full (drop TS_DATAGRAM_SIZE pending)
        in (take TS_DATAGRAM_SIZE pending # datagrams, rest)
      else ([], pending))"
  by pat_completeness auto
termination
  by (relation "measure length") (auto simp: TS_DATAGRAM_SIZE_def)

declare emit_full.simps [simp del]

definition call_datagrams :: "sink \<Rightarrow> byte list list \<Rightarrow> datagram_call list" where
  "call_datagrams s datagrams =
     (if sk_callback s then map (\<lambda>d. (d, sk_current_keyframe s, sk_current_pts90k s)) datagrams else [])"

definition emit_datagrams :: "bool \<Rightarrow> sink \<Rightarrow> sink \<times> datagram_call list" where
  "emit_datagrams flush_partial s =
     (let (datagrams, rest) = emit_full (sk_pending s)
      in if flush_partial \<and> rest \<noteq> [] then
           (s\<lparr>sk_pending := []\<rparr>, call_datagrams s datagrams @ call_datagrams s [rest])
         else (s\<lparr>sk_pending := rest\<rparr>, call_datagrams s datagrams))"

text \<open>One call of \<^verbatim>\<open>write_callback\<close>, and the calls libavformat makes during one of its functions.\<close>

definition write_callback :: "byte list \<Rightarrow> sink \<Rightarrow> sink \<times> datagram_call list" where
  "write_callback buffer s =
     (if buffer = [] then (s, []) else emit_datagrams False (s\<lparr>sk_pending := sk_pending s @ buffer\<rparr>))"

fun write_chunks :: "byte list list \<Rightarrow> sink \<Rightarrow> sink \<times> datagram_call list" where
  "write_chunks [] s = (s, [])"
| "write_chunks (c # cs) s =
     (let (s1, ds1) = write_callback c s; (s2, ds2) = write_chunks cs s1 in (s2, ds1 @ ds2))"

definition destroy_context :: "bool \<Rightarrow> ffmpeg \<Rightarrow> sink \<Rightarrow> sink \<times> datagram_call list" where
  "destroy_context write_trailer ff s =
     (let (s1, ds) = (if sk_format s \<noteq> None \<and> write_trailer \<and> sk_header_written s
                      then write_chunks (av_write_trailer ff) s else (s, []))
      in (s1\<lparr>sk_format := None, sk_io := False, sk_video_stream := None, sk_audio_stream := None,
             sk_header_written := False, sk_pending := []\<rparr>, ds))"

definition reset_sink :: "ffmpeg \<Rightarrow> sink \<Rightarrow> sink \<times> datagram_call list" where
  "reset_sink ff s =
     (let (s1, ds) = destroy_context False ff s
      in (s1\<lparr>sk_healthy := True, sk_last_error := [], sk_current_keyframe := False, sk_current_pts90k := 0\<rparr>, ds))"

definition new_stream :: "ffmpeg \<Rightarrow> sink \<Rightarrow> (av_stream \<times> sink) option" where
  "new_stream ff s =
     (case sk_format s of
        None \<Rightarrow> None
      | Some f \<Rightarrow>
          map_option (\<lambda>st. (st, s\<lparr>sk_format := Some (f\<lparr>fmt_nb_streams := fmt_nb_streams f + 1\<rparr>)\<rparr>))
            (avformat_new_stream ff (fmt_nb_streams f)))"

definition with_bitrate :: "encoder_view \<Rightarrow> av_stream \<Rightarrow> av_stream" where
  "with_bitrate encoder st =
     (case ev_bitrate encoder of Some kbps \<Rightarrow> st\<lparr>st_bit_rate := kbps * 1000\<rparr> | None \<Rightarrow> st)"

definition create_audio_stream :: "ffmpeg \<Rightarrow> obs_view \<Rightarrow> sink \<Rightarrow> bool \<times> sink" where
  "create_audio_stream ff ov s =
     (case ov_audio_encoder ov of
        None \<Rightarrow> (True, s)
      | Some audio_encoder \<Rightarrow>
          let audio_codec = codec_id_for (ev_codec audio_encoder) False;
              (sample_rate, channels) =
                (case ov_audio ov of Some (r, c) \<Rightarrow> (cast_int r, cast_int c) | None \<Rightarrow> (48000, 2))
          in if audio_codec = AV_CODEC_ID_NONE then (False, s)
             else if sample_rate \<le> 0 \<or> channels \<le> 0 then (False, s)
             else (case new_stream ff s of
                 None \<Rightarrow> (False, s\<lparr>sk_audio_stream := None\<rparr>)
               | Some (st, s1) \<Rightarrow>
                   let st1 = with_bitrate audio_encoder
                         (st\<lparr>st_id := 1, st_time_base := \<lparr>rat_num = 1, rat_den = sample_rate\<rparr>,
                             st_codec_type := AVMEDIA_TYPE_AUDIO, st_codec_id := audio_codec,
                             st_sample_rate := sample_rate, st_channels := channels,
                             st_format := (if audio_codec = AV_CODEC_ID_OPUS then AV_SAMPLE_FMT_FLT
                                           else AV_SAMPLE_FMT_FLTP)\<rparr>)
                   in (case copy_extradata ff 1 audio_encoder st1 of
                         None \<Rightarrow> (False, s1\<lparr>sk_audio_stream := Some st1\<rparr>)
                       | Some st2 \<Rightarrow> (True, s1\<lparr>sk_audio_stream := Some st2\<rparr>))))"

definition create_streams :: "ffmpeg \<Rightarrow> obs_view \<Rightarrow> sink \<Rightarrow> bool \<times> sink" where
  "create_streams ff ov s =
     (case ov_video_encoder ov of
        None \<Rightarrow> (False, s)
      | Some video_encoder \<Rightarrow>
          (case ov_video_info ov of
             None \<Rightarrow> (False, s)
           | Some (fps_num, fps_den) \<Rightarrow>
               let video_codec = codec_id_for (ev_codec video_encoder) True
               in if video_codec = AV_CODEC_ID_NONE then (False, s)
                  else (case new_stream ff s of
                      None \<Rightarrow> (False, s\<lparr>sk_video_stream := None\<rparr>)
                    | Some (st, s1) \<Rightarrow>
                        let st1 = with_bitrate video_encoder
                              (st\<lparr>st_id := 0,
                                  st_time_base := \<lparr>rat_num = cast_int fps_den, rat_den = cast_int fps_num\<rparr>,
                                  st_avg_frame_rate := \<lparr>rat_num = cast_int fps_num, rat_den = cast_int fps_den\<rparr>,
                                  st_codec_type := AVMEDIA_TYPE_VIDEO, st_codec_id := video_codec,
                                  st_width := cast_int (ov_width ov),
                                  st_height := cast_int (ov_height ov)\<rparr>)
                        in (case copy_extradata ff 0 video_encoder st1 of
                              None \<Rightarrow> (False, s1\<lparr>sk_video_stream := Some st1\<rparr>)
                            | Some st2 \<Rightarrow> create_audio_stream ff ov (s1\<lparr>sk_video_stream := Some st2\<rparr>)))))"

definition write_header :: "ffmpeg \<Rightarrow> sink \<Rightarrow> bool \<times> sink \<times> datagram_call list" where
  "write_header ff s =
     (if sk_format s = None \<or> sk_video_stream s = None then (False, s, [])
      else
        let (result, chunks, update) = avformat_write_header ff;
            s1 = s\<lparr>sk_format := map_option (\<lambda>f. f\<lparr>fmt_auto_bsf := True\<rparr>) (sk_format s)\<rparr>;
            (s2, ds) = write_chunks chunks s1;
            s3 = s2\<lparr>sk_video_stream := map_option update (sk_video_stream s2),
                    sk_audio_stream := map_option update (sk_audio_stream s2)\<rparr>
        in if result < 0 then (False, set_error (Some (av_strerror ff result)) s3, ds)
           else (True, s3\<lparr>sk_header_written := True\<rparr>, ds))"

text \<open>The end of \<^verbatim>\<open>ensure_started\<close>: streams and header, or everything released again.\<close>

definition initialize_streams :: "ffmpeg \<Rightarrow> obs_view \<Rightarrow> sink \<Rightarrow> bool \<times> sink \<times> datagram_call list" where
  "initialize_streams ff ov s =
     (let (created, s1) = create_streams ff ov s;
          (written, s2, ds) = (if created then write_header ff s1 else (False, s1, []))
      in if created \<and> written then (True, s2, ds)
         else
           let s3 = (if sk_healthy s2 then set_error (Some ''Could not initialize MPEG-TS streams'') s2 else s2);
               (s4, ds') = destroy_context True ff s3
           in (False, s4, ds @ ds'))"

definition ensure_started :: "ffmpeg \<Rightarrow> obs_view \<Rightarrow> sink \<Rightarrow> bool \<times> sink \<times> datagram_call list" where
  "ensure_started ff ov s =
     (if sk_header_written s then (sk_healthy s, s, [])
      else if \<not> sk_output s then (False, set_error (Some ''OBS output is unavailable'') s, [])
      else
        let (s1, ds) = destroy_context True ff s in
        if \<not> av_guess_format ff then
          (False, set_error (Some ''FFmpeg MPEG-TS format is unavailable'') s1, ds)
        else
          let (result, allocated) = avformat_alloc_output_context2 ff;
              s2 = s1\<lparr>sk_format := (if allocated then Some \<lparr>fmt_nb_streams = 0, fmt_custom_io = False,
                                                      fmt_auto_bsf = False\<rparr> else None)\<rparr>
          in if result < 0 \<or> \<not> allocated then
               (False, set_error (Some ''Could not allocate FFmpeg MPEG-TS context'') s2, ds)
             else if \<not> av_malloc ff then
               let (s3, ds') = destroy_context True ff
                     (set_error (Some ''Could not allocate FFmpeg AVIO buffer'') s2)
               in (False, s3, ds @ ds')
             else if \<not> avio_alloc_context ff then
               let (s3, ds') = destroy_context True ff
                     (set_error (Some ''Could not allocate FFmpeg AVIO context'') s2)
               in (False, s3, ds @ ds')
             else
               let (ok, s3, ds') = initialize_streams ff ov
                     (s2\<lparr>sk_io := True,
                         sk_format := map_option (\<lambda>f. f\<lparr>fmt_custom_io := True\<rparr>) (sk_format s2)\<rparr>)
               in (ok, s3, ds @ ds'))"

definition av_packet_of :: "ffmpeg \<Rightarrow> encoder_packet \<Rightarrow> av_stream \<Rightarrow> byte list \<Rightarrow> av_packet" where
  "av_packet_of ff packet stream bytes =
     (let source_timebase = packet_timebase packet (st_time_base stream);
          rescale = (\<lambda>t. if t = AV_NOPTS_VALUE then AV_NOPTS_VALUE
                         else av_rescale_q ff t source_timebase (st_time_base stream))
      in \<lparr>ap_data = bytes, ap_stream_index = st_index stream, ap_pts = rescale (pk_pts packet),
          ap_dts = rescale (pk_dts packet), ap_key = pk_keyframe packet\<rparr>)"

definition write_packet :: "ffmpeg \<Rightarrow> encoder_packet \<Rightarrow> byte list \<Rightarrow> sink \<Rightarrow> bool \<times> sink \<times> datagram_call list" where
  "write_packet ff packet bytes s =
     (case (if pk_type packet = OBS_ENCODER_VIDEO then sk_video_stream s else sk_audio_stream s) of
        None \<Rightarrow> (False, s, [])
      | Some stream \<Rightarrow>
          if pk_type packet = OBS_ENCODER_AUDIO \<and> pk_track_idx packet \<noteq> 0 then (False, s, [])
          else if int_max < int (length bytes) then
            (False, set_error (Some ''Encoded packet is too large for FFmpeg'') s, [])
          else if \<not> av_packet_alloc ff \<or> av_new_packet ff < 0 then (False, s, [])
          else
            let av_packet = av_packet_of ff packet stream bytes;
                s1 = s\<lparr>sk_current_keyframe := pk_keyframe packet,
                       sk_current_pts90k :=
                         (if ap_pts av_packet = AV_NOPTS_VALUE then 0
                          else av_rescale_q ff (ap_pts av_packet) (st_time_base stream)
                            \<lparr>rat_num = 1, rat_den = 90000\<rparr>)\<rparr>;
                (result, chunks) = av_interleaved_write_frame ff av_packet;
                (s2, ds) = write_chunks chunks s1;
                s3 = s2\<lparr>sk_current_keyframe := False\<rparr>
            in if result < 0 then (False, set_error (Some (av_strerror ff result)) s3, ds)
               else (True, s3, ds))"

definition sink_write ::
    "ffmpeg \<Rightarrow> obs_view \<Rightarrow> encoder_packet option \<Rightarrow> sink \<Rightarrow> bool \<times> sink \<times> datagram_call list" where
  "sink_write ff ov packet s =
     (case packet of
        None \<Rightarrow> (False, s, [])
      | Some p \<Rightarrow>
          (case pk_data p of
             None \<Rightarrow> (False, s, [])
           | Some bytes \<Rightarrow>
               if bytes = [] \<or> \<not> sk_healthy s then (False, s, [])
               else
                 let (started, s1, ds) = ensure_started ff ov s
                 in if \<not> started then (False, s1, ds)
                    else
                      let (ok, s2, ds') = write_packet ff p bytes s1
                      in (ok, s2, ds @ ds')))"

definition sink_flush :: "ffmpeg \<Rightarrow> sink \<Rightarrow> sink \<times> datagram_call list" where
  "sink_flush ff s =
     (if sk_format s = None \<or> \<not> sk_io s \<or> \<not> sk_healthy s then (s, [])
      else
        let (s1, ds1) = write_chunks (avio_flush ff) s;
            (s2, ds2) = emit_datagrams True s1
        in (s2, ds1 @ ds2))"

section \<open>Cutting into datagrams\<close>

definition call_bytes :: "datagram_call list \<Rightarrow> byte list" where
  "call_bytes ds = concat (map fst ds)"

lemma call_bytes_simps [simp]:
  "call_bytes [] = []" "call_bytes (d # ds) = fst d @ call_bytes ds"
  "call_bytes (ds @ es) = call_bytes ds @ call_bytes es"
  by (simp_all add: call_bytes_def)

text \<open>A datagram of the full size with the given keyframe flag and time stamp.\<close>

definition full_call :: "bool \<Rightarrow> int \<Rightarrow> datagram_call \<Rightarrow> bool" where
  "full_call k t d \<longleftrightarrow> length (fst d) = TS_DATAGRAM_SIZE \<and> snd d = (k, t)"

lemma emit_full_correct:
  assumes "emit_full p = (ds, rest)"
  shows "concat ds @ rest = p" "length rest < TS_DATAGRAM_SIZE" "list_all (\<lambda>d. length d = TS_DATAGRAM_SIZE) ds"
proof -
  have "concat ds @ rest = p \<and> length rest < TS_DATAGRAM_SIZE
      \<and> list_all (\<lambda>d. length d = TS_DATAGRAM_SIZE) ds"
    using assms
  proof (induction p arbitrary: ds rest rule: emit_full.induct)
    case (1 p)
    show ?case
    proof (cases "TS_DATAGRAM_SIZE \<le> length p")
      case True
      obtain ds' rest' where rec: "emit_full (drop TS_DATAGRAM_SIZE p) = (ds', rest')"
        by (cases "emit_full (drop TS_DATAGRAM_SIZE p)")
      have "ds = take TS_DATAGRAM_SIZE p # ds'" "rest = rest'"
        using "1.prems" True rec by (simp_all add: emit_full.simps [of p])
      moreover note "1.IH" [OF True rec]
      ultimately show ?thesis
        using True by (simp add: append_assoc)
    qed (use "1.prems" in \<open>simp add: emit_full.simps [of p]\<close>)
  qed
  then show "concat ds @ rest = p" "length rest < TS_DATAGRAM_SIZE"
    "list_all (\<lambda>d. length d = TS_DATAGRAM_SIZE) ds" by simp_all
qed

lemma call_datagrams_bytes: "sk_callback s \<Longrightarrow> call_bytes (call_datagrams s ds) = concat ds"
  by (simp add: call_datagrams_def call_bytes_def o_def)

lemma call_datagrams_full:
  "list_all (\<lambda>d. length d = TS_DATAGRAM_SIZE) ds \<Longrightarrow>
   list_all (full_call (sk_current_keyframe s) (sk_current_pts90k s)) (call_datagrams s ds)"
  by (auto simp: call_datagrams_def list_all_iff full_call_def)

text \<open>What one call and a series of calls of \<^verbatim>\<open>write_callback\<close> do.\<close>

definition cut_to :: "sink \<Rightarrow> byte list \<Rightarrow> byte list \<Rightarrow> datagram_call list \<Rightarrow> bool" where
  "cut_to s bytes pending ds \<longleftrightarrow>
     length pending < TS_DATAGRAM_SIZE
     \<and> list_all (full_call (sk_current_keyframe s) (sk_current_pts90k s)) ds
     \<and> (sk_callback s \<longrightarrow> call_bytes ds @ pending = sk_pending s @ bytes)"

lemma write_callback_correct:
  assumes "length (sk_pending s) < TS_DATAGRAM_SIZE"
  shows "\<exists>p ds. write_callback b s = (s\<lparr>sk_pending := p\<rparr>, ds) \<and> cut_to s b p ds"
proof (cases "b = []")
  case True
  with assms show ?thesis
    by (intro exI [of _ "sk_pending s"] exI [of _ "[]"]) (simp add: write_callback_def cut_to_def)
next
  case False
  obtain es rest where e: "emit_full (sk_pending s @ b) = (es, rest)"
    by (cases "emit_full (sk_pending s @ b)")
  note E = emit_full_correct [OF e]
  let ?s = "s\<lparr>sk_pending := sk_pending s @ b\<rparr>"
  have "write_callback b s = (s\<lparr>sk_pending := rest\<rparr>, call_datagrams ?s es)"
    using False by (simp add: write_callback_def emit_datagrams_def e)
  moreover have "cut_to s b rest (call_datagrams ?s es)"
    using E call_datagrams_full [OF E(3), of ?s] call_datagrams_bytes [of ?s es]
    by (simp add: cut_to_def)
  ultimately show ?thesis by blast
qed

lemma write_chunks_correct:
  assumes "length (sk_pending s) < TS_DATAGRAM_SIZE"
  shows "\<exists>p ds. write_chunks cs s = (s\<lparr>sk_pending := p\<rparr>, ds) \<and> cut_to s (concat cs) p ds"
  using assms
proof (induction cs arbitrary: s)
  case Nil
  then show ?case
    by (intro exI [of _ "sk_pending s"] exI [of _ "[]"]) (simp add: cut_to_def)
next
  case (Cons c cs)
  obtain p1 ds1 where 1: "write_callback c s = (s\<lparr>sk_pending := p1\<rparr>, ds1)" "cut_to s c p1 ds1"
    using write_callback_correct [OF Cons.prems] by blast
  have "length p1 < TS_DATAGRAM_SIZE"
    using 1(2) by (simp add: cut_to_def)
  with Cons.IH [of "s\<lparr>sk_pending := p1\<rparr>"] obtain p2 ds2 where
    2: "write_chunks cs (s\<lparr>sk_pending := p1\<rparr>) = (s\<lparr>sk_pending := p2\<rparr>, ds2)"
      "cut_to (s\<lparr>sk_pending := p1\<rparr>) (concat cs) p2 ds2"
    by auto
  have "cut_to s (concat (c # cs)) p2 (ds1 @ ds2)"
    using 1(2) 2(2) by (auto simp: cut_to_def)
  with 1(1) 2(1) show ?case by auto
qed

section \<open>The life of the context\<close>

definition released :: "sink \<Rightarrow> sink" where
  "released s = s\<lparr>sk_format := None, sk_io := False, sk_video_stream := None,
     sk_audio_stream := None, sk_header_written := False, sk_pending := []\<rparr>"

text \<open>
  Between operations fewer bytes than a datagram wait, nothing is marked as a keyframe any more,
  and the context is either fully set up or holds no input/output context and no bytes.
\<close>

definition sink_inv :: "sink \<Rightarrow> bool" where
  "sink_inv s \<longleftrightarrow>
     length (sk_pending s) < TS_DATAGRAM_SIZE \<and> \<not> sk_current_keyframe s
     \<and> (if sk_header_written s then sk_format s \<noteq> None \<and> sk_io s \<and> sk_video_stream s \<noteq> None
        else \<not> sk_io s \<and> sk_pending s = [])"

lemma sink_inv_new: "sink_inv (new_sink output callback)"
  by (simp add: sink_inv_def new_sink_def TS_DATAGRAM_SIZE_def)

lemma sink_inv_released: "\<not> sk_current_keyframe s \<Longrightarrow> sink_inv (released s)"
  by (simp add: sink_inv_def released_def TS_DATAGRAM_SIZE_def)

lemma sink_inv_set_error [simp]: "sink_inv (set_error m s) = sink_inv s"
  by (simp add: sink_inv_def set_error_def)

lemma destroy_context_idle:
  "\<not> sk_header_written s \<or> \<not> w \<Longrightarrow> destroy_context w ff s = (released s, [])"
  by (auto simp: destroy_context_def released_def)

lemma destroy_context_correct:
  assumes "length (sk_pending s) < TS_DATAGRAM_SIZE" and "destroy_context w ff s = (s', ds)"
  shows "s' = released s" "list_all (full_call (sk_current_keyframe s) (sk_current_pts90k s)) ds"
proof -
  obtain p es where "write_chunks (av_write_trailer ff) s = (s\<lparr>sk_pending := p\<rparr>, es)"
    "cut_to s (concat (av_write_trailer ff)) p es"
    using write_chunks_correct [OF assms(1)] by blast
  with assms(2) show "s' = released s"
    "list_all (full_call (sk_current_keyframe s) (sk_current_pts90k s)) ds"
    by (auto simp: destroy_context_def released_def cut_to_def split: if_splits)
qed

text \<open>Creating the streams touches only the stream pointers and the context's stream count.\<close>

definition only_streams_differ :: "sink \<Rightarrow> sink \<Rightarrow> bool" where
  "only_streams_differ s s' \<longleftrightarrow>
     (sk_format s \<noteq> None \<longrightarrow> sk_format s' \<noteq> None)
     \<and> released s' = released s \<and> sk_io s' = sk_io s
     \<and> sk_header_written s' = sk_header_written s \<and> sk_pending s' = sk_pending s"

lemma only_streams_differ_trans:
  "only_streams_differ s t \<Longrightarrow> only_streams_differ t u \<Longrightarrow> only_streams_differ s u"
  by (auto simp: only_streams_differ_def)

lemma only_streams_differ_simps [simp]:
  "only_streams_differ s s"
  "only_streams_differ s (t\<lparr>sk_video_stream := v\<rparr>) = only_streams_differ s t"
  "only_streams_differ s (t\<lparr>sk_audio_stream := a\<rparr>) = only_streams_differ s t"
  by (auto simp: only_streams_differ_def released_def)

lemma new_stream_frame: "new_stream ff s = Some (st, s') \<Longrightarrow> only_streams_differ s s' \<and> sk_video_stream s' = sk_video_stream s"
  by (auto simp: new_stream_def only_streams_differ_def released_def split: option.splits)

lemma create_audio_stream_frame:
  "create_audio_stream ff ov s = (ok, s') \<Longrightarrow> only_streams_differ s s' \<and> sk_video_stream s' = sk_video_stream s"
  by (auto simp: create_audio_stream_def Let_def dest: new_stream_frame
      split: option.splits if_splits prod.splits)

lemma create_streams_frame:
  assumes "create_streams ff ov s = (ok, s')"
  shows "only_streams_differ s s' \<and> (ok \<longrightarrow> sk_video_stream s' \<noteq> None)"
proof -
  have audio: "create_audio_stream ff ov (t\<lparr>sk_video_stream := Some v\<rparr>) = (ok, s') \<Longrightarrow>
      only_streams_differ s t \<Longrightarrow> only_streams_differ s s' \<and> sk_video_stream s' \<noteq> None" for t v
    using create_audio_stream_frame [of ff ov "t\<lparr>sk_video_stream := Some v\<rparr>" ok s']
      only_streams_differ_trans [of s "t\<lparr>sk_video_stream := Some v\<rparr>" s'] by simp
  show ?thesis
    using assms
    by (auto simp: create_streams_def Let_def dest: new_stream_frame audio
        split: option.splits if_splits prod.splits)
qed

text \<open>Fields that survive the release are those \<open>released\<close> keeps.\<close>

lemma released_fields:
  assumes "released s' = released s"
  shows "sk_callback s' = sk_callback s" "sk_healthy s' = sk_healthy s" "sk_output s' = sk_output s"
    "sk_current_keyframe s' = sk_current_keyframe s" "sk_current_pts90k s' = sk_current_pts90k s"
    "sk_last_error s' = sk_last_error s"
  using assms by (cases s, cases s', simp add: released_def)+

definition header_bytes :: "ffmpeg \<Rightarrow> byte list" where
  "header_bytes ff = concat (fst (snd (avformat_write_header ff)))"

lemma write_header_correct:
  assumes "write_header ff s = (ok, s', ds)" and "length (sk_pending s) < TS_DATAGRAM_SIZE"
  shows "list_all (full_call (sk_current_keyframe s) (sk_current_pts90k s)) ds"
    "sk_current_keyframe s' = sk_current_keyframe s"
    "ok \<Longrightarrow> sk_header_written s' \<and> sk_format s' \<noteq> None \<and> sk_video_stream s' \<noteq> None \<and> sk_io s' = sk_io s
       \<and> released s' = released s \<and> cut_to s (header_bytes ff) (sk_pending s') ds"
    "\<not> ok \<Longrightarrow> sk_header_written s' = sk_header_written s"
proof -
  obtain result chunks update where h: "avformat_write_header ff = (result, chunks, update)"
    by (cases "avformat_write_header ff")
  let ?s = "s\<lparr>sk_format := map_option (\<lambda>f. f\<lparr>fmt_auto_bsf := True\<rparr>) (sk_format s)\<rparr>"
  obtain p es where w: "write_chunks chunks ?s = (?s\<lparr>sk_pending := p\<rparr>, es)" "cut_to ?s (concat chunks) p es"
    using write_chunks_correct [of ?s chunks] assms(2) by auto
  from w(2) have cut: "cut_to s (concat chunks) p es"
    by (simp add: cut_to_def)
  from assms(1) w(1) h cut
  show "list_all (full_call (sk_current_keyframe s) (sk_current_pts90k s)) ds"
    "sk_current_keyframe s' = sk_current_keyframe s"
    "ok \<Longrightarrow> sk_header_written s' \<and> sk_format s' \<noteq> None \<and> sk_video_stream s' \<noteq> None \<and> sk_io s' = sk_io s
       \<and> released s' = released s \<and> cut_to s (header_bytes ff) (sk_pending s') ds"
    "\<not> ok \<Longrightarrow> sk_header_written s' = sk_header_written s"
    by (auto simp: write_header_def header_bytes_def Let_def set_error_def released_def cut_to_def
        split: if_splits)
qed

lemma initialize_streams_correct:
  assumes "initialize_streams ff ov s = (ok, s', ds)"
    and "\<not> sk_header_written s" and "sk_pending s = []" and "sk_format s \<noteq> None" and "sk_io s"
    and "\<not> sk_current_keyframe s"
  shows "sink_inv s' \<and> list_all (full_call False (sk_current_pts90k s)) ds
    \<and> (if ok then sk_header_written s' \<and> released s' = released s \<and> cut_to s (header_bytes ff) (sk_pending s') ds
       else \<not> sk_header_written s' \<and> \<not> sk_healthy s')"
proof -
  obtain created s1 where c: "create_streams ff ov s = (created, s1)"
    by (cases "create_streams ff ov s")
  note F = create_streams_frame [OF c]
  have s1: "sk_pending s1 = []" "\<not> sk_header_written s1" "sk_io s1" "sk_current_keyframe s1 = sk_current_keyframe s"
    "released s1 = released s" "sk_current_pts90k s1 = sk_current_pts90k s" "sk_callback s1 = sk_callback s"
    using F assms(2-6) released_fields [of s1 s] by (auto simp: only_streams_differ_def)
  obtain written s2 ds2 where w: "write_header ff s1 = (written, s2, ds2)"
    by (cases "write_header ff s1")
  have "length (sk_pending s1) < TS_DATAGRAM_SIZE"
    using s1(1) by (simp add: TS_DATAGRAM_SIZE_def)
  note H = write_header_correct [OF w this]
  show ?thesis
  proof (cases "created \<and> written")
    case True
    with assms(1) c w have "ok" "s' = s2" "ds = ds2"
      by (auto simp: initialize_streams_def)
    with True H F s1 assms(3,5,6) show ?thesis
      by (auto simp: sink_inv_def cut_to_def)
  next
    case False
    let ?t = "if created then s2 else s1"
    let ?e = "if sk_healthy ?t then set_error (Some ''Could not initialize MPEG-TS streams'') ?t else ?t"
    have "\<not> sk_header_written ?e"
      using False H(4) s1(2) by (auto simp: set_error_def)
    then have "(ok, s', ds) = (False, released ?e, if created then ds2 else [])"
      using assms(1) c w False by (auto simp: initialize_streams_def destroy_context_idle Let_def)
    moreover have "\<not> sk_current_keyframe ?e" "\<not> sk_healthy ?e"
      using H(2) s1(4) assms(6) by (auto simp: set_error_def)
    ultimately show ?thesis
      using H(1) s1(4,6) assms(6) sink_inv_released [of ?e] by (auto simp: released_def)
  qed
qed

lemma ensure_started_correct:
  assumes "ensure_started ff ov s = (ok, s', ds)" and "sink_inv s" and "\<not> sk_header_written s"
  shows "sink_inv s' \<and> list_all (full_call False (sk_current_pts90k s)) ds
    \<and> (if ok then sk_header_written s' \<and> released s' = released s \<and> cut_to s (header_bytes ff) (sk_pending s') ds
       else \<not> sk_header_written s' \<and> \<not> sk_healthy s')"
proof -
  have s: "\<not> sk_current_keyframe s" "sk_pending s = []" "\<not> sk_io s"
    using assms(2,3) by (auto simp: sink_inv_def)
  let ?f = "\<lparr>fmt_nb_streams = 0, fmt_custom_io = True, fmt_auto_bsf = False\<rparr>"
  let ?i = "(released s)\<lparr>sk_io := True, sk_format := Some ?f\<rparr>"
  consider (early) "ok = False" "ds = []" "sink_inv s'" "\<not> sk_header_written s'" "\<not> sk_healthy s'"
    | (init) "initialize_streams ff ov ?i = (ok, s', ds)"
    using assms(1,3) s sink_inv_released [OF s(1)]
    by (auto simp: ensure_started_def destroy_context_idle set_error_def sink_inv_def released_def
        TS_DATAGRAM_SIZE_def Let_def split: if_splits prod.splits)
  then show ?thesis
  proof cases
    case init
    have I: "\<not> sk_header_written ?i" "sk_pending ?i = []" "sk_format ?i \<noteq> None" "sk_io ?i"
      "\<not> sk_current_keyframe ?i" "sk_current_pts90k ?i = sk_current_pts90k s" "released ?i = released s"
      using s by (auto simp: released_def)
    have cut: "cut_to ?i b p ds = cut_to s b p ds" for b p ds
      using s by (simp add: released_def cut_to_def)
    show ?thesis
      using initialize_streams_correct [OF init I(1-5)] unfolding I(6,7) cut .
  qed simp
qed

text \<open>Muxing one packet on a context that is set up.\<close>

definition frame_bytes :: "ffmpeg \<Rightarrow> encoder_packet \<Rightarrow> av_stream \<Rightarrow> byte list \<Rightarrow> byte list" where
  "frame_bytes ff packet stream bytes =
     concat (snd (av_interleaved_write_frame ff (av_packet_of ff packet stream bytes)))"

lemma write_packet_correct:
  assumes "write_packet ff packet bytes s = (ok, s', ds)" and "sink_inv s" and "sk_header_written s"
  shows "sink_inv s' \<and> sk_header_written s' \<and> sk_callback s' = sk_callback s
    \<and> (\<exists>t. list_all (full_call (pk_keyframe packet) t) ds)
    \<and> (ok \<and> sk_callback s \<longrightarrow>
         (\<exists>stream. call_bytes ds @ sk_pending s' = sk_pending s @ frame_bytes ff packet stream bytes))"
proof -
  let ?st = "if pk_type packet = OBS_ENCODER_VIDEO then sk_video_stream s else sk_audio_stream s"
  consider (refused) "ok = False" "ds = []" "s' = s \<or> s' = set_error (Some ''Encoded packet is too large for FFmpeg'') s"
    | (muxed) stream where "?st = Some stream"
      "\<not> (pk_type packet = OBS_ENCODER_AUDIO \<and> pk_track_idx packet \<noteq> 0)"
      "\<not> int_max < int (length bytes)" "av_packet_alloc ff" "\<not> av_new_packet ff < 0"
    using assms(1) by (auto simp: write_packet_def split: option.splits if_splits)
  then show ?thesis
  proof cases
    case refused
    then show ?thesis
      using assms(2,3) by (auto simp: set_error_def sink_inv_def)
  next
    case muxed
    let ?p = "av_packet_of ff packet stream bytes"
    let ?t = "if ap_pts ?p = AV_NOPTS_VALUE then 0
      else av_rescale_q ff (ap_pts ?p) (st_time_base stream) \<lparr>rat_num = 1, rat_den = 90000\<rparr>"
    let ?s = "s\<lparr>sk_current_keyframe := pk_keyframe packet, sk_current_pts90k := ?t\<rparr>"
    obtain result chunks where f: "av_interleaved_write_frame ff ?p = (result, chunks)"
      by (cases "av_interleaved_write_frame ff ?p")
    obtain p es where w: "write_chunks chunks ?s = (?s\<lparr>sk_pending := p\<rparr>, es)" "cut_to ?s (concat chunks) p es"
      using write_chunks_correct [of ?s chunks] assms(2) by (auto simp: sink_inv_def)
    let ?d = "?s\<lparr>sk_pending := p, sk_current_keyframe := False\<rparr>"
    have res: "ok = (0 \<le> result)" "ds = es"
      "s' = (if result < 0 then set_error (Some (av_strerror ff result)) ?d else ?d)"
      using assms(1) muxed by (auto simp: write_packet_def f w(1) Let_def split: if_splits)
    have "length p < TS_DATAGRAM_SIZE" "list_all (full_call (pk_keyframe packet) ?t) es"
      "sk_callback s \<longrightarrow> call_bytes es @ p = sk_pending s @ frame_bytes ff packet stream bytes"
      using w(2) f by (simp_all add: cut_to_def frame_bytes_def)
    moreover from this(1) have "sink_inv ?d"
      using assms(2,3) by (simp add: sink_inv_def)
    ultimately show ?thesis
      using res assms(3) by (auto simp: set_error_def sink_inv_def)
  qed
qed

section \<open>Properties\<close>

lemma sink_write_cases:
  assumes "sink_write ff ov packet s = (ok, s', ds)"
  obtains (refused) "ok = False" "s' = s" "ds = []"
  | (not_started) p bytes where "packet = Some p" "pk_data p = Some bytes" "sk_healthy s" "ok = False"
      "ensure_started ff ov s = (False, s', ds)"
  | (started) p bytes s1 ds1 ds2 where "packet = Some p" "pk_data p = Some bytes" "sk_healthy s"
      "ensure_started ff ov s = (True, s1, ds1)" "write_packet ff p bytes s1 = (ok, s', ds2)" "ds = ds1 @ ds2"
  using assms by (auto simp: sink_write_def split: option.splits if_splits prod.splits)

lemma ensure_started_again: "sk_header_written s \<Longrightarrow> ensure_started ff ov s = (sk_healthy s, s, [])"
  by (simp add: ensure_started_def)

lemma full_calls_size: "list_all (full_call k t) ds \<Longrightarrow> list_all (\<lambda>d. length (fst d) = TS_DATAGRAM_SIZE) ds"
  by (auto simp: list_all_iff full_call_def)

lemma ensure_started_ready:
  assumes "ensure_started ff ov s = (True, s1, ds)" and "sink_inv s"
  shows "sink_inv s1" "sk_header_written s1" "sk_callback s1 = sk_callback s"
    "list_all (full_call False (sk_current_pts90k s)) ds"
    "sk_callback s \<Longrightarrow>
       call_bytes ds @ sk_pending s1 = (if sk_header_written s then sk_pending s else header_bytes ff)"
proof -
  have "sink_inv s1 \<and> sk_header_written s1 \<and> sk_callback s1 = sk_callback s
    \<and> list_all (full_call False (sk_current_pts90k s)) ds
    \<and> (sk_callback s \<longrightarrow>
       call_bytes ds @ sk_pending s1 = (if sk_header_written s then sk_pending s else header_bytes ff))"
  proof (cases "sk_header_written s")
    case True
    with assms show ?thesis by (simp add: ensure_started_again)
  next
    case False
    note E = ensure_started_correct [OF assms False]
    have "sk_pending s = []"
      using assms(2) False by (simp add: sink_inv_def)
    with E False released_fields(1) [of s1 s] show ?thesis by (simp add: cut_to_def)
  qed
  then show "sink_inv s1" "sk_header_written s1" "sk_callback s1 = sk_callback s"
    "list_all (full_call False (sk_current_pts90k s)) ds"
    "sk_callback s \<Longrightarrow>
       call_bytes ds @ sk_pending s1 = (if sk_header_written s then sk_pending s else header_bytes ff)"
    by blast+
qed

lemma sink_write_inv:
  assumes "sink_write ff ov packet s = (ok, s', ds)" and "sink_inv s"
  shows "sink_inv s' \<and> list_all (\<lambda>d. length (fst d) = TS_DATAGRAM_SIZE) ds"
  using assms(1)
proof (cases rule: sink_write_cases)
  case refused
  with assms(2) show ?thesis by simp
next
  case not_started
  show ?thesis
  proof (cases "sk_header_written s")
    case True
    with not_started(5) assms(2) show ?thesis by (simp add: ensure_started_again)
  next
    case False
    from ensure_started_correct [OF not_started(5) assms(2) False] full_calls_size
    show ?thesis by blast
  qed
next
  case (started p bytes s1 ds1 ds2)
  note E = ensure_started_ready [OF started(4) assms(2)]
  from write_packet_correct [OF started(5) E(1,2)] obtain t where
    "sink_inv s'" "list_all (full_call (pk_keyframe p) t) ds2" by blast
  with full_calls_size [OF E(4)] full_calls_size started(6) show ?thesis by auto
qed

text \<open>
  C29. Byte conservation: when a packet is muxed, what the callback gets, followed by what waits
  in the sink, is exactly what waited before (or the new header, if the packet opened a new
  context) followed by what libavformat wrote for the packet; every datagram has exactly 1316
  bytes, and datagrams are marked as a keyframe only if the packet is one.
\<close>

theorem sink_write_conserves_bytes:
  assumes "sink_write ff ov (Some p) s = (True, s', ds)" and "sink_inv s" and "sk_callback s"
  shows "\<exists>stream. call_bytes ds @ sk_pending s' =
      (if sk_header_written s then sk_pending s else header_bytes ff)
      @ frame_bytes ff p stream (the (pk_data p))
    \<and> list_all (\<lambda>(bytes, keyframe, pts). length bytes = 1316 \<and> (keyframe \<longrightarrow> pk_keyframe p)) ds"
  using assms(1)
proof (cases rule: sink_write_cases)
  case (started p' bytes s1 ds1 ds2)
  note E = ensure_started_ready [OF started(4) assms(2)]
  obtain stream t where
    2: "call_bytes ds2 @ sk_pending s' = sk_pending s1 @ frame_bytes ff p stream bytes"
    "list_all (full_call (pk_keyframe p) t) ds2"
    using write_packet_correct [OF started(5) E(1,2)] started(1) E(3) assms(3) by auto
  have "call_bytes ds @ sk_pending s' = (call_bytes ds1 @ sk_pending s1) @ frame_bytes ff p stream bytes"
    using 2(1) started(6) by simp
  note this [unfolded E(5) [OF assms(3)]]
  moreover have "list_all (\<lambda>(bytes, keyframe, pts). length bytes = 1316 \<and> (keyframe \<longrightarrow> pk_keyframe p)) ds"
    using E(4) 2(2) started(6) by (auto simp: full_call_def list_all_iff TS_DATAGRAM_SIZE_def)
  ultimately show ?thesis
    using started(1,2) by auto
qed auto


text \<open>An output with an H.264 encoder only, and a libavformat that writes one chunk per packet.\<close>

definition demo_view :: obs_view where
  "demo_view = \<lparr>ov_video_encoder = Some \<lparr>ev_codec = Some ''h264'', ev_extra = Some (Some [1]), ev_bitrate = Some 6000\<rparr>,
     ov_video_info = Some (30, 1), ov_width = 1920, ov_height = 1080, ov_audio_encoder = None, ov_audio = None\<rparr>"

definition demo_stream :: "nat \<Rightarrow> av_stream" where
  "demo_stream n = \<lparr>st_index = n, st_id = 0, st_time_base = \<lparr>rat_num = 1, rat_den = 90000\<rparr>,
     st_avg_frame_rate = \<lparr>rat_num = 0, rat_den = 1\<rparr>, st_codec_type = AVMEDIA_TYPE_UNKNOWN,
     st_codec_id = AV_CODEC_ID_NONE, st_width = 0, st_height = 0, st_sample_rate = 0, st_channels = 0,
     st_format = AV_SAMPLE_FMT_NONE, st_bit_rate = 0, st_extradata = []\<rparr>"

definition demo_ffmpeg :: ffmpeg where
  "demo_ffmpeg = \<lparr>av_guess_format = True, avformat_alloc_output_context2 = (0, True), av_malloc = True,
     avio_alloc_context = True, avformat_new_stream = (\<lambda>n. Some (demo_stream n)), av_mallocz = (\<lambda>_. True),
     avformat_write_header = (0, [], \<lambda>st. st), av_packet_alloc = True, av_new_packet = 0,
     av_interleaved_write_frame = (\<lambda>p. (0, [replicate 1316 71, [72]])), av_strerror = (\<lambda>_. []),
     av_rescale_q = (\<lambda>t _ _. t), avio_flush = [], av_write_trailer = []\<rparr>"

definition demo_packet :: encoder_packet where
  "demo_packet = \<lparr>pk_type = OBS_ENCODER_VIDEO, pk_data = Some [0, 0, 1], pk_track_idx = 0,
     pk_timebase_num = 1, pk_timebase_den = 30, pk_pts = 7, pk_dts = 7, pk_keyframe = True\<rparr>"

definition demo_started :: sink where
  "demo_started = (new_sink True True)\<lparr>sk_format := Some \<lparr>fmt_nb_streams = 1, fmt_custom_io = True, fmt_auto_bsf = True\<rparr>,
     sk_io := True, sk_video_stream := Some (demo_stream 0), sk_header_written := True\<rparr>"

lemmas demo_defs = demo_view_def demo_stream_def demo_ffmpeg_def demo_packet_def demo_started_def new_sink_def

lemma emit_full_demo:
  "emit_full (replicate 1316 71) = ([replicate 1316 71], [])" "emit_full [72] = ([], [72])"
  by (simp_all add: emit_full.simps [of "replicate 1316 71"] emit_full.simps [of "[]"] emit_full.simps [of "[72]"]
      TS_DATAGRAM_SIZE_def)

lemma demo_write:
  "sink_write demo_ffmpeg demo_view (Some demo_packet) demo_started =
     (True, demo_started\<lparr>sk_current_pts90k := 7, sk_pending := [72]\<rparr>, [(replicate 1316 71, True, 7)])"
  by (simp add: sink_write_def ensure_started_def write_packet_def av_packet_of_def AV_NOPTS_VALUE_def int_max_def
      write_callback_def emit_datagrams_def call_datagrams_def emit_full_demo demo_defs)

lemma demo_started_inv: "sink_inv demo_started"
  by (simp add: sink_inv_def demo_defs TS_DATAGRAM_SIZE_def)

theorem sink_write_conserves_bytes_witness:
  "\<exists>stream. call_bytes [(replicate 1316 71, True, 7)] @ [72] =
     sk_pending demo_started @ frame_bytes demo_ffmpeg demo_packet stream (the (pk_data demo_packet))"
  using sink_write_conserves_bytes [OF demo_write demo_started_inv]
  by (auto simp: demo_started_def new_sink_def)

lemma reset_sink_eq: "reset_sink ff s = (new_sink (sk_output s) (sk_callback s), [])"
  by (simp add: reset_sink_def destroy_context_idle released_def new_sink_def)

text \<open>
  Resetting the sink, as the output does at the keyframe after a reconnect or a dropped
  packet, gives a sink in its initial state, whatever happened to it before, and sends nothing:
  no trailer of the old context gets into the new section.
\<close>

theorem reset_sink_fresh:
  "reset_sink ff s = (new_sink (sk_output s) (sk_callback s), [])"
  by (rule reset_sink_eq)

lemma list_all_butlast: "list_all P xs \<Longrightarrow> list_all P (butlast xs)"
  by (auto simp: list_all_iff dest: in_set_butlastD)

lemma emit_datagrams_flush:
  assumes "emit_datagrams True s = (s', ds)"
  shows "s' = s\<lparr>sk_pending := []\<rparr>" "sk_callback s \<Longrightarrow> call_bytes ds = sk_pending s"
    "list_all (\<lambda>d. length (fst d) = TS_DATAGRAM_SIZE) (butlast ds)"
    "list_all (\<lambda>d. 0 < length (fst d) \<and> length (fst d) \<le> TS_DATAGRAM_SIZE) ds"
proof -
  obtain es rest where e: "emit_full (sk_pending s) = (es, rest)"
    by (cases "emit_full (sk_pending s)")
  note E = emit_full_correct [OF e]
  have ds: "s' = s\<lparr>sk_pending := []\<rparr>" "ds = call_datagrams s es @ (if rest = [] then [] else call_datagrams s [rest])"
    using assms e by (auto simp: emit_datagrams_def split: if_splits)
  have size: "list_all (\<lambda>d. length (fst d) = TS_DATAGRAM_SIZE) (call_datagrams s es)"
    using call_datagrams_full [OF E(3)] full_calls_size by blast
  show "s' = s\<lparr>sk_pending := []\<rparr>"
    by (rule ds(1))
  show "sk_callback s \<Longrightarrow> call_bytes ds = sk_pending s"
    using E(1) by (auto simp: ds(2) call_datagrams_bytes)
  show "list_all (\<lambda>d. length (fst d) = TS_DATAGRAM_SIZE) (butlast ds)"
    using size list_all_butlast [OF size] by (auto simp: ds(2) butlast_append call_datagrams_def)
  show "list_all (\<lambda>d. 0 < length (fst d) \<and> length (fst d) \<le> TS_DATAGRAM_SIZE) ds"
    using E(2,3) by (auto simp: ds(2) call_datagrams_def list_all_iff TS_DATAGRAM_SIZE_def)
qed

lemma sink_flush_inv:
  assumes "sink_flush ff s = (s', ds)" and "sink_inv s"
  shows "sink_inv s' \<and> list_all (\<lambda>d. 0 < length (fst d) \<and> length (fst d) \<le> TS_DATAGRAM_SIZE) ds"
proof (cases "sk_format s = None \<or> \<not> sk_io s \<or> \<not> sk_healthy s")
  case True
  with assms show ?thesis by (simp add: sink_flush_def)
next
  case False
  obtain p es where w: "write_chunks (avio_flush ff) s = (s\<lparr>sk_pending := p\<rparr>, es)" "cut_to s (concat (avio_flush ff)) p es"
    using write_chunks_correct [of s "avio_flush ff"] assms(2) by (auto simp: sink_inv_def)
  obtain s2 ds2 where f: "emit_datagrams True (s\<lparr>sk_pending := p\<rparr>) = (s2, ds2)"
    by (cases "emit_datagrams True (s\<lparr>sk_pending := p\<rparr>)")
  have "s' = s2" "ds = es @ ds2"
    using assms(1) False w(1) f by (auto simp: sink_flush_def)
  moreover have "list_all (\<lambda>d. 0 < length (fst d) \<and> length (fst d) \<le> TS_DATAGRAM_SIZE) es"
    using w(2) by (auto simp: cut_to_def list_all_iff full_call_def TS_DATAGRAM_SIZE_def)
  moreover have "sink_inv s2"
    using assms(2) emit_datagrams_flush(1) [OF f] False
    by (auto simp: sink_inv_def TS_DATAGRAM_SIZE_def split: if_splits)
  ultimately show ?thesis
    using emit_datagrams_flush(4) [OF f] by simp
qed

text \<open>
  Flushing leaves nothing behind: everything that waited, and everything libavformat still
  held, is sent in order, and only the last datagram may be shorter than 1316 bytes.
\<close>

theorem sink_flush_complete:
  assumes "sink_inv s" and "sk_callback s" and "sk_header_written s" and "sk_healthy s"
  shows "case sink_flush ff s of (s', ds) \<Rightarrow>
     sk_pending s' = [] \<and> call_bytes ds = sk_pending s @ concat (avio_flush ff)
     \<and> list_all (\<lambda>d. length (fst d) = 1316) (butlast ds)
     \<and> list_all (\<lambda>d. fst d \<noteq> [] \<and> length (fst d) \<le> 1316) ds"
proof -
  obtain p es where w: "write_chunks (avio_flush ff) s = (s\<lparr>sk_pending := p\<rparr>, es)" "cut_to s (concat (avio_flush ff)) p es"
    using write_chunks_correct [of s "avio_flush ff"] assms(1) by (auto simp: sink_inv_def)
  obtain s2 ds2 where f: "emit_datagrams True (s\<lparr>sk_pending := p\<rparr>) = (s2, ds2)"
    by (cases "emit_datagrams True (s\<lparr>sk_pending := p\<rparr>)")
  note F = emit_datagrams_flush [OF f]
  have flush: "sink_flush ff s = (s2, es @ ds2)"
    using assms w(1) f by (auto simp: sink_flush_def sink_inv_def)
  have es: "list_all (\<lambda>d. length (fst d) = TS_DATAGRAM_SIZE) es"
    using w(2) full_calls_size by (auto simp: cut_to_def)
  have "list_all (\<lambda>d. length (fst d) = TS_DATAGRAM_SIZE) (butlast (es @ ds2))"
    using es F(3) list_all_butlast [OF es] by (auto simp: butlast_append)
  moreover have "list_all (\<lambda>d. 0 < length (fst d) \<and> length (fst d) \<le> TS_DATAGRAM_SIZE) (es @ ds2)"
    using sink_flush_inv [OF flush assms(1)] by simp
  moreover have "call_bytes (es @ ds2) = sk_pending s @ concat (avio_flush ff)" "sk_pending s2 = []"
    using w(2) F(1,2) assms(2) by (auto simp: cut_to_def)
  ultimately show ?thesis
    by (simp add: flush TS_DATAGRAM_SIZE_def)
qed

theorem sink_flush_complete_witness:
  "case sink_flush demo_ffmpeg (demo_started\<lparr>sk_pending := [72]\<rparr>) of (s', ds) \<Rightarrow> sk_pending s' = [] \<and> call_bytes ds = [72]"
  using sink_flush_complete [of "demo_started\<lparr>sk_pending := [72]\<rparr>" demo_ffmpeg]
  by (simp add: sink_inv_def demo_defs TS_DATAGRAM_SIZE_def case_prod_beta)

section \<open>The consumer of the datagrams\<close>

text \<open>
  What the callback of the sink has to keep of its own invariant for a datagram that is not empty
  and no longer than a transport datagram; then it keeps it through every operation of the sink.
\<close>

locale datagram_consumer =
  fixes consume :: "byte list \<Rightarrow> bool \<Rightarrow> int \<Rightarrow> 'c \<Rightarrow> 'c"
    and ok :: "'c \<Rightarrow> bool"
  assumes consume_ok: "bytes \<noteq> [] \<Longrightarrow> length bytes \<le> TS_DATAGRAM_SIZE \<Longrightarrow> ok c \<Longrightarrow> ok (consume bytes k t c)"
begin

lemma deliver_ok:
  "list_all (\<lambda>d. 0 < length (fst d) \<and> length (fst d) \<le> TS_DATAGRAM_SIZE) ds \<Longrightarrow> ok c
   \<Longrightarrow> ok (fold (\<lambda>(b, k, t). consume b k t) ds c)"
proof (induction ds arbitrary: c)
  case (Cons d ds)
  obtain b k t where "d = (b, k, t)"
    by (cases d)
  with Cons.IH [of "consume b k t c"] consume_ok [of b c k t] Cons.prems show ?case by simp
qed simp

lemma deliver_full_ok:
  "list_all (\<lambda>d. length (fst d) = TS_DATAGRAM_SIZE) ds \<Longrightarrow> ok c
   \<Longrightarrow> ok (fold (\<lambda>(b, k, t). consume b k t) ds c)"
  by (rule deliver_ok) (auto simp: list_all_iff TS_DATAGRAM_SIZE_def)

lemma write_ok:
  "sink_write ff ov p s = (r, s', ds) \<Longrightarrow> sink_inv s \<Longrightarrow> ok c
   \<Longrightarrow> sink_inv s' \<and> ok (fold (\<lambda>(b, k, t). consume b k t) ds c)"
  using sink_write_inv deliver_full_ok by blast

lemma flush_ok:
  "sink_flush ff s = (s', ds) \<Longrightarrow> sink_inv s \<Longrightarrow> ok c
   \<Longrightarrow> sink_inv s' \<and> ok (fold (\<lambda>(b, k, t). consume b k t) ds c)"
  using sink_flush_inv deliver_ok by blast

lemma destroy_ok:
  assumes "destroy_context w ff s = (s', ds)" and "sink_inv s" and "ok c"
  shows "sink_inv s' \<and> ok (fold (\<lambda>(b, k, t). consume b k t) ds c)"
proof -
  have "length (sk_pending s) < TS_DATAGRAM_SIZE" "\<not> sk_current_keyframe s"
    using assms(2) by (simp_all add: sink_inv_def)
  with destroy_context_correct [OF _ assms(1)] sink_inv_released deliver_full_ok full_calls_size assms(3)
  show ?thesis by blast
qed

end

interpretation queue_consumer: datagram_consumer enqueue_datagram queue_inv
  by unfold_locales
    (auto simp: enqueue_datagram_def vector_size_ok_def TS_DATAGRAM_SIZE_def intro: queue_inv_enqueue)

text \<open>Any use of the sink, with its datagrams going to the media queue.\<close>

datatype sink_op =
    SinkWrite ffmpeg obs_view "encoder_packet option"
  | SinkFlush ffmpeg
  | SinkReset ffmpeg
  | SinkDestroy ffmpeg

fun sink_queue_step :: "sink_op \<Rightarrow> sink \<times> 'a media_queue_scheme \<Rightarrow> sink \<times> 'a media_queue_scheme" where
  "sink_queue_step (SinkWrite ff ov p) (s, q) =
     (case sink_write ff ov p s of (r, s', ds) \<Rightarrow> (s', enqueue_all ds q))"
| "sink_queue_step (SinkFlush ff) (s, q) = (case sink_flush ff s of (s', ds) \<Rightarrow> (s', enqueue_all ds q))"
| "sink_queue_step (SinkReset ff) (s, q) = (case reset_sink ff s of (s', ds) \<Rightarrow> (s', enqueue_all ds q))"
| "sink_queue_step (SinkDestroy ff) (s, q) =
     (case destroy_context True ff s of (s', ds) \<Rightarrow> (s', enqueue_all ds q))"

lemma sink_queue_step_inv:
  assumes "sink_inv s" and "queue_inv q" and "sink_queue_step op (s, q) = (s', q')"
  shows "sink_inv s' \<and> queue_inv q'"
proof (cases op)
  case (SinkReset ff)
  with assms show ?thesis
    by (auto simp: reset_sink_eq sink_inv_new)
qed (use assms in \<open>auto simp: enqueue_all_def dest: queue_consumer.write_ok queue_consumer.flush_ok
      queue_consumer.destroy_ok split: prod.splits\<close>)

lemma sink_queue_run_inv:
  assumes "sink_inv s" and "queue_inv q"
  shows "case fold sink_queue_step ops (s, q) of (s', q') \<Rightarrow> sink_inv s' \<and> queue_inv q'"
  using assms
proof (induction ops arbitrary: s q)
  case (Cons op ops)
  obtain s1 q1 where step: "sink_queue_step op (s, q) = (s1, q1)"
    by (cases "sink_queue_step op (s, q)")
  from sink_queue_step_inv [OF Cons.prems step] Cons.IH [of s1 q1]
  show ?case unfolding fold_Cons o_apply step by simp
qed simp

text \<open>
  C30. Whatever OBS and libavformat do, any sequence of writes, flushes, resets and teardowns of
  a new sink keeps the sink well formed and the byte accounting of the queue it feeds exact and
  within its limit.
\<close>

theorem sink_feeds_queue:
  assumes "queue_inv q"
  shows "case fold sink_queue_step ops (new_sink output callback, q) of (s', q') \<Rightarrow> sink_inv s' \<and> queue_inv q'"
  by (rule sink_queue_run_inv [OF sink_inv_new assms])

theorem sink_feeds_queue_witness:
  "case fold sink_queue_step [SinkWrite demo_ffmpeg demo_view (Some demo_packet), SinkFlush demo_ffmpeg]
     (new_sink True True, one_datagram_pipeline) of (s', q') \<Rightarrow> sink_inv s' \<and> queue_inv q'"
  by (rule sink_feeds_queue) (simp add: queue_inv_def one_datagram_pipeline_def)

text \<open>
  Failures of libavformat do not leave a half-built context or retry on every packet: when
  opening fails, the packet is refused with the input/output context released and no bytes
  waiting, and every later packet is refused without touching the sink until it is reset.
\<close>

theorem sink_open_failure:
  assumes "sink_inv s" and "\<not> sk_header_written s" and "ensure_started ff ov s = (False, s', ds)"
  shows "\<not> sk_header_written s' \<and> \<not> sk_io s' \<and> sk_pending s' = []
    \<and> sink_write ff' ov' packet s' = (False, s', [])"
proof -
  have "sink_inv s'" "\<not> sk_header_written s'" "\<not> sk_healthy s'"
    using ensure_started_correct [OF assms(3,1,2)] by auto
  then show ?thesis
    by (auto simp: sink_inv_def sink_write_def split: option.splits)
qed

theorem sink_open_failure_witness:
  "case ensure_started (demo_ffmpeg\<lparr>avio_alloc_context := False\<rparr>) demo_view (new_sink True True) of (ok, s', ds) \<Rightarrow>
     \<not> ok \<and> sink_write demo_ffmpeg demo_view (Some demo_packet) s' = (False, s', [])"
proof -
  let ?ff = "demo_ffmpeg\<lparr>avio_alloc_context := False\<rparr>"
  obtain s' ds where e: "ensure_started ?ff demo_view (new_sink True True) = (False, s', ds)"
    by (simp add: ensure_started_def destroy_context_idle set_error_def released_def
        new_sink_def demo_ffmpeg_def)
  moreover have "\<not> sk_header_written (new_sink True True)"
    by (simp add: new_sink_def)
  note sink_open_failure [OF sink_inv_new this e, of demo_ffmpeg demo_view "Some demo_packet"]
  ultimately show ?thesis by simp
qed

end
