(* ===== verification/Srt_Session.thy ===== *)
theory Srt_Session
  imports Utf8 "HOL-Library.Multiset" Complex_Main
begin

text \<open>
  The SRT session of \<^verbatim>\<open>plugin/srt-session.cpp\<close>. The connector thread that \<^verbatim>\<open>SrtSession::start\<close>
  creates is a step function on a program counter: one step per access to state it shares with
  the thread that calls \<^verbatim>\<open>stop\<close> (the stop flag, the socket under its mutex, the status under its
  mutex) or per call of libsrt. libsrt, the resolver and the engine are parameters: the record
  \<open>srt_answers\<close> gives what they answer to the next step, and the field \<open>ss_trace\<close> records the
  calls made so far. The session's operations on a live connection (\<^verbatim>\<open>send_ts\<close>,
  \<^verbatim>\<open>sample_stats\<close>, \<^verbatim>\<open>wait_connected\<close>, the transport callbacks) follow.
\<close>

section \<open>Data\<close>

datatype session_status = Idle | Connecting | Connected | Reconnecting | Fatal | Stopped

datatype ip_family = AF_INET | AF_INET6

record sockaddr =
  sa_family :: ip_family
  sa_bytes :: "byte list"

datatype srt_option =
    SRTO_LATENCY int | SRTO_CONNTIMEO int | SRTO_SNDSYN bool | SRTO_PASSPHRASE string
  | SRTO_PBKEYLEN int | SRTO_STREAMID string | SRTO_IPV6ONLY int

datatype sockstate =
    SRTS_INIT | SRTS_OPENED | SRTS_LISTENING | SRTS_CONNECTING | SRTS_CONNECTED | SRTS_BROKEN
  | SRTS_CLOSING | SRTS_CLOSED | SRTS_NONEXIST

record session_config =
  cf_host :: string
  cf_port :: nat
  cf_stream_id :: string
  cf_passphrase :: string
  cf_latency_ms :: int
  cf_pbkeylen :: int

text \<open>Calls of libsrt that matter for the session, and reports to the callback and the engine.\<close>

datatype session_event =
    CreateSocket nat
  | SetOption nat srt_option
  | SetTransport nat
  | Bind nat ip_family
  | Connect nat sockaddr
  | CloseSocket nat
  | Report session_status string

text \<open>Where the connector thread is; a socket it has created is a local variable there.\<close>

datatype connector_pc =
    CAbsent
  | CTop
  | CResolve
  | CCreate
  | CPublish nat
  | CCheckStop nat
  | CSetOptions nat "srt_option list"
  | CTransport nat
  | CBind nat
  | CConnect nat
  | CHandshake nat nat
  | CEstablished nat
  | CMonitor nat
  | CDisconnected nat
  | CClose nat connector_pc
  | CPause
  | CWait nat
  | CNext
  | CDone

datatype caller_pc = SRunning | SStopClose | SStopJoin | SStopped

record session =
  ss_socket :: "nat option"
  ss_stop :: bool
  ss_connected :: bool
  ss_status :: session_status
  ss_error :: string
  ss_negotiated_latency_ms :: int
  ss_remote :: "sockaddr option"
  ss_ever_connected :: bool
  ss_backoff :: nat
  ss_pc :: connector_pc
  ss_caller :: caller_pc
  ss_trace :: "session_event list"

record srt_answers =
  an_getaddrinfo :: "sockaddr option"
  an_create_socket :: "nat option"
  an_setsockopt_ok :: bool
  an_transport_ok :: bool
  an_bind_ok :: bool
  an_connect_ok :: bool
  an_sockstate :: sockstate
  an_peer_latency :: "int option"
  an_lasterror :: "string option"

section \<open>Operations\<close>

definition emit :: "session_event \<Rightarrow> session \<Rightarrow> session" where
  "emit e s = s\<lparr>ss_trace := ss_trace s @ [e]\<rparr>"

definition goto :: "connector_pc \<Rightarrow> session \<Rightarrow> session" where
  "goto pc s = s\<lparr>ss_pc := pc\<rparr>"

definition close_socket :: "nat \<Rightarrow> session \<Rightarrow> session" where
  "close_socket socket s =
     (if ss_socket s \<noteq> Some socket then s
      else emit (CloseSocket socket) (s\<lparr>ss_socket := None\<rparr>))"

definition close_current_socket :: "session \<Rightarrow> session" where
  "close_current_socket s =
     (case ss_socket s of
        None \<Rightarrow> s
      | Some socket \<Rightarrow> emit (CloseSocket socket) (s\<lparr>ss_socket := None\<rparr>))"

definition set_status :: "session_status \<Rightarrow> string \<Rightarrow> session \<Rightarrow> session" where
  "set_status status error s = emit (Report status error) (s\<lparr>ss_status := status, ss_error := error\<rparr>)"

definition srt_error :: "string \<Rightarrow> string option \<Rightarrow> string" where
  "srt_error operation detail =
     (case detail of
        None \<Rightarrow> operation
      | Some d \<Rightarrow> if d \<noteq> [] then operation @ '': '' @ d else operation)"

definition connector_options :: "session_config \<Rightarrow> sockaddr \<Rightarrow> srt_option list" where
  "connector_options cfg remote =
     [SRTO_LATENCY (cf_latency_ms cfg), SRTO_CONNTIMEO 1000, SRTO_SNDSYN False]
     @ (if cf_passphrase cfg \<noteq> [] then [SRTO_PASSPHRASE (cf_passphrase cfg)] else [])
     @ [SRTO_PBKEYLEN (cf_pbkeylen cfg)]
     @ (if cf_stream_id cfg \<noteq> [] then [SRTO_STREAMID (cf_stream_id cfg)] else [])
     @ (if sa_family remote = AF_INET6 then [SRTO_IPV6ONLY 1] else [])"

fun option_name :: "srt_option \<Rightarrow> string" where
  "option_name (SRTO_LATENCY _) = ''SRTO_LATENCY''"
| "option_name (SRTO_CONNTIMEO _) = ''SRTO_CONNTIMEO''"
| "option_name (SRTO_SNDSYN _) = ''SRTO_SNDSYN''"
| "option_name (SRTO_PASSPHRASE _) = ''SRTO_PASSPHRASE''"
| "option_name (SRTO_PBKEYLEN _) = ''SRTO_PBKEYLEN''"
| "option_name (SRTO_STREAMID _) = ''SRTO_STREAMID''"
| "option_name (SRTO_IPV6ONLY _) = ''SRTO_IPV6ONLY''"

definition retry_status :: "session \<Rightarrow> session_status" where
  "retry_status s = (if ss_ever_connected s then Reconnecting else Connecting)"

definition handshake_over :: "sockstate \<Rightarrow> bool" where
  "handshake_over st \<longleftrightarrow> st \<in> {SRTS_BROKEN, SRTS_CLOSING, SRTS_CLOSED, SRTS_NONEXIST}"

definition connection_lost :: "sockstate \<Rightarrow> bool" where
  "connection_lost st \<longleftrightarrow> st \<in> {SRTS_BROKEN, SRTS_CLOSED, SRTS_NONEXIST}"

text \<open>The remote address the connector resolved is kept in \<^verbatim>\<open>impl_->remote\<close> as well.\<close>

definition remote_of :: "session \<Rightarrow> sockaddr" where
  "remote_of s = (case ss_remote s of Some r \<Rightarrow> r | None \<Rightarrow> \<lparr>sa_family = AF_INET, sa_bytes = []\<rparr>)"

fun connector_at :: "session_config \<Rightarrow> srt_answers \<Rightarrow> connector_pc \<Rightarrow> session \<Rightarrow> session" where
  "connector_at cfg a CAbsent s = s"
| "connector_at cfg a CDone s = s"
| "connector_at cfg a CTop s = goto (if ss_stop s then CDone else CResolve) s"
| "connector_at cfg a CResolve s =
     (case an_getaddrinfo a of
        None \<Rightarrow>
          goto (CWait (ss_backoff s * 10))
            (if ss_ever_connected s then set_status Reconnecting ''Resolving SRT receiver'' s else s)
      | Some remote \<Rightarrow> goto CCreate (s\<lparr>ss_remote := Some remote\<rparr>))"
| "connector_at cfg a CCreate s =
     (case an_create_socket a of
        None \<Rightarrow> goto CDone (set_status Fatal (srt_error ''srt_create_socket'' (an_lasterror a)) s)
      | Some socket \<Rightarrow> goto (CPublish socket) (emit (CreateSocket socket) s))"
| "connector_at cfg a (CPublish socket) s = goto (CCheckStop socket) (s\<lparr>ss_socket := Some socket\<rparr>)"
| "connector_at cfg a (CCheckStop socket) s =
     goto (if ss_stop s then CClose socket CDone
           else CSetOptions socket (connector_options cfg (remote_of s))) s"
| "connector_at cfg a (CSetOptions socket []) s = goto (CTransport socket) s"
| "connector_at cfg a (CSetOptions socket (opt # opts)) s =
     (if an_setsockopt_ok a then goto (CSetOptions socket opts) (emit (SetOption socket opt) s)
      else goto (CClose socket CDone) (set_status Fatal (srt_error (option_name opt) (an_lasterror a)) s))"
| "connector_at cfg a (CTransport socket) s =
     (if an_transport_ok a then goto (CBind socket) (emit (SetTransport socket) s)
      else goto (CClose socket CDone)
        (set_status Fatal (srt_error ''srt_set_external_transport'' (an_lasterror a)) s))"
| "connector_at cfg a (CBind socket) s =
     (if an_bind_ok a then goto (CConnect socket) (emit (Bind socket (sa_family (remote_of s))) s)
      else goto (CClose socket (CWait (ss_backoff s * 10)))
        (set_status (retry_status s) (srt_error ''srt_bind'' (an_lasterror a)) s))"
| "connector_at cfg a (CConnect socket) s =
     (let s1 = emit (Connect socket (remote_of s)) s
      in if an_connect_ok a then goto (CHandshake socket 0) s1
         else goto (CClose socket (CWait (ss_backoff s * 10)))
           (set_status (retry_status s) (srt_error ''srt_connect'' (an_lasterror a)) s1))"
| "connector_at cfg a (CHandshake socket wait) s =
     (let failed = goto (CClose socket CNext)
            (set_status (retry_status s)
              (let error = srt_error ''SRT connection handshake'' (an_lasterror a)
               in if error = [] then ''SRT connection timed out'' else error) s)
      in if \<not> wait < 50 \<or> ss_stop s then failed
         else if an_sockstate a = SRTS_CONNECTED then goto (CEstablished socket) s
         else if handshake_over (an_sockstate a) then failed
         else goto (CHandshake socket (Suc wait)) s)"
| "connector_at cfg a (CEstablished socket) s =
     goto (CMonitor socket)
       (set_status Connected []
         (s\<lparr>ss_negotiated_latency_ms :=
               (case an_peer_latency a of
                  Some l \<Rightarrow> if 0 < l then l else cf_latency_ms cfg
                | None \<Rightarrow> cf_latency_ms cfg),
            ss_backoff := 1, ss_connected := True, ss_ever_connected := True\<rparr>))"
| "connector_at cfg a (CMonitor socket) s =
     goto (if ss_stop s \<or> connection_lost (an_sockstate a) then CDisconnected socket else CMonitor socket) s"
| "connector_at cfg a (CDisconnected socket) s =
     goto (CClose socket CPause)
       (let s1 = s\<lparr>ss_connected := False\<rparr>
        in if \<not> ss_stop s1 then set_status Reconnecting ''SRT session disconnected'' s1 else s1)"
| "connector_at cfg a (CClose socket then_pc) s = goto then_pc (close_socket socket s)"
| "connector_at cfg a CPause s = goto (if ss_stop s then CNext else CWait (ss_backoff s * 10)) s"
| "connector_at cfg a (CWait n) s = goto (if n = 0 \<or> ss_stop s then CNext else CWait (n - 1)) s"
| "connector_at cfg a CNext s = goto CTop (s\<lparr>ss_backoff := (if ss_backoff s = 1 then 2 else 5)\<rparr>)"

definition connector_step :: "session_config \<Rightarrow> srt_answers \<Rightarrow> session \<Rightarrow> session" where
  "connector_step cfg a s = connector_at cfg a (ss_pc s) s"

definition new_session :: "session_config \<Rightarrow> session" where
  "new_session cfg = \<lparr>ss_socket = None, ss_stop = False, ss_connected = False, ss_status = Idle, ss_error = [],
     ss_negotiated_latency_ms = cf_latency_ms cfg, ss_remote = None, ss_ever_connected = False, ss_backoff = 1,
     ss_pc = CAbsent, ss_caller = SRunning, ss_trace = []\<rparr>"

definition invalid_encryption :: "session_config \<Rightarrow> bool" where
  "invalid_encryption cfg \<longleftrightarrow>
     (cf_passphrase cfg \<noteq> []
      \<and> (length (cf_passphrase cfg) < 10 \<or> 79 < length (cf_passphrase cfg) \<or> \<not> valid_utf8 (cf_passphrase cfg)))
     \<or> (cf_pbkeylen cfg \<noteq> 16 \<and> cf_pbkeylen cfg \<noteq> 24 \<and> cf_pbkeylen cfg \<noteq> 32)"

text \<open>\<^verbatim>\<open>thread_ok\<close> is whether the thread could be created.\<close>

definition session_start :: "session_config \<Rightarrow> bool \<Rightarrow> session \<Rightarrow> bool \<times> session" where
  "session_start cfg thread_ok s =
     (if ss_pc s \<noteq> CAbsent then (False, s)
      else if invalid_encryption cfg then (False, set_status Fatal ''Invalid SRT encryption settings'' s)
      else
        let s1 = set_status Connecting [] (s\<lparr>ss_stop := False\<rparr>)
        in if thread_ok then (True, s1\<lparr>ss_pc := CTop, ss_ever_connected := False, ss_backoff := 1\<rparr>)
           else (False, set_status Fatal ''Failed to start SRT connector thread''
                   (s1\<lparr>ss_stop := True, ss_connected := False\<rparr>)))"

text \<open>\<^verbatim>\<open>stop\<close> in its three parts: raise the flag, close the socket, join and report.\<close>

definition stop_request :: "session \<Rightarrow> session" where
  "stop_request s = s\<lparr>ss_stop := True, ss_caller := SStopClose\<rparr>"

definition stop_close :: "session \<Rightarrow> session" where
  "stop_close s = (close_current_socket s)\<lparr>ss_caller := SStopJoin\<rparr>"

definition stop_join :: "session \<Rightarrow> session" where
  "stop_join s = (set_status Stopped [] (s\<lparr>ss_pc := CAbsent, ss_connected := False\<rparr>))\<lparr>ss_caller := SStopped\<rparr>"

lemmas session_op_simps [model_simps] =
  emit_def goto_def close_socket_def close_current_socket_def set_status_def stop_request_def
  stop_close_def stop_join_def

text \<open>libsrt never hands out a socket handle twice.\<close>

definition fresh_socket :: "srt_answers \<Rightarrow> session \<Rightarrow> bool" where
  "fresh_socket a s \<longleftrightarrow>
     (case an_create_socket a of None \<Rightarrow> True | Some socket \<Rightarrow> CreateSocket socket \<notin> set (ss_trace s))"

inductive session_step :: "session_config \<Rightarrow> session \<Rightarrow> session \<Rightarrow> bool" for cfg where
  connector: "ss_pc s \<noteq> CAbsent \<Longrightarrow> ss_pc s \<noteq> CDone \<Longrightarrow> fresh_socket a s
    \<Longrightarrow> session_step cfg s (connector_step cfg a s)"
| request: "ss_caller s = SRunning \<Longrightarrow> session_step cfg s (stop_request s)"
| close: "ss_caller s = SStopClose \<Longrightarrow> session_step cfg s (stop_close s)"
| join: "ss_caller s = SStopJoin \<Longrightarrow> ss_pc s = CDone \<or> ss_pc s = CAbsent \<Longrightarrow> session_step cfg s (stop_join s)"

definition session_started :: "session_config \<Rightarrow> session \<Rightarrow> bool" where
  "session_started cfg s \<longleftrightarrow> session_start cfg True (new_session cfg) = (True, s)"

section \<open>Socket ownership\<close>

fun held_socket :: "connector_pc \<Rightarrow> nat option" where
  "held_socket (CCheckStop h) = Some h"
| "held_socket (CSetOptions h _) = Some h"
| "held_socket (CTransport h) = Some h"
| "held_socket (CBind h) = Some h"
| "held_socket (CConnect h) = Some h"
| "held_socket (CHandshake h _) = Some h"
| "held_socket (CEstablished h) = Some h"
| "held_socket (CMonitor h) = Some h"
| "held_socket (CDisconnected h) = Some h"
| "held_socket (CClose h _) = Some h"
| "held_socket _ = None"

fun unpublished_socket :: "connector_pc \<Rightarrow> nat option" where
  "unpublished_socket (CPublish h) = Some h"
| "unpublished_socket _ = None"

text \<open>After a close the thread holds no socket; a wait is at most fifty ticks of 100 ms.\<close>

fun pc_wf :: "connector_pc \<Rightarrow> bool" where
  "pc_wf (CClose h pc) = (pc \<in> {CDone, CPause, CNext} \<or> (\<exists>n \<le> 50. pc = CWait n))"
| "pc_wf (CWait n) = (n \<le> 50)"
| "pc_wf (CHandshake h n) = (n \<le> 50)"
| "pc_wf (CSetOptions h opts) = (length opts \<le> 7)"
| "pc_wf _ = True"

fun event_created :: "session_event \<Rightarrow> nat option" where
  "event_created (CreateSocket h) = Some h"
| "event_created _ = None"

fun event_closed :: "session_event \<Rightarrow> nat option" where
  "event_closed (CloseSocket h) = Some h"
| "event_closed _ = None"

definition creates :: "session_event list \<Rightarrow> nat list" where
  "creates tr = List.map_filter event_created tr"

definition closes :: "session_event list \<Rightarrow> nat list" where
  "closes tr = List.map_filter event_closed tr"

lemma creates_simps [simp]:
  "creates [] = []"
  "creates (e # tr) = (case event_created e of Some h \<Rightarrow> [h] | None \<Rightarrow> []) @ creates tr"
  "creates (tr @ tr') = creates tr @ creates tr'"
  by (simp_all add: creates_def List.map_filter_def split: option.splits)

lemma closes_simps [simp]:
  "closes [] = []"
  "closes (e # tr) = (case event_closed e of Some h \<Rightarrow> [h] | None \<Rightarrow> []) @ closes tr"
  "closes (tr @ tr') = closes tr @ closes tr'"
  by (simp_all add: closes_def List.map_filter_def split: option.splits)

lemma creates_mem: "h \<in> set (creates tr) \<longleftrightarrow> CreateSocket h \<in> set tr"
proof -
  have "event_created e = Some h \<longleftrightarrow> e = CreateSocket h" for e
    by (cases e) auto
  then show ?thesis by (force simp: creates_def List.map_filter_def)
qed

definition opt_mset :: "'a option \<Rightarrow> 'a multiset" where
  "opt_mset x = (case x of Some y \<Rightarrow> {#y#} | None \<Rightarrow> {#})"

lemma opt_mset_simps [simp]: "opt_mset None = {#}" "opt_mset (Some y) = {#y#}"
  by (simp_all add: opt_mset_def)

text \<open>Every created socket is closed, current or about to be published, each exactly once.\<close>

definition socket_inv :: "session \<Rightarrow> bool" where
  "socket_inv s \<longleftrightarrow>
     distinct (creates (ss_trace s))
     \<and> mset (creates (ss_trace s)) =
         mset (closes (ss_trace s)) + opt_mset (ss_socket s) + opt_mset (unpublished_socket (ss_pc s))
     \<and> (\<forall>h. ss_socket s = Some h \<longrightarrow> held_socket (ss_pc s) = Some h)
     \<and> pc_wf (ss_pc s) \<and> ss_backoff s \<in> {1, 2, 5}"

lemma socket_inv_pc:
  assumes "socket_inv s" and "unpublished_socket (ss_pc s) = None"
    and "held_socket (ss_pc s) = held_socket pc" and "unpublished_socket pc = None" and "pc_wf pc"
  shows "socket_inv (goto pc s)"
  using assms by (simp add: socket_inv_def goto_def)

lemma socket_inv_emit:
  assumes "event_created e = None" and "event_closed e = None"
  shows "socket_inv (emit e s) = socket_inv s"
  using assms by (simp add: socket_inv_def emit_def)

lemma socket_inv_status [simp]: "socket_inv (set_status st err s) = socket_inv s"
  by (simp add: socket_inv_def set_status_def emit_def)

lemma goto_fields [simp]:
  "ss_pc (goto pc s) = pc" "ss_socket (goto pc s) = ss_socket s" "ss_stop (goto pc s) = ss_stop s"
  "ss_connected (goto pc s) = ss_connected s" "ss_status (goto pc s) = ss_status s"
  "ss_ever_connected (goto pc s) = ss_ever_connected s" "ss_backoff (goto pc s) = ss_backoff s"
  "ss_caller (goto pc s) = ss_caller s" "ss_trace (goto pc s) = ss_trace s" "ss_remote (goto pc s) = ss_remote s"
  by (simp_all add: goto_def)

lemma emit_fields [simp]:
  "ss_pc (emit e s) = ss_pc s" "ss_socket (emit e s) = ss_socket s" "ss_stop (emit e s) = ss_stop s"
  "ss_connected (emit e s) = ss_connected s" "ss_status (emit e s) = ss_status s"
  "ss_ever_connected (emit e s) = ss_ever_connected s" "ss_backoff (emit e s) = ss_backoff s"
  "ss_caller (emit e s) = ss_caller s" "ss_trace (emit e s) = ss_trace s @ [e]" "ss_remote (emit e s) = ss_remote s"
  by (simp_all add: emit_def)

lemma set_status_fields [simp]:
  "ss_pc (set_status st err s) = ss_pc s" "ss_socket (set_status st err s) = ss_socket s"
  "ss_stop (set_status st err s) = ss_stop s" "ss_connected (set_status st err s) = ss_connected s"
  "ss_status (set_status st err s) = st" "ss_ever_connected (set_status st err s) = ss_ever_connected s"
  "ss_backoff (set_status st err s) = ss_backoff s" "ss_caller (set_status st err s) = ss_caller s"
  "ss_trace (set_status st err s) = ss_trace s @ [Report st err]" "ss_remote (set_status st err s) = ss_remote s"
  by (simp_all add: set_status_def)

lemma close_socket_fields [simp]:
  "ss_pc (close_socket h s) = ss_pc s" "ss_stop (close_socket h s) = ss_stop s"
  "ss_socket (close_socket h s) = (if ss_socket s = Some h then None else ss_socket s)"
  "ss_connected (close_socket h s) = ss_connected s" "ss_status (close_socket h s) = ss_status s"
  "ss_ever_connected (close_socket h s) = ss_ever_connected s" "ss_backoff (close_socket h s) = ss_backoff s"
  "ss_caller (close_socket h s) = ss_caller s" "ss_remote (close_socket h s) = ss_remote s"
  "ss_trace (close_socket h s) = ss_trace s @ (if ss_socket s = Some h then [CloseSocket h] else [])"
  by (auto simp: close_socket_def)

lemma connector_options_length: "length (connector_options cfg r) \<le> 7"
  by (simp add: connector_options_def)

lemma socket_inv_connector:
  assumes "socket_inv s" and "fresh_socket a s"
  shows "socket_inv (connector_step cfg a s)"
proof -
  have fresh: "an_create_socket a = Some h \<Longrightarrow> h \<notin> set (creates (ss_trace s))" for h
    using assms(2) by (simp add: fresh_socket_def creates_mem)
  have free: "ss_socket s = None" if "held_socket (ss_pc s) = None"
    using assms(1) that by (cases "ss_socket s") (auto simp: socket_inv_def)
  note inv = assms(1) [unfolded socket_inv_def]
  show ?thesis
  proof (cases "ss_pc s")
    case (CSetOptions h opts)
    then show ?thesis
      using inv unfolding connector_step_def socket_inv_def by (cases opts) auto
  next
    case (CClose h pc)
    have "held_socket pc = None" "unpublished_socket pc = None" "pc_wf pc"
      using inv CClose by auto
    moreover have "ss_socket s = None \<or> ss_socket s = Some h"
      using inv CClose by (cases "ss_socket s") auto
    ultimately show ?thesis
      using inv unfolding connector_step_def socket_inv_def CClose
      by (elim disjE) simp_all
  next
    case CCreate
    with free have "ss_socket s = None" by simp
    with inv fresh CCreate show ?thesis
      unfolding connector_step_def socket_inv_def by (cases "an_create_socket a") simp_all
  next
    case (CPublish h)
    with free have "ss_socket s = None" by simp
    with inv CPublish show ?thesis
      unfolding connector_step_def socket_inv_def by simp
  next
    case (CCheckStop h)
    then show ?thesis
      using inv connector_options_length unfolding connector_step_def socket_inv_def by auto
  next
    case CResolve
    with free have "ss_socket s = None" by simp
    with inv CResolve show ?thesis
      unfolding connector_step_def socket_inv_def by (cases "an_getaddrinfo a") auto
  next
    case CPause
    with free have "ss_socket s = None" by simp
    with inv CPause show ?thesis
      unfolding connector_step_def socket_inv_def by auto
  qed (use inv in \<open>auto simp: connector_step_def socket_inv_def Let_def\<close>)
qed

lemma socket_inv_caller:
  "socket_inv s \<Longrightarrow> socket_inv (stop_request s)"
  "socket_inv s \<Longrightarrow> socket_inv (stop_close s)"
  "socket_inv s \<Longrightarrow> ss_pc s = CDone \<or> ss_pc s = CAbsent \<Longrightarrow> socket_inv (stop_join s)"
  by (auto simp: socket_inv_def stop_request_def stop_close_def stop_join_def close_current_socket_def
      split: option.splits)

section \<open>Reported states\<close>

definition reports :: "session_event list \<Rightarrow> session_status list" where
  "reports tr = List.map_filter (\<lambda>e. case e of Report st _ \<Rightarrow> Some st | _ \<Rightarrow> None) tr"

lemma reports_simps [simp]:
  "reports [] = []" "reports (tr @ tr') = reports tr @ reports tr'"
  "reports (e # tr) = (case e of Report st _ \<Rightarrow> [st] | _ \<Rightarrow> []) @ reports tr"
  by (simp_all add: reports_def List.map_filter_def split: session_event.splits)

text \<open>Which state the receiver of the reports may see after which.\<close>

fun status_next :: "session_status \<Rightarrow> session_status \<Rightarrow> bool" where
  "status_next Connecting st = (st \<in> {Connecting, Connected, Fatal, Stopped})"
| "status_next Connected st = (st \<in> {Reconnecting, Stopped})"
| "status_next Reconnecting st = (st \<in> {Reconnecting, Connected, Fatal, Stopped})"
| "status_next Fatal st = (st = Stopped)"
| "status_next _ st = False"

fun connected_pc :: "connector_pc \<Rightarrow> bool" where
  "connected_pc (CMonitor _) = True"
| "connected_pc (CDisconnected _) = True"
| "connected_pc _ = False"

text \<open>Places on the way out after a stop during the connected phase.\<close>

fun leaving_pc :: "connector_pc \<Rightarrow> bool" where
  "leaving_pc (CClose _ pc) = (pc = CPause)"
| "leaving_pc pc = (pc \<in> {CPause, CNext, CTop, CDone})"

fun fatal_pc :: "connector_pc \<Rightarrow> bool" where
  "fatal_pc (CClose _ pc) = (pc = CDone)"
| "fatal_pc pc = (pc = CDone)"

fun status_fits :: "session_status \<Rightarrow> session \<Rightarrow> bool" where
  "status_fits Idle s = False"
| "status_fits Connecting s = (\<not> ss_ever_connected s \<and> ss_pc s \<noteq> CAbsent \<and> \<not> connected_pc (ss_pc s))"
| "status_fits Connected s = (ss_ever_connected s \<and> (connected_pc (ss_pc s) \<or> ss_stop s \<and> leaving_pc (ss_pc s)))"
| "status_fits Reconnecting s = (ss_ever_connected s \<and> ss_pc s \<noteq> CAbsent \<and> \<not> connected_pc (ss_pc s))"
| "status_fits Fatal s = fatal_pc (ss_pc s)"
| "status_fits Stopped s = (ss_pc s = CAbsent \<and> ss_caller s = SStopped)"

definition status_inv :: "session \<Rightarrow> bool" where
  "status_inv s \<longleftrightarrow>
     successively status_next (reports (ss_trace s))
     \<and> reports (ss_trace s) \<noteq> [] \<and> last (reports (ss_trace s)) = ss_status s
     \<and> status_fits (ss_status s) s
     \<and> ss_connected s = connected_pc (ss_pc s)
     \<and> (ss_caller s = SStopped \<longrightarrow> ss_pc s = CAbsent) \<and> (ss_caller s \<noteq> SRunning \<longrightarrow> ss_stop s)"

lemma successively_snoc:
  "successively P (xs @ [x]) \<longleftrightarrow> successively P xs \<and> (xs = [] \<or> P (last xs) x)"
  by (auto simp: successively_append_iff)

lemma status_inv_report:
  assumes "successively status_next (reports (ss_trace s))" "reports (ss_trace s) \<noteq> []"
    and "last (reports (ss_trace s)) = ss_status s" and "status_next (ss_status s) st"
  shows "successively status_next (reports (ss_trace s @ [Report st err]))"
  using assms by (simp add: successively_snoc)

lemma status_inv_connector:
  assumes "status_inv s" and "pc_wf (ss_pc s)" and "ss_pc s \<noteq> CAbsent" and "ss_pc s \<noteq> CDone"
  shows "status_inv (connector_step cfg a s)"
proof -
  note inv = assms(1) [unfolded status_inv_def]
  have caller: "ss_caller s \<noteq> SStopped"
    using inv assms(3) by auto
  show ?thesis
  proof (cases "ss_pc s")
    case (CSetOptions h opts)
    then show ?thesis
      using inv caller unfolding connector_step_def status_inv_def
      by (cases opts; cases "ss_status s") (auto simp: successively_snoc)
  next
    case (CClose h pc)
    then show ?thesis
      using inv caller assms(2) unfolding connector_step_def status_inv_def
      by (cases "ss_status s") (auto simp: successively_snoc)
  next
    case CResolve
    then show ?thesis
      using inv caller unfolding connector_step_def status_inv_def
      by (cases "an_getaddrinfo a"; cases "ss_status s") (auto simp: successively_snoc)
  next
    case CCreate
    then show ?thesis
      using inv caller unfolding connector_step_def status_inv_def
      by (cases "an_create_socket a"; cases "ss_status s") (auto simp: successively_snoc)
  qed (use inv caller assms(3,4) in \<open>cases "ss_status s";
      auto simp: connector_step_def status_inv_def successively_snoc retry_status_def Let_def\<close>)+
qed

lemma status_inv_caller:
  "status_inv s \<Longrightarrow> ss_caller s = SRunning \<Longrightarrow> status_inv (stop_request s)"
  "status_inv s \<Longrightarrow> ss_caller s = SStopClose \<Longrightarrow> status_inv (stop_close s)"
  "status_inv s \<Longrightarrow> ss_caller s = SStopJoin \<Longrightarrow> ss_pc s = CDone \<or> ss_pc s = CAbsent \<Longrightarrow> status_inv (stop_join s)"
  by (cases "ss_status s"; auto simp: status_inv_def stop_request_def stop_close_def stop_join_def
      close_current_socket_def successively_snoc split: option.splits)+

section \<open>Configuration of a connection\<close>

text \<open>Each connection attempt in a trace comes after every option, the transport and the binding.\<close>

definition event_configured :: "session_config \<Rightarrow> session_event list \<Rightarrow> session_event \<Rightarrow> bool" where
  "event_configured cfg before e \<longleftrightarrow>
     (case e of
        Connect h r \<Rightarrow>
          list_all (\<lambda>opt. SetOption h opt \<in> set before) (connector_options cfg r)
          \<and> SetTransport h \<in> set before \<and> Bind h (sa_family r) \<in> set before
      | _ \<Rightarrow> True)"

fun connects_configured :: "session_config \<Rightarrow> session_event list \<Rightarrow> session_event list \<Rightarrow> bool" where
  "connects_configured cfg before [] = True"
| "connects_configured cfg before (e # es) =
     (event_configured cfg before e \<and> connects_configured cfg (before @ [e]) es)"

lemma connects_configured_append:
  "connects_configured cfg before (es @ fs) \<longleftrightarrow>
   connects_configured cfg before es \<and> connects_configured cfg (before @ es) fs"
  by (induction es arbitrary: before) auto

fun configured_pc :: "session_config \<Rightarrow> session \<Rightarrow> connector_pc \<Rightarrow> bool" where
  "configured_pc cfg s (CSetOptions h opts) =
     (\<exists>earlier. connector_options cfg (remote_of s) = earlier @ opts
        \<and> list_all (\<lambda>opt. SetOption h opt \<in> set (ss_trace s)) earlier)"
| "configured_pc cfg s (CTransport h) =
     list_all (\<lambda>opt. SetOption h opt \<in> set (ss_trace s)) (connector_options cfg (remote_of s))"
| "configured_pc cfg s (CBind h) =
     (list_all (\<lambda>opt. SetOption h opt \<in> set (ss_trace s)) (connector_options cfg (remote_of s))
      \<and> SetTransport h \<in> set (ss_trace s))"
| "configured_pc cfg s (CConnect h) = event_configured cfg (ss_trace s) (Connect h (remote_of s))"
| "configured_pc cfg s _ = True"

definition config_inv :: "session_config \<Rightarrow> session \<Rightarrow> bool" where
  "config_inv cfg s \<longleftrightarrow> connects_configured cfg [] (ss_trace s) \<and> configured_pc cfg s (ss_pc s)"

lemma remote_of_fields [simp]:
  "remote_of (goto pc s) = remote_of s" "remote_of (emit e s) = remote_of s"
  "remote_of (set_status st err s) = remote_of s" "remote_of (close_socket h s) = remote_of s"
  by (simp_all add: remote_of_def)

lemma configured_pc_free: "pc_wf (CClose h pc) \<Longrightarrow> configured_pc cfg s pc"
  by auto

lemma config_inv_connector:
  assumes "config_inv cfg s" and "pc_wf (ss_pc s)"
  shows "config_inv cfg (connector_step cfg a s)"
proof -
  note inv = assms(1) [unfolded config_inv_def]
  note config_simps = connector_step_def config_inv_def connects_configured_append event_configured_def
  show ?thesis
  proof (cases "ss_pc s")
    case (CSetOptions h opts)
    show ?thesis
    proof (cases opts)
      case (Cons opt more)
      obtain earlier where "connector_options cfg (remote_of s) = (earlier @ [opt]) @ more"
        "list_all (\<lambda>opt. SetOption h opt \<in> set (ss_trace s)) earlier"
        using inv CSetOptions Cons by auto
      then have "configured_pc cfg (emit (SetOption h opt) s) (CSetOptions h more)"
        by (auto simp: list_all_iff intro!: exI [of _ "earlier @ [opt]"])
      with inv CSetOptions Cons show ?thesis
        by (auto simp: config_simps)
    qed (use inv CSetOptions in \<open>auto simp: config_simps\<close>)
  next
    case (CClose h pc)
    then show ?thesis
      using inv assms(2) by (auto simp: config_simps)
  next
    case (CBind h)
    then show ?thesis
      using inv by (auto simp: config_simps list_all_iff)
  next
    case (CTransport h)
    then show ?thesis
      using inv by (auto simp: config_simps list_all_iff)
  next
    case (CConnect h)
    then show ?thesis
      using inv by (auto simp: config_simps Let_def)
  qed (use inv in \<open>auto simp: config_simps Let_def split: option.splits\<close>)
qed

lemma config_inv_caller:
  "config_inv cfg s \<Longrightarrow> config_inv cfg (stop_request s)"
  "config_inv cfg s \<Longrightarrow> config_inv cfg (stop_close s)"
  "config_inv cfg s \<Longrightarrow> ss_pc s = CDone \<or> ss_pc s = CAbsent \<Longrightarrow> config_inv cfg (stop_join s)"
proof -
  assume inv: "config_inv cfg s"
  then show "config_inv cfg (stop_request s)"
    by (cases "ss_pc s") (auto simp: config_inv_def stop_request_def remote_of_def)
  from inv show "config_inv cfg (stop_close s)"
    by (cases "ss_pc s"; cases "ss_socket s")
      (auto simp: config_inv_def stop_close_def close_current_socket_def remote_of_def list_all_iff
        connects_configured_append event_configured_def)
  from inv show "ss_pc s = CDone \<or> ss_pc s = CAbsent \<Longrightarrow> config_inv cfg (stop_join s)"
    by (auto simp: config_inv_def stop_join_def connects_configured_append event_configured_def)
qed

section \<open>The whole invariant\<close>

definition session_inv :: "session_config \<Rightarrow> session \<Rightarrow> bool" where
  "session_inv cfg s \<longleftrightarrow> socket_inv s \<and> status_inv s \<and> config_inv cfg s"

lemma session_inv_started: "session_started cfg s \<Longrightarrow> session_inv cfg s"
  by (auto simp: session_started_def session_start_def new_session_def session_inv_def socket_inv_def
      status_inv_def config_inv_def event_configured_def set_status_def emit_def split: if_splits)

lemma session_inv_step:
  assumes "session_step cfg s t" and "session_inv cfg s"
  shows "session_inv cfg t"
  using assms
proof (cases rule: session_step.cases)
  case (connector a)
  then show ?thesis
    using assms(2) socket_inv_connector status_inv_connector config_inv_connector
    by (auto simp: session_inv_def socket_inv_def)
qed (use assms(2) in \<open>auto simp: session_inv_def intro: socket_inv_caller status_inv_caller config_inv_caller\<close>)

interpretation srt_session: invariant_system "session_started cfg" "session_step cfg" "session_inv cfg" for cfg
  by unfold_locales (auto intro: session_inv_started session_inv_step)

section \<open>Stopping\<close>

text \<open>How many more steps the connector takes once the stop flag is up, at most.\<close>

fun stop_rank :: "connector_pc \<Rightarrow> nat" where
  "stop_rank CAbsent = 0"
| "stop_rank CDone = 0"
| "stop_rank CTop = 1"
| "stop_rank CNext = 2"
| "stop_rank (CWait n) = 3"
| "stop_rank CPause = 3"
| "stop_rank (CClose h pc) = Suc (stop_rank pc)"
| "stop_rank (CDisconnected h) = 5"
| "stop_rank (CMonitor h) = 6"
| "stop_rank (CEstablished h) = 7"
| "stop_rank (CHandshake h n) = 4"
| "stop_rank (CConnect h) = 5"
| "stop_rank (CBind h) = 6"
| "stop_rank (CTransport h) = 7"
| "stop_rank (CSetOptions h opts) = 8 + length opts"
| "stop_rank (CCheckStop h) = 2"
| "stop_rank (CPublish h) = 3"
| "stop_rank CCreate = 4"
| "stop_rank CResolve = 5"

lemma connector_step_stop: "ss_stop (connector_step cfg a s) = ss_stop s"
  by (cases "(cfg, a, ss_pc s, s)" rule: connector_at.cases)
    (auto simp: connector_step_def Let_def split: option.splits)

lemma stop_rank_step:
  assumes "ss_stop s"
  shows "stop_rank (ss_pc (connector_step cfg a s)) \<le> stop_rank (ss_pc s) - 1"
  using assms
  by (cases "(cfg, a, ss_pc s, s)" rule: connector_at.cases)
    (auto simp: connector_step_def Let_def split: option.splits)

lemma stop_rank_run:
  "ss_stop s \<Longrightarrow> stop_rank (ss_pc (fold (connector_step cfg) as s)) \<le> stop_rank (ss_pc s) - length as"
proof (induction as arbitrary: s)
  case (Cons a as)
  have "stop_rank (ss_pc (connector_step cfg a s)) \<le> stop_rank (ss_pc s) - 1"
    using Cons.prems by (rule stop_rank_step)
  with Cons.IH [of "connector_step cfg a s"] Cons.prems show ?case
    by (simp add: connector_step_stop)
qed simp

lemma stop_rank_bound:
  assumes "pc_wf pc"
  shows "stop_rank pc \<le> 15"
  using assms by (cases pc) auto

lemma stop_rank_zero: "stop_rank pc = 0 \<longleftrightarrow> pc = CDone \<or> pc = CAbsent"
  by (cases pc) auto

section \<open>Properties of the connector\<close>

definition demo_config :: session_config where
  "demo_config = \<lparr>cf_host = ''relay'', cf_port = 5000, cf_stream_id = [], cf_passphrase = ''0123456789'',
     cf_latency_ms = 2000, cf_pbkeylen = 16\<rparr>"

definition demo_answers :: srt_answers where
  "demo_answers = \<lparr>an_getaddrinfo = Some \<lparr>sa_family = AF_INET, sa_bytes = [10, 0, 0, 1]\<rparr>,
     an_create_socket = Some 7, an_setsockopt_ok = True, an_transport_ok = True, an_bind_ok = True,
     an_connect_ok = True, an_sockstate = SRTS_CONNECTED, an_peer_latency = None, an_lasterror = None\<rparr>"

definition quiet_answers :: srt_answers where
  "quiet_answers = demo_answers\<lparr>an_create_socket := None\<rparr>"

definition demo_start :: session where
  "demo_start = (set_status Connecting [] (new_session demo_config))\<lparr>ss_pc := CTop\<rparr>"

text \<open>The session with its connector at \<^verbatim>\<open>srt_create_socket\<close>, and once it is connected.\<close>

definition demo_resolved :: session where
  "demo_resolved = fold (connector_step demo_config) (replicate 2 quiet_answers) demo_start"

definition demo_connected :: session where
  "demo_connected = fold (connector_step demo_config) (replicate 13 quiet_answers)
     (connector_step demo_config demo_answers demo_resolved)"

lemma demo_passphrase: "valid_utf8 ''0123456789''"
  by (simp add: valid_utf8_def valid_utf8_bytes.simps utf8_lead_def utf8_bad_def)

lemma demo_started: "session_started demo_config demo_start"
  by (simp add: session_started_def demo_start_def session_start_def new_session_def invalid_encryption_def
      demo_config_def demo_passphrase set_status_def emit_def)

lemma reach_connector_run:
  assumes "reach (session_started cfg) (session_step cfg) s" and "list_all (\<lambda>a. an_create_socket a = None) as"
  shows "reach (session_started cfg) (session_step cfg) (fold (connector_step cfg) as s)"
  using assms
proof (induction as arbitrary: s)
  case (Cons a as)
  have "reach (session_started cfg) (session_step cfg) (connector_step cfg a s)"
  proof (cases "ss_pc s = CAbsent \<or> ss_pc s = CDone")
    case True
    then have "connector_step cfg a s = s"
      by (auto simp: connector_step_def)
    with Cons.prems(1) show ?thesis by simp
  next
    case False
    have "fresh_socket a s"
      using Cons.prems(2) by (simp add: fresh_socket_def)
    with False Cons.prems(1) show ?thesis
      by (blast intro: reach_step session_step.connector)
  qed
  with Cons.IH [of "connector_step cfg a s"] Cons.prems(2) show ?case by simp
qed simp

lemma demo_resolved_trace: "ss_trace demo_resolved = [Report Connecting []]" "ss_pc demo_resolved = CCreate"
  by code_simp+

lemma demo_connected_eqs:
  "ss_pc demo_connected = CMonitor 7" "ss_connected demo_connected"
  "creates (ss_trace demo_connected) = [7]" "closes (ss_trace demo_connected) = []"
  "reports (ss_trace demo_connected) = [Connecting, Connected]"
  by code_simp+

lemma demo_reach: "reach (session_started demo_config) (session_step demo_config) demo_connected"
proof -
  let ?reach = "reach (session_started demo_config) (session_step demo_config)"
  have quiet: "list_all (\<lambda>a. an_create_socket a = None) (replicate n quiet_answers)" for n
    by (simp add: list_all_iff quiet_answers_def)
  have resolved: "?reach demo_resolved"
    unfolding demo_resolved_def by (intro reach_connector_run quiet reach_init demo_started)
  have "fresh_socket demo_answers demo_resolved"
    by (simp add: fresh_socket_def demo_resolved_trace demo_answers_def)
  then have "session_step demo_config demo_resolved (connector_step demo_config demo_answers demo_resolved)"
    by (intro session_step.connector) (simp_all add: demo_resolved_trace(2))
  with resolved have "?reach (connector_step demo_config demo_answers demo_resolved)"
    by (rule reach_step)
  then show ?thesis
    unfolding demo_connected_def by (intro reach_connector_run quiet)
qed

lemma demo_stopped_reach:
  "reach (session_started demo_config) (session_step demo_config) (stop_request demo_connected)"
proof -
  have "ss_caller demo_connected = SRunning"
    by code_simp
  then show ?thesis
    by (rule reach_step [OF demo_reach, OF session_step.request])
qed

lemma distinct_submset:
  assumes "mset ys \<subseteq># mset xs" and "distinct xs"
  shows "distinct ys"
proof -
  have "count (mset ys) a = (if a \<in> set ys then 1 else 0)" for a
  proof (cases "a \<in> set ys")
    case True
    then have "0 < count (mset ys) a"
      by simp
    moreover have "count (mset ys) a \<le> count (mset xs) a"
      using assms(1) by (rule mset_subset_eq_count)
    moreover have "count (mset xs) a \<le> 1"
      using assms(2) by (simp add: distinct_count_atmost_1)
    ultimately have "count (mset ys) a = 1"
      by linarith
    with True show ?thesis by simp
  qed simp
  then show ?thesis by (simp add: distinct_count_atmost_1)
qed

text \<open>
  C1. However the connector and \<^verbatim>\<open>stop\<close> interleave and whatever libsrt answers, no socket is
  closed twice, only sockets that were created are closed, and once the connector has ended
  every socket it created has been closed: no double close and no leak.
\<close>

theorem session_closes_each_socket_once:
  assumes "reach (session_started cfg) (session_step cfg) s"
  shows "distinct (closes (ss_trace s)) \<and> set (closes (ss_trace s)) \<subseteq> set (creates (ss_trace s))
    \<and> (ss_pc s = CDone \<or> ss_pc s = CAbsent \<longrightarrow> set (closes (ss_trace s)) = set (creates (ss_trace s)))"
proof -
  have inv: "socket_inv s"
    using srt_session.reach_inv [OF assms] by (simp add: session_inv_def)
  have eq: "mset (creates (ss_trace s)) = mset (closes (ss_trace s)) + opt_mset (ss_socket s)
      + opt_mset (unpublished_socket (ss_pc s))" and "distinct (creates (ss_trace s))"
    using inv by (simp_all add: socket_inv_def)
  then have "mset (closes (ss_trace s)) \<subseteq># mset (creates (ss_trace s))"
    by simp
  moreover from this have "distinct (closes (ss_trace s))"
    using \<open>distinct (creates (ss_trace s))\<close> by (rule distinct_submset)
  moreover have "ss_socket s = None" if "ss_pc s = CDone \<or> ss_pc s = CAbsent"
    using inv that by (cases "ss_socket s") (auto simp: socket_inv_def)
  ultimately show ?thesis
    using eq set_mset_mono by (auto simp flip: set_mset_mset)
qed

theorem session_closes_each_socket_once_witness:
  "distinct (closes (ss_trace demo_connected))
   \<and> set (closes (ss_trace demo_connected)) \<subseteq> set (creates (ss_trace demo_connected))"
  using session_closes_each_socket_once [OF demo_reach] by simp





text \<open>
  C28. Stopping ends the session: from any reachable state with the stop flag up, whatever libsrt
  answers, the connector has ended after at most fifteen of its steps, so that the join in
  \<^verbatim>\<open>stop\<close> returns as soon as each call of libsrt returns.
\<close>

theorem session_stop_terminates:
  assumes "reach (session_started cfg) (session_step cfg) s" and "ss_stop s" and "15 \<le> length as"
  shows "ss_pc (fold (connector_step cfg) as s) = CDone \<or> ss_pc (fold (connector_step cfg) as s) = CAbsent"
proof -
  have "pc_wf (ss_pc s)"
    using srt_session.reach_inv [OF assms(1)] by (simp add: session_inv_def socket_inv_def)
  then have "stop_rank (ss_pc (fold (connector_step cfg) as s)) = 0"
    using stop_rank_run [OF assms(2), of cfg as] stop_rank_bound [of "ss_pc s"] assms(3) by simp
  then show ?thesis by (simp add: stop_rank_zero)
qed

theorem session_stop_terminates_witness:
  "ss_pc (fold (connector_step demo_config) (replicate 15 quiet_answers) (stop_request demo_connected)) = CDone
   \<or> ss_pc (fold (connector_step demo_config) (replicate 15 quiet_answers) (stop_request demo_connected)) = CAbsent"
  using session_stop_terminates [OF demo_stopped_reach, of "replicate 15 quiet_answers"]
  by (simp add: stop_request_def)

text \<open>
  Retries are paced: the back-off is one, two or five seconds, and neither a wait between
  attempts nor the wait for the handshake is longer than fifty ticks of 100 ms.
\<close>

theorem session_backoff_bounded:
  assumes "reach (session_started cfg) (session_step cfg) s"
  shows "ss_backoff s \<in> {1, 2, 5} \<and> (case ss_pc s of CWait n \<Rightarrow> n \<le> 50 | CHandshake h n \<Rightarrow> n \<le> 50 | _ \<Rightarrow> True)"
  using srt_session.reach_inv [OF assms]
  by (auto simp: session_inv_def socket_inv_def split: connector_pc.splits)

theorem session_backoff_bounded_witness:
  "ss_backoff demo_connected \<in> {1, 2, 5}
   \<and> (case ss_pc demo_connected of CWait n \<Rightarrow> n \<le> 50 | CHandshake h n \<Rightarrow> n \<le> 50 | _ \<Rightarrow> True)"
  by (rule session_backoff_bounded [OF demo_reach])


section \<open>Using a session\<close>

text \<open>
  \<^verbatim>\<open>wait_connected\<close>: \<open>seen\<close> are the states its condition was evaluated on before the time limit,
  the last one at the limit.
\<close>

definition wait_over :: "session_status \<Rightarrow> bool" where
  "wait_over st \<longleftrightarrow> st = Connected \<or> st = Fatal \<or> st = Stopped"

definition wait_connected :: "session_status list \<Rightarrow> bool" where
  "wait_connected seen = (case find wait_over seen of None \<Rightarrow> False | Some st \<Rightarrow> st = Connected)"

text \<open>\<^verbatim>\<open>srt_sendmsg\<close> gets the socket, the data and the length as an \<^verbatim>\<open>int\<close>.\<close>

definition send_ts :: "(nat \<Rightarrow> byte list \<Rightarrow> int \<Rightarrow> int) \<Rightarrow> byte list option \<Rightarrow> session \<Rightarrow> bool" where
  "send_ts srt_sendmsg buffer s =
     (case buffer of
        None \<Rightarrow> False
      | Some data \<Rightarrow>
          if data = [] \<or> \<not> ss_connected s then False
          else (case ss_socket s of
              None \<Rightarrow> False
            | Some socket \<Rightarrow>
                srt_sendmsg socket data (cast_int (int (length data))) = cast_int (int (length data))))"

text \<open>The datagram callbacks libsrt calls; \<open>None\<close> is an exception of the allocation.\<close>

definition transport_send :: "(byte list \<Rightarrow> int option) \<Rightarrow> byte list \<Rightarrow> byte list \<Rightarrow> session \<Rightarrow> int" where
  "transport_send submit header payload s =
     (if ss_stop s then - 1
      else (case submit (header @ payload) of None \<Rightarrow> - 1 | Some result \<Rightarrow> if result = 0 then 0 else - 1))"

text \<open>The result, the received size and the source address of \<^verbatim>\<open>transport_receive\<close>.\<close>

definition transport_receive ::
    "(nat \<Rightarrow> int \<Rightarrow> int) \<Rightarrow> nat \<Rightarrow> int \<Rightarrow> session \<Rightarrow> int \<times> nat \<times> sockaddr option" where
  "transport_receive receive capacity timeout_ms s =
     (if ss_stop s then (- 1, 0, None)
      else
        let result = receive capacity (if timeout_ms < 0 then 0 else timeout_ms)
        in if result \<le> 0 then (result, 0, None) else (1, nat result, Some (remote_of s)))"

subsection \<open>Statistics\<close>

text \<open>
  A finite \<^verbatim>\<open>double\<close> is a rational number. \<open>fl\<close> rounds an exact product to a \<^verbatim>\<open>double\<close>, \<open>None\<close> being
  infinity; casting a \<^verbatim>\<open>double\<close> that does not fit its integer type is undefined.
\<close>

datatype cxx_double = NotFinite | Finite rat

definition mbps_to_bps :: "(rat \<Rightarrow> rat option) \<Rightarrow> cxx_double \<Rightarrow> nat option" where
  "mbps_to_bps fl mbps =
     (case mbps of
        NotFinite \<Rightarrow> Some 0
      | Finite m \<Rightarrow>
          if m \<le> 0 then Some 0
          else (case fl (m * 1000000) of
              None \<Rightarrow> Some (2 ^ 64 - 1)
            | Some bps \<Rightarrow>
                if 2 ^ 64 \<le> bps then Some (2 ^ 64 - 1)
                else if bps \<le> - 1 then None
                else Some (nat \<lfloor>bps\<rfloor>)))"

definition cast_double_u32 :: "rat \<Rightarrow> nat option" where
  "cast_double_u32 x = (if - 1 < x \<and> x < 2 ^ 32 then Some (nat \<lfloor>x\<rfloor>) else None)"

record srt_perf =
  pf_mbpsBandwidth :: cxx_double
  pf_mbpsSendRate :: cxx_double
  pf_byteSentUnique :: "64 word"
  pf_byteRetrans :: "64 word"
  pf_byteSndDrop :: "64 word"
  pf_msSndBuf :: int
  pf_pktFlightSize :: int
  pf_pktSndLoss :: int
  pf_msRTT :: rat

record srtla_srt_stats =
  sr_struct_size :: nat
  sr_sampled_at_ms :: "64 word"
  sr_bandwidth_bps :: "nat option"
  sr_send_rate_bps :: "nat option"
  sr_sent_unique_bytes :: "64 word"
  sr_retransmitted_bytes :: "64 word"
  sr_dropped_bytes :: "64 word"
  sr_send_buffer_ms :: nat
  sr_packets_in_flight :: nat
  sr_sender_loss_packets :: nat
  sr_rtt_ms :: "nat option"
  sr_send_buffer_packets :: nat
  sr_latency_ms :: nat

definition empty_srt_stats :: srtla_srt_stats where
  "empty_srt_stats = \<lparr>sr_struct_size = 88, sr_sampled_at_ms = 0, sr_bandwidth_bps = Some 0, sr_send_rate_bps = Some 0,
     sr_sent_unique_bytes = 0, sr_retransmitted_bytes = 0, sr_dropped_bytes = 0, sr_send_buffer_ms = 0,
     sr_packets_in_flight = 0, sr_sender_loss_packets = 0, sr_rtt_ms = Some 0, sr_send_buffer_packets = 0,
     sr_latency_ms = 0\<rparr>"

definition sample_stats ::
    "(rat \<Rightarrow> rat option) \<Rightarrow> (nat \<Rightarrow> srt_perf option) \<Rightarrow> (nat \<Rightarrow> int option) \<Rightarrow> 64 word \<Rightarrow> session \<Rightarrow> bool \<times> srtla_srt_stats" where
  "sample_stats fl srt_bistats get_snddata sampled_at_ms s =
     (if \<not> ss_connected s then (False, empty_srt_stats)
      else (case ss_socket s of
          None \<Rightarrow> (False, empty_srt_stats)
        | Some socket \<Rightarrow>
            (case srt_bistats socket of
               None \<Rightarrow> (False, empty_srt_stats)
             | Some perf \<Rightarrow>
                 (case get_snddata socket of
                    None \<Rightarrow> (False, empty_srt_stats)
                  | Some send_buffer_packets \<Rightarrow>
                      if send_buffer_packets < 0 then (False, empty_srt_stats)
                      else (True, empty_srt_stats\<lparr>
                        sr_sampled_at_ms := sampled_at_ms,
                        sr_bandwidth_bps := mbps_to_bps fl (pf_mbpsBandwidth perf),
                        sr_send_rate_bps := mbps_to_bps fl (pf_mbpsSendRate perf),
                        sr_sent_unique_bytes := pf_byteSentUnique perf,
                        sr_retransmitted_bytes := pf_byteRetrans perf,
                        sr_dropped_bytes := pf_byteSndDrop perf,
                        sr_send_buffer_ms := nat (max 0 (pf_msSndBuf perf)),
                        sr_packets_in_flight := nat (max 0 (pf_pktFlightSize perf)),
                        sr_sender_loss_packets := nat (max 0 (pf_pktSndLoss perf)),
                        sr_rtt_ms := cast_double_u32 (max 0 (pf_msRTT perf)),
                        sr_send_buffer_packets := nat send_buffer_packets,
                        sr_latency_ms := nat (max 1 (ss_negotiated_latency_ms s))\<rparr>)))))"

text \<open>
  The conversion of libsrt's rates never overflows or runs into undefined behaviour,
  whatever libsrt reports (negative, infinite or not a number), as long as the product of
  positive numbers rounds to a non-negative one: the result fits 64 bits, is the whole
  part of the rounded product when that fits, and saturates otherwise.
\<close>

theorem mbps_to_bps_saturates:
  assumes "\<And>x y. 0 < x \<Longrightarrow> fl x = Some y \<Longrightarrow> 0 \<le> y"
  shows "\<exists>n < 2 ^ 64. mbps_to_bps fl x = Some n
    \<and> (\<forall>m y. x = Finite m \<longrightarrow> 0 < m \<longrightarrow> fl (m * 1000000) = Some y \<longrightarrow>
         (y < 2 ^ 64 \<longrightarrow> int n = \<lfloor>y\<rfloor>) \<and> (2 ^ 64 \<le> y \<longrightarrow> n = 2 ^ 64 - 1))"
proof (cases x)
  case (Finite m)
  show ?thesis
  proof (cases "m \<le> 0")
    case False
    show ?thesis
    proof (cases "fl (m * 1000000)")
      case (Some y)
      have "0 \<le> y"
        using assms [OF _ Some] False by simp
      moreover from this have "y < 2 ^ 64 \<Longrightarrow> nat \<lfloor>y\<rfloor> < 2 ^ 64"
        by (simp add: nat_less_iff floor_less_iff)
      ultimately show ?thesis
        using Finite False Some by (cases "2 ^ 64 \<le> y") (auto simp: mbps_to_bps_def)
    qed (use Finite False in \<open>auto simp: mbps_to_bps_def\<close>)
  qed (use Finite in \<open>auto simp: mbps_to_bps_def\<close>)
qed (auto simp: mbps_to_bps_def)

theorem mbps_to_bps_saturates_witness:
  "\<exists>n < 2 ^ 64. mbps_to_bps (\<lambda>x. Some x) (Finite 2) = Some n \<and> int n = 2000000"
  using mbps_to_bps_saturates [of "\<lambda>x. Some x" "Finite 2"] by auto

text \<open>
  A datagram counts as sent only if the whole of it was handed to libsrt on the session's
  current socket while the session was connected, and the stop flag shuts both directions of
  the transport: nothing reaches the engine and nothing is received any more.
\<close>

theorem session_transmits_whole_datagrams:
  assumes "reach (session_started cfg) (session_step cfg) s"
  shows "(send_ts sendmsg (Some data) s \<longrightarrow>
       data \<noteq> [] \<and> ss_status s = Connected
       \<and> (\<exists>socket. ss_socket s = Some socket \<and> socket \<in> set (creates (ss_trace s)) - set (closes (ss_trace s))
          \<and> sendmsg socket data (cast_int (int (length data))) = cast_int (int (length data))))
    \<and> (ss_stop s \<longrightarrow> transport_send submit header payload s = - 1
       \<and> transport_receive receive capacity timeout s = (- 1, 0, None))
    \<and> (transport_send submit header payload s = 0 \<longrightarrow> submit (header @ payload) = Some 0)"
proof -
  have inv: "socket_inv s" "status_inv s"
    using srt_session.reach_inv [OF assms] by (simp_all add: session_inv_def)
  have open_socket: "socket \<in> set (creates (ss_trace s)) - set (closes (ss_trace s))"
    if "ss_socket s = Some socket" for socket
  proof -
    have "distinct (creates (ss_trace s))"
      and eq: "mset (creates (ss_trace s)) =
        mset (closes (ss_trace s)) + {#socket#} + opt_mset (unpublished_socket (ss_pc s))"
      using inv(1) that by (simp_all add: socket_inv_def)
    from this(1) have "count (mset (creates (ss_trace s))) socket \<le> 1"
      by (simp add: distinct_count_atmost_1)
    moreover have "count (mset (closes (ss_trace s))) socket + 1 \<le> count (mset (creates (ss_trace s))) socket"
      unfolding eq by simp
    ultimately have "count (mset (closes (ss_trace s))) socket = 0"
      "count (mset (creates (ss_trace s))) socket = 1" by linarith+
    then show ?thesis
      by (metis DiffI One_nat_def count_mset_0_iff zero_neq_one)
  qed
  have "ss_connected s \<Longrightarrow> ss_status s = Connected"
    using inv(2) by (cases "ss_pc s"; cases "ss_status s") (auto simp: status_inv_def)
  with open_socket show ?thesis
    by (auto simp: send_ts_def transport_send_def transport_receive_def split: option.splits if_splits)
qed

theorem session_transmits_whole_datagrams_witness:
  "send_ts (\<lambda>_ data n. n) (Some [71]) demo_connected \<and> ss_status demo_connected = Connected"
proof -
  have "ss_socket demo_connected = Some 7"
    by code_simp
  then have "send_ts (\<lambda>_ data n. n) (Some [71]) demo_connected"
    using demo_connected_eqs(2) by (simp add: send_ts_def)
  with session_transmits_whole_datagrams [OF demo_reach, of "\<lambda>_ data n. n" "[71]"] show ?thesis by blast
qed

end
