(* ===== verification/Srtla_Output.thy ===== *)
theory Srtla_Output
  imports Obs_Settings Capture_Lifecycle Mpegts_Sink Srt_Session
begin

text \<open>
  The OBS output of \<^verbatim>\<open>plugin/srtla-output.cpp\<close>: the whole of \<^verbatim>\<open>SrtlaOutput\<close> and the
  callbacks and exported functions that work on it, composed of the media queue, the sink, the
  capture lifecycle, the SRT session and the settings. OBS, the engine and libavformat are
  parameters: records of answers, and the calls of the engine are kept in a trace. The video
  encoder of OBS, whose bitrate the output changes, is part of the state.
\<close>

section \<open>State\<close>

record obs_encoder =
  ec_codec :: "string option"
  ec_dyn_bitrate :: bool
  ec_has_settings :: bool
  ec_bitrate :: int

datatype engine_call =
    EngineCreate | EngineStart | EngineStop | EngineDestroy | EngineAudioBitrate "64 word"
  | EngineVideoBitrate int | EngineMaxBitrate int | EngineSrtStats srtla_srt_stats | EngineApplyAbr
  | EngineLink "64 word" bool | EngineAdapters string

record srtla_output = media_queue +
  so_output :: bool
  so_engine :: bool
  so_worker :: bool
  so_abr_stop :: bool
  so_abr_worker :: bool
  so_capture_active :: bool
  so_fatal_signal_queued :: bool
  so_capture_lifecycle :: "lifecycle option"
  so_muxer :: "sink option"
  so_session :: "session option"
  so_receiver_host :: string
  so_receiver_port :: int
  so_stream_id :: string
  so_passphrase :: string
  so_credential_error :: bool
  so_latency_ms :: int
  so_pbkeylen :: int
  so_hevc :: bool
  so_opus :: bool
  so_auto_bitrate :: bool
  so_shared_encoder :: bool
  so_encoder_source :: string
  so_manual_bitrate_kbps :: int
  so_min_bitrate_kbps :: int
  so_max_bitrate_kbps :: int
  so_audio_bitrate_bps :: "64 word"
  so_original_bitrate_kbps :: int
  so_bitrate_overridden :: bool
  so_video_encoder :: "obs_encoder option"
  so_audio_encoder :: "string option option"
  so_last_error :: string
  so_tasks :: "string list"
  so_calls :: "engine_call list"

definition new_srtla_output :: srtla_output where
  "new_srtla_output = \<lparr>running = False, total_bytes = 0, dropped_frames = 0, queue = [], queue_bytes = 0,
     drop_until_keyframe = False, worker_stop = False, needs_muxer_reset = False, so_output = False,
     so_engine = False, so_worker = False, so_abr_stop = False, so_abr_worker = False, so_capture_active = False,
     so_fatal_signal_queued = False, so_capture_lifecycle = None, so_muxer = None, so_session = None,
     so_receiver_host = [], so_receiver_port = 0, so_stream_id = [], so_passphrase = [], so_credential_error = False,
     so_latency_ms = 2000, so_pbkeylen = 16, so_hevc = False, so_opus = False, so_auto_bitrate = True,
     so_shared_encoder = False, so_encoder_source = ''streaming'', so_manual_bitrate_kbps = 1500,
     so_min_bitrate_kbps = 500, so_max_bitrate_kbps = 6000, so_audio_bitrate_bps = 128000,
     so_original_bitrate_kbps = 0, so_bitrate_overridden = False, so_video_encoder = None, so_audio_encoder = None,
     so_last_error = [], so_tasks = [], so_calls = []\<rparr>"

definition engine_does :: "engine_call \<Rightarrow> srtla_output \<Rightarrow> srtla_output" where
  "engine_does c d = d\<lparr>so_calls := so_calls d @ [c]\<rparr>"

definition set_last_error :: "string \<Rightarrow> srtla_output \<Rightarrow> srtla_output" where
  "set_last_error message d = d\<lparr>so_last_error := message\<rparr>"

section \<open>Creation and settings\<close>

definition settings_bool :: "'d obs_data_api \<Rightarrow> 'd option \<Rightarrow> string \<Rightarrow> bool" where
  "settings_bool api settings name =
     (case settings of
        None \<Rightarrow> True
      | Some d \<Rightarrow> \<not> obs_data_has_user_value api d name \<or> obs_data_get_bool api d name)"

text \<open>The assignments \<^verbatim>\<open>srtla_output_create\<close> and \<^verbatim>\<open>srtla_output_update\<close> have in common.\<close>

definition apply_settings ::
    "'d obs_data_api \<Rightarrow> nat \<Rightarrow> 'd option \<Rightarrow> srtla_output \<Rightarrow> srtla_output" where
  "apply_settings api ulong_bits settings d =
     (let maximum = configured_max_bitrate_kbps api settings;
          endpoint = parse_endpoint ulong_bits (settings_string api settings ''url'');
          source = settings_string api settings ''encoder_source'';
          pbkeylen = cast_int (settings_int api settings ''pbkeylen'' 16)
      in d\<lparr>so_hevc := (settings_string api settings ''video_codec'' = Some ''hevc''),
           so_opus := (settings_string api settings ''audio_codec'' = Some ''opus''),
           so_auto_bitrate := settings_bool api settings ''auto_bitrate'',
           so_shared_encoder := (settings_string api settings ''encoder_mode'' = Some ''shared''),
           so_encoder_source := (if nonempty_cstr source then the source else ''streaming''),
           so_max_bitrate_kbps := maximum,
           so_min_bitrate_kbps := configured_min_bitrate_kbps api settings maximum,
           so_manual_bitrate_kbps := configured_manual_bitrate_kbps api settings,
           so_audio_bitrate_bps :=
             (case settings of
                Some s \<Rightarrow> of_int (max 0 (obs_data_get_int api s ''audio_bitrate'')) * 1000
              | None \<Rightarrow> 128000),
           so_receiver_host := fst endpoint,
           so_receiver_port := snd endpoint,
           so_stream_id := value_or (settings_string api settings ''stream_id'') [],
           so_passphrase := fst (passphrase_from_settings api settings),
           so_latency_ms :=
             (case settings of
                Some s \<Rightarrow> clamp (cast_int (obs_data_get_int api s ''latency_ms'')) 120 60000
              | None \<Rightarrow> 2000),
           so_pbkeylen := (if pbkeylen \<noteq> 16 \<and> pbkeylen \<noteq> 24 \<and> pbkeylen \<noteq> 32 then 16 else pbkeylen)\<rparr>)"

text \<open>
  \<^verbatim>\<open>srtla_engine_create\<close> answers whether it could parse the configuration. The results are the
  new object and the settings as the output leaves them.
\<close>

definition srtla_output_create ::
    "(string \<Rightarrow> bool) \<Rightarrow> 'd obs_data_api \<Rightarrow> nat \<Rightarrow> network_adapter list \<Rightarrow> obs_encoder option \<Rightarrow> string option option
      \<Rightarrow> 'd option \<Rightarrow> srtla_output \<times> 'd option" where
  "srtla_output_create engine_create api ulong_bits adapters video audio settings0 =
     (let settings1 = split_url_query_into_settings api settings0;
          (secret_error, settings) = normalize_passphrase_setting api settings1;
          legacy_secret_error = snd (passphrase_from_settings api settings);
          d = apply_settings api ulong_bits settings
            (new_srtla_output\<lparr>so_output := True, so_video_encoder := video, so_audio_encoder := audio\<rparr>);
          d1 = d\<lparr>so_credential_error := secret_error \<or> legacy_secret_error\<rparr>;
          made = create_engine_from_settings (\<lambda>config. if engine_create config then Some () else None)
            api ulong_bits adapters settings
      in ((engine_does EngineCreate d1)\<lparr>so_engine := (made \<noteq> None)\<rparr>, settings))"

definition srtla_output_update ::
    "(string \<Rightarrow> bool) \<Rightarrow> 'd obs_data_api \<Rightarrow> nat \<Rightarrow> network_adapter list \<Rightarrow> 'd option \<Rightarrow> srtla_output
      \<Rightarrow> srtla_output \<times> 'd option" where
  "srtla_output_update engine_create api ulong_bits adapters settings0 d =
     (if running d then (d, settings0)
      else
        let (secret_error, settings) =
              normalize_passphrase_setting api (split_url_query_into_settings api settings0);
            d1 = (if so_engine d then engine_does EngineDestroy d else d);
            made = create_engine_from_settings (\<lambda>config. if engine_create config then Some () else None)
              api ulong_bits adapters settings;
            d2 = (engine_does EngineCreate d1)\<lparr>so_engine := (made \<noteq> None)\<rparr>;
            legacy_secret_error = snd (passphrase_from_settings api settings)
        in ((apply_settings api ulong_bits settings d2)\<lparr>so_credential_error := secret_error \<or> legacy_secret_error\<rparr>,
            settings))"

section \<open>Encoder bitrate\<close>

definition set_encoder_bitrate :: "int \<Rightarrow> srtla_output \<Rightarrow> srtla_output" where
  "set_encoder_bitrate kbps d =
     d\<lparr>so_video_encoder := map_option (\<lambda>e. e\<lparr>ec_bitrate := kbps\<rparr>) (so_video_encoder d)\<rparr>"

text \<open>The encoder with its settings, where both can be obtained.\<close>

definition encoder_settings :: "srtla_output \<Rightarrow> obs_encoder option" where
  "encoder_settings d =
     (case so_video_encoder d of
        None \<Rightarrow> None
      | Some e \<Rightarrow> if ec_has_settings e then Some e else None)"

definition restore_shared_bitrate :: "srtla_output \<Rightarrow> srtla_output" where
  "restore_shared_bitrate d =
     (if \<not> so_output d \<or> \<not> so_bitrate_overridden d then d
      else
        (case encoder_settings d of
           None \<Rightarrow> d
         | Some e \<Rightarrow> set_encoder_bitrate (so_original_bitrate_kbps d) d)\<lparr>so_bitrate_overridden := False\<rparr>)"

definition apply_manual_bitrate :: "srtla_output \<Rightarrow> srtla_output" where
  "apply_manual_bitrate d =
     (if \<not> so_output d then d
      else
        (case encoder_settings d of
           None \<Rightarrow> d
         | Some e \<Rightarrow>
             let d1 = (if \<not> so_bitrate_overridden d
                       then d\<lparr>so_original_bitrate_kbps := cast_int (ec_bitrate e)\<rparr> else d);
                 d2 = (if \<not> so_auto_bitrate d1
                       then set_encoder_bitrate (so_manual_bitrate_kbps d1) d1 else d1)
             in d2\<lparr>so_bitrate_overridden := True\<rparr>))"

definition encoder_dynamic :: "srtla_output \<Rightarrow> bool" where
  "encoder_dynamic d = (case so_video_encoder d of None \<Rightarrow> False | Some e \<Rightarrow> ec_dyn_bitrate e)"

text \<open>The functions the dock calls, on the object the registry holds for its output (if any).\<close>

definition srtla_output_set_bitrate_control ::
    "(int \<Rightarrow> int) \<Rightarrow> bool \<Rightarrow> int \<Rightarrow> srtla_output option \<Rightarrow> int \<times> srtla_output option" where
  "srtla_output_set_bitrate_control engine_set automatic manual_bitrate_kbps entry =
     (case entry of
        None \<Rightarrow> (- 1, None)
      | Some d \<Rightarrow>
          if \<not> so_engine d then (- 1, Some d)
          else
            let manual = clamp manual_bitrate_kbps MIN_VIDEO_BITRATE_KBPS MAX_MANUAL_BITRATE_KBPS;
                encoder = (if so_output d then so_video_encoder d else None)
            in if running d \<and> (case encoder of None \<Rightarrow> True | Some e \<Rightarrow> \<not> ec_dyn_bitrate e) then (- 2, Some d)
               else if (case encoder of None \<Rightarrow> False | Some e \<Rightarrow> \<not> ec_has_settings e) then (- 3, Some d)
               else
                 let active = (case encoder of
                         Some e \<Rightarrow> if automatic then cast_int (ec_bitrate e) else manual
                       | None \<Rightarrow> manual);
                     d1 = (if encoder \<noteq> None \<and> \<not> automatic then set_encoder_bitrate manual d else d);
                     d2 = d1\<lparr>so_manual_bitrate_kbps := manual, so_auto_bitrate := automatic\<rparr>;
                     bps = max 1 active * 1000
                 in (engine_set bps, Some (engine_does (EngineVideoBitrate bps) d2)))"

definition srtla_output_set_max_bitrate ::
    "(int \<Rightarrow> int) \<Rightarrow> (int \<Rightarrow> int) \<Rightarrow> int \<Rightarrow> srtla_output option \<Rightarrow> int \<times> srtla_output option" where
  "srtla_output_set_max_bitrate engine_set_max engine_set max_bitrate_kbps entry =
     (case entry of
        None \<Rightarrow> (- 1, None)
      | Some d \<Rightarrow>
          if \<not> so_engine d then (- 1, Some d)
          else
            let maximum = clamp max_bitrate_kbps (max 1 (so_min_bitrate_kbps d)) ABSOLUTE_MAX_BITRATE_KBPS;
                apply_to_encoder = (running d \<and> so_auto_bitrate d);
                encoder = (if so_output d then so_video_encoder d else None)
            in if apply_to_encoder \<and> (case encoder of None \<Rightarrow> True | Some e \<Rightarrow> \<not> ec_dyn_bitrate e) then (- 2, Some d)
               else if apply_to_encoder \<and> (case encoder of None \<Rightarrow> True | Some e \<Rightarrow> \<not> ec_has_settings e) then (- 3, Some d)
               else
                 let result = engine_set_max (maximum * 1000);
                     d1 = engine_does (EngineMaxBitrate (maximum * 1000)) d
                 in if result \<noteq> 0 then (result, Some d1)
                    else
                      let d2 = d1\<lparr>so_max_bitrate_kbps := maximum\<rparr>
                      in if apply_to_encoder then
                           let current = (case encoder of Some e \<Rightarrow> cast_int (ec_bitrate e) | None \<Rightarrow> 0);
                               active = min (if current \<le> 0 then maximum else current) maximum
                           in (engine_set (active * 1000),
                               Some (engine_does (EngineVideoBitrate (active * 1000)) (set_encoder_bitrate active d2)))
                         else (0, Some d2))"

definition srtla_output_link_id :: "string option \<Rightarrow> 64 word" where
  "srtla_output_link_id adapter_id = stable_link_id (value_or adapter_id [])"

definition srtla_output_set_link_enabled ::
    "(64 word \<Rightarrow> bool \<Rightarrow> int) \<Rightarrow> 64 word \<Rightarrow> bool \<Rightarrow> srtla_output option \<Rightarrow> int \<times> srtla_output option" where
  "srtla_output_set_link_enabled engine_set link_id enabled entry =
     (case entry of
        None \<Rightarrow> (- 1, None)
      | Some d \<Rightarrow>
          if \<not> so_engine d then (- 1, Some d)
          else (engine_set link_id enabled, Some (engine_does (EngineLink link_id enabled) d)))"

definition srtla_output_update_adapters ::
    "(string \<Rightarrow> int) \<Rightarrow> network_adapter list \<Rightarrow> srtla_output option \<Rightarrow> int \<times> srtla_output option" where
  "srtla_output_update_adapters engine_update adapters entry =
     (case entry of
        None \<Rightarrow> (- 1, None)
      | Some d \<Rightarrow>
          if \<not> so_engine d then (- 1, Some d)
          else
            let json = enumerate_links_json adapters None
            in (engine_update json, Some (engine_does (EngineAdapters json) d)))"

definition srtla_output_copy_stats_json ::
    "(nat \<Rightarrow> nat \<times> string) \<Rightarrow> nat \<Rightarrow> srtla_output option \<Rightarrow> nat \<times> string" where
  "srtla_output_copy_stats_json engine_copy capacity entry =
     (case entry of
        None \<Rightarrow> (0, [])
      | Some d \<Rightarrow> if \<not> so_engine d then (0, []) else engine_copy capacity)"

section \<open>Fatal errors and session callbacks\<close>

text \<open>Whether \<^verbatim>\<open>obs_output_get_ref\<close> and the allocation of the task succeed.\<close>

record task_answers =
  ta_get_ref :: bool
  ta_queued :: bool

definition queue_fatal_output :: "task_answers \<Rightarrow> string \<Rightarrow> srtla_output \<Rightarrow> srtla_output" where
  "queue_fatal_output ta error d =
     (if \<not> running d then d
      else if so_fatal_signal_queued d then d
      else if \<not> ta_get_ref ta \<or> \<not> ta_queued ta then d\<lparr>so_fatal_signal_queued := False\<rparr>
      else d\<lparr>so_fatal_signal_queued := True, so_tasks := so_tasks d @ [error]\<rparr>)"

definition on_session_status :: "task_answers \<Rightarrow> session_status \<times> string \<Rightarrow> srtla_output \<Rightarrow> srtla_output" where
  "on_session_status ta report d =
     (case report of (status, error) \<Rightarrow>
        if status = Fatal \<and> running d then queue_fatal_output ta error d
        else if status \<noteq> Reconnecting then d
        else mark_muxer_reset (session_reconnecting d))"

text \<open>The reports in a session's trace from a position on, and their delivery.\<close>

definition reports_from :: "nat \<Rightarrow> session \<Rightarrow> (session_status \<times> string) list" where
  "reports_from n ses =
     List.map_filter (\<lambda>e. case e of Report st err \<Rightarrow> Some (st, err) | _ \<Rightarrow> None) (drop n (ss_trace ses))"

definition deliver_reports :: "task_answers \<Rightarrow> nat \<Rightarrow> session \<Rightarrow> srtla_output \<Rightarrow> srtla_output" where
  "deliver_reports ta n ses d = fold (on_session_status ta) (reports_from n ses) d"

section \<open>Teardown\<close>

text \<open>
  \<^verbatim>\<open>muxer.reset()\<close> runs the sink's destructor, whose trailer still goes through the datagram
  callback; \<^verbatim>\<open>session.reset()\<close> stops the session: the connector runs on with the given answers
  until it has ended, and its reports and the final one reach the output.
\<close>

definition session_config_of :: "srtla_output \<Rightarrow> session_config" where
  "session_config_of d = \<lparr>cf_host = so_receiver_host d, cf_port = nat (so_receiver_port d mod 2 ^ 16),
     cf_stream_id = so_stream_id d, cf_passphrase = so_passphrase d, cf_latency_ms = so_latency_ms d,
     cf_pbkeylen = so_pbkeylen d\<rparr>"

record teardown_answers =
  td_ffmpeg :: ffmpeg
  td_connector :: "srt_answers list"
  td_task :: task_answers

definition release_muxer :: "ffmpeg \<Rightarrow> srtla_output \<Rightarrow> srtla_output" where
  "release_muxer ff d =
     (case so_muxer d of
        None \<Rightarrow> d
      | Some m \<Rightarrow> (enqueue_all (snd (destroy_context True ff m)) d)\<lparr>so_muxer := None\<rparr>)"

definition session_shutdown :: "session_config \<Rightarrow> srt_answers list \<Rightarrow> session \<Rightarrow> session" where
  "session_shutdown cfg as ses = stop_join (fold (connector_step cfg) as (stop_close (stop_request ses)))"

definition release_session :: "teardown_answers \<Rightarrow> srtla_output \<Rightarrow> srtla_output" where
  "release_session td d =
     (case so_session d of
        None \<Rightarrow> d
      | Some ses \<Rightarrow>
          (deliver_reports (td_task td) (length (ss_trace ses))
             (session_shutdown (session_config_of d) (td_connector td) ses) d)\<lparr>so_session := None\<rparr>)"

definition stop_worker :: "srtla_output \<Rightarrow> srtla_output" where
  "stop_worker d = (stop_worker_locked d)\<lparr>so_worker := False\<rparr>"

definition stop_abr_worker :: "srtla_output \<Rightarrow> srtla_output" where
  "stop_abr_worker d = d\<lparr>so_abr_stop := True, so_abr_worker := False\<rparr>"

definition end_lifecycle :: "srtla_output \<Rightarrow> srtla_output" where
  "end_lifecycle d =
     d\<lparr>so_capture_lifecycle := map_option (\<lambda>lc. fst (end_capture lc)) (so_capture_lifecycle d),
       so_capture_active := False\<rparr>"

definition stop_engine :: "srtla_output \<Rightarrow> srtla_output" where
  "stop_engine d = (if so_engine d then engine_does EngineStop d else d)"

definition srtla_output_stop :: "teardown_answers \<Rightarrow> srtla_output \<Rightarrow> srtla_output" where
  "srtla_output_stop td d =
     clear_queue (release_muxer (td_ffmpeg td) (restore_shared_bitrate (stop_engine (release_session td
       (stop_worker (stop_abr_worker (end_lifecycle
         (d\<lparr>running := False, so_fatal_signal_queued := False\<rparr>))))))))"

definition srtla_output_destroy :: "teardown_answers \<Rightarrow> srtla_output \<Rightarrow> srtla_output" where
  "srtla_output_destroy td d =
     (let d1 = release_muxer (td_ffmpeg td) (restore_shared_bitrate (release_session td
            (stop_worker (stop_abr_worker (end_lifecycle
              (d\<lparr>running := False, so_fatal_signal_queued := False\<rparr>))))))
      in if so_engine d1 then (engine_does EngineDestroy d1)\<lparr>so_engine := False\<rparr> else d1)"

text \<open>The task on the UI thread: the oldest one, with the teardown it may run.\<close>

definition signal_fatal_output_on_ui :: "teardown_answers \<Rightarrow> srtla_output \<Rightarrow> srtla_output" where
  "signal_fatal_output_on_ui td d =
     (case so_tasks d of
        [] \<Rightarrow> d
      | error # rest \<Rightarrow>
          let d1 = d\<lparr>so_tasks := rest\<rparr>
          in if \<not> running d1 then d1
             else srtla_output_stop td
               (set_last_error (if error = [] then ''SRT session failed'' else error) d1))"

section \<open>Start\<close>

definition supported_video_encoder :: "obs_encoder option \<Rightarrow> bool" where
  "supported_video_encoder encoder =
     (case encoder of
        None \<Rightarrow> False
      | Some e \<Rightarrow> ec_codec e = Some ''h264'' \<or> ec_codec e = Some ''hevc'')"

definition supported_audio_encoder :: "string option option \<Rightarrow> bool" where
  "supported_audio_encoder encoder =
     (case encoder of None \<Rightarrow> True | Some codec \<Rightarrow> codec = Some ''aac'' \<or> codec = Some ''opus'')"

text \<open>
  The answers a start depends on; \<open>sa_source\<close> is the shared OBS output of the given kind: whether
  it is this output itself, and whether it is active.
\<close>

record start_answers =
  sa_can_begin :: bool
  sa_initialize :: bool
  sa_begin :: bool
  sa_source :: "string \<Rightarrow> (bool \<times> bool) option"
  sa_engine_start :: int
  sa_engine_error :: "string option"
  sa_set_audio :: int
  sa_set_video :: "int \<Rightarrow> int"
  sa_session_alloc :: bool
  sa_session_thread :: bool
  sa_connector :: "srt_answers list"
  sa_muxer_alloc :: bool
  sa_worker_thread :: bool
  sa_abr_thread :: bool
  sa_teardown :: teardown_answers

definition start_prepare :: "start_answers \<Rightarrow> srtla_output \<Rightarrow> bool \<times> srtla_output" where
  "start_prepare sa d =
     (if \<not> so_output d \<or> \<not> supported_video_encoder (so_video_encoder d)
         \<or> \<not> supported_audio_encoder (so_audio_encoder d) then
        (False, if so_output d then set_last_error ''Unsupported or missing OBS encoder'' d else d)
      else if so_credential_error d then
        (False, set_last_error ''SRT passphrase could not be loaded; enter it again'' d)
      else
        let (ok, capture_error, lc, calls) = prepare (sa_can_begin sa) (new_lifecycle True True True True False True);
            d1 = d\<lparr>so_capture_lifecycle := Some lc\<rparr>
        in if \<not> ok then (False, set_last_error (value_or capture_error []) d1)
           else
             let d2 = d1\<lparr>so_fatal_signal_queued := False\<rparr>;
                 source = sa_source sa
                   (if so_encoder_source d2 = ''recording'' then ''recording'' else ''streaming'')
             in if so_shared_encoder d2 \<and> source = None then
                  (False, set_last_error ''The selected shared OBS output is unavailable'' d2)
                else if so_shared_encoder d2 \<and> (case source of None \<Rightarrow> False | Some (self, active) \<Rightarrow> \<not> self \<and> active) then
                  (False, set_last_error ''The selected shared OBS encoder is already active'' d2)
                else
                  let d3 = (release_muxer (td_ffmpeg (sa_teardown sa)) d2)\<lparr>so_capture_active := False, running := False\<rparr>
                  in if \<not> so_engine d3 then (False, set_last_error ''SRTLA engine initialization failed'' d3)
                     else (True, d3))"

fun connector_states :: "session_config \<Rightarrow> srt_answers list \<Rightarrow> session \<Rightarrow> session list" where
  "connector_states cfg [] s = [s]"
| "connector_states cfg (a # as) s = s # connector_states cfg as (connector_step cfg a s)"

definition start_session :: "start_answers \<Rightarrow> srtla_output \<Rightarrow> bool \<times> srtla_output" where
  "start_session sa d =
     (let cfg = session_config_of d;
          (started, ses) = session_start cfg (sa_session_thread sa) (new_session cfg);
          states = (if started then connector_states cfg (sa_connector sa) ses else [ses]);
          ses1 = last states;
          d1 = (deliver_reports (td_task (sa_teardown sa)) 0 ses1 d)\<lparr>so_session := Some ses1\<rparr>
      in if started \<and> wait_connected (map ss_status states) then (True, d1)
         else
           let error = (if ss_error ses1 = [] then ''SRT receiver did not connect within five seconds'' else ss_error ses1)
           in (False, engine_does EngineStop (release_session (sa_teardown sa) (set_last_error error d1))))"

definition start_transport :: "start_answers \<Rightarrow> srtla_output \<Rightarrow> bool \<times> srtla_output" where
  "start_transport sa d =
     (if sa_engine_start sa \<noteq> 0 then
        (False, set_last_error
           (if nonempty_cstr (sa_engine_error sa) then the (sa_engine_error sa) else ''SRTLA engine start failed'') d)
      else
        let d1 = engine_does (EngineAudioBitrate (so_audio_bitrate_bps d)) (engine_does EngineStart d)
        in if sa_set_audio sa \<noteq> 0 then
             (False, engine_does EngineStop (set_last_error ''SRTLA audio bitrate initialization failed'' d1))
           else if \<not> sa_session_alloc sa then
             (False, engine_does EngineStop (set_last_error ''SRT session allocation failed'' d1))
           else start_session sa d1)"

definition start_failed_media :: "start_answers \<Rightarrow> string \<Rightarrow> srtla_output \<Rightarrow> srtla_output" where
  "start_failed_media sa message d =
     restore_shared_bitrate (engine_does EngineStop (release_session (sa_teardown sa) (set_last_error message d)))"

definition start_bitrate :: "start_answers \<Rightarrow> srtla_output \<Rightarrow> bool \<times> srtla_output" where
  "start_bitrate sa d =
     (let d1 = (if so_auto_bitrate d \<and> so_video_encoder d \<noteq> None \<and> \<not> encoder_dynamic d
                then d\<lparr>so_auto_bitrate := False\<rparr> else d);
          d2 = apply_manual_bitrate d1;
          active = (if so_auto_bitrate d2 then so_max_bitrate_kbps d2 else so_manual_bitrate_kbps d2);
          d3 = (if so_auto_bitrate d2 \<and> encoder_settings d2 \<noteq> None then set_encoder_bitrate active d2 else d2);
          bps = max 1 active * 1000;
          d4 = engine_does (EngineVideoBitrate bps) d3
      in if sa_set_video sa bps \<noteq> 0 then
           (False, start_failed_media sa ''SRTLA video bitrate initialization failed'' d4)
         else (True, d4))"

definition start_media :: "start_answers \<Rightarrow> srtla_output \<Rightarrow> bool \<times> srtla_output" where
  "start_media sa d =
     (let d1 = start_queue d
      in if \<not> sa_muxer_alloc sa then (False, start_failed_media sa ''MPEG-TS muxer allocation failed'' d1)
         else (True, d1\<lparr>so_muxer := Some (new_sink (so_output d1) True)\<rparr>))"

text \<open>Threads and capture; a failure of either rolls everything back.\<close>

definition start_rollback :: "start_answers \<Rightarrow> string option \<Rightarrow> srtla_output \<Rightarrow> srtla_output" where
  "start_rollback sa capture_error d =
     release_muxer (td_ffmpeg (sa_teardown sa)) (restore_shared_bitrate (stop_engine (release_session (sa_teardown sa)
       (stop_worker (stop_abr_worker (end_lifecycle
         ((set_last_error (value_or capture_error ''OBS output worker startup failed'') d)\<lparr>running := False\<rparr>)))))))"

definition start_capture :: "start_answers \<Rightarrow> srtla_output \<Rightarrow> bool \<times> srtla_output" where
  "start_capture sa d =
     (let d1 = d\<lparr>running := True, worker_stop := False\<rparr>
      in if \<not> sa_worker_thread sa then (False, start_rollback sa None d1)
         else
           let d2 = d1\<lparr>so_worker := True\<rparr>
           in (case so_capture_lifecycle d2 of
                 None \<Rightarrow> (False, start_rollback sa None d2)
               | Some lc \<Rightarrow>
                   let (ok, capture_error, lc1, calls) = initialize_and_begin (sa_initialize sa) (sa_begin sa) lc;
                       d3 = d2\<lparr>so_capture_lifecycle := Some lc1\<rparr>
                   in if \<not> ok then (False, start_rollback sa capture_error d3)
                      else
                        let d4 = d3\<lparr>so_capture_active := lc_active lc1, so_abr_stop := False\<rparr>
                        in if \<not> sa_abr_thread sa then (False, start_rollback sa None d4)
                           else (True, d4\<lparr>so_abr_worker := True\<rparr>)))"

text \<open>The phases in their order, each returning early when it fails.\<close>

definition and_then :: "(srtla_output \<Rightarrow> bool \<times> srtla_output) \<Rightarrow> (srtla_output \<Rightarrow> bool \<times> srtla_output)
    \<Rightarrow> srtla_output \<Rightarrow> bool \<times> srtla_output" where
  "and_then f g d = (case f d of (ok, d1) \<Rightarrow> if ok then g d1 else (False, d1))"

definition srtla_output_start :: "start_answers \<Rightarrow> srtla_output \<Rightarrow> bool \<times> srtla_output" where
  "srtla_output_start sa =
     and_then (start_prepare sa) (and_then (start_transport sa) (and_then (start_bitrate sa)
       (and_then (start_media sa) (start_capture sa))))"

section \<open>Running\<close>

text \<open>One round of the control thread, with the engine's and libsrt's answers.\<close>

record abr_answers =
  ab_engine_error :: "string option"
  ab_now :: "64 word"
  ab_fl :: "rat \<Rightarrow> rat option"
  ab_bistats :: "nat \<Rightarrow> srt_perf option"
  ab_snddata :: "nat \<Rightarrow> int option"
  ab_applied_bps :: nat
  ab_task :: task_answers

definition abr_report_stats :: "abr_answers \<Rightarrow> srtla_output \<Rightarrow> srtla_output" where
  "abr_report_stats ab d =
     (case so_session d of
        None \<Rightarrow> d
      | Some ses \<Rightarrow>
          (case sample_stats (ab_fl ab) (ab_bistats ab) (ab_snddata ab) (ab_now ab) ses of
             (ok, stats) \<Rightarrow> if ok then engine_does (EngineSrtStats stats) d else d))"

definition abr_round :: "abr_answers \<Rightarrow> srtla_output \<Rightarrow> srtla_output" where
  "abr_round ab d =
     (if so_abr_stop d \<or> \<not> running d \<or> \<not> so_engine d then d
      else if nonempty_cstr (ab_engine_error ab) then queue_fatal_output (ab_task ab) (the (ab_engine_error ab)) d
      else
        let d1 = abr_report_stats ab d
        in if \<not> so_auto_bitrate d1 then d1
           else
             let d2 = engine_does EngineApplyAbr d1
             in if ab_applied_bps ab = 0 \<or> \<not> so_output d2 then d2
                else if \<not> encoder_dynamic d2 then d2
                else
                  let target_kbps = cast_int (int (ab_applied_bps ab) div 1000)
                  in if encoder_settings d2 \<noteq> None \<and> 0 < target_kbps then set_encoder_bitrate target_kbps d2 else d2)"

text \<open>One packet of OBS.\<close>

definition srtla_output_encoded_packet ::
    "ffmpeg \<Rightarrow> obs_view \<Rightarrow> task_answers \<Rightarrow> encoder_packet option \<Rightarrow> srtla_output \<Rightarrow> srtla_output" where
  "srtla_output_encoded_packet ff ov ta packet d =
     (case packet of
        None \<Rightarrow> d
      | Some p \<Rightarrow>
          if \<not> running d \<or> pk_data p = None \<or> pk_data p = Some [] then d
          else if needs_muxer_reset d \<and> \<not> pk_keyframe p then d
          else
            let d1 = (if needs_muxer_reset d
                      then d\<lparr>needs_muxer_reset := False,
                             so_muxer := map_option (\<lambda>m. fst (reset_sink ff m)) (so_muxer d)\<rparr>
                      else d)
            in (case so_muxer d1 of
                  None \<Rightarrow>
                    let error = ''MPEG-TS muxer rejected an encoded packet''
                    in queue_fatal_output ta error (set_last_error error d1)
                | Some m \<Rightarrow>
                    (case sink_write ff ov (Some p) m of
                       (ok, m1, ds) \<Rightarrow>
                         let d2 = (enqueue_all ds d1)\<lparr>so_muxer := Some m1\<rparr>
                         in if \<not> ok then
                              let error = (if sk_last_error m1 \<noteq> [] then sk_last_error m1
                                           else ''MPEG-TS muxer rejected an encoded packet'')
                              in queue_fatal_output ta error (set_last_error error d2)
                            else
                              (case sink_flush ff m1 of
                                 (m2, ds2) \<Rightarrow>
                                   let d3 = (enqueue_all ds2 d2)\<lparr>so_muxer := Some m2\<rparr>
                                   in if \<not> sk_healthy m2 then queue_fatal_output ta (sk_last_error m2) d3 else d3))))"

text \<open>A step of the session's connector while the output holds it.\<close>

definition session_advances :: "task_answers \<Rightarrow> srt_answers \<Rightarrow> srtla_output \<Rightarrow> srtla_output" where
  "session_advances ta a d =
     (case so_session d of
        None \<Rightarrow> d
      | Some ses \<Rightarrow>
          let ses1 = connector_step (session_config_of d) a ses
          in (deliver_reports ta (length (ss_trace ses)) ses1 d)\<lparr>so_session := Some ses1\<rparr>)"

section \<open>What the operations leave alone\<close>

text \<open>Queue operations change only the queue part of the record, and never the running flag.\<close>

lemma queue_ops_more:
  "media_queue.more (clear_queue q) = media_queue.more q"
  "media_queue.more (count_drop q) = media_queue.more q"
  "media_queue.more (resume_at_keyframe k q) = media_queue.more q"
  "media_queue.more (enqueue_datagram b k t q) = media_queue.more q"
  "media_queue.more (session_reconnecting q) = media_queue.more q"
  "media_queue.more (mark_muxer_reset q) = media_queue.more q"
  "media_queue.more (stop_worker_locked q) = media_queue.more q"
  "media_queue.more (start_queue q) = media_queue.more q"
  by (simp_all add: queue_op_simps Let_def)

lemma queue_ops_running:
  "running (clear_queue q) = running q" "running (count_drop q) = running q"
  "running (resume_at_keyframe k q) = running q" "running (enqueue_datagram b k t q) = running q"
  "running (session_reconnecting q) = running q" "running (mark_muxer_reset q) = running q"
  "running (stop_worker_locked q) = running q" "running (start_queue q) = running q"
  by (simp_all add: queue_op_simps Let_def)

lemma enqueue_all_more:
  "media_queue.more (enqueue_all ds q) = media_queue.more q" "running (enqueue_all ds q) = running q"
  by (induction ds arbitrary: q) (auto simp: queue_ops_more queue_ops_running)

text \<open>The part of the output outside the queue, and equality of two outputs there.\<close>

definition same_control :: "srtla_output \<Rightarrow> srtla_output \<Rightarrow> bool" where
  "same_control d e \<longleftrightarrow> running d = running e \<and> media_queue.more d = media_queue.more e"

lemma same_controlD:
  assumes "same_control d e"
  shows "running d = running e" "so_output d = so_output e" "so_engine d = so_engine e" "so_worker d = so_worker e"
    "so_abr_worker d = so_abr_worker e" "so_abr_stop d = so_abr_stop e" "so_capture_active d = so_capture_active e"
    "so_fatal_signal_queued d = so_fatal_signal_queued e" "so_capture_lifecycle d = so_capture_lifecycle e"
    "so_muxer d = so_muxer e" "so_session d = so_session e" "so_auto_bitrate d = so_auto_bitrate e"
    "so_manual_bitrate_kbps d = so_manual_bitrate_kbps e" "so_min_bitrate_kbps d = so_min_bitrate_kbps e"
    "so_max_bitrate_kbps d = so_max_bitrate_kbps e" "so_original_bitrate_kbps d = so_original_bitrate_kbps e"
    "so_bitrate_overridden d = so_bitrate_overridden e" "so_video_encoder d = so_video_encoder e"
    "so_calls d = so_calls e" "so_tasks d = so_tasks e"
  using assms unfolding same_control_def by (cases d, cases e, simp)+

lemma same_control_enqueue_all: "same_control (enqueue_all ds d) d"
  by (simp add: same_control_def enqueue_all_more)

lemma same_control_refl: "same_control d d"
  by (simp add: same_control_def)

lemma same_control_trans: "same_control d e \<Longrightarrow> same_control e f \<Longrightarrow> same_control d f"
  by (simp add: same_control_def)

lemma same_control_update:
  assumes "same_control d e"
  shows "same_control (d\<lparr>so_muxer := m\<rparr>) (e\<lparr>so_muxer := m\<rparr>)" "same_control (d\<lparr>so_session := ses\<rparr>) (e\<lparr>so_session := ses\<rparr>)"
  using assms unfolding same_control_def by (cases d, cases e, simp)+

lemma same_control_status: "\<not> running d \<Longrightarrow> same_control (on_session_status ta r d) d"
  by (cases r) (auto simp: on_session_status_def same_control_def queue_ops_more queue_ops_running)

lemma same_control_deliver: "\<not> running d \<Longrightarrow> same_control (deliver_reports ta n ses d) d"
proof -
  have "\<not> running d \<Longrightarrow> same_control (fold (on_session_status ta) rs d) d" for rs
  proof (induction rs arbitrary: d)
    case (Cons r rs)
    have 1: "same_control (on_session_status ta r d) d"
      using Cons.prems by (rule same_control_status)
    then have "\<not> running (on_session_status ta r d)"
      using Cons.prems by (simp add: same_control_def)
    from same_control_trans [OF Cons.IH [OF this] 1] show ?case by simp
  qed (simp add: same_control_refl)
  then show "\<not> running d \<Longrightarrow> same_control (deliver_reports ta n ses d) d"
    by (simp add: deliver_reports_def)
qed

lemma same_control_release:
  "same_control (release_muxer ff d) (d\<lparr>so_muxer := None\<rparr>)"
  "\<not> running d \<Longrightarrow> same_control (release_session td d) (d\<lparr>so_session := None\<rparr>)"
proof -
  show "same_control (release_muxer ff d) (d\<lparr>so_muxer := None\<rparr>)"
  proof (cases "so_muxer d")
    case None
    then show ?thesis by (cases d) (simp add: release_muxer_def same_control_def)
  next
    case (Some m)
    then show ?thesis
      using same_control_update(1) [OF same_control_enqueue_all] by (simp add: release_muxer_def)
  qed
  show "same_control (release_session td d) (d\<lparr>so_session := None\<rparr>)" if "\<not> running d"
  proof (cases "so_session d")
    case None
    then show ?thesis by (cases d) (simp add: release_session_def same_control_def)
  next
    case (Some ses)
    then show ?thesis
      using same_control_update(2) [OF same_control_deliver [OF that]] by (simp add: release_session_def)
  qed
qed

section \<open>Resources\<close>

text \<open>Whether the engine is started, by its trace.\<close>

fun engine_after :: "engine_call \<Rightarrow> bool \<Rightarrow> bool" where
  "engine_after EngineStart on = True"
| "engine_after EngineStop on = False"
| "engine_after EngineDestroy on = False"
| "engine_after EngineCreate on = False"
| "engine_after _ on = on"

definition engine_on :: "engine_call list \<Rightarrow> bool" where
  "engine_on calls = fold engine_after calls False"

lemma engine_on_append [simp]: "engine_on (calls @ cs) = fold engine_after cs (engine_on calls)" "\<not> engine_on []"
  by (simp_all add: engine_on_def)

definition capture_on :: "srtla_output \<Rightarrow> bool" where
  "capture_on d = (case so_capture_lifecycle d of None \<Rightarrow> False | Some lc \<Rightarrow> lc_active lc)"

text \<open>Nothing of a session is left: no thread, session, capture, started engine or changed bitrate.\<close>

definition output_idle :: "srtla_output \<Rightarrow> bool" where
  "output_idle d \<longleftrightarrow> \<not> running d \<and> \<not> so_worker d \<and> \<not> so_abr_worker d \<and> so_session d = None
     \<and> \<not> so_capture_active d \<and> \<not> capture_on d \<and> \<not> so_bitrate_overridden d \<and> \<not> engine_on (so_calls d)"

text \<open>The same, up to the transport and the bitrate that are already set up.\<close>

definition media_idle :: "srtla_output \<Rightarrow> bool" where
  "media_idle d \<longleftrightarrow> \<not> running d \<and> \<not> so_worker d \<and> \<not> so_abr_worker d \<and> \<not> so_capture_active d \<and> \<not> capture_on d"

lemma output_idle_media: "output_idle d \<Longrightarrow> media_idle d"
  by (simp add: output_idle_def media_idle_def)

lemma capture_on_cong: "so_capture_lifecycle d = so_capture_lifecycle e \<Longrightarrow> capture_on d = capture_on e"
  by (simp add: capture_on_def)

lemma output_idle_cong:
  assumes "same_control d e"
  shows "output_idle d = output_idle e" "media_idle d = media_idle e" "capture_on d = capture_on e"
  using same_controlD [OF assms] by (simp_all add: output_idle_def media_idle_def capture_on_def)

text \<open>The encoder as it will be once the bitrate is restored.\<close>

definition restored_encoder :: "srtla_output \<Rightarrow> obs_encoder option" where
  "restored_encoder d = so_video_encoder (restore_shared_bitrate d)"

lemma restored_encoder_cong:
  assumes "same_control d e"
  shows "restored_encoder d = restored_encoder e"
  using same_controlD [OF assms]
  by (simp add: restored_encoder_def restore_shared_bitrate_def encoder_settings_def set_encoder_bitrate_def
      split: option.splits)

lemma restore_fields [simp]:
  "running (restore_shared_bitrate d) = running d" "so_worker (restore_shared_bitrate d) = so_worker d"
  "so_abr_worker (restore_shared_bitrate d) = so_abr_worker d" "so_session (restore_shared_bitrate d) = so_session d"
  "so_capture_active (restore_shared_bitrate d) = so_capture_active d"
  "so_capture_lifecycle (restore_shared_bitrate d) = so_capture_lifecycle d"
  "so_calls (restore_shared_bitrate d) = so_calls d" "so_engine (restore_shared_bitrate d) = so_engine d"
  "so_output (restore_shared_bitrate d) = so_output d" "so_muxer (restore_shared_bitrate d) = so_muxer d"
  by (simp_all add: restore_shared_bitrate_def set_encoder_bitrate_def split: option.splits)

lemma restore_overridden: "so_output d \<Longrightarrow> \<not> so_bitrate_overridden (restore_shared_bitrate d)"
  by (simp add: restore_shared_bitrate_def)

lemma same_control_restore:
  assumes "same_control d e"
  shows "same_control (restore_shared_bitrate d) (restore_shared_bitrate e)"
  using assms unfolding same_control_def
  by (cases d, cases e) (simp add: restore_shared_bitrate_def encoder_settings_def set_encoder_bitrate_def
      split: option.splits)

lemma release_simps:
  "running (release_muxer ff d) = running d" "so_session (release_muxer ff d) = so_session d"
  "so_video_encoder (release_muxer ff d) = so_video_encoder d" "so_engine (release_muxer ff d) = so_engine d"
  "so_output (release_muxer ff d) = so_output d" "so_muxer (release_muxer ff d) = None"
  "so_calls (release_muxer ff d) = so_calls d"
  "output_idle (release_muxer ff d) = output_idle d" "media_idle (release_muxer ff d) = media_idle d"
  "so_capture_lifecycle (release_muxer ff d) = so_capture_lifecycle d"
  using same_controlD [OF same_control_release(1) [of ff d]] output_idle_cong [OF same_control_release(1) [of ff d]]
  by (simp_all add: output_idle_def media_idle_def capture_on_def)

lemma release_session_simps:
  assumes "\<not> running d"
  shows "\<not> running (release_session td d)" "so_session (release_session td d) = None"
    "so_video_encoder (release_session td d) = so_video_encoder d" "so_engine (release_session td d) = so_engine d"
    "so_output (release_session td d) = so_output d" "so_calls (release_session td d) = so_calls d"
    "media_idle (release_session td d) = media_idle d" "capture_on (release_session td d) = capture_on d"
    "so_bitrate_overridden (release_session td d) = so_bitrate_overridden d"
    "restored_encoder (release_session td d) = restored_encoder d"
    "so_worker (release_session td d) = so_worker d" "so_abr_worker (release_session td d) = so_abr_worker d"
    "so_capture_active (release_session td d) = so_capture_active d"
proof -
  note C = same_control_release(2) [OF assms, of td]
  note F = same_controlD [OF C] output_idle_cong [OF C] restored_encoder_cong [OF C]
  show "\<not> running (release_session td d)" "so_session (release_session td d) = None"
    "so_video_encoder (release_session td d) = so_video_encoder d" "so_engine (release_session td d) = so_engine d"
    "so_output (release_session td d) = so_output d" "so_calls (release_session td d) = so_calls d"
    "media_idle (release_session td d) = media_idle d" "capture_on (release_session td d) = capture_on d"
    "so_bitrate_overridden (release_session td d) = so_bitrate_overridden d"
    "so_worker (release_session td d) = so_worker d" "so_abr_worker (release_session td d) = so_abr_worker d"
    "so_capture_active (release_session td d) = so_capture_active d"
    using F assms by (simp_all add: media_idle_def capture_on_def)
  show "restored_encoder (release_session td d) = restored_encoder d"
    unfolding F(24)
    by (simp add: restored_encoder_def restore_shared_bitrate_def encoder_settings_def set_encoder_bitrate_def
        split: option.splits)
qed

text \<open>The common end of stop, destroy and of a start that is rolled back.\<close>

lemma stop_threads_fields:
  defines "t \<equiv> \<lambda>d. stop_worker (stop_abr_worker (end_lifecycle d))"
  shows "running (t d) = running d" "\<not> so_worker (t d)" "\<not> so_abr_worker (t d)" "\<not> so_capture_active (t d)"
    "\<not> capture_on (t d)" "so_output (t d) = so_output d" "so_engine (t d) = so_engine d" "so_calls (t d) = so_calls d"
    "restored_encoder (t d) = restored_encoder d" "so_session (t d) = so_session d" "so_muxer (t d) = so_muxer d"
    "so_bitrate_overridden (t d) = so_bitrate_overridden d"
  unfolding t_def
  by (auto simp: stop_worker_def stop_abr_worker_def end_lifecycle_def stop_worker_locked_def clear_queue_def
      capture_on_def end_capture_def restored_encoder_def restore_shared_bitrate_def encoder_settings_def
      set_encoder_bitrate_def split: option.splits)

lemma restored_encoder_calls [simp]:
  "restored_encoder (engine_does c d) = restored_encoder d" "restored_encoder (stop_engine d) = restored_encoder d"
  by (auto simp: restored_encoder_def restore_shared_bitrate_def encoder_settings_def set_encoder_bitrate_def
      engine_does_def stop_engine_def split: option.splits)

lemma stop_engine_fields [simp]:
  "running (stop_engine d) = running d" "so_worker (stop_engine d) = so_worker d"
  "so_abr_worker (stop_engine d) = so_abr_worker d" "so_session (stop_engine d) = so_session d"
  "so_capture_active (stop_engine d) = so_capture_active d" "capture_on (stop_engine d) = capture_on d"
  "so_output (stop_engine d) = so_output d" "so_engine (stop_engine d) = so_engine d"
  "so_muxer (stop_engine d) = so_muxer d"
  "engine_on (so_calls (stop_engine d)) = (engine_on (so_calls d) \<and> \<not> so_engine d)"
  by (simp_all add: stop_engine_def engine_does_def capture_on_def)

lemma teardown_idle:
  fixes ff td
  assumes "\<not> running d" and "so_output d" and "engine_on (so_calls d) \<Longrightarrow> so_engine d"
  defines "e \<equiv> release_muxer ff (restore_shared_bitrate (stop_engine (release_session td
       (stop_worker (stop_abr_worker (end_lifecycle d))))))"
  shows "output_idle e" "so_video_encoder e = restored_encoder d" "so_muxer e = None" "so_engine e = so_engine d"
    "so_output e"
proof -
  let ?t = "stop_worker (stop_abr_worker (end_lifecycle d))"
  let ?r = "release_session td ?t"
  let ?b = "restore_shared_bitrate (stop_engine ?r)"
  have "\<not> running ?t"
    using assms(1) by (simp add: stop_threads_fields)
  note R = release_session_simps [OF this, of td] stop_threads_fields [of d]
  have "capture_on ?b = capture_on ?r"
    by (simp add: capture_on_def stop_engine_def engine_does_def)
  then have "output_idle ?b"
    using R assms(2,3) by (auto simp: output_idle_def restore_overridden)
  moreover have "so_video_encoder ?b = restored_encoder d"
    using R restored_encoder_calls(2) [of ?r] by (simp add: restored_encoder_def)
  ultimately show "output_idle e" "so_video_encoder e = restored_encoder d" "so_muxer e = None"
    "so_engine e = so_engine d" "so_output e"
    using R assms(2) unfolding e_def by (simp_all add: release_simps)
qed

text \<open>What a start has set up before the capture begins, and that failing there undoes it.\<close>

definition transport_up :: "obs_encoder option \<Rightarrow> srtla_output \<Rightarrow> bool" where
  "transport_up enc d \<longleftrightarrow> media_idle d \<and> so_output d \<and> so_engine d \<and> restored_encoder d = enc"

lemma start_failed_media_idle:
  assumes "transport_up enc d"
  shows "output_idle (start_failed_media sa message d) \<and> so_video_encoder (start_failed_media sa message d) = enc"
proof -
  let ?d = "set_last_error message d"
  have d: "\<not> running ?d" "media_idle ?d" "so_output ?d" "so_engine ?d" "restored_encoder ?d = enc"
    using assms by (auto simp: transport_up_def set_last_error_def media_idle_def capture_on_def restored_encoder_def
        restore_shared_bitrate_def encoder_settings_def set_encoder_bitrate_def split: option.splits)
  note R = release_session_simps [OF d(1), of "sa_teardown sa"]
  let ?r = "engine_does EngineStop (release_session (sa_teardown sa) ?d)"
  have "restored_encoder ?r = enc"
    using R d by simp
  then have "so_video_encoder (restore_shared_bitrate ?r) = enc"
    by (simp add: restored_encoder_def)
  moreover have "output_idle (restore_shared_bitrate ?r)"
    using R d(2,3) restore_overridden [of ?r]
    by (auto simp: output_idle_def media_idle_def engine_does_def capture_on_def)
  ultimately show ?thesis by (simp add: start_failed_media_def)
qed

lemma start_prepare_idle:
  assumes "output_idle d" and "start_prepare sa d = (ok, d1)"
  shows "output_idle d1 \<and> so_video_encoder d1 = so_video_encoder d \<and> (ok \<longrightarrow> so_output d1 \<and> so_engine d1)"
proof -
  let ?lc = "new_lifecycle True True True True False True"
  obtain p err lc calls where p: "prepare (sa_can_begin sa) ?lc = (p, err, lc, calls)"
    by (cases "prepare (sa_can_begin sa) ?lc")
  then have "\<not> lc_active lc"
    by (auto simp: prepare_def new_lifecycle_def split: if_splits)
  let ?f = "td_ffmpeg (sa_teardown sa)"
  let ?d2 = "d\<lparr>so_capture_lifecycle := Some lc, so_fatal_signal_queued := False\<rparr>"
  let ?d3 = "(release_muxer ?f ?d2)\<lparr>so_capture_active := False, running := False\<rparr>"
  have idle: "output_idle (d\<lparr>so_capture_lifecycle := Some lc\<rparr>)" "output_idle ?d2" "output_idle ?d3"
    using assms(1) \<open>\<not> lc_active lc\<close> release_simps(8) [of ?f ?d2]
    by (auto simp: output_idle_def capture_on_def release_simps)
  have err_idle: "output_idle (set_last_error m e) = output_idle e"
    "so_video_encoder (set_last_error m e) = so_video_encoder e" for m e
    by (simp_all add: set_last_error_def output_idle_def capture_on_def)
  show ?thesis
    using assms idle
    by (auto simp: start_prepare_def p err_idle release_simps Let_def split: if_splits)
qed

lemma restored_encoder_idle: "\<not> so_bitrate_overridden d \<Longrightarrow> restored_encoder d = so_video_encoder d"
  by (simp add: restored_encoder_def restore_shared_bitrate_def)

lemma engine_does_fields [simp]:
  "running (engine_does c d) = running d" "so_session (engine_does c d) = so_session d"
  "so_video_encoder (engine_does c d) = so_video_encoder d" "so_output (engine_does c d) = so_output d"
  "so_engine (engine_does c d) = so_engine d" "so_bitrate_overridden (engine_does c d) = so_bitrate_overridden d"
  "so_calls (engine_does c d) = so_calls d @ [c]" "media_idle (engine_does c d) = media_idle d"
  "capture_on (engine_does c d) = capture_on d" "so_auto_bitrate (engine_does c d) = so_auto_bitrate d"
  by (simp_all add: engine_does_def media_idle_def capture_on_def)

lemma set_last_error_fields [simp]:
  "running (set_last_error m d) = running d" "so_session (set_last_error m d) = so_session d"
  "so_video_encoder (set_last_error m d) = so_video_encoder d" "so_output (set_last_error m d) = so_output d"
  "so_engine (set_last_error m d) = so_engine d" "so_bitrate_overridden (set_last_error m d) = so_bitrate_overridden d"
  "so_calls (set_last_error m d) = so_calls d" "media_idle (set_last_error m d) = media_idle d"
  "capture_on (set_last_error m d) = capture_on d" "so_worker (set_last_error m d) = so_worker d"
  "so_abr_worker (set_last_error m d) = so_abr_worker d" "so_capture_active (set_last_error m d) = so_capture_active d"
  by (simp_all add: set_last_error_def media_idle_def capture_on_def)

lemma output_idle_iff:
  "output_idle d \<longleftrightarrow> media_idle d \<and> so_session d = None \<and> \<not> so_bitrate_overridden d \<and> \<not> engine_on (so_calls d)"
  by (auto simp: output_idle_def media_idle_def)

lemma start_session_result:
  assumes "media_idle d" and "\<not> so_bitrate_overridden d" and "start_session sa d = (ok, d1)"
  shows "so_video_encoder d1 = so_video_encoder d \<and> so_output d1 = so_output d \<and> so_engine d1 = so_engine d
    \<and> media_idle d1 \<and> \<not> so_bitrate_overridden d1 \<and> (if ok then so_session d1 \<noteq> None else output_idle d1)"
proof -
  let ?cfg = "session_config_of d"
  obtain started ses where st: "session_start ?cfg (sa_session_thread sa) (new_session ?cfg) = (started, ses)"
    by (cases "session_start ?cfg (sa_session_thread sa) (new_session ?cfg)")
  define states where "states = (if started then connector_states ?cfg (sa_connector sa) ses else [ses])"
  let ?ses = "last states"
  let ?d = "(deliver_reports (td_task (sa_teardown sa)) 0 ?ses d)\<lparr>so_session := Some ?ses\<rparr>"
  have "\<not> running d"
    using assms(1) by (simp add: media_idle_def)
  from same_control_deliver [OF this] have C: "same_control ?d (d\<lparr>so_session := Some ?ses\<rparr>)"
    by (rule same_control_update)
  have d: "media_idle ?d" "\<not> running ?d" "\<not> so_bitrate_overridden ?d" "so_video_encoder ?d = so_video_encoder d"
    "so_output ?d = so_output d" "so_engine ?d = so_engine d" "so_session ?d = Some ?ses"
    using assms(1,2) same_controlD [OF C] output_idle_cong [OF C] by (simp_all add: media_idle_def capture_on_def)
  have fail: "output_idle (engine_does EngineStop (release_session td (set_last_error m ?d)))"
    "so_video_encoder (release_session td (set_last_error m ?d)) = so_video_encoder d"
    "so_output (release_session td (set_last_error m ?d)) = so_output d"
    "so_engine (release_session td (set_last_error m ?d)) = so_engine d" for td m
    using release_session_simps [of "set_last_error m ?d" td] d by (simp_all add: output_idle_iff)
  let ?up = "started \<and> wait_connected (map ss_status states)"
  let ?m = "if ss_error ?ses = [] then ''SRT receiver did not connect within five seconds'' else ss_error ?ses"
  have "start_session sa d = (if ?up then (True, ?d)
      else (False, engine_does EngineStop (release_session (sa_teardown sa) (set_last_error ?m ?d))))"
    unfolding start_session_def st Let_def states_def by simp
  with assms(3) consider (up) "ok" "d1 = ?d"
    | (down) "\<not> ok" "d1 = engine_does EngineStop (release_session (sa_teardown sa) (set_last_error ?m ?d))"
    by (cases ?up) auto
  then show ?thesis
  proof cases
    case up
    with d show ?thesis by simp
  next
    case down
    with fail [of "sa_teardown sa" ?m] show ?thesis by (simp add: output_idle_iff)
  qed
qed

lemma start_transport_result:
  assumes "output_idle d" and "so_output d" and "so_engine d" and "start_transport sa d = (ok, d1)"
  shows "so_video_encoder d1 = so_video_encoder d \<and> so_output d1 \<and> so_engine d1
    \<and> (if ok then media_idle d1 \<and> \<not> so_bitrate_overridden d1 \<and> so_session d1 \<noteq> None else output_idle d1)"
proof -
  let ?d = "engine_does (EngineAudioBitrate (so_audio_bitrate_bps d)) (engine_does EngineStart d)"
  have "media_idle ?d" "\<not> so_bitrate_overridden ?d"
    using assms(1) by (simp_all add: output_idle_iff)
  note S = start_session_result [OF this]
  show ?thesis
    using assms S [of sa ok d1]
    by (auto simp: start_transport_def output_idle_iff Let_def split: if_splits)
qed

text \<open>A bitrate setting that fits the \<^verbatim>\<open>int\<close> in which the original is kept.\<close>

definition bitrate_fits :: "obs_encoder option \<Rightarrow> bool" where
  "bitrate_fits enc \<longleftrightarrow> (case enc of None \<Rightarrow> True | Some e \<Rightarrow> - (2 ^ 31) \<le> ec_bitrate e \<and> ec_bitrate e < 2 ^ 31)"

text \<open>During a session the encoder can be restored, and its settings are only changed if it can.\<close>

definition session_bitrate_inv :: "obs_encoder option \<Rightarrow> srtla_output \<Rightarrow> bool" where
  "session_bitrate_inv enc d \<longleftrightarrow>
     so_output d \<and> restored_encoder d = enc \<and> (encoder_settings d \<noteq> None \<longrightarrow> so_bitrate_overridden d)"

lemma apply_manual_bitrate_inv:
  assumes "so_output d" and "\<not> so_bitrate_overridden d" and "bitrate_fits (so_video_encoder d)"
  shows "session_bitrate_inv (so_video_encoder d) (apply_manual_bitrate d)"
  using assms
  by (auto simp: session_bitrate_inv_def apply_manual_bitrate_def restored_encoder_def restore_shared_bitrate_def
      encoder_settings_def set_encoder_bitrate_def bitrate_fits_def cast_int_id Let_def
      split: option.splits if_splits)

lemma set_encoder_bitrate_inv:
  assumes "session_bitrate_inv enc d" and "encoder_settings d \<noteq> None"
  shows "session_bitrate_inv enc (set_encoder_bitrate kbps d)"
  using assms
  by (auto simp: session_bitrate_inv_def restored_encoder_def restore_shared_bitrate_def
      encoder_settings_def set_encoder_bitrate_def split: option.splits if_splits)

lemma bitrate_fields [simp]:
  "media_idle (apply_manual_bitrate d) = media_idle d" "media_idle (set_encoder_bitrate k d) = media_idle d"
  "so_output (apply_manual_bitrate d) = so_output d" "so_output (set_encoder_bitrate k d) = so_output d"
  "so_engine (apply_manual_bitrate d) = so_engine d" "so_engine (set_encoder_bitrate k d) = so_engine d"
  "so_session (apply_manual_bitrate d) = so_session d" "so_session (set_encoder_bitrate k d) = so_session d"
  by (simp_all add: apply_manual_bitrate_def set_encoder_bitrate_def media_idle_def capture_on_def Let_def
      split: option.splits)

lemma session_bitrate_inv_engine [simp]: "session_bitrate_inv enc (engine_does c d) = session_bitrate_inv enc d"
  by (simp add: session_bitrate_inv_def encoder_settings_def)

lemma start_bitrate_result:
  assumes "media_idle d" and "so_output d" and "so_engine d" and "\<not> so_bitrate_overridden d"
    and "bitrate_fits (so_video_encoder d)" and "so_session d \<noteq> None" and "start_bitrate sa d = (ok, d1)"
  shows "if ok then media_idle d1 \<and> so_engine d1 \<and> so_session d1 \<noteq> None \<and> session_bitrate_inv (so_video_encoder d) d1
    else output_idle d1 \<and> so_video_encoder d1 = so_video_encoder d"
proof -
  let ?d1 = "if so_auto_bitrate d \<and> so_video_encoder d \<noteq> None \<and> \<not> encoder_dynamic d
    then d\<lparr>so_auto_bitrate := False\<rparr> else d"
  have 1: "media_idle ?d1" "so_output ?d1" "so_engine ?d1" "\<not> so_bitrate_overridden ?d1"
    "so_video_encoder ?d1 = so_video_encoder d" "so_session ?d1 \<noteq> None"
    using assms(1-4,6) by (auto simp: media_idle_def capture_on_def)
  let ?d2 = "apply_manual_bitrate ?d1"
  have 2: "session_bitrate_inv (so_video_encoder d) ?d2"
    using apply_manual_bitrate_inv [of ?d1] 1(2,4,5) assms(5) by simp
  let ?a = "if so_auto_bitrate ?d2 then so_max_bitrate_kbps ?d2 else so_manual_bitrate_kbps ?d2"
  let ?d3 = "if so_auto_bitrate ?d2 \<and> encoder_settings ?d2 \<noteq> None then set_encoder_bitrate ?a ?d2 else ?d2"
  let ?d4 = "engine_does (EngineVideoBitrate (max 1 ?a * 1000)) ?d3"
  have 3: "session_bitrate_inv (so_video_encoder d) ?d3"
    using 2 set_encoder_bitrate_inv [OF 2] by simp
  have 4: "media_idle ?d4" "so_engine ?d4" "so_session ?d4 \<noteq> None" "session_bitrate_inv (so_video_encoder d) ?d4"
    using 1 3 by (cases "so_auto_bitrate ?d2 \<and> encoder_settings ?d2 \<noteq> None"; simp)+
  then have "transport_up (so_video_encoder d) ?d4"
    by (simp add: transport_up_def session_bitrate_inv_def)
  from start_failed_media_idle [OF this] 4 assms(7) show ?thesis
    unfolding start_bitrate_def Let_def by (auto split: if_splits)
qed

lemma session_bitrate_inv_cong:
  assumes "same_control d e"
  shows "session_bitrate_inv enc d = session_bitrate_inv enc e"
  using same_controlD [OF assms] restored_encoder_cong [OF assms]
  by (simp add: session_bitrate_inv_def encoder_settings_def)

lemma restored_encoder_view:
  assumes "so_output d = so_output e" "so_bitrate_overridden d = so_bitrate_overridden e"
    "so_original_bitrate_kbps d = so_original_bitrate_kbps e" "so_video_encoder d = so_video_encoder e"
  shows "restored_encoder d = restored_encoder e" "session_bitrate_inv enc d = session_bitrate_inv enc e"
  using assms
  by (auto simp: session_bitrate_inv_def restored_encoder_def restore_shared_bitrate_def encoder_settings_def
      set_encoder_bitrate_def split: option.splits)

lemma start_media_result:
  assumes "media_idle d" and "so_engine d" and "so_session d \<noteq> None" and "session_bitrate_inv enc d"
    and "start_media sa d = (ok, d1)"
  shows "if ok then media_idle d1 \<and> so_engine d1 \<and> so_session d1 \<noteq> None \<and> session_bitrate_inv enc d1 \<and> so_muxer d1 \<noteq> None
    else output_idle d1 \<and> so_video_encoder d1 = enc"
proof -
  have C: "same_control (start_queue d) d"
    by (simp add: same_control_def queue_ops_more queue_ops_running)
  let ?q = "start_queue d"
  have q: "media_idle ?q" "so_engine ?q" "so_session ?q \<noteq> None" "session_bitrate_inv enc ?q"
    using assms(1-4) same_controlD [OF C] output_idle_cong [OF C] session_bitrate_inv_cong [OF C] by simp_all
  then have "transport_up enc ?q"
    by (simp add: transport_up_def session_bitrate_inv_def)
  note F = start_failed_media_idle [OF this]
  let ?m = "?q\<lparr>so_muxer := Some (new_sink (so_output ?q) True)\<rparr>"
  have "session_bitrate_inv enc ?m = session_bitrate_inv enc ?q"
    by (rule restored_encoder_view) simp_all
  with q F assms(5) show ?thesis
    by (auto simp: start_media_def media_idle_def capture_on_def Let_def split: if_splits)
qed

lemma start_rollback_idle:
  assumes "so_output d" and "so_engine d" and "restored_encoder d = enc"
  shows "output_idle (start_rollback sa err d) \<and> so_video_encoder (start_rollback sa err d) = enc"
proof -
  let ?d = "(set_last_error (value_or err ''OBS output worker startup failed'') d)\<lparr>running := False\<rparr>"
  have "restored_encoder ?d = restored_encoder d"
    by (rule restored_encoder_view) (simp_all add: set_last_error_def)
  with assms teardown_idle [of ?d] show ?thesis
    by (simp add: start_rollback_def)
qed

lemma start_capture_result:
  assumes "media_idle d" and "so_engine d" and "so_session d \<noteq> None" and "session_bitrate_inv enc d"
    and "so_muxer d \<noteq> None" and "start_capture sa d = (ok, d1)"
  shows "if ok then running d1 \<and> so_worker d1 \<and> so_abr_worker d1 \<and> so_session d1 \<noteq> None \<and> so_muxer d1 \<noteq> None
      \<and> so_engine d1 \<and> capture_on d1 \<and> so_capture_active d1 \<and> session_bitrate_inv enc d1
    else output_idle d1 \<and> so_video_encoder d1 = enc"
proof -
  have out: "so_output d" "restored_encoder d = enc"
    using assms(4) by (simp_all add: session_bitrate_inv_def)
  have undo: "output_idle (start_rollback sa err e) \<and> so_video_encoder (start_rollback sa err e) = enc"
    if "so_output e" "so_engine e" "so_bitrate_overridden e = so_bitrate_overridden d"
      "so_original_bitrate_kbps e = so_original_bitrate_kbps d" "so_video_encoder e = so_video_encoder d" for e err
    using that start_rollback_idle [of e enc sa err] restored_encoder_view(1) [of e d] out by simp
  have up: "session_bitrate_inv enc e"
    if "so_output e" "so_bitrate_overridden e = so_bitrate_overridden d"
      "so_original_bitrate_kbps e = so_original_bitrate_kbps d" "so_video_encoder e = so_video_encoder d" for e
    using that restored_encoder_view(2) [of e d enc] out(1) assms(4) by simp
  show ?thesis
  proof (cases "so_capture_lifecycle d")
    case None
    with assms(2,6) out(1) show ?thesis
      by (auto simp: start_capture_def undo Let_def split: if_splits)
  next
    case (Some lc)
    obtain k err lc1 calls where b: "initialize_and_begin (sa_initialize sa) (sa_begin sa) lc = (k, err, lc1, calls)"
      by (cases "initialize_and_begin (sa_initialize sa) (sa_begin sa) lc")
    have "k \<Longrightarrow> lc_active lc1"
      using b by (auto simp: initialize_and_begin_def split: if_splits)
    with assms(2,3,5,6) out(1) Some b show ?thesis
      by (auto simp: start_capture_def undo up capture_on_def Let_def split: if_splits)
  qed
qed

lemma start_result:
  assumes "output_idle d" and "bitrate_fits (so_video_encoder d)" and "srtla_output_start sa d = (ok, d1)"
  shows "if ok then running d1 \<and> so_worker d1 \<and> so_abr_worker d1 \<and> so_session d1 \<noteq> None \<and> so_muxer d1 \<noteq> None
      \<and> so_engine d1 \<and> capture_on d1 \<and> so_capture_active d1 \<and> session_bitrate_inv (so_video_encoder d) d1
    else output_idle d1 \<and> so_video_encoder d1 = so_video_encoder d"
proof -
  obtain k1 p where p: "start_prepare sa d = (k1, p)" by fastforce
  obtain k2 t where t: "start_transport sa p = (k2, t)" by fastforce
  obtain k3 b where b: "start_bitrate sa t = (k3, b)" by fastforce
  obtain k4 m where m: "start_media sa b = (k4, m)" by fastforce
  note P = start_prepare_idle [OF assms(1) p]
  consider "\<not> k1" | "k1" "\<not> k2" | "k1" "k2" "\<not> k3" | "k1" "k2" "k3" "\<not> k4" | "k1" "k2" "k3" "k4"
    by blast
  then show ?thesis
  proof cases
    case 1
    with P p assms(3) show ?thesis by (simp add: srtla_output_start_def and_then_def)
  next
    case 2
    with P p t assms(3) start_transport_result [OF _ _ _ t] show ?thesis
      by (simp add: srtla_output_start_def and_then_def)
  next
    case 3
    with P p t b assms(2,3) start_transport_result [OF _ _ _ t] start_bitrate_result [OF _ _ _ _ _ _ b] show ?thesis
      by (simp add: srtla_output_start_def and_then_def)
  next
    case 4
    with P p t b m assms(2,3) start_transport_result [OF _ _ _ t] start_bitrate_result [OF _ _ _ _ _ _ b]
      start_media_result [OF _ _ _ _ m, of "so_video_encoder d"] show ?thesis
      by (simp add: srtla_output_start_def and_then_def)
  next
    case 5
    have "media_idle m \<and> so_engine m \<and> so_session m \<noteq> None \<and> session_bitrate_inv (so_video_encoder d) m \<and> so_muxer m \<noteq> None"
      using 5 P assms(2) start_transport_result [OF _ _ _ t] start_bitrate_result [OF _ _ _ _ _ _ b]
        start_media_result [OF _ _ _ _ m, of "so_video_encoder d"] by simp
    moreover have "start_capture sa m = (ok, d1)"
      using 5 p t b m assms(3) by (simp add: srtla_output_start_def and_then_def)
    ultimately show ?thesis
      using start_capture_result [of m "so_video_encoder d" sa ok d1] by simp
  qed
qed

section \<open>A whole session\<close>

datatype run_op =
    RunAbr abr_answers
  | RunControl "int \<Rightarrow> int" bool int
  | RunMax "int \<Rightarrow> int" "int \<Rightarrow> int" int
  | RunPacket ffmpeg obs_view task_answers "encoder_packet option"
  | RunSession task_answers srt_answers

fun run_step :: "run_op \<Rightarrow> srtla_output \<Rightarrow> srtla_output" where
  "run_step (RunAbr ab) d = abr_round ab d"
| "run_step (RunControl f automatic manual) d =
     the (snd (srtla_output_set_bitrate_control f automatic manual (Some d)))"
| "run_step (RunMax f g maximum) d = the (snd (srtla_output_set_max_bitrate f g maximum (Some d)))"
| "run_step (RunPacket ff ov ta p) d = srtla_output_encoded_packet ff ov ta p d"
| "run_step (RunSession ta a) d = session_advances ta a d"

text \<open>The fields a bitrate is restored from.\<close>

definition bitrate_view :: "srtla_output \<Rightarrow> bool \<times> bool \<times> bool \<times> int \<times> obs_encoder option" where
  "bitrate_view d =
     (so_output d, so_engine d, so_bitrate_overridden d, so_original_bitrate_kbps d, so_video_encoder d)"

lemma bitrate_view_updates [simp]:
  "bitrate_view (d\<lparr>so_muxer := m\<rparr>) = bitrate_view d" "bitrate_view (d\<lparr>so_session := ses\<rparr>) = bitrate_view d"
  "bitrate_view (d\<lparr>needs_muxer_reset := f\<rparr>) = bitrate_view d" "bitrate_view (engine_does c d) = bitrate_view d"
  "bitrate_view (set_last_error e d) = bitrate_view d" "bitrate_view (queue_fatal_output ta e d) = bitrate_view d"
  "bitrate_view (d\<lparr>so_auto_bitrate := a\<rparr>) = bitrate_view d" "bitrate_view (d\<lparr>so_manual_bitrate_kbps := n\<rparr>) = bitrate_view d"
  "bitrate_view (d\<lparr>so_max_bitrate_kbps := n\<rparr>) = bitrate_view d"
  by (simp_all add: bitrate_view_def engine_does_def set_last_error_def queue_fatal_output_def)

lemma bitrate_view_cong:
  assumes "same_control d e"
  shows "bitrate_view d = bitrate_view e"
  using same_controlD [OF assms] by (simp add: bitrate_view_def)

lemma bitrate_view_enqueue [simp]: "bitrate_view (enqueue_all ds d) = bitrate_view d"
  by (rule bitrate_view_cong) (rule same_control_enqueue_all)

lemma bitrate_view_deliver [simp]: "bitrate_view (deliver_reports ta n ses d) = bitrate_view d"
proof -
  have step: "bitrate_view (on_session_status ta r e) = bitrate_view e" for r e
  proof -
    have "same_control (mark_muxer_reset (session_reconnecting e)) e"
      by (simp add: same_control_def queue_ops_more queue_ops_running)
    then show ?thesis
      by (cases r) (simp add: on_session_status_def bitrate_view_cong)
  qed
  have "bitrate_view (fold (on_session_status ta) rs e) = bitrate_view e" for rs e
    by (induction rs arbitrary: e) (simp_all add: step)
  then show ?thesis by (simp add: deliver_reports_def)
qed

lemma session_inv_view:
  assumes "bitrate_view d = bitrate_view e"
  shows "session_bitrate_inv enc d = session_bitrate_inv enc e" "so_engine d = so_engine e"
  using assms restored_encoder_view(2) [of d e enc] by (simp_all add: bitrate_view_def)

lemma packet_view: "bitrate_view (srtla_output_encoded_packet ff ov ta p d) = bitrate_view d"
  by (auto simp: srtla_output_encoded_packet_def Let_def split: option.splits prod.splits)

lemma session_advances_view: "bitrate_view (session_advances ta a d) = bitrate_view d"
  by (simp add: session_advances_def Let_def split: option.splits)

lemma abr_report_view: "bitrate_view (abr_report_stats ab d) = bitrate_view d"
  by (simp add: abr_report_stats_def split: option.splits prod.splits)

lemma abr_round_inv:
  assumes "session_bitrate_inv enc d" and "so_engine d"
  shows "session_bitrate_inv enc (abr_round ab d) \<and> so_engine (abr_round ab d)"
proof -
  let ?r = "engine_does EngineApplyAbr (abr_report_stats ab d)"
  have r: "session_bitrate_inv enc (abr_report_stats ab d)" "so_engine (abr_report_stats ab d)"
    "session_bitrate_inv enc ?r" "so_engine ?r"
    using assms session_inv_view [OF abr_report_view [of ab d]] by simp_all
  have fatal: "session_bitrate_inv enc (queue_fatal_output ta e d)" "so_engine (queue_fatal_output ta e d)" for ta e
    using assms session_inv_view [OF bitrate_view_updates(6) [of ta e d]] by simp_all
  show ?thesis
    using assms r fatal set_encoder_bitrate_inv [OF r(3)] by (simp add: abr_round_def Let_def)
qed

lemma control_inv:
  assumes "session_bitrate_inv enc d" and "so_engine d"
  shows "case srtla_output_set_bitrate_control f automatic manual (Some d) of (r, e) \<Rightarrow>
    \<exists>d'. e = Some d' \<and> session_bitrate_inv enc d' \<and> so_engine d'"
proof -
  have set: "encoder_settings d \<noteq> None \<Longrightarrow> session_bitrate_inv enc (set_encoder_bitrate k d)" for k
    using assms(1) by (rule set_encoder_bitrate_inv)
  have upd: "session_bitrate_inv enc (e\<lparr>so_manual_bitrate_kbps := m, so_auto_bitrate := a\<rparr>)
      = session_bitrate_inv enc e" for e m a
    by (rule session_inv_view) simp
  show ?thesis
    using assms set
    by (auto simp: srtla_output_set_bitrate_control_def upd encoder_settings_def Let_def
        split: option.splits if_splits)
qed

lemma max_bitrate_inv:
  assumes "session_bitrate_inv enc d" and "so_engine d"
  shows "case srtla_output_set_max_bitrate f g maximum (Some d) of (r, e) \<Rightarrow>
    \<exists>d'. e = Some d' \<and> session_bitrate_inv enc d' \<and> so_engine d'"
proof -
  have upd: "session_bitrate_inv enc ((engine_does c d)\<lparr>so_max_bitrate_kbps := m\<rparr>) = session_bitrate_inv enc d" for c m
    by (rule session_inv_view) simp
  have set: "encoder_settings d \<noteq> None \<Longrightarrow>
      session_bitrate_inv enc (set_encoder_bitrate k ((engine_does c d)\<lparr>so_max_bitrate_kbps := m\<rparr>))" for k c m
    using assms(1) by (intro set_encoder_bitrate_inv) (simp_all add: upd encoder_settings_def)
  show ?thesis
    using assms set
    by (auto simp: srtla_output_set_max_bitrate_def upd encoder_settings_def Let_def
        split: option.splits if_splits)
qed

lemma run_step_inv:
  assumes "session_bitrate_inv enc d" and "so_engine d"
  shows "session_bitrate_inv enc (run_step op d) \<and> so_engine (run_step op d)"
proof (cases op)
  case (RunAbr ab)
  with abr_round_inv [OF assms] show ?thesis by simp
next
  case (RunControl f a n)
  with control_inv [OF assms, of f a n] show ?thesis by (auto split: prod.splits)
next
  case (RunMax f g n)
  with max_bitrate_inv [OF assms, of f g n] show ?thesis by (auto split: prod.splits)
next
  case (RunPacket ff ov ta p)
  with assms session_inv_view [OF packet_view [of ff ov ta p d]] show ?thesis by simp
next
  case (RunSession ta a)
  with assms session_inv_view [OF session_advances_view [of ta a d]] show ?thesis by simp
qed

lemma run_inv:
  "session_bitrate_inv enc d \<Longrightarrow> so_engine d \<Longrightarrow>
   session_bitrate_inv enc (fold run_step ops d) \<and> so_engine (fold run_step ops d)"
  by (induction ops arbitrary: d) (simp_all add: run_step_inv)

lemma stop_result:
  assumes "so_output d" and "engine_on (so_calls d) \<Longrightarrow> so_engine d"
  shows "output_idle (srtla_output_stop td d)" "so_video_encoder (srtla_output_stop td d) = restored_encoder d"
    "so_muxer (srtla_output_stop td d) = None" "queue (srtla_output_stop td d) = []"
    "queue_bytes (srtla_output_stop td d) = 0" "so_engine (srtla_output_stop td d) = so_engine d"
proof -
  let ?d = "d\<lparr>running := False, so_fatal_signal_queued := False\<rparr>"
  have "restored_encoder ?d = restored_encoder d"
    by (rule restored_encoder_view) simp_all
  note T = teardown_idle [of ?d "td_ffmpeg td" td, simplified, OF assms, unfolded this]
  let ?e = "release_muxer (td_ffmpeg td) (restore_shared_bitrate (stop_engine (release_session td
       (stop_worker (stop_abr_worker (end_lifecycle ?d))))))"
  have C: "same_control (clear_queue ?e) ?e"
    by (simp add: same_control_def queue_ops_more queue_ops_running)
  show "output_idle (srtla_output_stop td d)" "so_video_encoder (srtla_output_stop td d) = restored_encoder d"
    "so_muxer (srtla_output_stop td d) = None" "so_engine (srtla_output_stop td d) = so_engine d"
    using T output_idle_cong [OF C] same_controlD [OF C] by (simp_all add: srtla_output_stop_def)
  show "queue (srtla_output_stop td d) = []" "queue_bytes (srtla_output_stop td d) = 0"
    by (simp_all add: srtla_output_stop_def clear_queue_def)
qed

section \<open>Properties\<close>

text \<open>An output with an H.264 encoder, and answers with which it connects and starts.\<close>

definition demo_output :: srtla_output where
  "demo_output = new_srtla_output\<lparr>so_output := True, so_engine := True, so_receiver_host := ''relay'',
     so_receiver_port := 5000,
     so_video_encoder := Some \<lparr>ec_codec = Some ''h264'', ec_dyn_bitrate = True, ec_has_settings = True, ec_bitrate = 4000\<rparr>\<rparr>"

definition demo_teardown :: teardown_answers where
  "demo_teardown = \<lparr>td_ffmpeg = demo_ffmpeg, td_connector = replicate 15 quiet_answers,
     td_task = \<lparr>ta_get_ref = True, ta_queued = True\<rparr>\<rparr>"

definition demo_start_answers :: start_answers where
  "demo_start_answers = \<lparr>sa_can_begin = True, sa_initialize = True, sa_begin = True, sa_source = (\<lambda>_. None),
     sa_engine_start = 0, sa_engine_error = None, sa_set_audio = 0, sa_set_video = (\<lambda>_. 0), sa_session_alloc = True,
     sa_session_thread = True,
     sa_connector = [quiet_answers, quiet_answers, demo_answers, quiet_answers, quiet_answers, quiet_answers, quiet_answers, quiet_answers,
       quiet_answers, quiet_answers, quiet_answers, quiet_answers, quiet_answers, quiet_answers, quiet_answers, quiet_answers],
     sa_muxer_alloc = True, sa_worker_thread = True, sa_abr_thread = True, sa_teardown = demo_teardown\<rparr>"

lemma demo_output_idle: "output_idle demo_output" "bitrate_fits (so_video_encoder demo_output)"
  by (simp_all add: output_idle_def capture_on_def bitrate_fits_def demo_output_def new_srtla_output_def)

lemma demo_session_up:
  "wait_connected (map ss_status (connector_states (session_config_of demo_output) (sa_connector demo_start_answers)
     ((set_status Connecting [] (new_session (session_config_of demo_output)))\<lparr>ss_pc := CTop\<rparr>)))"
  by (simp add: demo_output_def new_srtla_output_def session_config_of_def demo_start_answers_def quiet_answers_def
      demo_answers_def connector_step_def new_session_def set_status_def emit_def goto_def wait_connected_def wait_over_def
      connector_options_def remote_of_def)

text \<open>Everything a start asks for is answered well.\<close>

definition start_answers_ok :: "start_answers \<Rightarrow> bool" where
  "start_answers_ok sa \<longleftrightarrow> sa_can_begin sa \<and> sa_initialize sa \<and> sa_begin sa \<and> sa_engine_start sa = 0 \<and> sa_set_audio sa = 0
     \<and> sa_session_alloc sa \<and> sa_session_thread sa \<and> sa_muxer_alloc sa \<and> sa_worker_thread sa \<and> sa_abr_thread sa"

definition startable :: "srtla_output \<Rightarrow> bool" where
  "startable d \<longleftrightarrow> so_output d \<and> so_engine d \<and> supported_video_encoder (so_video_encoder d)
     \<and> supported_audio_encoder (so_audio_encoder d) \<and> \<not> so_credential_error d \<and> \<not> so_shared_encoder d"

definition ready_lifecycle :: "srtla_output \<Rightarrow> bool" where
  "ready_lifecycle d \<longleftrightarrow> so_capture_lifecycle d =
     Some ((new_lifecycle True True True True False True)\<lparr>lc_prepared := True\<rparr>)"

lemma same_control_config:
  assumes "same_control d e"
  shows "session_config_of d = session_config_of e" "ready_lifecycle d = ready_lifecycle e"
  using assms unfolding same_control_def
  by (cases d, cases e, simp add: session_config_of_def ready_lifecycle_def)+

lemma start_prepare_ok:
  assumes "startable d" and "start_answers_ok sa"
  shows "\<exists>p. start_prepare sa d = (True, p) \<and> \<not> running p \<and> ready_lifecycle p \<and> session_config_of p = session_config_of d"
proof -
  let ?lc = "(new_lifecycle True True True True False True)\<lparr>lc_prepared := True\<rparr>"
  let ?d2 = "d\<lparr>so_capture_lifecycle := Some ?lc, so_fatal_signal_queued := False\<rparr>"
  let ?p = "(release_muxer (td_ffmpeg (sa_teardown sa)) ?d2)\<lparr>so_capture_active := False, running := False\<rparr>"
  note C = same_control_release(1) [of "td_ffmpeg (sa_teardown sa)" ?d2]
  have "prepare True (new_lifecycle True True True True False True) = (True, None, ?lc, [CallCanBegin True])"
    by (simp add: prepare_def new_lifecycle_def)
  then have "start_prepare sa d = (True, ?p)"
    using assms by (simp add: start_prepare_def startable_def start_answers_ok_def release_simps Let_def)
  moreover have "ready_lifecycle ?p" "session_config_of ?p = session_config_of d"
    using same_control_config [OF C] by (simp_all add: ready_lifecycle_def session_config_of_def)
  ultimately show ?thesis by simp
qed

lemma start_transport_ok:
  assumes "start_answers_ok sa" and "\<not> running d" and "ready_lifecycle d"
    and "session_start (session_config_of d) True (new_session (session_config_of d)) = (True, ses)"
    and "wait_connected (map ss_status (connector_states (session_config_of d) (sa_connector sa) ses))"
  shows "\<exists>t. start_transport sa d = (True, t) \<and> \<not> running t \<and> ready_lifecycle t"
proof -
  let ?d = "engine_does (EngineAudioBitrate (so_audio_bitrate_bps d)) (engine_does EngineStart d)"
  define ses1 where "ses1 = last (connector_states (session_config_of d) (sa_connector sa) ses)"
  let ?t = "(deliver_reports (td_task (sa_teardown sa)) 0 ses1 ?d)\<lparr>so_session := Some ses1\<rparr>"
  have cfg: "session_config_of ?d = session_config_of d"
    by (simp add: session_config_of_def engine_does_def)
  have "\<not> running ?d"
    using assms(2) by simp
  from same_control_update(2) [OF same_control_deliver [OF this]]
  have C: "same_control ?t (?d\<lparr>so_session := Some ses1\<rparr>)" .
  have "start_session sa ?d = (True, ?t)"
    using assms(1,4,5) by (simp add: start_session_def cfg start_answers_ok_def ses1_def Let_def)
  moreover have "start_transport sa d = start_session sa ?d"
    using assms(1) by (simp add: start_transport_def start_answers_ok_def)
  moreover have "\<not> running ?t" "ready_lifecycle ?t"
    using same_control_config(2) [OF C] same_controlD(1) [OF C] assms(2,3)
    by (simp_all add: ready_lifecycle_def engine_does_def)
  ultimately show ?thesis by simp
qed

lemma start_bitrate_ok:
  assumes "\<And>bps. sa_set_video sa bps = 0" and "\<not> running d" and "ready_lifecycle d"
  shows "\<exists>b. start_bitrate sa d = (True, b) \<and> \<not> running b \<and> ready_lifecycle b"
  using assms
  by (auto simp: start_bitrate_def apply_manual_bitrate_def set_encoder_bitrate_def ready_lifecycle_def engine_does_def
      Let_def split: option.splits)

lemma start_media_ok:
  assumes "start_answers_ok sa" and "ready_lifecycle d"
  shows "\<exists>m. start_media sa d = (True, m) \<and> ready_lifecycle m"
  using assms by (simp add: start_media_def start_answers_ok_def ready_lifecycle_def start_queue_def Let_def)

lemma start_capture_ok:
  assumes "start_answers_ok sa" and "ready_lifecycle d"
  shows "\<exists>c. start_capture sa d = (True, c)"
  using assms
  by (simp add: start_capture_def start_answers_ok_def ready_lifecycle_def initialize_and_begin_def new_lifecycle_def Let_def)

lemma start_succeeds:
  assumes "startable d" and "start_answers_ok sa" and "\<And>bps. sa_set_video sa bps = 0"
    and "session_start (session_config_of d) True (new_session (session_config_of d)) = (True, ses)"
    and "wait_connected (map ss_status (connector_states (session_config_of d) (sa_connector sa) ses))"
  shows "fst (srtla_output_start sa d)"
proof -
  obtain p where p: "start_prepare sa d = (True, p)" "\<not> running p" "ready_lifecycle p"
    "session_config_of p = session_config_of d"
    using start_prepare_ok [OF assms(1,2)] by blast
  obtain t where t: "start_transport sa p = (True, t)" "\<not> running t" "ready_lifecycle t"
    using start_transport_ok [OF assms(2) p(2,3)] assms(4,5) p(4) by auto
  obtain b where b: "start_bitrate sa t = (True, b)" "ready_lifecycle b"
    using start_bitrate_ok [OF assms(3) t(2,3)] by blast
  obtain m where m: "start_media sa b = (True, m)" "ready_lifecycle m"
    using start_media_ok [OF assms(2) b(2)] by blast
  obtain c where "start_capture sa m = (True, c)"
    using start_capture_ok [OF assms(2) m(2)] by blast
  with p(1) t(1) b(1) m(1) show ?thesis
    by (simp add: srtla_output_start_def and_then_def)
qed

lemma demo_session_start:
  "session_start (session_config_of demo_output) True (new_session (session_config_of demo_output)) =
    (True, (set_status Connecting [] (new_session (session_config_of demo_output)))\<lparr>ss_pc := CTop\<rparr>)"
  by (simp add: session_start_def invalid_encryption_def session_config_of_def demo_output_def new_srtla_output_def
      new_session_def set_status_def emit_def)

lemma demo_answers_ok: "start_answers_ok demo_start_answers" "sa_set_video demo_start_answers bps = 0"
  by (simp_all add: start_answers_ok_def demo_start_answers_def)

lemma demo_start:
  assumes "startable d" and "session_config_of d = session_config_of demo_output"
  shows "fst (srtla_output_start demo_start_answers d)"
  using start_succeeds [OF assms(1) demo_answers_ok, unfolded assms(2), OF demo_session_start demo_session_up] .





subsection \<open>Bitrate limits\<close>

definition bitrate_limits :: "srtla_output \<Rightarrow> bool" where
  "bitrate_limits d \<longleftrightarrow> 500 \<le> so_min_bitrate_kbps d \<and> so_min_bitrate_kbps d \<le> so_max_bitrate_kbps d
     \<and> so_max_bitrate_kbps d \<le> 30000 \<and> 500 \<le> so_manual_bitrate_kbps d \<and> so_manual_bitrate_kbps d \<le> 100000
     \<and> 120 \<le> so_latency_ms d \<and> so_latency_ms d \<le> 60000 \<and> so_pbkeylen d \<in> {16, 24, 32}
     \<and> 1 \<le> so_receiver_port d \<and> so_receiver_port d \<le> 65535"

lemma endpoint_port_range: "1 \<le> snd (parse_endpoint bits url) \<and> snd (parse_endpoint bits url) \<le> 65535"
proof -
  obtain host port where hp: "split_host_port bits (strip_suffix (strip_scheme
      (case url of None \<Rightarrow> default_url | Some u \<Rightarrow> if u = [] then default_url else u))) = (host, port)"
    by fastforce
  then show ?thesis
    using split_host_port_nonneg [OF hp] by (auto simp: parse_endpoint_def Let_def endpoint_rejected_def)
qed

lemma apply_settings_limits: "bitrate_limits (apply_settings api bits settings d)"
  using configured_max_bounds [of api settings] configured_manual_bounds [of api settings]
    configured_min_bounds [of "configured_max_bitrate_kbps api settings" api settings] endpoint_port_range
    clamp_bounds [of 120 60000]
  by (auto simp: bitrate_limits_def apply_settings_def Let_def split: option.splits)

text \<open>Operations other than those that set a limit keep it.\<close>

lemma bitrate_limits_update [simp]:
  "bitrate_limits (engine_does c d) = bitrate_limits d" "bitrate_limits (set_encoder_bitrate k d) = bitrate_limits d"
  "bitrate_limits (d\<lparr>so_credential_error := f\<rparr>) = bitrate_limits d" "bitrate_limits (d\<lparr>so_engine := f\<rparr>) = bitrate_limits d"
  "bitrate_limits (d\<lparr>so_auto_bitrate := f\<rparr>) = bitrate_limits d"
  "bitrate_limits ((set_encoder_bitrate k d)\<lparr>so_manual_bitrate_kbps := n\<rparr>) = bitrate_limits (d\<lparr>so_manual_bitrate_kbps := n\<rparr>)"
  by (simp_all add: bitrate_limits_def engine_does_def set_encoder_bitrate_def)

lemma set_max_clamp:
  assumes "500 \<le> lo" and "lo \<le> 30000"
  shows "lo \<le> clamp v (max 1 lo) ABSOLUTE_MAX_BITRATE_KBPS" "clamp v (max 1 lo) ABSOLUTE_MAX_BITRATE_KBPS \<le> 30000"
  using assms clamp_bounds [of "max 1 lo" 30000 v] by (simp_all add: ABSOLUTE_MAX_BITRATE_KBPS_def)

text \<open>
  C8. The limits hold from creation on: whatever is in the settings, a new or updated output has
  ordered bitrate limits within the supported range, a legal latency and key length and a port
  that fits 16 bits; and the dock cannot break them with any value it passes to the bitrate
  functions, whatever the engine answers.
\<close>

theorem output_limits_hold:
  assumes "bitrate_limits d"
  shows "bitrate_limits (fst (srtla_output_create engine_create api bits adapters video audio settings))
    \<and> bitrate_limits (fst (srtla_output_update engine_create api bits adapters settings d))
    \<and> (case snd (srtla_output_set_bitrate_control f automatic n (Some d)) of None \<Rightarrow> False | Some d' \<Rightarrow> bitrate_limits d')
    \<and> (case snd (srtla_output_set_max_bitrate f g n (Some d)) of None \<Rightarrow> False | Some d' \<Rightarrow> bitrate_limits d')"
proof (intro conjI)
  show "bitrate_limits (fst (srtla_output_create engine_create api bits adapters video audio settings))"
    by (simp add: srtla_output_create_def apply_settings_limits Let_def split: prod.splits)
  show "bitrate_limits (fst (srtla_output_update engine_create api bits adapters settings d))"
    using assms by (simp add: srtla_output_update_def apply_settings_limits Let_def split: prod.splits)
  have "bitrate_limits (d\<lparr>so_manual_bitrate_kbps := clamp n MIN_VIDEO_BITRATE_KBPS MAX_MANUAL_BITRATE_KBPS\<rparr>)"
    using assms clamp_bounds [of 500 100000 n] by (simp add: bitrate_limits_def bitrate_consts)
  then show "case snd (srtla_output_set_bitrate_control f automatic n (Some d)) of None \<Rightarrow> False | Some d' \<Rightarrow> bitrate_limits d'"
    using assms by (simp add: srtla_output_set_bitrate_control_def Let_def)
  have "bitrate_limits ((engine_does c d)\<lparr>so_max_bitrate_kbps :=
      clamp n (max 1 (so_min_bitrate_kbps d)) ABSOLUTE_MAX_BITRATE_KBPS\<rparr>)" for c
    using assms set_max_clamp [of "so_min_bitrate_kbps d" n] by (auto simp: bitrate_limits_def engine_does_def)
  then show "case snd (srtla_output_set_max_bitrate f g n (Some d)) of None \<Rightarrow> False | Some d' \<Rightarrow> bitrate_limits d'"
    using assms by (simp add: srtla_output_set_max_bitrate_def Let_def)
qed

theorem output_limits_hold_witness:
  "bitrate_limits (fst (srtla_output_update (\<lambda>_. True) map_settings 64 [] (Some Map.empty) (demo_output)))"
proof -
  have "bitrate_limits demo_output"
    by (simp add: bitrate_limits_def demo_output_def new_srtla_output_def)
  from output_limits_hold [OF this] show ?thesis by blast
qed

subsection \<open>Packets and errors\<close>

text \<open>
  C7. After a reconnect, a failed send or an overflow asked for it, no packet reaches the muxer
  before the next keyframe, and that keyframe is muxed by a sink in its initial state, so that the
  resumed stream starts with fresh tables.
\<close>

theorem packet_resumes_on_fresh_sink:
  assumes "running d" and "needs_muxer_reset d" and "pk_data p = Some bytes" and "bytes \<noteq> []"
  shows "srtla_output_encoded_packet ff ov ta (Some p) d =
     (if pk_keyframe p
      then srtla_output_encoded_packet ff ov ta (Some p)
        (d\<lparr>needs_muxer_reset := False,
           so_muxer := map_option (\<lambda>m. new_sink (sk_output m) (sk_callback m)) (so_muxer d)\<rparr>)
      else d)"
  using assms
  by (simp add: srtla_output_encoded_packet_def reset_sink_eq)

theorem packet_resumes_on_fresh_sink_witness:
  "srtla_output_encoded_packet demo_ffmpeg demo_view \<lparr>ta_get_ref = True, ta_queued = True\<rparr>
     (Some (demo_packet\<lparr>pk_keyframe := False\<rparr>)) (demo_output\<lparr>running := True, needs_muxer_reset := True\<rparr>)
   = demo_output\<lparr>running := True, needs_muxer_reset := True\<rparr>"
  using packet_resumes_on_fresh_sink [of "demo_output\<lparr>running := True, needs_muxer_reset := True\<rparr>"
      "demo_packet\<lparr>pk_keyframe := False\<rparr>" "[0, 0, 1]" demo_ffmpeg demo_view "\<lparr>ta_get_ref = True, ta_queued = True\<rparr>"]
  by (simp add: demo_packet_def)

lemma queue_fatal_output_queued:
  "so_fatal_signal_queued d \<Longrightarrow> fold (\<lambda>(ta, e). queue_fatal_output ta e) rs d = d"
  by (induction rs) (auto simp: queue_fatal_output_def)

lemma fatal_requests_coalesce:
  assumes "running d" and "\<not> so_fatal_signal_queued d" and "so_tasks d = []"
  shows "if list_ex (\<lambda>(ta, e). ta_get_ref ta \<and> ta_queued ta) rs
      then \<exists>e. fold (\<lambda>(ta, e). queue_fatal_output ta e) rs d = d\<lparr>so_fatal_signal_queued := True, so_tasks := [e]\<rparr>
      else fold (\<lambda>(ta, e). queue_fatal_output ta e) rs d = d"
proof (induction rs)
  case (Cons r rs)
  obtain ta e where r: "r = (ta, e)"
    by (cases r)
  show ?case
  proof (cases "ta_get_ref ta \<and> ta_queued ta")
    case True
    then have "queue_fatal_output ta e d = d\<lparr>so_fatal_signal_queued := True, so_tasks := [e]\<rparr>"
      using assms by (simp add: queue_fatal_output_def)
    with True r queue_fatal_output_queued show ?thesis by (simp, intro exI) (rule refl)
  next
    case False
    then have "queue_fatal_output ta e d = d"
      using assms(1,2) by (cases d) (auto simp: queue_fatal_output_def)
    with False r Cons.IH show ?thesis by auto
  qed
qed simp

lemma fatal_task_stops:
  assumes "running d" and "so_output d" and "so_engine d"
  defines "queued e \<equiv> d\<lparr>so_fatal_signal_queued := True, so_tasks := [e]\<rparr>"
  shows "output_idle (signal_fatal_output_on_ui td (queued e))"
    "so_video_encoder (signal_fatal_output_on_ui td (queued e)) = restored_encoder d"
proof -
  let ?d = "set_last_error (if e = [] then ''SRT session failed'' else e) (d\<lparr>so_fatal_signal_queued := True, so_tasks := []\<rparr>)"
  have "restored_encoder ?d = restored_encoder d"
    by (rule restored_encoder_view) (simp_all add: set_last_error_def)
  with stop_result(1,2) [of ?d td] assms(1-3)
  show "output_idle (signal_fatal_output_on_ui td (queued e))"
    "so_video_encoder (signal_fatal_output_on_ui td (queued e)) = restored_encoder d"
    by (simp_all add: signal_fatal_output_on_ui_def queued_def)
qed



end
