(* ===== verification/Dock_State.thy ===== *)
theory Dock_State
  imports Srtla_Output Stats_Json
begin

text \<open>
  The state of the dock (\<^verbatim>\<open>plugin/srtla-dock.hpp\<close>) and the helpers of
  \<^verbatim>\<open>plugin/srtla-dock.cpp\<close> that work on parts of it: sample histories, the trend widgets, the
  history panel, choices of encoders and the profile values. Qt, the OBS profile and the OBS
  frontend are parameters (records of their functions). A \<^verbatim>\<open>QString\<close> is modelled by its UTF-8
  bytes, \<^verbatim>\<open>tr\<close> is the identity, painting and tool tips other than the one of the state label are
  left out.
\<close>

section \<open>Samples and their histories\<close>

text \<open>
  A sample is a \<^verbatim>\<open>double\<close>. The dock computes with it only by one conversion or division, which
  is kept symbolic: \<open>Over n k\<close> is \<open>n\<close> divided by \<open>k\<close> in floating point.
\<close>

datatype sample = Whole int | Over int int | NotANumber

fun trim_history :: "'a list \<Rightarrow> 'a list" where
  "trim_history history = (if 900 < length history then trim_history (tl history) else history)"

declare trim_history.simps [simp del]

definition append_sample :: "'a list \<Rightarrow> 'a \<Rightarrow> 'a list" where
  "append_sample history value = trim_history (history @ [value])"

text \<open>\<^verbatim>\<open>static_cast<size_t>(seconds)\<close> makes a huge count of a negative number.\<close>

definition history_tail :: "'a list \<Rightarrow> int \<Rightarrow> 'a list" where
  "history_tail history seconds =
     (let count = min (length history) (nat (cast_u64 seconds))
      in drop (length history - count) history)"

lemma trim_history_eq: "trim_history h = drop (length h - 900) h"
proof (induction h rule: trim_history.induct)
  case (1 h)
  show ?case
  proof (cases "900 < length h")
    case True
    then have "length h - 900 = Suc (length (tl h) - 900)" "h \<noteq> []"
      by auto
    with 1 [OF True] True show ?thesis
      by (simp add: trim_history.simps [of h] drop_Suc)
  qed (simp add: trim_history.simps [of h])
qed

lemma append_sample_eq: "append_sample h v = drop (length h - 899) (h @ [v])"
  by (simp add: append_sample_def trim_history_eq)

lemma append_sample_length: "length (append_sample h v) = min 900 (Suc (length h))"
  by (simp add: append_sample_eq)

definition abr_sparkline_label :: "string \<Rightarrow> string" where
  "abr_sparkline_label state =
     (if state = ''Increasing'' then ''Increasing''
      else if state = ''Light congestion'' then ''Light''
      else if state = ''Heavy congestion'' then ''Heavy''
      else if state = ''Severe congestion'' then ''Severe''
      else if state = ''Disconnected'' then ''Disconnected''
      else if state = ''Waiting for SRT feedback'' then ''Waiting''
      else ''Stable'')"

definition abr_sparkline_level :: "string \<Rightarrow> sample" where
  "abr_sparkline_level state =
     (if state = ''Increasing'' then Whole 1
      else if state = ''Light congestion'' then Whole 2
      else if state = ''Heavy congestion'' then Whole 3
      else if state = ''Severe congestion'' then Whole 4
      else if state = ''Disconnected'' then Whole (- 1)
      else if state = ''Waiting for SRT feedback'' then Whole 0
      else Over 1 2)"

section \<open>Trend widgets\<close>

type_synonym rgb = "int \<times> int \<times> int"

record sparkline =
  sl_values :: "sample list"
  sl_reference :: "sample list"
  sl_stepped :: bool
  sl_window_seconds :: int
  sl_color :: rgb

definition setHistory :: "sample list \<Rightarrow> sample list \<Rightarrow> bool \<Rightarrow> int \<Rightarrow> rgb \<Rightarrow> sparkline" where
  "setHistory values reference stepped windowSeconds valueColor =
     \<lparr>sl_values = values, sl_reference = reference, sl_stepped = stepped,
      sl_window_seconds = max 1 windowSeconds, sl_color = valueColor\<rparr>"

definition default_color :: rgb where "default_color = (130, 185, 255)"

definition link_sparkline_color :: "int \<Rightarrow> rgb" where
  "link_sparkline_color column =
     (if column = 3 then (111, 199, 164) else if column = 4 then (130, 185, 255)
      else if column = 5 then (199, 146, 234) else if column = 6 then (184, 196, 216)
      else if column = 7 then (111, 199, 164) else if column = 8 then (225, 173, 82)
      else (130, 185, 255))"

text \<open>A telemetry cell: its text and its plot.\<close>

definition telemetry_cell :: "int \<Rightarrow> string \<Rightarrow> sample list \<Rightarrow> sample list \<Rightarrow> int \<Rightarrow> string \<times> sparkline" where
  "telemetry_cell column value history reference windowSeconds =
     (value, setHistory (history_tail history windowSeconds) (history_tail reference windowSeconds) False
        windowSeconds (link_sparkline_color column))"

record chart_series =
  cs_name :: string
  cs_values :: "sample list"
  cs_color :: rgb
  cs_dashed :: bool

section \<open>Widgets\<close>

text \<open>A combo box: display text and data of its items, and the current index (\<open>-1\<close>: none).\<close>

record combo =
  cb_items :: "(string \<times> string) list"
  cb_index :: int

definition current_item :: "combo \<Rightarrow> string \<times> string" where
  "current_item c = (if 0 \<le> cb_index c \<and> cb_index c < int (length (cb_items c))
     then cb_items c ! nat (cb_index c) else ([], []))"

definition currentData :: "combo \<Rightarrow> string" where "currentData c = snd (current_item c)"
definition currentText :: "combo \<Rightarrow> string" where "currentText c = fst (current_item c)"

text \<open>The first item added to an empty box becomes current.\<close>

definition addItem :: "string \<Rightarrow> string \<Rightarrow> combo \<Rightarrow> combo" where
  "addItem item_text data c =
     \<lparr>cb_items = cb_items c @ [(item_text, data)], cb_index = (if cb_items c = [] then 0 else cb_index c)\<rparr>"

definition findData :: "string \<Rightarrow> combo \<Rightarrow> int" where
  "findData value c =
     (case find_index (\<lambda>(_, data). data = value) (cb_items c) of None \<Rightarrow> - 1 | Some i \<Rightarrow> int i)"

definition select_combo_data :: "string \<Rightarrow> combo \<Rightarrow> combo" where
  "select_combo_data value c =
     (if value \<noteq> [] then
        let index = findData value c in if 0 \<le> index then c\<lparr>cb_index := index\<rparr> else c
      else c)"

text \<open>A spin box keeps its value within its range.\<close>

record spin =
  sp_minimum :: int
  sp_maximum :: int
  sp_value :: int

definition setValue :: "int \<Rightarrow> spin \<Rightarrow> spin" where
  "setValue v s = s\<lparr>sp_value := clamp v (sp_minimum s) (sp_maximum s)\<rparr>"

section \<open>Encoders\<close>

text \<open>A reference to an OBS encoder: the object and its identity.\<close>

record encoder_ref = obs_encoder +
  er_identity :: nat

definition is_supported_video_codec :: "string option \<Rightarrow> bool" where
  "is_supported_video_codec codec \<longleftrightarrow> codec = Some ''h264'' \<or> codec = Some ''hevc''"

definition is_supported_audio_codec :: "string option \<Rightarrow> bool" where
  "is_supported_audio_codec codec \<longleftrightarrow> codec = Some ''aac'' \<or> codec = Some ''opus''"

datatype obs_encoder_type = OBS_ENCODER_AUDIO | OBS_ENCODER_VIDEO

text \<open>What OBS tells about a registered encoder: identifier, type, codec, display name.\<close>

type_synonym encoder_info = "string option \<times> obs_encoder_type \<times> string option \<times> string option"

fun add_encoder_choices :: "(string \<Rightarrow> string) \<Rightarrow> obs_encoder_type \<Rightarrow> encoder_info list \<Rightarrow> combo \<Rightarrow> combo" where
  "add_encoder_choices from_utf8 type [] c = c"
| "add_encoder_choices from_utf8 type ((enc_id, enc_type, codec, display_name) # rest) c =
     (case enc_id of
        None \<Rightarrow> add_encoder_choices from_utf8 type rest c
      | Some i \<Rightarrow>
          if enc_type \<noteq> type then add_encoder_choices from_utf8 type rest c
          else if (type = OBS_ENCODER_VIDEO \<and> \<not> is_supported_video_codec codec)
              \<or> (type = OBS_ENCODER_AUDIO \<and> \<not> is_supported_audio_codec codec)
          then add_encoder_choices from_utf8 type rest c
          else add_encoder_choices from_utf8 type rest
            (addItem (from_utf8 (if nonempty_cstr display_name then the display_name else i)) (from_utf8 i) c))"

text \<open>The choices are exactly the encoders of the type with a supported codec, in OBS's order.\<close>

lemma add_encoder_choices_items:
  "cb_items (add_encoder_choices f type infos c) =
     cb_items c @ concat (map (\<lambda>(i, t, codec, name).
       case i of None \<Rightarrow> []
       | Some i \<Rightarrow>
           if t = type \<and> (case type of OBS_ENCODER_VIDEO \<Rightarrow> is_supported_video_codec codec
                                    | OBS_ENCODER_AUDIO \<Rightarrow> is_supported_audio_codec codec)
           then [(f (if nonempty_cstr name then the name else i), f i)] else []) infos)"
  by (induction f type infos c rule: add_encoder_choices.induct)
    (auto simp: addItem_def split: option.splits obs_encoder_type.splits)

section \<open>Parameters\<close>

text \<open>JSON documents as Qt reads and writes them; a number that is no integer keeps its text.\<close>

datatype qjson = JUndefined | JBool bool | JInt int | JReal string | JStr string
  | JArr "qjson list" | JObj "(string \<times> qjson) list"

fun jvalue :: "string \<Rightarrow> qjson \<Rightarrow> qjson" where
  "jvalue name (JObj members) = (case map_of members name of Some v \<Rightarrow> v | None \<Rightarrow> JUndefined)"
| "jvalue name _ = JUndefined"

fun toArray :: "qjson \<Rightarrow> qjson list" where
  "toArray (JArr xs) = xs"
| "toArray _ = []"

fun toBool :: "qjson \<Rightarrow> bool" where
  "toBool (JBool b) = b"
| "toBool _ = False"

fun toInteger :: "int \<Rightarrow> qjson \<Rightarrow> int" where
  "toInteger missing (JInt i) = i"
| "toInteger missing _ = missing"

fun toInt :: "qjson \<Rightarrow> int" where
  "toInt (JInt i) = (if - (2 ^ 31) \<le> i \<and> i < 2 ^ 31 then i else 0)"
| "toInt _ = 0"

fun toString :: "string \<Rightarrow> qjson \<Rightarrow> string" where
  "toString missing (JStr s) = s"
| "toString missing _ = missing"

text \<open>\<^verbatim>\<open>toVariant().toString()\<close>.\<close>

fun variantString :: "qjson \<Rightarrow> string" where
  "variantString (JStr s) = s"
| "variantString (JInt i) = to_string i"
| "variantString (JReal t) = t"
| "variantString (JBool b) = (if b then ''true'' else ''false'')"
| "variantString _ = []"

fun isObject :: "qjson \<Rightarrow> bool" where
  "isObject (JObj _) = True"
| "isObject _ = False"

text \<open>
  Qt: conversion from UTF-8, the parts of \<^verbatim>\<open>QUrl\<close> the dock reads, \<^verbatim>\<open>QString::toInt\<close>, the fixed-point
  form of a number, trimming, the JSON writer and parser, and the current row of the table after
  rows were removed.
\<close>

record qt =
  fromUtf8 :: "string \<Rightarrow> string"
  url_isValid :: "string \<Rightarrow> bool"
  url_scheme :: "string \<Rightarrow> string"
  url_stripped :: "string \<Rightarrow> string"
  url_queryItems :: "string \<Rightarrow> (string \<times> string) list"
  string_toInt :: "string \<Rightarrow> int option"
  number_fixed :: "nat \<Rightarrow> sample \<Rightarrow> string"
  string_trimmed :: "string \<Rightarrow> string"
  toJson :: "qjson \<Rightarrow> string"
  fromJson :: "string \<Rightarrow> qjson option"
  row_after_shrink :: "int \<Rightarrow> int \<Rightarrow> int"

text \<open>The configuration file of a profile (section \<^verbatim>\<open>SrtlaOutput\<close>).\<close>

record 'c config_api =
  config_has_user_value :: "'c \<Rightarrow> string \<Rightarrow> bool"
  config_get_string :: "'c \<Rightarrow> string \<Rightarrow> string option"
  config_get_bool :: "'c \<Rightarrow> string \<Rightarrow> bool"
  config_get_int :: "'c \<Rightarrow> string \<Rightarrow> int"
  config_set_string :: "string \<Rightarrow> string \<Rightarrow> 'c \<Rightarrow> 'c"
  config_set_bool :: "string \<Rightarrow> bool \<Rightarrow> 'c \<Rightarrow> 'c"
  config_set_int :: "string \<Rightarrow> int \<Rightarrow> 'c \<Rightarrow> 'c"
  config_save_safe :: "'c \<Rightarrow> 'c"

text \<open>
  The output object as the dock uses it: the calls of OBS, and the functions the plugin exports
  for the dock (\<^verbatim>\<open>srtla_output_...\<close>). Creating and updating may change the settings object; the
  statistics may change between the call that asks for their size and the one that copies them.
\<close>

record ('d, 'o) output_api =
  obs_output_create :: "'d \<Rightarrow> ('o \<times> 'd) option"
  obs_output_update :: "'d \<Rightarrow> 'o \<Rightarrow> 'o \<times> 'd"
  obs_output_start :: "'o \<Rightarrow> bool \<times> 'o"
  obs_output_get_last_error :: "'o \<Rightarrow> string option"
  obs_output_active :: "'o \<Rightarrow> bool"
  obs_output_stop :: "'o \<Rightarrow> 'o"
  obs_output_set_video_encoder :: "encoder_ref option \<Rightarrow> 'o \<Rightarrow> 'o"
  obs_output_set_audio_encoder :: "encoder_ref option \<Rightarrow> 'o \<Rightarrow> 'o"
  obs_output_get_video_encoder :: "'o \<Rightarrow> nat option"
  obs_output_get_audio_encoder :: "'o \<Rightarrow> nat option"
  output_set_link_enabled :: "64 word \<Rightarrow> bool \<Rightarrow> 'o \<Rightarrow> int \<times> 'o"
  output_set_bitrate_control :: "bool \<Rightarrow> int \<Rightarrow> 'o \<Rightarrow> int \<times> 'o"
  output_set_max_bitrate :: "int \<Rightarrow> 'o \<Rightarrow> int \<times> 'o"
  output_update_adapters :: "'o \<Rightarrow> int \<times> 'o"
  output_stats_size :: "'o \<Rightarrow> nat"
  output_copy_stats_json :: "nat \<Rightarrow> 'o \<Rightarrow> nat \<times> string"

text \<open>An output of OBS whose encoders may be shared.\<close>

record source_output =
  src_active :: bool
  src_video :: "encoder_ref option"
  src_audio :: "encoder_ref option"

text \<open>The OBS frontend: its outputs, and the encoders it creates for an identifier and a bitrate.\<close>

record frontend =
  fe_streaming_output :: "source_output option"
  fe_recording_output :: "source_output option"
  fe_create_video :: "string \<Rightarrow> int \<Rightarrow> encoder_ref option"
  fe_create_audio :: "string \<Rightarrow> int \<Rightarrow> encoder_ref option"

text \<open>
  Everything the dock calls. \<open>env_order\<close> is the iteration order of \<^verbatim>\<open>std::unordered_map\<close>, which the
  language leaves open, and \<open>env_data_create\<close> a new settings object.
\<close>

record ('c, 'd, 'o) dock_env =
  env_qt :: qt
  env_config :: "'c config_api"
  env_data :: "'d obs_data_api"
  env_data_create :: 'd
  env_out :: "('d, 'o) output_api"
  env_frontend :: frontend
  env_order :: "(string \<rightharpoonup> bool) \<Rightarrow> string list"

section \<open>The dock\<close>

text \<open>
  A row of the adapter table: the check box of column 0, the adapter's identifier (the user data
  of column 1) and its label, the text of column 2, the telemetry of columns 3 to 8.
\<close>

record link_row =
  lr_use :: bool
  lr_id :: string
  lr_label :: string
  lr_state :: string
  lr_cells :: "(string \<times> sparkline) list"
  lr_hidden :: bool

text \<open>The widgets the dock only writes to.\<close>

record dock_view =
  vw_start_stop :: string
  vw_state_tip :: string
  vw_secret_warning :: string
  vw_settings_summary :: string
  vw_overview_title :: string
  vw_trend_hint :: string
  vw_adapter_count :: string
  vw_show_all_text :: string
  vw_history_title :: string
  vw_history_now :: string
  vw_manual_enabled :: bool
  vw_custom_enabled :: bool
  vw_metric_values :: "string list"
  vw_metric_sparklines :: "sparkline list"
  vw_charts :: "(chart_series list \<times> int) list"
  vw_visible_rows :: nat

text \<open>References to OBS objects the dock obtains and gives back.\<close>

datatype obs_ref = RefSourceOutput | RefVideoEncoder | RefAudioEncoder | RefEncoderSettings | RefOutput | RefSettings

datatype ref_event = Obtain obs_ref | Release obs_ref

text \<open>
  The dock. \<open>dk_connected\<close> says whether the signal handlers are connected (they are from the
  constructor on), \<open>dk_config\<close> is the profile OBS has loaded, \<open>dk_refs\<close> the references obtained and
  released so far, \<open>dk_retired\<close> the output objects given back to OBS as they were then, and \<open>dk_emitted\<close> the documents handed to \<^verbatim>\<open>srtla_websocket_emit_status_json\<close>.
\<close>

record ('c, 'd, 'o) dock =
  dk_connected :: bool
  dk_url :: string
  dk_stream_id :: string
  dk_passphrase :: string
  dk_encoder_source :: combo
  dk_custom_video :: combo
  dk_custom_audio :: combo
  dk_auto_bitrate :: bool
  dk_manual_bitrate :: spin
  dk_max_bitrate :: spin
  dk_state :: string
  dk_metric_history :: "sample list list"
  dk_links :: "link_row list"
  dk_current_row :: int
  dk_show_all :: bool
  dk_history_window :: int
  dk_link_history :: "string \<rightharpoonup> sample list list"
  dk_selected_link_key :: string
  dk_running :: bool
  dk_secret_error :: bool
  dk_latency_ms :: int
  dk_pbkeylen :: int
  dk_selected :: "string \<rightharpoonup> bool"
  dk_output :: "'o option"
  dk_settings :: "'d option"
  dk_config :: "'c option"
  dk_view :: dock_view
  dk_refs :: "ref_event list"
  dk_retired :: "'o list"
  dk_emitted :: "string list"

definition view_update :: "(dock_view \<Rightarrow> dock_view) \<Rightarrow> ('c, 'd, 'o) dock \<Rightarrow> ('c, 'd, 'o) dock" where
  "view_update f d = d\<lparr>dk_view := f (dk_view d)\<rparr>"

definition set_state_text :: "string \<Rightarrow> ('c, 'd, 'o) dock \<Rightarrow> ('c, 'd, 'o) dock" where
  "set_state_text s d = d\<lparr>dk_state := s\<rparr>"

definition ref :: "ref_event \<Rightarrow> ('c, 'd, 'o) dock \<Rightarrow> ('c, 'd, 'o) dock" where
  "ref e d = d\<lparr>dk_refs := dk_refs d @ [e]\<rparr>"

end
