(* ===== verification/Dock_Links.thy ===== *)
theory Dock_Links
  imports Dock_State
begin

text \<open>
  The adapter table of the dock: selection and visibility of the links, the refresh from the
  network monitor, the stored list of enabled links, and the trend and history panels that show
  the telemetry of a link. The table's items exist for every row from the first refresh on, so a
  row is modelled with all of them.
\<close>

section \<open>Trend and history panels\<close>

definition middle_dot :: string where "middle_dot = [CHR 0xC2, CHR 0xB7]"

definition nth_or_empty :: "sample list list \<Rightarrow> nat \<Rightarrow> sample list" where
  "nth_or_empty hs i = (if i < length hs then hs ! i else [])"

definition updateOverviewSparklines :: "('c, 'd, 'o) dock \<Rightarrow> ('c, 'd, 'o) dock" where
  "updateOverviewSparklines d =
     (let windowSeconds = max 1 (dk_history_window d);
          hs = dk_metric_history d;
          spark = (\<lambda>index.
            let values = history_tail (nth_or_empty hs index) windowSeconds
            in if index = 0 \<or> index = 5 then setHistory values [] True windowSeconds default_color
               else if index = 3 then
                 setHistory values (history_tail (nth_or_empty hs 4) windowSeconds) False windowSeconds default_color
               else setHistory values [] False windowSeconds default_color)
      in view_update (\<lambda>v. v\<lparr>
           vw_overview_title := ''Output overview '' @ middle_dot @ '' last '' @ to_string (windowSeconds div 60) @ '' min'',
           vw_metric_sparklines := map spark [0..<length hs]\<rparr>) d)"

definition empty_history :: "sample list list" where
  "empty_history = replicate 6 []"

definition adapter_name :: "('c, 'd, 'o) dock \<Rightarrow> string" where
  "adapter_name d =
     (if dk_selected_link_key d \<noteq> [] then
        (case find (\<lambda>r. lr_id r = dk_selected_link_key d) (dk_links d) of
           Some r \<Rightarrow> lr_label r
         | None \<Rightarrow> ''No adapter selected'')
      else ''No adapter selected'')"

definition history_now_text :: "qt \<Rightarrow> sample list list \<Rightarrow> string" where
  "history_now_text q h =
     (if nth_or_empty h 3 = [] \<or> nth_or_empty h 4 = [] \<or> nth_or_empty h 5 = [] then
        ''No history yet '' @ middle_dot @ '' start output to collect link telemetry''
      else
        let back = (\<lambda>i p. number_fixed q p (last (nth_or_empty h i)));
            back_or_zero = (\<lambda>i p. number_fixed q p
              (if nth_or_empty h i = [] then Whole 0 else last (nth_or_empty h i)))
        in ''Now '' @ middle_dot @ '' Offered '' @ back 3 1 @ '' Mb/s '' @ middle_dot @ '' Delivered '' @ back 4 1
           @ '' Mb/s '' @ middle_dot @ '' CC target '' @ back 5 1 @ '' Mb/s '' @ middle_dot @ '' RTT ''
           @ back_or_zero 1 0 @ '' ms '' @ middle_dot @ '' NAK '' @ back_or_zero 2 1 @ ''%'')"

definition updateHistoryPanel :: "qt \<Rightarrow> ('c, 'd, 'o) dock \<Rightarrow> ('c, 'd, 'o) dock" where
  "updateHistoryPanel q d =
     (let h = (case dk_link_history d (dk_selected_link_key d) of None \<Rightarrow> empty_history | Some h \<Rightarrow> h);
          window = dk_history_window d;
          series = (\<lambda>name i color dashed.
            \<lparr>cs_name = name, cs_values = history_tail (nth_or_empty h i) window, cs_color = color, cs_dashed = dashed\<rparr>);
          bandwidth = [series ''Offered'' 3 (184, 196, 216) False, series ''Delivered'' 4 (111, 199, 164) False,
            series ''CC target'' 5 (225, 173, 82) True];
          rtt = [series ''RTT'' 1 (130, 185, 255) False];
          nak = [series ''NAK rate'' 2 (199, 146, 234) False]
      in view_update (\<lambda>v. v\<lparr>
           vw_history_title := adapter_name d @ '' '' @ middle_dot @ '' history'',
           vw_history_now := history_now_text q h,
           vw_charts := [(bandwidth, window), (rtt, window), (nak, window)]\<rparr>) d)"

text \<open>\<^verbatim>\<open>arrangeOverview\<close>: the grid cell of each metric tile for a width of the dock.\<close>

definition arrangeOverview :: "int \<Rightarrow> nat \<Rightarrow> (nat \<times> nat) list" where
  "arrangeOverview width tiles =
     (let columns = (if 880 \<le> width then 6 else if 540 \<le> width then 3 else 2)
      in map (\<lambda>index. (index div columns, index mod columns)) [0..<tiles])"

section \<open>Visibility\<close>

definition first_visible :: "link_row list \<Rightarrow> int" where
  "first_visible rows = (case find_index (\<lambda>r. \<not> lr_hidden r) rows of None \<Rightarrow> - 1 | Some i \<Rightarrow> int i)"

definition row_hidden :: "link_row list \<Rightarrow> int \<Rightarrow> bool" where
  "row_hidden rows row \<longleftrightarrow> 0 \<le> row \<and> row < int (length rows) \<and> lr_hidden (rows ! nat row)"

definition row_key :: "link_row list \<Rightarrow> int \<Rightarrow> string \<Rightarrow> string" where
  "row_key rows row missing = (if 0 \<le> row \<and> row < int (length rows) then lr_id (rows ! nat row) else missing)"

definition hide_rows :: "bool \<Rightarrow> link_row list \<Rightarrow> link_row list" where
  "hide_rows showAll rows = map (\<lambda>r. r\<lparr>lr_hidden := \<not> (showAll \<or> lr_use r)\<rparr>) rows"

definition applyAdapterVisibility :: "qt \<Rightarrow> ('c, 'd, 'o) dock \<Rightarrow> ('c, 'd, 'o) dock" where
  "applyAdapterVisibility q d =
     (let selectedCount = length (filter lr_use (dk_links d));
          showAll = (dk_show_all d \<or> selectedCount = 0);
          rows = hide_rows showAll (dk_links d);
          currentRow = (if dk_current_row d < 0 \<or> row_hidden rows (dk_current_row d)
                        then first_visible rows else dk_current_row d);
          d1 = view_update (\<lambda>v. v\<lparr>
                 vw_adapter_count := (if selectedCount = 0 then middle_dot @ '' none selected''
                   else middle_dot @ '' '' @ to_string (int selectedCount) @ '' selected''),
                 vw_show_all_text := ''Show all adapters ('' @ to_string (int (length rows)) @ '')'',
                 vw_visible_rows := length (filter (\<lambda>r. \<not> lr_hidden r) rows),
                 vw_trend_hint := ''Inline trends '' @ middle_dot @ '' '' @ to_string (dk_history_window d div 60) @ '' min''\<rparr>)
               (d\<lparr>dk_links := rows\<rparr>);
          d2 = (if 0 \<le> currentRow
                then d1\<lparr>dk_current_row := currentRow,
                        dk_selected_link_key := row_key rows currentRow (dk_selected_link_key d)\<rparr>
                else d1)
      in updateHistoryPanel q d2)"

section \<open>The stored list of enabled links\<close>

fun join_enabled :: "(string \<rightharpoonup> bool) \<Rightarrow> string list \<Rightarrow> string \<Rightarrow> string" where
  "join_enabled selected [] enabled_links = enabled_links"
| "join_enabled selected (i # ids) enabled_links =
     (if selected i \<noteq> Some True then join_enabled selected ids enabled_links
      else join_enabled selected ids ((if enabled_links \<noteq> [] then enabled_links @ '','' else enabled_links) @ i))"

definition enabled_links_text :: "('c, 'd, 'o) dock_env \<Rightarrow> (string \<rightharpoonup> bool) \<Rightarrow> string" where
  "enabled_links_text E selected = join_enabled selected (env_order E selected) []"

definition save_profile_config :: "('c, 'd, 'o) dock_env \<Rightarrow> ('c, 'd, 'o) dock \<Rightarrow> ('c, 'd, 'o) dock" where
  "save_profile_config E d = d\<lparr>dk_config := map_option (config_save_safe (env_config E)) (dk_config d)\<rparr>"

definition saveSelectedLinks :: "('c, 'd, 'o) dock_env \<Rightarrow> ('c, 'd, 'o) dock \<Rightarrow> ('c, 'd, 'o) dock" where
  "saveSelectedLinks E d =
     (case dk_config d of
        None \<Rightarrow> d
      | Some c \<Rightarrow> save_profile_config E (d\<lparr>dk_config :=
          Some (config_set_string (env_config E) ''EnabledLinks'' (c_str (enabled_links_text E (dk_selected d))) c)\<rparr>))"

text \<open>The loop of \<^verbatim>\<open>loadProfile\<close> over the stored list.\<close>

definition load_enabled_links :: "string \<Rightarrow> string \<rightharpoonup> bool" where
  "load_enabled_links enabled_links =
     foldl (\<lambda>selected i. if i \<noteq> [] then selected(i \<mapsto> True) else selected) Map.empty
       (token_loop CHR '','' enabled_links 0)"

section \<open>Check boxes\<close>

text \<open>\<^verbatim>\<open>selected_[key]\<close> inserts \<^verbatim>\<open>false\<close> for a missing key.\<close>

definition select_index :: "string \<Rightarrow> ('c, 'd, 'o) dock \<Rightarrow> bool \<times> ('c, 'd, 'o) dock" where
  "select_index key d =
     (case dk_selected d key of
        Some b \<Rightarrow> (b, d)
      | None \<Rightarrow> (False, d\<lparr>dk_selected := (dk_selected d)(key \<mapsto> False)\<rparr>))"

definition try_emplace :: "string \<Rightarrow> bool \<Rightarrow> (string \<rightharpoonup> bool) \<Rightarrow> bool \<times> (string \<rightharpoonup> bool)" where
  "try_emplace key b selected = (case selected key of Some c \<Rightarrow> (c, selected) | None \<Rightarrow> (b, selected(key \<mapsto> b)))"

definition set_use :: "nat \<Rightarrow> bool \<Rightarrow> ('c, 'd, 'o) dock \<Rightarrow> ('c, 'd, 'o) dock" where
  "set_use row enabled d = d\<lparr>dk_links := (dk_links d)[row := (dk_links d ! row)\<lparr>lr_use := enabled\<rparr>]\<rparr>"

text \<open>The handler of \<^verbatim>\<open>itemChanged\<close> for the check box of a row.\<close>

definition on_use_changed :: "('c, 'd, 'o) dock_env \<Rightarrow> nat \<Rightarrow> ('c, 'd, 'o) dock \<Rightarrow> ('c, 'd, 'o) dock" where
  "on_use_changed E row d =
     (let key = lr_id (dk_links d ! row);
          enabled = lr_use (dk_links d ! row);
          accept = (\<lambda>d. applyAdapterVisibility (env_qt E) (saveSelectedLinks E
            (d\<lparr>dk_selected := (dk_selected d)(key \<mapsto> enabled)\<rparr>)))
      in (case dk_output d of
            None \<Rightarrow> accept d
          | Some o_ref \<Rightarrow>
              if \<not> dk_running d then accept d
              else
                (case output_set_link_enabled (env_out E) (srtla_output_link_id (Some (c_str key))) enabled o_ref of
                   (result, o') \<Rightarrow>
                     let d1 = d\<lparr>dk_output := Some o'\<rparr>
                     in if result \<noteq> 0 then set_use row (\<not> enabled) d1 else accept d1)))"

text \<open>\<^verbatim>\<open>setCheckState\<close>, by the user or by the program: the handler runs when the state changes.\<close>

definition setCheckState :: "('c, 'd, 'o) dock_env \<Rightarrow> nat \<Rightarrow> bool \<Rightarrow> ('c, 'd, 'o) dock \<Rightarrow> ('c, 'd, 'o) dock" where
  "setCheckState E row enabled d =
     (if lr_use (dk_links d ! row) = enabled then d
      else if dk_connected d then on_use_changed E row (set_use row enabled d)
      else set_use row enabled d)"

text \<open>\<^verbatim>\<open>itemSelectionChanged\<close>: the user selects a row.\<close>

definition on_row_selected :: "qt \<Rightarrow> int \<Rightarrow> ('c, 'd, 'o) dock \<Rightarrow> ('c, 'd, 'o) dock" where
  "on_row_selected q row d =
     updateHistoryPanel q (d\<lparr>dk_current_row := row,
       dk_selected_link_key := row_key (dk_links d) row (dk_selected_link_key d)\<rparr>)"

definition on_show_all :: "qt \<Rightarrow> bool \<Rightarrow> ('c, 'd, 'o) dock \<Rightarrow> ('c, 'd, 'o) dock" where
  "on_show_all q show d = (if dk_show_all d = show then d else applyAdapterVisibility q (d\<lparr>dk_show_all := show\<rparr>))"

definition on_history_range :: "qt \<Rightarrow> int \<Rightarrow> ('c, 'd, 'o) dock \<Rightarrow> ('c, 'd, 'o) dock" where
  "on_history_range q seconds d =
     updateHistoryPanel q (updateOverviewSparklines (d\<lparr>dk_history_window := seconds\<rparr>))"

section \<open>Refresh from the network monitor\<close>

definition adapter_label :: "qt \<Rightarrow> network_adapter \<Rightarrow> string" where
  "adapter_label q a = fromUtf8 q (na_label a @ '' / '' @ na_address a)"

definition adapter_state :: "network_adapter \<Rightarrow> string" where
  "adapter_state a = (if na_operational a then ''Ready'' else ''Offline'')"

definition topology_changed :: "link_row list \<Rightarrow> network_adapter list \<Rightarrow> bool" where
  "topology_changed rows adapters \<longleftrightarrow>
     length rows \<noteq> length adapters \<or> list_ex (\<lambda>(r, a). lr_id r \<noteq> na_id a) (zip rows adapters)"

text \<open>
  The same adapters as before: selection, label and state of every row. The two flags say whether
  a check box changed and whether the label of the selected row did.
\<close>

fun refresh_rows :: "qt \<Rightarrow> string \<Rightarrow> link_row list \<Rightarrow> network_adapter list \<Rightarrow> (string \<rightharpoonup> bool)
    \<Rightarrow> link_row list \<times> (string \<rightharpoonup> bool) \<times> bool \<times> bool" where
  "refresh_rows q key (r # rows) (a # adapters) selected =
     (let (desired, selected1) = try_emplace (na_id a) (na_enabled a) selected;
          label = adapter_label q a;
          r1 = r\<lparr>lr_use := desired, lr_label := label, lr_state := adapter_state a\<rparr>;
          (rows1, selected2, visibility, title) = refresh_rows q key rows adapters selected1
      in (r1 # rows1, selected2, lr_use r \<noteq> desired \<or> visibility,
          (lr_label r \<noteq> label \<and> lr_id r = key) \<or> title))"
| "refresh_rows q key rows adapters selected = ([], selected, False, False)"

fun build_rows :: "qt \<Rightarrow> int \<Rightarrow> network_adapter list \<Rightarrow> (string \<rightharpoonup> bool) \<Rightarrow> (string \<rightharpoonup> sample list list)
    \<Rightarrow> link_row list \<times> (string \<rightharpoonup> bool) \<times> (string \<rightharpoonup> sample list list)" where
  "build_rows q window [] selected histories = ([], selected, histories)"
| "build_rows q window (a # adapters) selected histories =
     (let (enabled, selected1) = try_emplace (na_id a) (na_enabled a) selected;
          history = (case histories (na_id a) of None \<Rightarrow> empty_history | Some h \<Rightarrow> h);
          histories1 = histories(na_id a \<mapsto> history);
          row = \<lparr>lr_use = enabled, lr_id = fromUtf8 q (na_id a), lr_label = adapter_label q a,
                 lr_state = adapter_state a,
                 lr_cells = map (\<lambda>column. telemetry_cell (int column) ''--'' (nth_or_empty history (column - 3)) [] window) [3..<9],
                 lr_hidden = False\<rparr>;
          (rows, selected2, histories2) = build_rows q window adapters selected1 histories1
      in (row # rows, selected2, histories2))"

definition notify_adapters :: "('c, 'd, 'o) dock_env \<Rightarrow> ('c, 'd, 'o) dock \<Rightarrow> ('c, 'd, 'o) dock" where
  "notify_adapters E d =
     (case dk_output d of
        None \<Rightarrow> d
      | Some o_ref \<Rightarrow> if dk_running d
          then d\<lparr>dk_output := Some (snd (output_update_adapters (env_out E) o_ref))\<rparr> else d)"

text \<open>
  The row that is selected once the table was rebuilt: the last visible one with the selected key,
  else the first enabled one, else the first.
\<close>

definition restored_row :: "string \<Rightarrow> link_row list \<Rightarrow> int" where
  "restored_row key rows =
     (case find_index (\<lambda>r. lr_id r = key \<and> \<not> lr_hidden r) (rev rows) of
        Some i \<Rightarrow> int (length rows) - 1 - int i
      | None \<Rightarrow>
          (case find_index lr_use rows of
             Some i \<Rightarrow> int i
           | None \<Rightarrow> if rows = [] then - 1 else 0))"

definition refreshAdapters ::
    "('c, 'd, 'o) dock_env \<Rightarrow> network_adapter list \<Rightarrow> ('c, 'd, 'o) dock \<Rightarrow> ('c, 'd, 'o) dock" where
  "refreshAdapters E adapters d =
     (if \<not> topology_changed (dk_links d) adapters then
        let (rows, selected, visibility, title) =
              refresh_rows (env_qt E) (dk_selected_link_key d) (dk_links d) adapters (dk_selected d);
            d1 = d\<lparr>dk_links := rows, dk_selected := selected\<rparr>;
            d2 = (if visibility then applyAdapterVisibility (env_qt E) d1
                  else if title then updateHistoryPanel (env_qt E) d1 else d1)
        in notify_adapters E d2
      else
        let (rows, selected, histories) =
              build_rows (env_qt E) (dk_history_window d) adapters (dk_selected d) (dk_link_history d);
            current = (if length adapters < length (dk_links d)
                       then row_after_shrink (env_qt E) (int (length adapters)) (dk_current_row d)
                       else dk_current_row d);
            d1 = applyAdapterVisibility (env_qt E) (d\<lparr>dk_links := rows, dk_selected := selected,
                   dk_link_history := histories, dk_current_row := current\<rparr>);
            row = restored_row (dk_selected_link_key d1) (dk_links d1);
            d2 = (if 0 \<le> row
                  then d1\<lparr>dk_current_row := row,
                          dk_selected_link_key := row_key (dk_links d1) row (dk_selected_link_key d1)\<rparr>
                  else d1\<lparr>dk_selected_link_key := []\<rparr>)
        in updateHistoryPanel (env_qt E) (notify_adapters E d2))"

end
