(* ===== verification/Dock_Profile.thy ===== *)
theory Dock_Profile
  imports Dock_Links
begin

text \<open>
  The profile of the dock: reading a URL with a query, the values of the profile's configuration,
  \<^verbatim>\<open>loadProfile\<close> and \<^verbatim>\<open>saveProfile\<close>, and the signal handlers of the widgets they set. A widget that
  is set to a new value runs its handler once the handlers are connected.
\<close>

section \<open>Legacy URLs\<close>

record legacy_url_fields =
  lu_endpoint :: string
  lu_stream_id :: string
  lu_passphrase :: string
  lu_latency_ms :: int
  lu_pbkeylen :: int
  lu_has_stream_id :: bool
  lu_has_passphrase :: bool
  lu_has_latency :: bool
  lu_has_pbkeylen :: bool

definition new_legacy_url_fields :: legacy_url_fields where
  "new_legacy_url_fields = \<lparr>lu_endpoint = [], lu_stream_id = [], lu_passphrase = [], lu_latency_ms = 2000,
     lu_pbkeylen = 16, lu_has_stream_id = False, lu_has_passphrase = False, lu_has_latency = False,
     lu_has_pbkeylen = False\<rparr>"

definition legacy_query_item :: "qt \<Rightarrow> string \<times> string \<Rightarrow> legacy_url_fields \<Rightarrow> legacy_url_fields" where
  "legacy_query_item q item lu =
     (case item of (key, value) \<Rightarrow>
        if key = ''streamid'' \<or> key = ''stream_id'' then
          lu\<lparr>lu_stream_id := value, lu_has_stream_id := True\<rparr>
        else if key = ''passphrase'' \<or> key = ''password'' then
          lu\<lparr>lu_passphrase := value, lu_has_passphrase := True\<rparr>
        else if key = ''latency'' \<or> key = ''latency_ms'' then
          (case string_toInt q value of
             Some parsed \<Rightarrow> if 120 \<le> parsed \<and> parsed \<le> 60000
               then lu\<lparr>lu_latency_ms := parsed, lu_has_latency := True\<rparr> else lu
           | None \<Rightarrow> lu)
        else if key = ''pbkeylen'' then
          (case string_toInt q value of
             Some parsed \<Rightarrow> if parsed = 16 \<or> parsed = 24 \<or> parsed = 32
               then lu\<lparr>lu_pbkeylen := parsed, lu_has_pbkeylen := True\<rparr> else lu
           | None \<Rightarrow> lu)
        else lu)"

definition parse_legacy_url :: "qt \<Rightarrow> string \<Rightarrow> legacy_url_fields" where
  "parse_legacy_url q raw =
     (if \<not> url_isValid q raw \<or> url_scheme q raw = [] then new_legacy_url_fields\<lparr>lu_endpoint := raw\<rparr>
      else fold (legacy_query_item q) (url_queryItems q raw)
        (new_legacy_url_fields\<lparr>lu_endpoint := url_stripped q raw\<rparr>))"

section \<open>Values of the profile\<close>

definition profile_string :: "('c, 'd, 'o) dock_env \<Rightarrow> 'c option \<Rightarrow> string \<Rightarrow> string \<Rightarrow> string" where
  "profile_string E config name fallback =
     (case config of
        None \<Rightarrow> fallback
      | Some c \<Rightarrow>
          if \<not> config_has_user_value (env_config E) c name then fallback
          else (case config_get_string (env_config E) c name of
              Some v \<Rightarrow> fromUtf8 (env_qt E) v
            | None \<Rightarrow> fallback))"

definition profile_bool :: "('c, 'd, 'o) dock_env \<Rightarrow> 'c option \<Rightarrow> string \<Rightarrow> bool \<Rightarrow> bool" where
  "profile_bool E config name fallback =
     (case config of
        None \<Rightarrow> fallback
      | Some c \<Rightarrow> if config_has_user_value (env_config E) c name then config_get_bool (env_config E) c name else fallback)"

definition profile_int :: "('c, 'd, 'o) dock_env \<Rightarrow> 'c option \<Rightarrow> string \<Rightarrow> int \<Rightarrow> int" where
  "profile_int E config name fallback =
     (case config of
        None \<Rightarrow> fallback
      | Some c \<Rightarrow> if config_has_user_value (env_config E) c name
          then cast_int (config_get_int (env_config E) c name) else fallback)"

section \<open>Widgets and their handlers\<close>

definition update_settings :: "('d \<Rightarrow> 'd) \<Rightarrow> ('c, 'd, 'o) dock \<Rightarrow> ('c, 'd, 'o) dock" where
  "update_settings f d = d\<lparr>dk_settings := map_option f (dk_settings d)\<rparr>"

definition bitrate_refused :: "('c, 'd, 'o) dock \<Rightarrow> ('c, 'd, 'o) dock" where
  "bitrate_refused = view_update (\<lambda>v. v\<lparr>vw_state_tip := ''The selected encoder cannot change bitrate while active''\<rparr>)"

definition updateSettingsSummary :: "('c, 'd, 'o) dock \<Rightarrow> ('c, 'd, 'o) dock" where
  "updateSettingsSummary d =
     (let endpoint = (if dk_url d = [] then ''No receiver URL'' else dk_url d);
          encoder = currentText (dk_encoder_source d)
            @ (if currentData (dk_encoder_source d) = ''custom''
               then '' '' @ middle_dot @ '' '' @ currentText (dk_custom_video d) @ '' / '' @ currentText (dk_custom_audio d)
               else [])
      in view_update (\<lambda>v. v\<lparr>vw_settings_summary := endpoint @ ''  '' @ middle_dot @ ''  '' @ encoder\<rparr>) d)"

definition set_url :: "string \<Rightarrow> ('c, 'd, 'o) dock \<Rightarrow> ('c, 'd, 'o) dock" where
  "set_url s d =
     (if dk_url d = s then d
      else if dk_connected d then updateSettingsSummary (d\<lparr>dk_url := s\<rparr>) else d\<lparr>dk_url := s\<rparr>)"

definition plain_passphrase_warning :: string where
  "plain_passphrase_warning = ''Passphrase is stored unencrypted in the OBS profile.''"

definition on_passphrase_changed :: "('c, 'd, 'o) dock \<Rightarrow> ('c, 'd, 'o) dock" where
  "on_passphrase_changed d =
     (if \<not> dk_secret_error d then d
      else view_update (\<lambda>v. v\<lparr>vw_secret_warning := plain_passphrase_warning\<rparr>) (d\<lparr>dk_secret_error := False\<rparr>))"

definition set_passphrase :: "string \<Rightarrow> ('c, 'd, 'o) dock \<Rightarrow> ('c, 'd, 'o) dock" where
  "set_passphrase s d =
     (if dk_passphrase d = s then d
      else if dk_connected d then on_passphrase_changed (d\<lparr>dk_passphrase := s\<rparr>) else d\<lparr>dk_passphrase := s\<rparr>)"

definition on_source_changed :: "('c, 'd, 'o) dock \<Rightarrow> ('c, 'd, 'o) dock" where
  "on_source_changed d =
     view_update (\<lambda>v. v\<lparr>vw_custom_enabled := (currentData (dk_encoder_source d) = ''custom'')\<rparr>) (updateSettingsSummary d)"

definition set_source_index :: "combo \<Rightarrow> ('c, 'd, 'o) dock \<Rightarrow> ('c, 'd, 'o) dock" where
  "set_source_index c d =
     (let d1 = d\<lparr>dk_encoder_source := c\<rparr>
      in if dk_connected d \<and> cb_index c \<noteq> cb_index (dk_encoder_source d) then on_source_changed d1 else d1)"

definition set_video_index :: "combo \<Rightarrow> ('c, 'd, 'o) dock \<Rightarrow> ('c, 'd, 'o) dock" where
  "set_video_index c d =
     (let d1 = d\<lparr>dk_custom_video := c\<rparr>
      in if dk_connected d \<and> cb_index c \<noteq> cb_index (dk_custom_video d) then updateSettingsSummary d1 else d1)"

definition set_audio_index :: "combo \<Rightarrow> ('c, 'd, 'o) dock \<Rightarrow> ('c, 'd, 'o) dock" where
  "set_audio_index c d =
     (let d1 = d\<lparr>dk_custom_audio := c\<rparr>
      in if dk_connected d \<and> cb_index c \<noteq> cb_index (dk_custom_audio d) then updateSettingsSummary d1 else d1)"

definition set_manual_enabled :: "bool \<Rightarrow> ('c, 'd, 'o) dock \<Rightarrow> ('c, 'd, 'o) dock" where
  "set_manual_enabled b = view_update (\<lambda>v. v\<lparr>vw_manual_enabled := b\<rparr>)"

definition on_auto_toggled :: "('c, 'd, 'o) dock_env \<Rightarrow> bool \<Rightarrow> ('c, 'd, 'o) dock \<Rightarrow> ('c, 'd, 'o) dock" where
  "on_auto_toggled E automatic d =
     (let api = env_data E;
          d1 = update_settings (\<lambda>s. obs_data_set_int api ''bitrate'' (sp_value (dk_manual_bitrate d))
                 (obs_data_set_bool api ''auto_bitrate'' automatic s)) (set_manual_enabled (\<not> automatic) d)
      in (case dk_output d of
            None \<Rightarrow> d1
          | Some o_ref \<Rightarrow>
              if \<not> dk_running d then d1
              else
                (case output_set_bitrate_control (env_out E) automatic (sp_value (dk_manual_bitrate d)) o_ref of
                   (result, o') \<Rightarrow>
                     let d2 = d1\<lparr>dk_output := Some o'\<rparr>
                     in if result = 0 then d2
                        else
                          let d3 = set_manual_enabled automatic (d2\<lparr>dk_auto_bitrate := \<not> automatic\<rparr>)
                          in bitrate_refused (update_settings (obs_data_set_bool api ''auto_bitrate'' (\<not> automatic)) d3))))"

definition set_auto :: "('c, 'd, 'o) dock_env \<Rightarrow> bool \<Rightarrow> ('c, 'd, 'o) dock \<Rightarrow> ('c, 'd, 'o) dock" where
  "set_auto E automatic d =
     (if dk_auto_bitrate d = automatic then d
      else if dk_connected d then on_auto_toggled E automatic (d\<lparr>dk_auto_bitrate := automatic\<rparr>)
      else d\<lparr>dk_auto_bitrate := automatic\<rparr>)"

definition on_manual_changed :: "('c, 'd, 'o) dock_env \<Rightarrow> int \<Rightarrow> ('c, 'd, 'o) dock \<Rightarrow> ('c, 'd, 'o) dock" where
  "on_manual_changed E bitrate_kbps d =
     (let d1 = update_settings (obs_data_set_int (env_data E) ''bitrate'' bitrate_kbps) d
      in (case dk_output d of
            None \<Rightarrow> d1
          | Some o_ref \<Rightarrow>
              if \<not> dk_running d \<or> dk_auto_bitrate d then d1
              else
                (case output_set_bitrate_control (env_out E) False bitrate_kbps o_ref of
                   (result, o') \<Rightarrow>
                     let d2 = d1\<lparr>dk_output := Some o'\<rparr>
                     in if result \<noteq> 0 then bitrate_refused d2 else d2)))"

definition set_manual :: "('c, 'd, 'o) dock_env \<Rightarrow> int \<Rightarrow> ('c, 'd, 'o) dock \<Rightarrow> ('c, 'd, 'o) dock" where
  "set_manual E v d =
     (let s = setValue v (dk_manual_bitrate d); d1 = d\<lparr>dk_manual_bitrate := s\<rparr>
      in if dk_connected d \<and> sp_value s \<noteq> sp_value (dk_manual_bitrate d)
         then on_manual_changed E (sp_value s) d1 else d1)"

definition on_max_changed :: "('c, 'd, 'o) dock_env \<Rightarrow> int \<Rightarrow> ('c, 'd, 'o) dock \<Rightarrow> ('c, 'd, 'o) dock" where
  "on_max_changed E bitrate_kbps d =
     (let accept = update_settings (obs_data_set_int (env_data E) ''max_bitrate'' bitrate_kbps)
      in (case dk_output d of
            None \<Rightarrow> accept d
          | Some o_ref \<Rightarrow>
              if \<not> dk_running d then accept d
              else
                (case output_set_max_bitrate (env_out E) bitrate_kbps o_ref of
                   (result, o') \<Rightarrow>
                     let d1 = d\<lparr>dk_output := Some o'\<rparr>
                     in if result \<noteq> 0 then
                          let previous = (case dk_settings d of
                                Some s \<Rightarrow> cast_int (obs_data_get_int (env_data E) s ''max_bitrate'')
                              | None \<Rightarrow> 6000)
                          in bitrate_refused (d1\<lparr>dk_max_bitrate := setValue previous (dk_max_bitrate d)\<rparr>)
                        else accept d1)))"

definition set_max :: "('c, 'd, 'o) dock_env \<Rightarrow> int \<Rightarrow> ('c, 'd, 'o) dock \<Rightarrow> ('c, 'd, 'o) dock" where
  "set_max E v d =
     (let s = setValue v (dk_max_bitrate d); d1 = d\<lparr>dk_max_bitrate := s\<rparr>
      in if dk_connected d \<and> sp_value s \<noteq> sp_value (dk_max_bitrate d)
         then on_max_changed E (sp_value s) d1 else d1)"

section \<open>Saving and loading\<close>

definition put_string :: "('c, 'd, 'o) dock_env \<Rightarrow> string \<Rightarrow> string \<Rightarrow> 'c \<Rightarrow> 'c" where
  "put_string E name s = config_set_string (env_config E) name (c_str s)"

definition saveProfile :: "('c, 'd, 'o) dock_env \<Rightarrow> ('c, 'd, 'o) dock \<Rightarrow> bool \<times> ('c, 'd, 'o) dock" where
  "saveProfile E d =
     (case dk_config d of
        None \<Rightarrow> (False, d)
      | Some c \<Rightarrow>
          let parsed = parse_legacy_url (env_qt E) (dk_url d);
              endpoint = (if lu_endpoint parsed = [] then dk_url d else lu_endpoint parsed);
              d1 = d\<lparr>dk_latency_ms := (if lu_has_latency parsed then lu_latency_ms parsed else dk_latency_ms d),
                     dk_pbkeylen := (if lu_has_pbkeylen parsed then lu_pbkeylen parsed else dk_pbkeylen d)\<rparr>;
              passphrase = dk_passphrase d1
          in if passphrase \<noteq> [] \<and> (length passphrase < 10 \<or> 79 < length passphrase) then (False, d1)
             else
               let api = env_config E;
                   c1 = put_string E ''Url'' endpoint c;
                   c2 = put_string E ''StreamId'' (dk_stream_id d1) c1;
                   c3 = put_string E ''PassphraseSecret'' (store_srtla_passphrase passphrase) c2;
                   c4 = put_string E ''PassphraseDpapi'' [] c3;
                   c5 = config_set_int api ''LatencyMs'' (dk_latency_ms d1) c4;
                   c6 = config_set_int api ''Pbkeylen'' (dk_pbkeylen d1) c5;
                   c7 = put_string E ''EncoderSource'' (currentData (dk_encoder_source d1)) c6;
                   c8 = put_string E ''CustomVideoEncoder'' (currentData (dk_custom_video d1)) c7;
                   c9 = put_string E ''CustomAudioEncoder'' (currentData (dk_custom_audio d1)) c8;
                   c10 = config_set_bool api ''AutoBitrate'' (dk_auto_bitrate d1) c9;
                   c11 = config_set_int api ''Bitrate'' (sp_value (dk_manual_bitrate d1)) c10;
                   c12 = config_set_int api ''MaxBitrate'' (sp_value (dk_max_bitrate d1)) c11;
                   d2 = save_profile_config E (d1\<lparr>dk_config := Some c12\<rparr>)
               in (True, view_update (\<lambda>v. v\<lparr>vw_secret_warning := plain_passphrase_warning\<rparr>)
                    (d2\<lparr>dk_secret_error := False\<rparr>)))"

text \<open>\<^verbatim>\<open>loadProfile\<close> in its four parts: the connection, the secret, the encoder and bitrates, the links.\<close>

definition profile_default_url :: string where "profile_default_url = ''srtla://receiver.example:5000''"

definition load_connection :: "('c, 'd, 'o) dock_env \<Rightarrow> ('c, 'd, 'o) dock \<Rightarrow> ('c, 'd, 'o) dock" where
  "load_connection E d =
     (let config = dk_config d;
          raw_url = profile_string E config ''Url'' profile_default_url;
          legacy = parse_legacy_url (env_qt E) raw_url;
          d1 = set_url (if lu_endpoint legacy = [] then raw_url else lu_endpoint legacy) d;
          latency = profile_int E config ''LatencyMs'' (if lu_has_latency legacy then lu_latency_ms legacy else 2000);
          pbkeylen = profile_int E config ''Pbkeylen'' (if lu_has_pbkeylen legacy then lu_pbkeylen legacy else 16);
          stored_id = profile_string E config ''StreamId'' [];
          stream_id = (if stored_id = [] \<and> lu_has_stream_id legacy then lu_stream_id legacy else stored_id)
      in d1\<lparr>dk_latency_ms := (if lu_has_latency legacy then lu_latency_ms legacy else latency),
            dk_pbkeylen := (if lu_has_pbkeylen legacy then lu_pbkeylen legacy else pbkeylen),
            dk_stream_id := stream_id\<rparr>)"

definition load_secret :: "('c, 'd, 'o) dock_env \<Rightarrow> ('c, 'd, 'o) dock \<Rightarrow> ('c, 'd, 'o) dock" where
  "load_secret E d =
     (let config = dk_config d;
          legacy = parse_legacy_url (env_qt E) (profile_string E config ''Url'' profile_default_url);
          stored_secret = profile_string E config ''PassphraseSecret'' [];
          legacy_dpapi = profile_string E config ''PassphraseDpapi'' [];
          passphrase = fromUtf8 (env_qt E) (load_srtla_passphrase stored_secret)
      in if legacy_dpapi \<noteq> [] \<and> stored_secret = [] then
           set_passphrase passphrase
             (view_update (\<lambda>v. v\<lparr>vw_secret_warning :=
                ''This profile contains an unsupported encrypted passphrase. Enter it again.''\<rparr>)
                (d\<lparr>dk_secret_error := True\<rparr>))
         else set_passphrase
           (if passphrase = [] \<and> lu_has_passphrase legacy then lu_passphrase legacy else passphrase) d)"

definition load_encoding :: "('c, 'd, 'o) dock_env \<Rightarrow> ('c, 'd, 'o) dock \<Rightarrow> ('c, 'd, 'o) dock" where
  "load_encoding E d =
     (let config = dk_config d;
          d1 = set_source_index
            (select_combo_data (profile_string E config ''EncoderSource'' ''streaming'') (dk_encoder_source d)) d;
          d2 = set_video_index
            (select_combo_data (profile_string E config ''CustomVideoEncoder'' []) (dk_custom_video d1)) d1;
          d3 = set_audio_index
            (select_combo_data (profile_string E config ''CustomAudioEncoder'' []) (dk_custom_audio d2)) d2;
          d4 = set_auto E (profile_bool E config ''AutoBitrate'' True) d3;
          d5 = set_manual E (profile_int E config ''Bitrate'' 1500) d4;
          maximum_bitrate = profile_int E config ''MaxBitrate'' 6000
      in set_max E (if maximum_bitrate = 100000 then 6000 else maximum_bitrate) d5)"

definition load_links :: "('c, 'd, 'o) dock_env \<Rightarrow> ('c, 'd, 'o) dock \<Rightarrow> ('c, 'd, 'o) dock" where
  "load_links E d = d\<lparr>dk_selected := load_enabled_links (profile_string E (dk_config d) ''EnabledLinks'' [])\<rparr>"

text \<open>A URL that was stored with a query is written back without it.\<close>

definition clean_profile :: "('c, 'd, 'o) dock_env \<Rightarrow> ('c, 'd, 'o) dock \<Rightarrow> ('c, 'd, 'o) dock" where
  "clean_profile E d =
     (let raw_url = profile_string E (dk_config d) ''Url'' profile_default_url;
          legacy = parse_legacy_url (env_qt E) raw_url
      in if lu_endpoint legacy = raw_url then d
         else if dk_secret_error d then
           (case dk_config d of
              None \<Rightarrow> d
            | Some c \<Rightarrow> save_profile_config E (d\<lparr>dk_config := Some (put_string E ''Url'' (lu_endpoint legacy) c)\<rparr>))
         else snd (saveProfile E d))"

definition loadProfile :: "('c, 'd, 'o) dock_env \<Rightarrow> ('c, 'd, 'o) dock \<Rightarrow> ('c, 'd, 'o) dock" where
  "loadProfile E d =
     clean_profile E (load_links E (load_encoding E (load_secret E (load_connection E
       (d\<lparr>dk_secret_error := False, dk_selected := Map.empty\<rparr>)))))"

end
