(* ===== verification/Dock_Output.thy ===== *)
theory Dock_Output
  imports Dock_Profile
begin

text \<open>
  The dock and its output: starting and stopping with the references to OBS objects that are
  obtained and released, the status refresh, and the operations of the WebSocket API. An error
  text is \<open>Some\<close>; \<open>None\<close> is the result \<^verbatim>\<open>true\<close>.
\<close>

section \<open>Stopping\<close>

definition release_output :: "('c, 'd, 'o) dock \<Rightarrow> ('c, 'd, 'o) dock" where
  "release_output d =
     (case dk_output d of
        None \<Rightarrow> d
      | Some o_ref \<Rightarrow> ref (Release RefOutput) (d\<lparr>dk_output := None, dk_retired := dk_retired d @ [o_ref]\<rparr>))"

definition release_settings :: "('c, 'd, 'o) dock \<Rightarrow> ('c, 'd, 'o) dock" where
  "release_settings d =
     (case dk_settings d of
        None \<Rightarrow> d
      | Some s \<Rightarrow> ref (Release RefSettings) (d\<lparr>dk_settings := None\<rparr>))"

definition stop_if_active :: "('c, 'd, 'o) dock_env \<Rightarrow> ('c, 'd, 'o) dock \<Rightarrow> ('c, 'd, 'o) dock" where
  "stop_if_active E d =
     (case dk_output d of
        None \<Rightarrow> d
      | Some o_ref \<Rightarrow> if obs_output_active (env_out E) o_ref
          then d\<lparr>dk_output := Some (obs_output_stop (env_out E) o_ref)\<rparr> else d)"

definition reset_telemetry :: "('c, 'd, 'o) dock \<Rightarrow> ('c, 'd, 'o) dock" where
  "reset_telemetry d =
     (view_update (\<lambda>v. v\<lparr>vw_metric_values := replicate 6 ''--''\<rparr>) d)
       \<lparr>dk_metric_history := replicate 6 [], dk_link_history := Map.empty\<rparr>"

definition stopOutput :: "('c, 'd, 'o) dock_env \<Rightarrow> ('c, 'd, 'o) dock \<Rightarrow> ('c, 'd, 'o) dock" where
  "stopOutput E d =
     updateHistoryPanel (env_qt E) (updateOverviewSparklines (reset_telemetry
       (set_state_text ''Idle'' (view_update (\<lambda>v. v\<lparr>vw_start_stop := ''Start''\<rparr>)
         (release_settings (release_output (stop_if_active E (d\<lparr>dk_running := False\<rparr>))))))))"

text \<open>The destructor.\<close>

definition destroy_dock :: "('c, 'd, 'o) dock_env \<Rightarrow> ('c, 'd, 'o) dock \<Rightarrow> ('c, 'd, 'o) dock" where
  "destroy_dock E d = release_settings (release_output (stopOutput E d))"

definition reloadProfile ::
    "('c, 'd, 'o) dock_env \<Rightarrow> network_adapter list \<Rightarrow> ('c, 'd, 'o) dock \<Rightarrow> ('c, 'd, 'o) dock" where
  "reloadProfile E adapters d =
     refreshAdapters E adapters (loadProfile E (release_settings (release_output (stopOutput E d))))"

text \<open>\<open>same\<close>: the other output is the dock's own.\<close>

definition sharesEncoderWith ::
    "('c, 'd, 'o) dock_env \<Rightarrow> bool \<Rightarrow> source_output option \<Rightarrow> ('c, 'd, 'o) dock \<Rightarrow> bool" where
  "sharesEncoderWith E same other d =
     (case (dk_output d, other) of
        (Some o_ref, Some src) \<Rightarrow>
          if same then False
          else
            let video = obs_output_get_video_encoder (env_out E) o_ref;
                audio = obs_output_get_audio_encoder (env_out E) o_ref
            in if video \<noteq> None \<and> video = map_option er_identity (src_video src) then True
               else audio \<noteq> None \<and> audio = map_option er_identity (src_audio src)
      | _ \<Rightarrow> False)"

section \<open>Starting\<close>

definition get_encoder_source_output :: "frontend \<Rightarrow> string \<Rightarrow> source_output option" where
  "get_encoder_source_output fe source =
     (if source = ''recording'' then fe_recording_output fe else fe_streaming_output fe)"

text \<open>Settings for the new encoder are obtained, used and released; the encoder is the caller's.\<close>

definition create_custom_video_encoder ::
    "('c, 'd, 'o) dock_env \<Rightarrow> string \<Rightarrow> int \<Rightarrow> ('c, 'd, 'o) dock \<Rightarrow> encoder_ref option \<times> ('c, 'd, 'o) dock" where
  "create_custom_video_encoder E i bitrate_kbps d =
     (let encoder = fe_create_video (env_frontend E) (c_str i) bitrate_kbps;
          d1 = ref (Obtain RefEncoderSettings) d;
          d2 = (if encoder \<noteq> None then ref (Obtain RefVideoEncoder) d1 else d1)
      in (encoder, ref (Release RefEncoderSettings) d2))"

definition create_custom_audio_encoder ::
    "('c, 'd, 'o) dock_env \<Rightarrow> string \<Rightarrow> int \<Rightarrow> ('c, 'd, 'o) dock \<Rightarrow> encoder_ref option \<times> ('c, 'd, 'o) dock" where
  "create_custom_audio_encoder E i bitrate_kbps d =
     (let encoder = fe_create_audio (env_frontend E) (c_str i) bitrate_kbps;
          d1 = ref (Obtain RefEncoderSettings) d;
          d2 = (if encoder \<noteq> None then ref (Obtain RefAudioEncoder) d1 else d1)
      in (encoder, ref (Release RefEncoderSettings) d2))"

text \<open>A phase of \<^verbatim>\<open>toggleOutput\<close> either returns early (\<open>Inl\<close>) or goes on with the encoders (\<open>Inr\<close>).\<close>

type_synonym ('c, 'd, 'o) toggle_phase =
  "('c, 'd, 'o) dock + (('c, 'd, 'o) dock \<times> encoder_ref option \<times> encoder_ref option)"

definition acquire_shared :: "('c, 'd, 'o) dock_env \<Rightarrow> string \<Rightarrow> ('c, 'd, 'o) dock \<Rightarrow> ('c, 'd, 'o) toggle_phase" where
  "acquire_shared E source d =
     (case get_encoder_source_output (env_frontend E) source of
        None \<Rightarrow> Inl (set_state_text ''Error: selected OBS output unavailable'' d)
      | Some src \<Rightarrow>
          let d1 = ref (Obtain RefSourceOutput) d
          in if src_active src then
               Inl (set_state_text ''Error: stop the selected OBS output first'' (ref (Release RefSourceOutput) d1))
             else Inr (d1, src_video src, src_audio src))"

definition acquire_custom :: "('c, 'd, 'o) dock_env \<Rightarrow> ('c, 'd, 'o) dock \<Rightarrow> ('c, 'd, 'o) toggle_phase" where
  "acquire_custom E d =
     (let video_id = currentData (dk_custom_video d); audio_id = currentData (dk_custom_audio d)
      in if video_id = [] then Inl (set_state_text ''Error: no custom video encoder available'' d)
         else
           (case create_custom_video_encoder E video_id (sp_value (dk_manual_bitrate d)) d of
              (None, d1) \<Rightarrow> Inl (set_state_text ''Error: custom video encoder could not be created'' d1)
            | (Some video, d1) \<Rightarrow>
                if audio_id = [] then Inr (d1, Some video, None)
                else
                  (case create_custom_audio_encoder E audio_id 128 d1 of
                     (None, d2) \<Rightarrow> Inl (set_state_text ''Error: custom audio encoder could not be created''
                       (ref (Release RefVideoEncoder) d2))
                   | (Some audio, d2) \<Rightarrow> Inr (d2, Some video, Some audio))))"

text \<open>The releases of the error paths and of the end: encoders only when the dock created them.\<close>

definition release_acquired ::
    "bool \<Rightarrow> encoder_ref option \<Rightarrow> encoder_ref option \<Rightarrow> ('c, 'd, 'o) dock \<Rightarrow> ('c, 'd, 'o) dock" where
  "release_acquired custom video audio d =
     (let d1 = (if custom \<and> video \<noteq> None then ref (Release RefVideoEncoder) d else d);
          d2 = (if custom \<and> audio \<noteq> None then ref (Release RefAudioEncoder) d1 else d1)
      in if \<not> custom then ref (Release RefSourceOutput) d2 else d2)"

definition codec_of :: "encoder_ref option \<Rightarrow> string option" where
  "codec_of e = Option.bind e ec_codec"

definition check_codecs ::
    "bool \<Rightarrow> encoder_ref option \<Rightarrow> encoder_ref option \<Rightarrow> ('c, 'd, 'o) dock \<Rightarrow> ('c, 'd, 'o) toggle_phase" where
  "check_codecs custom video audio d =
     (if video = None \<or> \<not> is_supported_video_codec (codec_of video) then
        Inl (set_state_text ''Error: selected video encoder is not supported'' (release_acquired custom video audio d))
      else if audio \<noteq> None \<and> \<not> is_supported_audio_codec (codec_of audio) then
        Inl (set_state_text ''Error: selected audio encoder is not supported'' (release_acquired custom video audio d))
      else Inr (d, video, audio))"

definition store_profile ::
    "('c, 'd, 'o) dock_env \<Rightarrow> encoder_ref option \<Rightarrow> encoder_ref option \<Rightarrow> ('c, 'd, 'o) dock \<Rightarrow> ('c, 'd, 'o) toggle_phase" where
  "store_profile E video audio d =
     (if dk_secret_error d then Inl (set_state_text ''Error: passphrase could not be loaded; enter it again'' d)
      else
        (case saveProfile E d of (ok, d1) \<Rightarrow>
           if \<not> ok then Inl (set_state_text ''Error: passphrase could not be saved'' d1)
           else Inr (d1, video, audio)))"

definition output_settings ::
    "('c, 'd, 'o) dock_env \<Rightarrow> string \<Rightarrow> encoder_ref option \<Rightarrow> encoder_ref option \<Rightarrow> ('c, 'd, 'o) dock \<Rightarrow> 'd \<Rightarrow> 'd" where
  "output_settings E source video audio d s =
     (let api = env_data E;
          str = (\<lambda>name v. obs_data_set_string api name (c_str v));
          s1 = str ''passphrase'' [] (str ''passphrase_secret'' (dk_passphrase d) (str ''passphrase_dpapi'' []
                 (str ''stream_id'' (dk_stream_id d)
                   (str ''url'' (lu_endpoint (parse_legacy_url (env_qt E) (dk_url d))) s))));
          s2 = str ''enabled_links'' (enabled_links_text E (dk_selected d)) s1;
          s3 = obs_data_set_int api ''max_bitrate'' (sp_value (dk_max_bitrate d))
                 (obs_data_set_int api ''min_bitrate'' 500
                   (obs_data_set_int api ''bitrate'' (sp_value (dk_manual_bitrate d))
                     (obs_data_set_bool api ''auto_bitrate'' (dk_auto_bitrate d) s2)));
          s4 = obs_data_set_int api ''pbkeylen'' (dk_pbkeylen d)
                 (obs_data_set_int api ''latency_ms'' (dk_latency_ms d)
                   (obs_data_set_int api ''audio_bitrate'' 128 s3));
          s5 = str ''video_codec'' (value_or (codec_of video) [])
                 (str ''encoder_mode'' (if source = ''custom'' then ''dedicated'' else ''shared'')
                   (str ''encoder_source'' source (str ''scheduler'' ''enhanced'' s4)))
      in if audio \<noteq> None then str ''audio_codec'' (value_or (codec_of audio) []) s5 else s5)"

definition ensure_output :: "('c, 'd, 'o) dock_env \<Rightarrow> ('c, 'd, 'o) dock \<Rightarrow> ('c, 'd, 'o) dock" where
  "ensure_output E d =
     (case (dk_output d, dk_settings d) of
        (None, Some s) \<Rightarrow>
          (case obs_output_create (env_out E) s of
             None \<Rightarrow> d
           | Some (o', s') \<Rightarrow> ref (Obtain RefOutput) (d\<lparr>dk_output := Some o', dk_settings := Some s'\<rparr>))
      | _ \<Rightarrow> d)"

definition launch ::
    "('c, 'd, 'o) dock_env \<Rightarrow> string \<Rightarrow> encoder_ref option \<Rightarrow> encoder_ref option \<Rightarrow> ('c, 'd, 'o) dock \<Rightarrow> ('c, 'd, 'o) dock" where
  "launch E source video audio d =
     (let custom = (source = ''custom'');
          d1 = ensure_output E (update_settings (output_settings E source video audio d) d)
      in (case dk_output d1 of
            None \<Rightarrow> set_state_text ''Error: OBS output unavailable'' (release_acquired custom video audio d1)
          | Some o_ref \<Rightarrow>
              let out = env_out E;
                  o1 = obs_output_set_audio_encoder out audio (obs_output_set_video_encoder out video o_ref);
                  d2 = release_acquired custom video audio (d1\<lparr>dk_output := Some o1\<rparr>);
                  (o2, s2) = (case dk_settings d2 of
                      Some s \<Rightarrow> (case obs_output_update out s o1 of (o2, s2) \<Rightarrow> (o2, Some s2))
                    | None \<Rightarrow> (o1, None));
                  (ok, o3) = obs_output_start out o2;
                  d3 = d2\<lparr>dk_output := Some o3, dk_settings := s2\<rparr>
              in if \<not> ok then
                   let error = obs_output_get_last_error out o3;
                       detail = (if nonempty_cstr error then fromUtf8 (env_qt E) (the error) else ''output start failed'')
                   in set_state_text (''Error: '' @ detail) d3
                 else set_state_text ''Starting''
                   (view_update (\<lambda>v. v\<lparr>vw_start_stop := ''Stop''\<rparr>) (d3\<lparr>dk_running := True\<rparr>))))"

definition ensure_settings :: "('c, 'd, 'o) dock_env \<Rightarrow> ('c, 'd, 'o) dock \<Rightarrow> ('c, 'd, 'o) dock" where
  "ensure_settings E d =
     (case dk_settings d of
        Some s \<Rightarrow> d
      | None \<Rightarrow> ref (Obtain RefSettings) (d\<lparr>dk_settings := Some (env_data_create E)\<rparr>))"

fun go_on :: "('c, 'd, 'o) toggle_phase \<Rightarrow>
    (encoder_ref option \<Rightarrow> encoder_ref option \<Rightarrow> ('c, 'd, 'o) dock \<Rightarrow> ('c, 'd, 'o) toggle_phase) \<Rightarrow> ('c, 'd, 'o) toggle_phase" where
  "go_on (Inl d) f = Inl d"
| "go_on (Inr (d, video, audio)) f = f video audio d"

definition toggleOutput :: "('c, 'd, 'o) dock_env \<Rightarrow> ('c, 'd, 'o) dock \<Rightarrow> ('c, 'd, 'o) dock" where
  "toggleOutput E d =
     (if dk_running d then stopOutput E d
      else
        let d1 = ensure_settings E d;
            source = currentData (dk_encoder_source d1);
            acquired = (if source \<noteq> ''custom'' then acquire_shared E source d1 else acquire_custom E d1)
        in (case go_on (go_on acquired (check_codecs (source = ''custom''))) (store_profile E) of
              Inl d2 \<Rightarrow> d2
            | Inr (d2, video, audio) \<Rightarrow> launch E source video audio d2))"

end
