(* ===== verification/Dock_Status.thy ===== *)
theory Dock_Status
  imports Dock_Output
begin

text \<open>
  The status of the dock: the document for WebSocket clients, the refresh of the telemetry once a
  second, the operations of the WebSocket API, the constructor, and the dock as a system of steps.
\<close>

section \<open>The status document\<close>

definition link_id_text :: "string \<Rightarrow> string" where
  "link_id_text key = to_string (uint (srtla_output_link_id (Some (c_str key))))"

text \<open>A link of the idle document; \<^verbatim>\<open>selected_[...]\<close> may insert an entry.\<close>

fun idle_links :: "link_row list \<Rightarrow> ('c, 'd, 'o) dock \<Rightarrow> qjson list \<times> ('c, 'd, 'o) dock" where
  "idle_links [] d = ([], d)"
| "idle_links (r # rows) d =
     (let (enabled, d1) = select_index (lr_id r) d;
          link = JObj [(''id'', JStr (link_id_text (lr_id r))), (''label'', JStr (lr_label r)),
                       (''admin_enabled'', JBool enabled), (''connected'', JBool False), (''state'', JStr ''Idle'')];
          (links, d2) = idle_links rows d1
      in (link # links, d2))"

definition starts_with :: "string \<Rightarrow> string \<Rightarrow> bool" where
  "starts_with p s \<longleftrightarrow> take (length p) s = p"

definition idle_status :: "qt \<Rightarrow> ('c, 'd, 'o) dock \<Rightarrow> qjson \<times> ('c, 'd, 'o) dock" where
  "idle_status q d =
     (let failedStart = starts_with ''Error:'' (dk_state d);
          (links, d1) = idle_links (dk_links d) d
      in (JObj ([(''running'', JBool False), (''state'', JStr (if failedStart then ''Error'' else ''Idle''))]
            @ (if failedStart then [(''error'', JStr (string_trimmed q (drop 6 (dk_state d))))] else [])
            @ [(''automatic_bitrate'', JBool (dk_auto_bitrate d)),
               (''manual_bitrate_kbps'', JInt (sp_value (dk_manual_bitrate d))),
               (''max_bitrate_kbps'', JInt (sp_value (dk_max_bitrate d))),
               (''links'', JArr links)]), d1))"

definition parse_object :: "qt \<Rightarrow> string \<Rightarrow> qjson option" where
  "parse_object q s = (case fromJson q s of Some doc \<Rightarrow> if isObject doc then Some doc else None | None \<Rightarrow> None)"

definition engine_snapshot :: "('c, 'd, 'o) dock_env \<Rightarrow> 'o \<Rightarrow> (qjson \<times> string) option" where
  "engine_snapshot E o_ref =
     stats_snapshot (\<lambda>_. (output_stats_size (env_out E) o_ref, []))
       (\<lambda>capacity. output_copy_stats_json (env_out E) capacity o_ref) (parse_object (env_qt E))"

definition control_settings :: "('c, 'd, 'o) dock \<Rightarrow> string" where
  "control_settings d =
     json_key ''automatic_bitrate'' @ (if dk_auto_bitrate d then ''true'' else ''false'') @ '',''
     @ json_key ''manual_bitrate_kbps'' @ to_string (sp_value (dk_manual_bitrate d)) @ '',''
     @ json_key ''max_bitrate_kbps'' @ to_string (sp_value (dk_max_bitrate d)) @ '',''"

text \<open>The empty text stands for the empty \<^verbatim>\<open>QByteArray\<close>: no status.\<close>

definition websocketStatusJson ::
    "('c, 'd, 'o) dock_env \<Rightarrow> ('c, 'd, 'o) dock \<Rightarrow> string \<times> ('c, 'd, 'o) dock" where
  "websocketStatusJson E d =
     (case (dk_running d, dk_output d) of
        (True, Some o_ref) \<Rightarrow>
          (case engine_snapshot E o_ref of
             None \<Rightarrow> ([], d)
           | Some (doc, json) \<Rightarrow> (take 1 json @ control_settings d @ drop 1 json, d))
      | _ \<Rightarrow> (case idle_status (env_qt E) d of (status, d1) \<Rightarrow> (toJson (env_qt E) status, d1)))"

section \<open>Operations of the WebSocket API\<close>

definition websocketSetOutputActive ::
    "('c, 'd, 'o) dock_env \<Rightarrow> bool \<Rightarrow> ('c, 'd, 'o) dock \<Rightarrow> string option \<times> ('c, 'd, 'o) dock" where
  "websocketSetOutputActive E active d =
     (if dk_running d = active then (None, d)
      else
        let d1 = toggleOutput E d
        in if dk_running d1 \<noteq> active then (Some (dk_state d1), d1) else (None, d1))"

definition link_refused :: string where
  "link_refused = ''The link could not be changed. The last enabled link cannot be disabled while output is running.''"

definition websocketSetLinkEnabled ::
    "('c, 'd, 'o) dock_env \<Rightarrow> 64 word \<Rightarrow> bool \<Rightarrow> ('c, 'd, 'o) dock \<Rightarrow> string option \<times> ('c, 'd, 'o) dock" where
  "websocketSetLinkEnabled E linkId enabled d =
     (case find_index (\<lambda>r. srtla_output_link_id (Some (c_str (lr_id r))) = linkId) (dk_links d) of
        None \<Rightarrow> (Some ''Unknown link ID.'', d)
      | Some row \<Rightarrow>
          let key = lr_id (dk_links d ! row);
              (selected, d1) = select_index key (setCheckState E row enabled d)
          in if selected \<noteq> enabled then (Some link_refused, d1) else (None, d1))"

definition range_error :: "string \<Rightarrow> spin \<Rightarrow> string" where
  "range_error what s = what @ '' bitrate must be between '' @ to_string (sp_minimum s) @ '' and ''
     @ to_string (sp_maximum s) @ '' kb/s.''"

definition encoder_refused :: string where
  "encoder_refused = ''The selected encoder cannot change bitrate while active.''"

text \<open>The call to the running output, if there is one: its result, and the dock with the output after it.\<close>

definition ask_output ::
    "('o \<Rightarrow> int \<times> 'o) \<Rightarrow> ('c, 'd, 'o) dock \<Rightarrow> int \<times> ('c, 'd, 'o) dock" where
  "ask_output call d =
     (case (dk_running d, dk_output d) of
        (True, Some o_ref) \<Rightarrow> (case call o_ref of (result, o') \<Rightarrow> (result, d\<lparr>dk_output := Some o'\<rparr>))
      | _ \<Rightarrow> (0, d))"

definition websocketSetBitrateControl ::
    "('c, 'd, 'o) dock_env \<Rightarrow> bool \<Rightarrow> int \<Rightarrow> ('c, 'd, 'o) dock \<Rightarrow> string option \<times> ('c, 'd, 'o) dock" where
  "websocketSetBitrateControl E automatic manualBitrateKbps d =
     (if manualBitrateKbps < sp_minimum (dk_manual_bitrate d) \<or> sp_maximum (dk_manual_bitrate d) < manualBitrateKbps
      then (Some (range_error ''Manual'' (dk_manual_bitrate d)), d)
      else
        (case ask_output (output_set_bitrate_control (env_out E) automatic manualBitrateKbps) d of
           (result, d1) \<Rightarrow>
             if result \<noteq> 0 then (Some encoder_refused, d1)
             else
               (None, update_settings (\<lambda>s. obs_data_set_int (env_data E) ''bitrate'' manualBitrateKbps
                   (obs_data_set_bool (env_data E) ''auto_bitrate'' automatic s))
                 (set_manual_enabled (\<not> automatic)
                   (d1\<lparr>dk_manual_bitrate := setValue manualBitrateKbps (dk_manual_bitrate d1),
                       dk_auto_bitrate := automatic\<rparr>)))))"

definition websocketSetMaxBitrate ::
    "('c, 'd, 'o) dock_env \<Rightarrow> int \<Rightarrow> ('c, 'd, 'o) dock \<Rightarrow> string option \<times> ('c, 'd, 'o) dock" where
  "websocketSetMaxBitrate E maxBitrateKbps d =
     (if maxBitrateKbps < sp_minimum (dk_max_bitrate d) \<or> sp_maximum (dk_max_bitrate d) < maxBitrateKbps
      then (Some (range_error ''Maximum'' (dk_max_bitrate d)), d)
      else
        (case ask_output (output_set_max_bitrate (env_out E) maxBitrateKbps) d of
           (result, d1) \<Rightarrow>
             if result \<noteq> 0 then (Some encoder_refused, d1)
             else
               (None, update_settings (obs_data_set_int (env_data E) ''max_bitrate'' maxBitrateKbps)
                 (d1\<lparr>dk_max_bitrate := setValue maxBitrateKbps (dk_max_bitrate d1)\<rparr>))))"

section \<open>The status refresh\<close>

text \<open>The samples of one link: quality, RTT, NAK rate, offered, delivered and target rate.\<close>

definition link_samples :: "qjson \<Rightarrow> sample list" where
  "link_samples link =
     [Whole (toInt (jvalue ''quality_percent'' link)), Whole (toInt (jvalue ''rtt_ms'' link)),
      Over (toInt (jvalue ''loss_permille'' link)) 10,
      Over (toInteger 0 (jvalue ''used_bps'' link)) 1000000, Over (toInteger 0 (jvalue ''delivered_bps'' link)) 1000000,
      Over (toInteger 0 (jvalue ''target_bps'' link)) 1000000]"

definition link_cell_texts :: "qt \<Rightarrow> qjson \<Rightarrow> string list" where
  "link_cell_texts q link =
     [to_string (toInt (jvalue ''quality_percent'' link)), to_string (toInt (jvalue ''rtt_ms'' link))]
     @ map (number_fixed q 1) (drop 2 (link_samples link))"

definition append_samples :: "sample list list \<Rightarrow> sample list \<Rightarrow> sample list list" where
  "append_samples history samples = map2 append_sample history samples"

definition refresh_link_row :: "qt \<Rightarrow> qjson \<Rightarrow> ('c, 'd, 'o) dock \<Rightarrow> ('c, 'd, 'o) dock" where
  "refresh_link_row q link d =
     (case find_index (\<lambda>r. link_id_text (lr_id r) = variantString (jvalue ''id'' link)) (dk_links d) of
        None \<Rightarrow> d
      | Some row \<Rightarrow>
          let r = dk_links d ! row;
              history = append_samples
                (case dk_link_history d (lr_id r) of Some h \<Rightarrow> h | None \<Rightarrow> empty_history) (link_samples link);
              cells = map (\<lambda>column. telemetry_cell (int column) (link_cell_texts q link ! (column - 3))
                (nth_or_empty history (column - 3)) [] (dk_history_window d)) [3..<9]
          in d\<lparr>dk_links := (dk_links d)[row := r\<lparr>lr_state := toString [] (jvalue ''state'' link), lr_cells := cells\<rparr>],
               dk_link_history := (dk_link_history d)(lr_id r \<mapsto> history)\<rparr>)"

text \<open>
  The tile values; the level of the controller, two times, the video and target rates and the
  number of active links are also appended to the histories of the tiles. The sums of the links'
  rates go only into a tool tip and are left out.
\<close>

definition metric_samples :: "qjson \<Rightarrow> int \<Rightarrow> sample list" where
  "metric_samples status active =
     (let srtReady = toBool (jvalue ''srt_stats_ready'' status)
      in [abr_sparkline_level (toString [] (jvalue ''abr_state'' status)),
          if srtReady then Whole (toInteger 0 (jvalue ''srt_rtt_ms'' status)) else NotANumber,
          if srtReady then Whole (toInteger 0 (jvalue ''srt_send_buffer_ms'' status)) else NotANumber,
          Over (toInteger 0 (jvalue ''current_video_bps'' status)) 1000000,
          Over (toInteger 0 (jvalue ''recommended_video_bps'' status)) 1000000,
          Whole active])"

definition metric_texts :: "qt \<Rightarrow> qjson \<Rightarrow> int \<Rightarrow> string list" where
  "metric_texts q status active =
     (let srtReady = toBool (jvalue ''srt_stats_ready'' status);
          num = (\<lambda>name. to_string (toInteger 0 (jvalue name status)));
          samples = metric_samples status active
      in [abr_sparkline_label (toString [] (jvalue ''abr_state'' status)),
          if srtReady then num ''srt_rtt_ms'' @ '' / '' @ num ''srt_latency_ms'' else ''--'',
          if srtReady then num ''srt_send_buffer_packets'' @ '' pkt '' @ middle_dot @ '' '' @ num ''srt_send_buffer_ms'' @ '' ms''
          else ''--'',
          number_fixed q 1 (samples ! 3) @ '' Mb/s'', number_fixed q 1 (samples ! 4) @ '' Mb/s'',
          to_string active @ '' / '' @ to_string (int (length (toArray (jvalue ''links'' status))))])"

definition count_active :: "qjson \<Rightarrow> int" where
  "count_active status = int (length (filter (\<lambda>link. toBool (jvalue ''payload_eligible'' link)) (toArray (jvalue ''links'' status))))"

definition show_status :: "qt \<Rightarrow> qjson \<Rightarrow> ('c, 'd, 'o) dock \<Rightarrow> ('c, 'd, 'o) dock" where
  "show_status q status d =
     (let active = count_active status;
          d1 = fold (refresh_link_row q) (toArray (jvalue ''links'' status)) d;
          d2 = updateOverviewSparklines (view_update (\<lambda>v. v\<lparr>vw_metric_values := metric_texts q status active\<rparr>)
            (d1\<lparr>dk_metric_history := append_samples (dk_metric_history d1) (metric_samples status active)\<rparr>));
          state = toString (if 0 < active then ''Live'' else ''Waiting for network'') (jvalue ''state'' status)
      in updateHistoryPanel q (view_update (\<lambda>v. v\<lparr>vw_state_tip := toString [] (jvalue ''error'' status)\<rparr>)
           (set_state_text state d2)))"

text \<open>The document for the WebSocket clients is taken afresh; \<open>E2\<close> answers for that second query.\<close>

definition refreshStatus ::
    "('c, 'd, 'o) dock_env \<Rightarrow> ('c, 'd, 'o) dock_env \<Rightarrow> ('c, 'd, 'o) dock \<Rightarrow> ('c, 'd, 'o) dock" where
  "refreshStatus E E2 d =
     (case (dk_running d, dk_output d) of
        (True, Some o_ref) \<Rightarrow>
          (case engine_snapshot E o_ref of
             None \<Rightarrow> d
           | Some (status, json) \<Rightarrow>
               (case websocketStatusJson E2 (show_status (env_qt E) status d) of (vendorStatus, d1) \<Rightarrow>
                  if vendorStatus \<noteq> [] then d1\<lparr>dk_emitted := dk_emitted d1 @ [c_str vendorStatus]\<rparr> else d1))
      | _ \<Rightarrow> d)"

section \<open>Construction\<close>

definition blank_view :: dock_view where
  "blank_view = \<lparr>vw_start_stop = ''Start'', vw_state_tip = [], vw_secret_warning = plain_passphrase_warning,
     vw_settings_summary = [], vw_overview_title = [], vw_trend_hint = [], vw_adapter_count = [], vw_show_all_text = [],
     vw_history_title = [], vw_history_now = [], vw_manual_enabled = False, vw_custom_enabled = False,
     vw_metric_values = replicate 6 ''--'', vw_metric_sparklines = [], vw_charts = [], vw_visible_rows = 0\<rparr>"

definition encoder_sources :: combo where
  "encoder_sources = \<lparr>cb_items = [(''Streaming'', ''streaming''), (''Recording'', ''recording''), (''Custom'', ''custom'')],
     cb_index = 0\<rparr>"

definition blank_dock :: "('c, 'd, 'o) dock_env \<Rightarrow> encoder_info list \<Rightarrow> 'c option \<Rightarrow> ('c, 'd, 'o) dock" where
  "blank_dock E infos config =
     \<lparr>dk_connected = False, dk_url = profile_default_url, dk_stream_id = [], dk_passphrase = [],
      dk_encoder_source = encoder_sources,
      dk_custom_video = add_encoder_choices (fromUtf8 (env_qt E)) OBS_ENCODER_VIDEO infos \<lparr>cb_items = [], cb_index = - 1\<rparr>,
      dk_custom_audio = add_encoder_choices (fromUtf8 (env_qt E)) OBS_ENCODER_AUDIO infos \<lparr>cb_items = [], cb_index = - 1\<rparr>,
      dk_auto_bitrate = True, dk_manual_bitrate = \<lparr>sp_minimum = 500, sp_maximum = 100000, sp_value = 1500\<rparr>,
      dk_max_bitrate = \<lparr>sp_minimum = 500, sp_maximum = 30000, sp_value = 6000\<rparr>, dk_state = ''Idle'',
      dk_metric_history = replicate 6 [], dk_links = [], dk_current_row = - 1, dk_show_all = False,
      dk_history_window = 60, dk_link_history = Map.empty, dk_selected_link_key = [], dk_running = False,
      dk_secret_error = False, dk_latency_ms = 2000, dk_pbkeylen = 16, dk_selected = Map.empty, dk_output = None,
      dk_settings = None, dk_config = config, dk_view = blank_view, dk_refs = [], dk_retired = [], dk_emitted = []\<rparr>"

definition connect_handlers :: "('c, 'd, 'o) dock \<Rightarrow> ('c, 'd, 'o) dock" where
  "connect_handlers d = d\<lparr>dk_connected := True\<rparr>"

definition new_dock ::
    "('c, 'd, 'o) dock_env \<Rightarrow> encoder_info list \<Rightarrow> 'c option \<Rightarrow> network_adapter list \<Rightarrow> ('c, 'd, 'o) dock" where
  "new_dock E infos config adapters =
     (let d1 = connect_handlers (loadProfile E (blank_dock E infos config));
          d2 = updateHistoryPanel (env_qt E) (updateSettingsSummary d1);
          d3 = view_update (\<lambda>v. v\<lparr>vw_custom_enabled := (currentData (dk_encoder_source d2) = ''custom'')\<rparr>)
            (set_manual_enabled (\<not> dk_auto_bitrate d2) d2)
      in refreshAdapters E adapters d3)"

section \<open>The dock as a system of steps\<close>

text \<open>Everything that happens on the UI thread; \<open>ProfileLoaded\<close> and \<open>OutputMoves\<close> are OBS's own steps.\<close>

datatype ('c, 'd, 'o) dock_op =
    ClickStartStop | Timer "network_adapter list" "('c, 'd, 'o) dock_env" | EditUrl string | EditStreamId string
  | EditPassphrase string | PickSource int | PickVideo int | PickAudio int | ToggleAuto bool | SpinManual int | SpinMax int
  | CheckLink nat bool | SelectRow nat | ShowAll bool | PickRange int
  | WsStatus | WsActive bool | WsLink "64 word" bool | WsBitrate bool int | WsMax int
  | ProfileChanging | ProfileLoaded "'c option" | ProfileChanged "network_adapter list"
  | OtherStarting bool "source_output option" | OutputMoves 'o

definition pick :: "int \<Rightarrow> combo \<Rightarrow> combo" where
  "pick i c = (if 0 \<le> i \<and> i < int (length (cb_items c)) then c\<lparr>cb_index := i\<rparr> else c)"

fun dock_step :: "('c, 'd, 'o) dock_env \<Rightarrow> ('c, 'd, 'o) dock_op \<Rightarrow> ('c, 'd, 'o) dock \<Rightarrow> ('c, 'd, 'o) dock" where
  "dock_step E ClickStartStop d = toggleOutput E d"
| "dock_step E (Timer adapters E2) d = refreshStatus E E2 (refreshAdapters E adapters d)"
| "dock_step E (EditUrl s) d = set_url s d"
| "dock_step E (EditStreamId s) d = d\<lparr>dk_stream_id := s\<rparr>"
| "dock_step E (EditPassphrase s) d = set_passphrase s d"
| "dock_step E (PickSource i) d = set_source_index (pick i (dk_encoder_source d)) d"
| "dock_step E (PickVideo i) d = set_video_index (pick i (dk_custom_video d)) d"
| "dock_step E (PickAudio i) d = set_audio_index (pick i (dk_custom_audio d)) d"
| "dock_step E (ToggleAuto b) d = set_auto E b d"
| "dock_step E (SpinManual v) d = set_manual E v d"
| "dock_step E (SpinMax v) d = set_max E v d"
| "dock_step E (CheckLink row b) d = (if row < length (dk_links d) then setCheckState E row b d else d)"
| "dock_step E (SelectRow row) d =
     (if row < length (dk_links d) \<and> \<not> lr_hidden (dk_links d ! row) then on_row_selected (env_qt E) (int row) d else d)"
| "dock_step E (ShowAll b) d = on_show_all (env_qt E) b d"
| "dock_step E (PickRange seconds) d =
     (if seconds = 60 \<or> seconds = 300 \<or> seconds = 900 then on_history_range (env_qt E) seconds d else d)"
| "dock_step E WsStatus d = snd (websocketStatusJson E d)"
| "dock_step E (WsActive b) d = snd (websocketSetOutputActive E b d)"
| "dock_step E (WsLink i b) d = snd (websocketSetLinkEnabled E i b d)"
| "dock_step E (WsBitrate b v) d = snd (websocketSetBitrateControl E b v d)"
| "dock_step E (WsMax v) d = snd (websocketSetMaxBitrate E v d)"
| "dock_step E ProfileChanging d = stopOutput E d"
| "dock_step E (ProfileLoaded c) d = d\<lparr>dk_config := c\<rparr>"
| "dock_step E (ProfileChanged adapters) d = reloadProfile E adapters d"
| "dock_step E (OtherStarting same other) d = (if sharesEncoderWith E same other d then stopOutput E d else d)"
| "dock_step E (OutputMoves o') d = (if dk_output d = None then d else d\<lparr>dk_output := Some o'\<rparr>)"

end
