(* ===== verification/Dock_Invariants.thy ===== *)
theory Dock_Invariants
  imports Dock_Status
begin

text \<open>
  What holds of the dock in every state: the types of its widgets, histories and table, the
  agreement of the check boxes with the selection, and the references to OBS objects.
\<close>

section \<open>Parts of the state\<close>

definition widgets :: "('c, 'd, 'o) dock \<Rightarrow> spin \<times> spin \<times> combo \<times> combo \<times> combo \<times> int" where
  "widgets d = (dk_manual_bitrate d, dk_max_bitrate d, dk_encoder_source d, dk_custom_video d, dk_custom_audio d,
     dk_history_window d)"

definition telemetry :: "('c, 'd, 'o) dock \<Rightarrow> sample list list \<times> (string \<rightharpoonup> sample list list)" where
  "telemetry d = (dk_metric_history d, dk_link_history d)"

definition table :: "('c, 'd, 'o) dock \<Rightarrow> link_row list \<times> int \<times> bool \<times> string \<times> (string \<rightharpoonup> bool)" where
  "table d = (dk_links d, dk_current_row d, dk_show_all d, dk_selected_link_key d, dk_selected d)"

definition handles :: "('c, 'd, 'o) dock \<Rightarrow> bool \<times> bool \<times> 'o option \<times> 'd option \<times> ref_event list \<times> 'o list" where
  "handles d = (dk_connected d, dk_running d, dk_output d, dk_settings d, dk_refs d, dk_retired d)"

definition core where
  "core d = (widgets d, telemetry d, table d, handles d)"

lemmas part_defs = core_def widgets_def telemetry_def table_def handles_def
lemmas dock_base = view_update_def set_state_text_def ref_def Let_def

text \<open>Operations that change only what is displayed, or only the profile.\<close>

lemma core_other_fields [simp]:
  "core (d\<lparr>dk_secret_error := b\<rparr>) = core d" "core (d\<lparr>dk_config := c\<rparr>) = core d" "core (d\<lparr>dk_stream_id := s\<rparr>) = core d"
  "core (d\<lparr>dk_latency_ms := n\<rparr>) = core d" "core (d\<lparr>dk_pbkeylen := n\<rparr>) = core d" "core (d\<lparr>dk_emitted := es\<rparr>) = core d"
  "core (d\<lparr>dk_auto_bitrate := b\<rparr>) = core d" "core (d\<lparr>dk_url := s\<rparr>) = core d" "core (d\<lparr>dk_passphrase := s\<rparr>) = core d"
  "core (d\<lparr>dk_state := s\<rparr>) = core d" "core (d\<lparr>dk_view := v\<rparr>) = core d"
  by (simp_all add: part_defs)

lemma core_display [simp]:
  "core (view_update f d) = core d" "core (updateHistoryPanel q d) = core d"
  "core (updateOverviewSparklines d) = core d" "core (updateSettingsSummary d) = core d"
  "core (set_state_text s d) = core d" "core (bitrate_refused d) = core d" "core (set_manual_enabled b d) = core d"
  "core (on_source_changed d) = core d"
  by (simp_all add: dock_base updateHistoryPanel_def updateOverviewSparklines_def updateSettingsSummary_def
      bitrate_refused_def set_manual_enabled_def on_source_changed_def)

lemma core_profile [simp]:
  "core (set_url s d) = core d" "core (on_passphrase_changed d) = core d" "core (set_passphrase s d) = core d"
  "core (save_profile_config E d) = core d" "core (saveSelectedLinks E d) = core d"
  "core (snd (saveProfile E d)) = core d"
  by (simp_all add: set_url_def set_passphrase_def on_passphrase_changed_def save_profile_config_def
      saveSelectedLinks_def saveProfile_def Let_def split: option.split)

lemma core_load [simp]:
  "core (load_connection E d) = core d" "core (load_secret E d) = core d" "core (clean_profile E d) = core d"
  by (simp_all add: load_connection_def load_secret_def clean_profile_def Let_def split: option.split)

lemma core_parts:
  assumes "core d = core e"
  shows "widgets d = widgets e" "telemetry d = telemetry e" "table d = table e" "handles d = handles e"
  using assms by (simp_all add: core_def)

lemmas part_display [simp] =
  core_other_fields [THEN core_parts(1)] core_other_fields [THEN core_parts(2)]
  core_other_fields [THEN core_parts(3)] core_other_fields [THEN core_parts(4)]
  core_display [THEN core_parts(1)] core_display [THEN core_parts(2)]
  core_display [THEN core_parts(3)] core_display [THEN core_parts(4)]
  core_profile [THEN core_parts(1)] core_profile [THEN core_parts(2)]
  core_profile [THEN core_parts(3)] core_profile [THEN core_parts(4)]
  core_load [THEN core_parts(1)] core_load [THEN core_parts(2)]
  core_load [THEN core_parts(3)] core_load [THEN core_parts(4)]

text \<open>A part does not change when a field outside it does.\<close>

lemma widgets_frame [simp]:
  "widgets (d\<lparr>dk_connected := x_connected\<rparr>) = widgets d" "widgets (d\<lparr>dk_metric_history := x_metric_history\<rparr>) = widgets d"
  "widgets (d\<lparr>dk_links := x_links\<rparr>) = widgets d" "widgets (d\<lparr>dk_current_row := x_current_row\<rparr>) = widgets d"
  "widgets (d\<lparr>dk_show_all := x_show_all\<rparr>) = widgets d" "widgets (d\<lparr>dk_link_history := x_link_history\<rparr>) = widgets d"
  "widgets (d\<lparr>dk_selected_link_key := x_selected_link_key\<rparr>) = widgets d" "widgets (d\<lparr>dk_running := x_running\<rparr>) = widgets d"
  "widgets (d\<lparr>dk_selected := x_selected\<rparr>) = widgets d" "widgets (d\<lparr>dk_output := x_output\<rparr>) = widgets d"
  "widgets (d\<lparr>dk_settings := x_settings\<rparr>) = widgets d" "widgets (d\<lparr>dk_refs := x_refs\<rparr>) = widgets d"
  "widgets (d\<lparr>dk_retired := x_retired\<rparr>) = widgets d"
  by (simp_all add: widgets_def)

lemma telemetry_frame [simp]:
  "telemetry (d\<lparr>dk_connected := x_connected\<rparr>) = telemetry d" "telemetry (d\<lparr>dk_encoder_source := x_encoder_source\<rparr>) = telemetry d"
  "telemetry (d\<lparr>dk_custom_video := x_custom_video\<rparr>) = telemetry d" "telemetry (d\<lparr>dk_custom_audio := x_custom_audio\<rparr>) = telemetry d"
  "telemetry (d\<lparr>dk_manual_bitrate := x_manual_bitrate\<rparr>) = telemetry d" "telemetry (d\<lparr>dk_max_bitrate := x_max_bitrate\<rparr>) = telemetry d"
  "telemetry (d\<lparr>dk_links := x_links\<rparr>) = telemetry d" "telemetry (d\<lparr>dk_current_row := x_current_row\<rparr>) = telemetry d"
  "telemetry (d\<lparr>dk_show_all := x_show_all\<rparr>) = telemetry d" "telemetry (d\<lparr>dk_history_window := x_history_window\<rparr>) = telemetry d"
  "telemetry (d\<lparr>dk_selected_link_key := x_selected_link_key\<rparr>) = telemetry d" "telemetry (d\<lparr>dk_running := x_running\<rparr>) = telemetry d"
  "telemetry (d\<lparr>dk_selected := x_selected\<rparr>) = telemetry d" "telemetry (d\<lparr>dk_output := x_output\<rparr>) = telemetry d"
  "telemetry (d\<lparr>dk_settings := x_settings\<rparr>) = telemetry d" "telemetry (d\<lparr>dk_refs := x_refs\<rparr>) = telemetry d"
  "telemetry (d\<lparr>dk_retired := x_retired\<rparr>) = telemetry d"
  by (simp_all add: telemetry_def)

lemma table_frame [simp]:
  "table (d\<lparr>dk_connected := x_connected\<rparr>) = table d" "table (d\<lparr>dk_encoder_source := x_encoder_source\<rparr>) = table d"
  "table (d\<lparr>dk_custom_video := x_custom_video\<rparr>) = table d" "table (d\<lparr>dk_custom_audio := x_custom_audio\<rparr>) = table d"
  "table (d\<lparr>dk_manual_bitrate := x_manual_bitrate\<rparr>) = table d" "table (d\<lparr>dk_max_bitrate := x_max_bitrate\<rparr>) = table d"
  "table (d\<lparr>dk_metric_history := x_metric_history\<rparr>) = table d" "table (d\<lparr>dk_history_window := x_history_window\<rparr>) = table d"
  "table (d\<lparr>dk_link_history := x_link_history\<rparr>) = table d" "table (d\<lparr>dk_running := x_running\<rparr>) = table d"
  "table (d\<lparr>dk_output := x_output\<rparr>) = table d" "table (d\<lparr>dk_settings := x_settings\<rparr>) = table d"
  "table (d\<lparr>dk_refs := x_refs\<rparr>) = table d" "table (d\<lparr>dk_retired := x_retired\<rparr>) = table d"
  by (simp_all add: table_def)

lemma handles_frame [simp]:
  "handles (d\<lparr>dk_encoder_source := x_encoder_source\<rparr>) = handles d" "handles (d\<lparr>dk_custom_video := x_custom_video\<rparr>) = handles d"
  "handles (d\<lparr>dk_custom_audio := x_custom_audio\<rparr>) = handles d" "handles (d\<lparr>dk_manual_bitrate := x_manual_bitrate\<rparr>) = handles d"
  "handles (d\<lparr>dk_max_bitrate := x_max_bitrate\<rparr>) = handles d" "handles (d\<lparr>dk_metric_history := x_metric_history\<rparr>) = handles d"
  "handles (d\<lparr>dk_links := x_links\<rparr>) = handles d" "handles (d\<lparr>dk_current_row := x_current_row\<rparr>) = handles d"
  "handles (d\<lparr>dk_show_all := x_show_all\<rparr>) = handles d" "handles (d\<lparr>dk_history_window := x_history_window\<rparr>) = handles d"
  "handles (d\<lparr>dk_link_history := x_link_history\<rparr>) = handles d" "handles (d\<lparr>dk_selected_link_key := x_selected_link_key\<rparr>) = handles d"
  "handles (d\<lparr>dk_selected := x_selected\<rparr>) = handles d"
  by (simp_all add: handles_def)

section \<open>What the operations leave alone\<close>

lemma table_ops_parts [simp]:
  "widgets (applyAdapterVisibility q d) = widgets d" "telemetry (applyAdapterVisibility q d) = telemetry d"
  "handles (applyAdapterVisibility q d) = handles d"
  "widgets (snd (select_index key d)) = widgets d" "telemetry (snd (select_index key d)) = telemetry d"
  "handles (snd (select_index key d)) = handles d"
  "widgets (set_use row b d) = widgets d" "telemetry (set_use row b d) = telemetry d" "handles (set_use row b d) = handles d"
  "widgets (load_links E d) = widgets d" "telemetry (load_links E d) = telemetry d" "handles (load_links E d) = handles d"
  by (simp_all add: applyAdapterVisibility_def select_index_def set_use_def load_links_def Let_def split: option.split)

lemma output_ops_parts [simp]:
  "widgets (notify_adapters E d) = widgets d" "telemetry (notify_adapters E d) = telemetry d"
  "table (notify_adapters E d) = table d"
  "widgets (snd (ask_output f d)) = widgets d" "telemetry (snd (ask_output f d)) = telemetry d"
  "table (snd (ask_output f d)) = table d"
  "widgets (update_settings g d) = widgets d" "telemetry (update_settings g d) = telemetry d"
  "table (update_settings g d) = table d"
  by (simp_all add: notify_adapters_def ask_output_def update_settings_def split: option.split bool.split prod.split)

lemma release_parts [simp]:
  "widgets (ref e d) = widgets d" "telemetry (ref e d) = telemetry d" "table (ref e d) = table d"
  "widgets (release_output d) = widgets d" "telemetry (release_output d) = telemetry d"
  "table (release_output d) = table d"
  "widgets (release_settings d) = widgets d" "telemetry (release_settings d) = telemetry d"
  "table (release_settings d) = table d"
  "widgets (stop_if_active E d) = widgets d" "telemetry (stop_if_active E d) = telemetry d"
  "table (stop_if_active E d) = table d"
  "widgets (reset_telemetry d) = widgets d" "table (reset_telemetry d) = table d" "handles (reset_telemetry d) = handles d"
  "widgets (ensure_settings E d) = widgets d" "telemetry (ensure_settings E d) = telemetry d"
  "table (ensure_settings E d) = table d"
  "widgets (ensure_output E d) = widgets d" "telemetry (ensure_output E d) = telemetry d"
  "table (ensure_output E d) = table d"
  "widgets (release_acquired c v a d) = widgets d" "telemetry (release_acquired c v a d) = telemetry d"
  "table (release_acquired c v a d) = table d"
  by (simp_all add: ref_def release_output_def release_settings_def stop_if_active_def reset_telemetry_def
      ensure_settings_def ensure_output_def release_acquired_def Let_def split: option.split)

lemma stopOutput_parts [simp]:
  "widgets (stopOutput E d) = widgets d" "table (stopOutput E d) = table d"
  "telemetry (stopOutput E d) = (replicate 6 [], Map.empty)"
  by (simp_all add: stopOutput_def) (simp add: reset_telemetry_def telemetry_def)

lemma launch_parts [simp]:
  "widgets (launch E s v a d) = widgets d" "telemetry (launch E s v a d) = telemetry d" "table (launch E s v a d) = table d"
  by (simp_all add: launch_def Let_def split: option.split prod.split)

text \<open>An outcome of a phase of \<^verbatim>\<open>toggleOutput\<close>, whichever way it ends.\<close>

fun phase_dock :: "('c, 'd, 'o) toggle_phase \<Rightarrow> ('c, 'd, 'o) dock" where
  "phase_dock (Inl d) = d"
| "phase_dock (Inr (d, v, a)) = d"

lemma phase_parts [simp]:
  "widgets (phase_dock (acquire_shared E s d)) = widgets d" "telemetry (phase_dock (acquire_shared E s d)) = telemetry d"
  "table (phase_dock (acquire_shared E s d)) = table d"
  "widgets (phase_dock (acquire_custom E d)) = widgets d" "telemetry (phase_dock (acquire_custom E d)) = telemetry d"
  "table (phase_dock (acquire_custom E d)) = table d"
  "widgets (phase_dock (check_codecs c v a d)) = widgets d" "telemetry (phase_dock (check_codecs c v a d)) = telemetry d"
  "table (phase_dock (check_codecs c v a d)) = table d"
  by (simp_all add: acquire_shared_def acquire_custom_def create_custom_video_encoder_def create_custom_audio_encoder_def
      check_codecs_def Let_def split: option.split)

lemma store_profile_core [simp]: "core (phase_dock (store_profile E v a d)) = core d"
  using core_profile(6) [of E d] by (cases "saveProfile E d") (auto simp: store_profile_def)

lemmas store_profile_parts [simp] = store_profile_core [THEN core_parts(1)] store_profile_core [THEN core_parts(2)]
  store_profile_core [THEN core_parts(3)] store_profile_core [THEN core_parts(4)]

lemma go_on_keeps:
  assumes "\<And>v a d. P (phase_dock (f v a d)) = P d"
  shows "P (phase_dock (go_on p f)) = P (phase_dock p)"
  by (cases p rule: phase_dock.cases) (simp_all add: assms)

text \<open>Where a start gets to: the phases before the output is created.\<close>

definition toggle_phases :: "('c, 'd, 'o) dock_env \<Rightarrow> ('c, 'd, 'o) dock \<Rightarrow> ('c, 'd, 'o) toggle_phase" where
  "toggle_phases E d =
     (let source = currentData (dk_encoder_source d);
          acquired = (if source \<noteq> ''custom'' then acquire_shared E source d else acquire_custom E d)
      in go_on (go_on acquired (check_codecs (source = ''custom''))) (store_profile E))"

lemma toggleOutput_unfold:
  "toggleOutput E d =
     (if dk_running d then stopOutput E d
      else
        let d1 = ensure_settings E d
        in (case toggle_phases E d1 of
              Inl d2 \<Rightarrow> d2
            | Inr (d2, video, audio) \<Rightarrow> launch E (currentData (dk_encoder_source d1)) video audio d2))"
  by (simp add: toggleOutput_def toggle_phases_def Let_def)

lemma toggle_phases_parts [simp]:
  "widgets (phase_dock (toggle_phases E d)) = widgets d" "telemetry (phase_dock (toggle_phases E d)) = telemetry d"
  "table (phase_dock (toggle_phases E d)) = table d"
  by (simp_all add: toggle_phases_def Let_def go_on_keeps [where P = widgets] go_on_keeps [where P = telemetry]
      go_on_keeps [where P = table])

lemma toggle_keeps:
  assumes "\<And>E d. P (ensure_settings E d) = P d" and "\<And>E d. P (phase_dock (toggle_phases E d)) = P d"
    and "\<And>E s v a d. P (launch E s v a d) = P d" and "\<not> dk_running d"
  shows "P (toggleOutput E d) = P d"
  using assms(2) [of E "ensure_settings E d"] assms(1,3,4)
  by (cases "toggle_phases E (ensure_settings E d)" rule: phase_dock.cases) (simp_all add: toggleOutput_unfold)

lemma toggleOutput_parts [simp]:
  "widgets (toggleOutput E d) = widgets d" "table (toggleOutput E d) = table d"
  "telemetry (toggleOutput E d) = (if dk_running d then (replicate 6 [], Map.empty) else telemetry d)"
  by (cases "dk_running d", simp add: toggleOutput_def, simp add: toggle_keeps)+

lemma idle_links_snd: "snd (idle_links (r # rows) d) = snd (idle_links rows (snd (select_index (lr_id r) d)))"
  by (simp add: Let_def split: prod.split)

lemma idle_links_parts [simp]:
  "widgets (snd (idle_links rows d)) = widgets d" "telemetry (snd (idle_links rows d)) = telemetry d"
  "handles (snd (idle_links rows d)) = handles d"
  by (induction rows arbitrary: d) (simp_all add: idle_links_snd del: idle_links.simps(2))

lemma websocketStatusJson_parts [simp]:
  "widgets (snd (websocketStatusJson E d)) = widgets d" "telemetry (snd (websocketStatusJson E d)) = telemetry d"
  "handles (snd (websocketStatusJson E d)) = handles d"
proof -
  have idle: "snd (idle_status q d) = snd (idle_links (dk_links d) d)" for q
    by (simp add: idle_status_def Let_def split: prod.split)
  have "snd (websocketStatusJson E d) = d \<or> snd (websocketStatusJson E d) = snd (idle_links (dk_links d) d)"
    using idle [of "env_qt E"] by (auto simp: websocketStatusJson_def split: bool.split option.split prod.split)
  then show "widgets (snd (websocketStatusJson E d)) = widgets d"
    "telemetry (snd (websocketStatusJson E d)) = telemetry d" "handles (snd (websocketStatusJson E d)) = handles d"
    by auto
qed

lemma check_parts [simp]:
  "widgets (on_use_changed E row d) = widgets d" "telemetry (on_use_changed E row d) = telemetry d"
  "widgets (setCheckState E row b d) = widgets d" "telemetry (setCheckState E row b d) = telemetry d"
  "widgets (on_row_selected q i d) = widgets d" "telemetry (on_row_selected q i d) = telemetry d"
  "handles (on_row_selected q i d) = handles d"
  "widgets (on_show_all q b d) = widgets d" "telemetry (on_show_all q b d) = telemetry d"
  "handles (on_show_all q b d) = handles d"
  by (simp_all add: on_use_changed_def setCheckState_def on_row_selected_def on_show_all_def Let_def
      split: option.split prod.split)

lemma websocketSetLinkEnabled_parts [simp]:
  "widgets (snd (websocketSetLinkEnabled E i b d)) = widgets d"
  "telemetry (snd (websocketSetLinkEnabled E i b d)) = telemetry d"
proof -
  have *: "snd (websocketSetLinkEnabled E i b d) = d
      \<or> (\<exists>row key. snd (websocketSetLinkEnabled E i b d) = snd (select_index key (setCheckState E row b d)))"
    by (auto simp: websocketSetLinkEnabled_def Let_def split: option.split prod.split) (metis snd_conv)+
  show "widgets (snd (websocketSetLinkEnabled E i b d)) = widgets d"
    "telemetry (snd (websocketSetLinkEnabled E i b d)) = telemetry d"
    using * by auto
qed

lemma refreshAdapters_parts [simp]: "widgets (refreshAdapters E adapters d) = widgets d"
  by (simp add: refreshAdapters_def Let_def split: prod.split)

lemma refresh_link_row_parts [simp]:
  "widgets (refresh_link_row q link d) = widgets d" "handles (refresh_link_row q link d) = handles d"
  by (simp_all add: refresh_link_row_def Let_def split: option.split)

lemma fold_keeps: "(\<And>x d. P (f x d) = P d) \<Longrightarrow> P (fold f xs d) = P d"
  by (induction xs arbitrary: d) simp_all

lemma show_status_parts [simp]:
  "widgets (show_status q status d) = widgets d" "handles (show_status q status d) = handles d"
  by (simp_all add: show_status_def Let_def fold_keeps [where P = widgets] fold_keeps [where P = handles])

text \<open>The refresh, when it has a document, shows it and then takes the status for the clients.\<close>

lemma refreshStatus_core:
  "refreshStatus E E2 d = d \<or> (\<exists>status. core (refreshStatus E E2 d)
     = core (snd (websocketStatusJson E2 (show_status (env_qt E) status d))))"
  by (auto simp: refreshStatus_def split: bool.split option.split prod.split) (metis snd_conv)+

lemma refreshStatus_parts [simp]:
  "widgets (refreshStatus E E2 d) = widgets d" "handles (refreshStatus E E2 d) = handles d"
  using refreshStatus_core [of E E2 d] by (auto dest: core_parts)

section \<open>Widgets\<close>

definition spin_ok :: "int \<Rightarrow> int \<Rightarrow> spin \<Rightarrow> bool" where
  "spin_ok lo hi s \<longleftrightarrow> sp_minimum s = lo \<and> sp_maximum s = hi \<and> lo \<le> sp_value s \<and> sp_value s \<le> hi"

definition combo_ok :: "combo \<Rightarrow> bool" where
  "combo_ok c \<longleftrightarrow> - 1 \<le> cb_index c \<and> cb_index c < int (length (cb_items c)) \<and> (cb_items c \<noteq> [] \<longrightarrow> 0 \<le> cb_index c)"

definition widgets_ok :: "('c, 'd, 'o) dock \<Rightarrow> bool" where
  "widgets_ok d \<longleftrightarrow> spin_ok 500 100000 (dk_manual_bitrate d) \<and> spin_ok 500 30000 (dk_max_bitrate d)
     \<and> combo_ok (dk_encoder_source d) \<and> combo_ok (dk_custom_video d) \<and> combo_ok (dk_custom_audio d)
     \<and> (dk_history_window d = 60 \<or> dk_history_window d = 300 \<or> dk_history_window d = 900)"

lemma widgets_ok_cong: "widgets d = widgets e \<Longrightarrow> widgets_ok d = widgets_ok e"
  by (simp add: widgets_def widgets_ok_def)

lemma setValue_ok [simp]: "spin_ok lo hi s \<Longrightarrow> spin_ok lo hi (setValue v s)"
  using clamp_bounds [of lo hi v] by (simp add: spin_ok_def setValue_def)

lemma select_combo_ok [simp]: "combo_ok c \<Longrightarrow> combo_ok (select_combo_data v c)"
  by (auto simp: combo_ok_def select_combo_data_def findData_def Let_def dest!: find_index_Some split: option.splits)

lemma pick_ok [simp]: "combo_ok c \<Longrightarrow> combo_ok (pick i c)"
  by (auto simp: combo_ok_def pick_def)

lemma add_encoder_choices_ok: "combo_ok c \<Longrightarrow> combo_ok (add_encoder_choices f type infos c)"
  by (induction f type infos c rule: add_encoder_choices.induct)
    (auto simp: combo_ok_def addItem_def split: option.splits)

lemma combo_sets_ok:
  "widgets_ok d \<Longrightarrow> combo_ok c \<Longrightarrow> widgets_ok (set_source_index c d)"
  "widgets_ok d \<Longrightarrow> combo_ok c \<Longrightarrow> widgets_ok (set_video_index c d)"
  "widgets_ok d \<Longrightarrow> combo_ok c \<Longrightarrow> widgets_ok (set_audio_index c d)"
  by (simp_all add: set_source_index_def set_video_index_def set_audio_index_def Let_def
      widgets_ok_cong [OF core_parts(1) [OF core_display(8)]] widgets_ok_cong [OF core_parts(1) [OF core_display(4)]])
    (simp_all add: widgets_ok_def)

lemma auto_parts [simp]:
  "widgets (on_auto_toggled E b d) = widgets d" "telemetry (on_auto_toggled E b d) = telemetry d"
  "table (on_auto_toggled E b d) = table d"
  "widgets (set_auto E b d) = widgets d" "telemetry (set_auto E b d) = telemetry d" "table (set_auto E b d) = table d"
  "widgets (on_manual_changed E v d) = widgets d" "telemetry (on_manual_changed E v d) = telemetry d"
  "table (on_manual_changed E v d) = table d"
  "telemetry (set_manual E v d) = telemetry d" "table (set_manual E v d) = table d"
  by (simp_all add: on_auto_toggled_def set_auto_def on_manual_changed_def set_manual_def Let_def
      split: option.split prod.split)

lemma max_parts [simp]:
  "telemetry (on_max_changed E v d) = telemetry d" "table (on_max_changed E v d) = table d"
  "telemetry (set_max E v d) = telemetry d" "table (set_max E v d) = table d"
  by (simp_all add: on_max_changed_def set_max_def Let_def split: option.split prod.split)

lemma set_manual_ok: "widgets_ok d \<Longrightarrow> widgets_ok (set_manual E v d)"
  by (simp add: set_manual_def Let_def widgets_ok_cong [OF auto_parts(7)]) (simp add: widgets_ok_def)

lemma on_max_changed_ok: "widgets_ok d \<Longrightarrow> widgets_ok (on_max_changed E v d)"
  by (auto simp: on_max_changed_def Let_def widgets_ok_cong [OF output_ops_parts(7)]
      widgets_ok_cong [OF core_parts(1) [OF core_display(6)]] split: option.split prod.split)
    (simp_all add: widgets_ok_def)

lemma set_max_ok: "widgets_ok d \<Longrightarrow> widgets_ok (set_max E v d)"
proof -
  assume "widgets_ok d"
  then have "widgets_ok (d\<lparr>dk_max_bitrate := setValue v (dk_max_bitrate d)\<rparr>)"
    by (simp add: widgets_ok_def)
  then show ?thesis
    by (simp add: set_max_def Let_def on_max_changed_ok)
qed

lemma load_encoding_widgets_ok: "widgets_ok d \<Longrightarrow> widgets_ok (load_encoding E d)"
proof -
  assume d: "widgets_ok d"
  define d1 where "d1 = set_source_index
    (select_combo_data (profile_string E (dk_config d) ''EncoderSource'' ''streaming'') (dk_encoder_source d)) d"
  define d2 where "d2 = set_video_index
    (select_combo_data (profile_string E (dk_config d) ''CustomVideoEncoder'' []) (dk_custom_video d1)) d1"
  define d3 where "d3 = set_audio_index
    (select_combo_data (profile_string E (dk_config d) ''CustomAudioEncoder'' []) (dk_custom_audio d2)) d2"
  have "widgets_ok d1"
    using d unfolding d1_def by (intro combo_sets_ok(1)) (auto simp: widgets_ok_def)
  then have "widgets_ok d2"
    unfolding d2_def by (intro combo_sets_ok(2)) (auto simp: widgets_ok_def)
  then have "widgets_ok d3"
    unfolding d3_def by (intro combo_sets_ok(3)) (auto simp: widgets_ok_def)
  then have "widgets_ok (set_auto E b d3)" for b
    by (simp add: widgets_ok_cong [OF auto_parts(4)])
  then show ?thesis
    unfolding load_encoding_def Let_def d1_def [symmetric] d2_def [symmetric] d3_def [symmetric]
    by (intro set_max_ok set_manual_ok)
qed

lemma loadProfile_widgets_ok: "widgets_ok d \<Longrightarrow> widgets_ok (loadProfile E d)"
proof -
  assume "widgets_ok d"
  then have "widgets_ok (load_secret E (load_connection E (d\<lparr>dk_secret_error := False, dk_selected := Map.empty\<rparr>)))"
    by (simp add: widgets_ok_cong [of "load_secret _ _" d])
  from load_encoding_widgets_ok [OF this, of E] show ?thesis
    by (simp add: loadProfile_def widgets_ok_cong [of "clean_profile _ _" "load_encoding _ _"])
qed

lemma combo_parts [simp]:
  "telemetry (set_source_index c d) = telemetry d" "table (set_source_index c d) = table d"
  "handles (set_source_index c d) = handles d"
  "telemetry (set_video_index c d) = telemetry d" "table (set_video_index c d) = table d"
  "handles (set_video_index c d) = handles d"
  "telemetry (set_audio_index c d) = telemetry d" "table (set_audio_index c d) = table d"
  "handles (set_audio_index c d) = handles d"
  by (simp_all add: set_source_index_def set_video_index_def set_audio_index_def Let_def)

lemma load_encoding_parts [simp]:
  "telemetry (load_encoding E d) = telemetry d" "table (load_encoding E d) = table d"
  by (simp_all add: load_encoding_def Let_def)

lemma loadProfile_parts [simp]:
  "telemetry (loadProfile E d) = telemetry d"
  by (simp add: loadProfile_def)

text \<open>The two bitrate requests, as the case they are in.\<close>

lemma websocketSetBitrateControl_cases:
  obtains (range) "websocketSetBitrateControl E b v d = (Some (range_error ''Manual'' (dk_manual_bitrate d)), d)"
      "v < sp_minimum (dk_manual_bitrate d) \<or> sp_maximum (dk_manual_bitrate d) < v"
  | (refused) r where "ask_output (output_set_bitrate_control (env_out E) b v) d = (r, snd (websocketSetBitrateControl E b v d))"
      "r \<noteq> 0" "fst (websocketSetBitrateControl E b v d) = Some encoder_refused"
      "sp_minimum (dk_manual_bitrate d) \<le> v" "v \<le> sp_maximum (dk_manual_bitrate d)"
  | (accepted) d1 where "ask_output (output_set_bitrate_control (env_out E) b v) d = (0, d1)"
      "sp_minimum (dk_manual_bitrate d) \<le> v" "v \<le> sp_maximum (dk_manual_bitrate d)"
      "websocketSetBitrateControl E b v d =
        (None, update_settings (\<lambda>s. obs_data_set_int (env_data E) ''bitrate'' v
            (obs_data_set_bool (env_data E) ''auto_bitrate'' b s))
          (set_manual_enabled (\<not> b)
            (d1\<lparr>dk_manual_bitrate := setValue v (dk_manual_bitrate d1), dk_auto_bitrate := b\<rparr>)))"
  by (cases "ask_output (output_set_bitrate_control (env_out E) b v) d")
    (auto simp: websocketSetBitrateControl_def split: if_splits, meson linorder_not_less)

lemma websocketSetMaxBitrate_cases:
  obtains (range) "websocketSetMaxBitrate E v d = (Some (range_error ''Maximum'' (dk_max_bitrate d)), d)"
      "v < sp_minimum (dk_max_bitrate d) \<or> sp_maximum (dk_max_bitrate d) < v"
  | (refused) r where "ask_output (output_set_max_bitrate (env_out E) v) d = (r, snd (websocketSetMaxBitrate E v d))"
      "r \<noteq> 0" "fst (websocketSetMaxBitrate E v d) = Some encoder_refused"
      "sp_minimum (dk_max_bitrate d) \<le> v" "v \<le> sp_maximum (dk_max_bitrate d)"
  | (accepted) d1 where "ask_output (output_set_max_bitrate (env_out E) v) d = (0, d1)"
      "sp_minimum (dk_max_bitrate d) \<le> v" "v \<le> sp_maximum (dk_max_bitrate d)"
      "websocketSetMaxBitrate E v d =
        (None, update_settings (obs_data_set_int (env_data E) ''max_bitrate'' v)
          (d1\<lparr>dk_max_bitrate := setValue v (dk_max_bitrate d1)\<rparr>))"
  by (cases "ask_output (output_set_max_bitrate (env_out E) v) d")
    (auto simp: websocketSetMaxBitrate_def split: if_splits, meson linorder_not_less)

lemma websocketSetBitrate_widgets_ok:
  assumes "widgets_ok d"
  shows "widgets_ok (snd (websocketSetBitrateControl E b v d))" "widgets_ok (snd (websocketSetMaxBitrate E w d))"
proof -
  have ask: "widgets_ok (snd (ask_output f d))" for f
    using assms by (simp add: widgets_ok_cong [OF output_ops_parts(4)])
  show "widgets_ok (snd (websocketSetBitrateControl E b v d))"
  proof (cases rule: websocketSetBitrateControl_cases [of E b v d])
    case (refused r)
    then show ?thesis using ask [of "output_set_bitrate_control (env_out E) b v"] by simp
  next
    case (accepted d1)
    then show ?thesis
      using ask [of "output_set_bitrate_control (env_out E) b v"]
      by (simp add: widgets_ok_cong [OF output_ops_parts(7)] widgets_ok_cong [OF core_parts(1) [OF core_display(7)]])
        (simp add: widgets_ok_def)
  qed (use assms in simp)
  show "widgets_ok (snd (websocketSetMaxBitrate E w d))"
  proof (cases rule: websocketSetMaxBitrate_cases [of E w d])
    case (refused r)
    then show ?thesis using ask [of "output_set_max_bitrate (env_out E) w"] by simp
  next
    case (accepted d1)
    then show ?thesis
      using ask [of "output_set_max_bitrate (env_out E) w"]
      by (simp add: widgets_ok_cong [OF output_ops_parts(7)]) (simp add: widgets_ok_def)
  qed (use assms in simp)
qed

section \<open>Telemetry\<close>

definition history_ok :: "sample list list \<Rightarrow> bool" where
  "history_ok h \<longleftrightarrow> length h = 6 \<and> (\<forall>s\<in>set h. length s \<le> 900)"

definition telemetry_ok :: "('c, 'd, 'o) dock \<Rightarrow> bool" where
  "telemetry_ok d \<longleftrightarrow> history_ok (dk_metric_history d)
     \<and> (\<forall>k h. dk_link_history d k = Some h \<longrightarrow> history_ok h)"

lemma telemetry_ok_cong: "telemetry d = telemetry e \<Longrightarrow> telemetry_ok d = telemetry_ok e"
  by (simp add: telemetry_def telemetry_ok_def)

lemma empty_history_ok [simp]: "history_ok empty_history" "history_ok (replicate 6 [])"
  by (simp_all add: history_ok_def empty_history_def)

lemma append_samples_ok: "history_ok h \<Longrightarrow> length s = 6 \<Longrightarrow> history_ok (append_samples h s)"
  by (auto simp: history_ok_def append_samples_def append_sample_length)

lemma samples_length [simp]: "length (link_samples link) = 6" "length (metric_samples status n) = 6"
  by (simp_all add: link_samples_def metric_samples_def Let_def)

lemma refresh_link_row_telemetry: "telemetry_ok d \<Longrightarrow> telemetry_ok (refresh_link_row q link d)"
  by (auto simp: telemetry_ok_def refresh_link_row_def Let_def intro!: append_samples_ok split: option.split)

lemma fold_invariant: "(\<And>x d. P d \<Longrightarrow> P (f x d)) \<Longrightarrow> P d \<Longrightarrow> P (fold f xs d)"
  by (induction xs arbitrary: d) simp_all

lemma show_status_telemetry: "telemetry_ok d \<Longrightarrow> telemetry_ok (show_status q status d)"
proof -
  assume d: "telemetry_ok d"
  define d1 where "d1 = fold (refresh_link_row q) (toArray (jvalue ''links'' status)) d"
  have "telemetry_ok d1"
    unfolding d1_def using d by (intro fold_invariant [where P = telemetry_ok]) (simp_all add: refresh_link_row_telemetry)
  then have "telemetry_ok (d1\<lparr>dk_metric_history := append_samples (dk_metric_history d1) (metric_samples status n)\<rparr>)" for n
    by (simp add: telemetry_ok_def append_samples_ok)
  then show ?thesis
    by (simp add: show_status_def Let_def d1_def
        telemetry_ok_cong [of "updateHistoryPanel _ _" "_\<lparr>dk_metric_history := _\<rparr>"])
qed

lemma refreshStatus_telemetry: "telemetry_ok d \<Longrightarrow> telemetry_ok (refreshStatus E E2 d)"
  using refreshStatus_core [of E E2 d] show_status_telemetry [of d "env_qt E"]
  by (metis core_parts(2) telemetry_ok_cong websocketStatusJson_parts(2))

lemma build_rows_histories:
  assumes "\<forall>k h. histories k = Some h \<longrightarrow> history_ok h"
  shows "\<forall>k h. snd (snd (build_rows q w adapters selected histories)) k = Some h \<longrightarrow> history_ok h"
  using assms
proof (induction adapters arbitrary: selected histories)
  case (Cons a adapters)
  have "\<forall>k h. (histories(na_id a \<mapsto> case histories (na_id a) of None \<Rightarrow> empty_history | Some h \<Rightarrow> h)) k = Some h
      \<longrightarrow> history_ok h"
    using Cons.prems by (auto split: option.split)
  from Cons.IH [OF this] show ?case
    by (simp add: Let_def case_prod_unfold del: fun_upd_apply)
qed simp

text \<open>The two branches of the refresh.\<close>

lemma refreshAdapters_same:
  assumes "\<not> topology_changed (dk_links d) adapters"
    and "refresh_rows (env_qt E) (dk_selected_link_key d) (dk_links d) adapters (dk_selected d) = (rows, selected, vis, title)"
  shows "refreshAdapters E adapters d = notify_adapters E
    (if vis then applyAdapterVisibility (env_qt E) (d\<lparr>dk_links := rows, dk_selected := selected\<rparr>)
     else if title then updateHistoryPanel (env_qt E) (d\<lparr>dk_links := rows, dk_selected := selected\<rparr>)
     else d\<lparr>dk_links := rows, dk_selected := selected\<rparr>)"
  using assms by (simp add: refreshAdapters_def)

definition rebuilt :: "('c, 'd, 'o) dock_env \<Rightarrow> network_adapter list \<Rightarrow> ('c, 'd, 'o) dock \<Rightarrow> ('c, 'd, 'o) dock" where
  "rebuilt E adapters d =
     (case build_rows (env_qt E) (dk_history_window d) adapters (dk_selected d) (dk_link_history d) of
        (rows, selected, histories) \<Rightarrow>
          applyAdapterVisibility (env_qt E) (d\<lparr>dk_links := rows, dk_selected := selected, dk_link_history := histories,
            dk_current_row := (if length adapters < length (dk_links d)
              then row_after_shrink (env_qt E) (int (length adapters)) (dk_current_row d) else dk_current_row d)\<rparr>))"

definition restore_selection :: "('c, 'd, 'o) dock \<Rightarrow> ('c, 'd, 'o) dock" where
  "restore_selection d =
     (let row = restored_row (dk_selected_link_key d) (dk_links d)
      in if 0 \<le> row
         then d\<lparr>dk_current_row := row, dk_selected_link_key := row_key (dk_links d) row (dk_selected_link_key d)\<rparr>
         else d\<lparr>dk_selected_link_key := []\<rparr>)"

lemma refreshAdapters_changed:
  "topology_changed (dk_links d) adapters \<Longrightarrow> refreshAdapters E adapters d =
     updateHistoryPanel (env_qt E) (notify_adapters E (restore_selection (rebuilt E adapters d)))"
  by (simp add: refreshAdapters_def rebuilt_def restore_selection_def Let_def case_prod_unfold)

lemma restore_selection_parts [simp]:
  "widgets (restore_selection d) = widgets d" "telemetry (restore_selection d) = telemetry d"
  "handles (restore_selection d) = handles d"
  by (simp_all add: restore_selection_def Let_def)

lemma rebuilt_parts [simp]: "widgets (rebuilt E adapters d) = widgets d" "handles (rebuilt E adapters d) = handles d"
  by (simp_all add: rebuilt_def case_prod_unfold)

lemma refreshAdapters_telemetry:
  assumes "telemetry_ok d"
  shows "telemetry_ok (refreshAdapters E adapters d)"
proof (cases "topology_changed (dk_links d) adapters")
  case False
  obtain rows selected vis title where
    "refresh_rows (env_qt E) (dk_selected_link_key d) (dk_links d) adapters (dk_selected d) = (rows, selected, vis, title)"
    by (cases "refresh_rows (env_qt E) (dk_selected_link_key d) (dk_links d) adapters (dk_selected d)")
  from refreshAdapters_same [OF False this] have "telemetry (refreshAdapters E adapters d) = telemetry d"
    by simp
  from telemetry_ok_cong [OF this] show ?thesis using assms by simp
next
  case True
  let ?h = "snd (snd (build_rows (env_qt E) (dk_history_window d) adapters (dk_selected d) (dk_link_history d)))"
  have "telemetry (refreshAdapters E adapters d) = telemetry (rebuilt E adapters d)"
    by (simp add: refreshAdapters_changed [OF True])
  also have "\<dots> = telemetry (d\<lparr>dk_link_history := ?h\<rparr>)"
    by (simp add: rebuilt_def case_prod_unfold) (simp add: telemetry_def)
  finally have eq: "telemetry (refreshAdapters E adapters d) = telemetry (d\<lparr>dk_link_history := ?h\<rparr>)" .
  have "telemetry_ok (d\<lparr>dk_link_history := ?h\<rparr>)"
    using assms build_rows_histories [of "dk_link_history d" "env_qt E" "dk_history_window d" adapters "dk_selected d"]
    by (simp add: telemetry_ok_def)
  with telemetry_ok_cong [OF eq] show ?thesis by simp
qed

section \<open>The adapter table\<close>

definition shown :: "bool \<Rightarrow> link_row list \<Rightarrow> link_row list" where
  "shown show_all rows = hide_rows (show_all \<or> filter lr_use rows = []) rows"

definition cursor_ok :: "link_row list \<Rightarrow> int \<Rightarrow> string \<Rightarrow> bool" where
  "cursor_ok rows row key \<longleftrightarrow> - 1 \<le> row \<and> row < int (length rows)
     \<and> (rows \<noteq> [] \<longrightarrow> 0 \<le> row \<and> \<not> lr_hidden (rows ! nat row) \<and> key = lr_id (rows ! nat row))"

text \<open>
  The rows are distinct and complete, hidden as the show-all box and the selection say, and the
  current row is a visible one, whose adapter the history panel shows.
\<close>

definition view_ok :: "('c, 'd, 'o) dock \<Rightarrow> bool" where
  "view_ok d \<longleftrightarrow> distinct (map lr_id (dk_links d)) \<and> (\<forall>r\<in>set (dk_links d). length (lr_cells r) = 6)
     \<and> dk_links d = shown (dk_show_all d) (dk_links d)
     \<and> cursor_ok (dk_links d) (dk_current_row d) (dk_selected_link_key d)"

text \<open>A check box is set exactly when its adapter is selected.\<close>

definition checks_ok :: "('c, 'd, 'o) dock \<Rightarrow> bool" where
  "checks_ok d \<longleftrightarrow> (\<forall>r\<in>set (dk_links d). dk_selected d (lr_id r) = Some (lr_use r))"

lemma table_ok_cong: "table d = table e \<Longrightarrow> view_ok d = view_ok e \<and> checks_ok d = checks_ok e"
  by (simp add: table_def view_ok_def checks_ok_def)

lemma hide_rows_maps [simp]:
  "map lr_id (hide_rows b rows) = map lr_id rows" "map lr_use (hide_rows b rows) = map lr_use rows"
  "map lr_cells (hide_rows b rows) = map lr_cells rows" "length (hide_rows b rows) = length rows"
  "hide_rows b rows = [] \<longleftrightarrow> rows = []"
  by (simp_all add: hide_rows_def)

lemma filter_use_hide [simp]: "filter lr_use (hide_rows b rows) = [] \<longleftrightarrow> filter lr_use rows = []"
  by (auto simp: hide_rows_def filter_empty_conv)

lemma hide_rows_idem [simp]: "hide_rows b (hide_rows c rows) = hide_rows b rows"
  by (simp add: hide_rows_def)

lemma shown_idem [simp]: "shown a (shown a rows) = shown a rows"
  by (simp add: shown_def)

lemma shown_visible: "rows \<noteq> [] \<Longrightarrow> \<exists>r\<in>set (shown a rows). \<not> lr_hidden r"
proof (cases "filter lr_use rows = []")
  case True
  assume "rows \<noteq> []"
  then show ?thesis using True by (cases rows) (auto simp: shown_def hide_rows_def)
next
  case False
  then obtain r where "r \<in> set rows" "lr_use r"
    by (auto simp: filter_empty_conv)
  then show ?thesis by (auto simp: shown_def hide_rows_def)
qed

lemma first_visible_shown:
  assumes "rows \<noteq> []"
  shows "0 \<le> first_visible (shown a rows)" "first_visible (shown a rows) < int (length rows)"
    "\<not> lr_hidden (shown a rows ! nat (first_visible (shown a rows)))"
proof -
  obtain i where i: "find_index (\<lambda>r. \<not> lr_hidden r) (shown a rows) = Some i"
    using shown_visible [OF assms, of a]
    by (cases "find_index (\<lambda>r. \<not> lr_hidden r) (shown a rows)") (auto simp: find_index_None)
  then show "0 \<le> first_visible (shown a rows)" "first_visible (shown a rows) < int (length rows)"
    "\<not> lr_hidden (shown a rows ! nat (first_visible (shown a rows)))"
    using find_index_Some [OF i] by (simp_all add: first_visible_def shown_def)
qed

lemma shown_ids: "map lr_id (shown a rows) = map lr_id rows"
  by (simp add: shown_def)

end
