(* ===== verification/Dock_Steps.thy ===== *)
theory Dock_Steps
  imports Dock_Invariants
begin

text \<open>
  The adapter table and the references under every operation, and the invariant of the dock as a
  system of steps.
\<close>

section \<open>Visibility\<close>

lemma applyAdapterVisibility_fields:
  "dk_links (applyAdapterVisibility q d) = shown (dk_show_all d) (dk_links d)"
  "dk_show_all (applyAdapterVisibility q d) = dk_show_all d"
  "dk_selected (applyAdapterVisibility q d) = dk_selected d"
  by (simp_all add: applyAdapterVisibility_def updateHistoryPanel_def view_update_def shown_def Let_def)

lemma applyAdapterVisibility_cursor:
  assumes "- 1 \<le> dk_current_row d" and "dk_current_row d < int (length (dk_links d))"
  shows "cursor_ok (dk_links (applyAdapterVisibility q d)) (dk_current_row (applyAdapterVisibility q d))
    (dk_selected_link_key (applyAdapterVisibility q d))"
proof -
  let ?rows = "shown (dk_show_all d) (dk_links d)"
  define row where "row = (if dk_current_row d < 0 \<or> row_hidden ?rows (dk_current_row d)
    then first_visible ?rows else dk_current_row d)"
  have fields: "dk_current_row (applyAdapterVisibility q d) = (if 0 \<le> row then row else dk_current_row d)"
    "dk_selected_link_key (applyAdapterVisibility q d)
      = (if 0 \<le> row then row_key ?rows row (dk_selected_link_key d) else dk_selected_link_key d)"
    by (simp_all add: applyAdapterVisibility_def updateHistoryPanel_def view_update_def shown_def row_def Let_def)
  have len: "length ?rows = length (dk_links d)"
    by (simp add: shown_def)
  show ?thesis
  proof (cases "dk_links d = []")
    case True
    with assms fields show ?thesis
      by (auto simp: applyAdapterVisibility_fields cursor_ok_def shown_def hide_rows_def row_def first_visible_def)
  next
    case False
    note fv = first_visible_shown [OF False, of "dk_show_all d"]
    have "0 \<le> row" "row < int (length (dk_links d))" "\<not> lr_hidden (?rows ! nat row)"
      using fv assms len by (auto simp: row_def row_hidden_def)
    with fields len show ?thesis
      by (simp add: applyAdapterVisibility_fields cursor_ok_def row_key_def)
  qed
qed

definition rows_complete :: "link_row list \<Rightarrow> bool" where
  "rows_complete rows \<longleftrightarrow> distinct (map lr_id rows) \<and> list_all (\<lambda>n. n = 6) (map (length \<circ> lr_cells) rows)"

lemma view_ok_alt:
  "view_ok d \<longleftrightarrow> rows_complete (dk_links d) \<and> dk_links d = shown (dk_show_all d) (dk_links d)
     \<and> cursor_ok (dk_links d) (dk_current_row d) (dk_selected_link_key d)"
  by (auto simp: view_ok_def rows_complete_def list_all_iff)

lemma shown_maps:
  "map lr_use (shown a rows) = map lr_use rows" "map (length \<circ> lr_cells) (shown a rows) = map (length \<circ> lr_cells) rows"
  "length (shown a rows) = length rows"
  by (simp_all add: shown_def hide_rows_def)

lemma applyAdapterVisibility_view_ok:
  assumes "rows_complete (dk_links d)" and "- 1 \<le> dk_current_row d" and "dk_current_row d < int (length (dk_links d))"
  shows "view_ok (applyAdapterVisibility q d)"
  using assms applyAdapterVisibility_cursor [OF assms(2,3)]
  by (simp add: view_ok_alt applyAdapterVisibility_fields rows_complete_def shown_ids shown_maps)

text \<open>What the check boxes say depends on identifiers and check states only.\<close>

definition checks :: "link_row list \<Rightarrow> (string \<times> bool) list" where
  "checks rows = map (\<lambda>r. (lr_id r, lr_use r)) rows"

lemma checks_ok_alt: "checks_ok d \<longleftrightarrow> (\<forall>(k, b)\<in>set (checks (dk_links d)). dk_selected d k = Some b)"
  by (auto simp: checks_ok_def checks_def)

lemma checks_shown [simp]: "checks (shown a rows) = checks rows"
  by (simp add: checks_def shown_def hide_rows_def)

lemma applyAdapterVisibility_checks_ok [simp]: "checks_ok (applyAdapterVisibility q d) = checks_ok d"
  by (simp add: checks_ok_alt applyAdapterVisibility_fields)

lemma view_ok_cursor:
  assumes "view_ok d"
  shows "- 1 \<le> dk_current_row d" "dk_current_row d < int (length (dk_links d))" "rows_complete (dk_links d)"
  using assms by (simp_all add: view_ok_alt cursor_ok_def)

section \<open>Check boxes\<close>

lemma set_use_links: "dk_links (set_use row b d) = (dk_links d)[row := (dk_links d ! row)\<lparr>lr_use := b\<rparr>]"
  by (simp add: set_use_def)

lemma set_use_output: "set_use row b (d\<lparr>dk_output := x\<rparr>) = (set_use row b d)\<lparr>dk_output := x\<rparr>"
  by (cases d) (simp add: set_use_def)

lemma set_use_fields [simp]:
  "dk_running (set_use row b d) = dk_running d" "dk_output (set_use row b d) = dk_output d"
  "dk_connected (set_use row b d) = dk_connected d" "dk_selected (set_use row b d) = dk_selected d"
  "row < length (dk_links d) \<Longrightarrow> dk_links (set_use row b d) ! row = (dk_links d ! row)\<lparr>lr_use := b\<rparr>"
  by (simp_all add: set_use_def)

lemma rows_complete_update:
  assumes "rows_complete rows" and "lr_id r = lr_id (rows ! i)" and "length (lr_cells r) = length (lr_cells (rows ! i))"
  shows "rows_complete (rows[i := r])"
proof (cases "i < length rows")
  case True
  then have "map lr_id (rows[i := r]) = map lr_id rows"
    "map (length \<circ> lr_cells) (rows[i := r]) = map (length \<circ> lr_cells) rows"
    using assms(2,3) by (simp_all add: map_update list_update_same_conv)
  with assms(1) show ?thesis by (simp add: rows_complete_def)
qed (use assms(1) in \<open>simp add: list_update_beyond\<close>)

text \<open>The handler when the selection is accepted.\<close>

definition accept_use :: "('c, 'd, 'o) dock_env \<Rightarrow> nat \<Rightarrow> bool \<Rightarrow> ('c, 'd, 'o) dock \<Rightarrow> ('c, 'd, 'o) dock" where
  "accept_use E row b d =
     applyAdapterVisibility (env_qt E) (saveSelectedLinks E
       ((set_use row b d)\<lparr>dk_selected := (dk_selected d)(lr_id (dk_links d ! row) \<mapsto> b)\<rparr>))"

text \<open>\<^verbatim>\<open>setCheckState\<close> of a connected dock: nothing to do, accepted, or refused by the output and undone.\<close>

lemma setCheckState_cases [consumes 2]:
  assumes "dk_connected d" and row: "row < length (dk_links d)"
  obtains (same) "lr_use (dk_links d ! row) = b" "setCheckState E row b d = d"
  | (idle) "lr_use (dk_links d ! row) \<noteq> b" "\<not> (dk_running d \<and> dk_output d \<noteq> None)"
      "setCheckState E row b d = accept_use E row b d"
  | (accepted) o_ref o' where "lr_use (dk_links d ! row) \<noteq> b" "dk_running d" "dk_output d = Some o_ref"
      "output_set_link_enabled (env_out E) (srtla_output_link_id (Some (c_str (lr_id (dk_links d ! row))))) b o_ref = (0, o')"
      "setCheckState E row b d = accept_use E row b (d\<lparr>dk_output := Some o'\<rparr>)"
  | (refused) o_ref r o' where "lr_use (dk_links d ! row) \<noteq> b" "dk_running d" "dk_output d = Some o_ref" "r \<noteq> 0"
      "output_set_link_enabled (env_out E) (srtla_output_link_id (Some (c_str (lr_id (dk_links d ! row))))) b o_ref = (r, o')"
      "setCheckState E row b d = d\<lparr>dk_output := Some o'\<rparr>"
proof (cases "lr_use (dk_links d ! row) = b")
  case True
  then show ?thesis by (rule same) (simp add: setCheckState_def True)
next
  case False
  have undo: "set_use row (\<not> b) (set_use row b d) = d"
  proof -
    from False have "(dk_links d ! row)\<lparr>lr_use := \<not> b\<rparr> = dk_links d ! row"
      by (cases "dk_links d ! row") auto
    then show ?thesis
      using row by (simp add: set_use_def)
  qed
  show ?thesis
  proof (cases "dk_running d \<and> dk_output d \<noteq> None")
    case idle_case: False
    show ?thesis
      by (rule idle [OF False idle_case])
        (use False idle_case assms in \<open>auto simp: setCheckState_def on_use_changed_def accept_use_def Let_def
          split: option.split\<close>)
  next
    case True
    then obtain o_ref where run: "dk_running d" and out: "dk_output d = Some o_ref" by auto
    let ?i = "srtla_output_link_id (Some (c_str (lr_id (dk_links d ! row))))"
    obtain r o' where call: "output_set_link_enabled (env_out E) ?i b o_ref = (r, o')" by fastforce
    have step: "setCheckState E row b d = (if r \<noteq> 0 then d\<lparr>dk_output := Some o'\<rparr> else accept_use E row b (d\<lparr>dk_output := Some o'\<rparr>))"
      using False run out call assms undo
      by (simp add: setCheckState_def on_use_changed_def Let_def accept_use_def set_use_output)
    show ?thesis
    proof (cases "r = 0")
      case True
      then show ?thesis using accepted [OF False run out] call step by simp
    next
      case r: False
      then show ?thesis using refused [OF False run out r call] step by simp
    qed
  qed
qed

lemma saveSelectedLinks_table:
  "dk_links (saveSelectedLinks E d) = dk_links d" "dk_current_row (saveSelectedLinks E d) = dk_current_row d"
  "dk_show_all (saveSelectedLinks E d) = dk_show_all d" "dk_selected (saveSelectedLinks E d) = dk_selected d"
  using core_parts(3) [OF core_profile(5), of E d] by (simp_all add: table_def)

lemma accept_use_ok:
  assumes "view_ok d" and "checks_ok d" and row: "row < length (dk_links d)"
  shows "view_ok (accept_use E row b d)" "checks_ok (accept_use E row b d)"
    "dk_selected (accept_use E row b d) = (dk_selected d)(lr_id (dk_links d ! row) \<mapsto> b)"
proof -
  let ?r = "dk_links d ! row"
  have dist: "distinct (map lr_id (dk_links d))"
    using assms(1) by (simp add: view_ok_def)
  show "view_ok (accept_use E row b d)"
    unfolding accept_use_def using view_ok_cursor [OF assms(1)]
    by (intro applyAdapterVisibility_view_ok)
      (auto simp: saveSelectedLinks_table set_use_def intro: rows_complete_update)
  have "r = ?r\<lparr>lr_use := b\<rparr> \<or> (r \<in> set (dk_links d) \<and> lr_id r \<noteq> lr_id ?r)"
    if r_in: "r \<in> set ((dk_links d)[row := ?r\<lparr>lr_use := b\<rparr>])" for r
  proof -
    from r_in obtain i where i: "i < length (dk_links d)" "r = (dk_links d)[row := ?r\<lparr>lr_use := b\<rparr>] ! i"
      by (auto simp: in_set_conv_nth)
    show ?thesis
    proof (cases "i = row")
      case False
      with i have "r = dk_links d ! i" by simp
      moreover have "lr_id (dk_links d ! i) \<noteq> lr_id ?r"
        using False i(1) row dist by (simp add: distinct_conv_nth)
      ultimately show ?thesis using i(1) by simp
    qed (use i in simp)
  qed
  then have "checks_ok ((set_use row b d)\<lparr>dk_selected := (dk_selected d)(lr_id ?r \<mapsto> b)\<rparr>)"
    using assms(2) by (fastforce simp: checks_ok_def set_use_def)
  then show "checks_ok (accept_use E row b d)"
    by (simp add: accept_use_def) (simp add: checks_ok_def saveSelectedLinks_table)
  show "dk_selected (accept_use E row b d) = (dk_selected d)(lr_id ?r \<mapsto> b)"
    by (simp add: accept_use_def applyAdapterVisibility_fields saveSelectedLinks_table)
qed

lemma setCheckState_ok:
  assumes "view_ok d" and "checks_ok d" and "dk_connected d" and "row < length (dk_links d)"
  shows "view_ok (setCheckState E row b d) \<and> checks_ok (setCheckState E row b d)"
  using assms(3,4)
proof (cases rule: setCheckState_cases [of d row b E])
  case (accepted o_ref o')
  have "view_ok (d\<lparr>dk_output := Some o'\<rparr>)" "checks_ok (d\<lparr>dk_output := Some o'\<rparr>)"
    using assms by (simp_all add: view_ok_def checks_ok_def)
  from accept_use_ok(1,2) [OF this] accepted assms(4) show ?thesis by simp
next
  case (refused o_ref r o')
  then show ?thesis using assms by (simp add: view_ok_def checks_ok_def)
qed (use assms accept_use_ok(1,2) [OF assms(1,2,4)] in simp_all)

lemma select_index_present: "dk_selected d key = Some b \<Longrightarrow> select_index key d = (b, d)"
  by (simp add: select_index_def)

text \<open>Reading the status never adds an entry to the selection.\<close>

lemma idle_links_present:
  assumes "\<forall>r\<in>set rows. dk_selected d (lr_id r) = Some (lr_use r)"
  shows "idle_links rows d = (map (\<lambda>r. JObj [(''id'', JStr (link_id_text (lr_id r))), (''label'', JStr (lr_label r)),
      (''admin_enabled'', JBool (lr_use r)), (''connected'', JBool False), (''state'', JStr ''Idle'')]) rows, d)"
  using assms by (induction rows) (simp_all add: select_index_present)

lemma websocketStatusJson_same: "checks_ok d \<Longrightarrow> snd (websocketStatusJson E d) = d"
  by (auto simp: websocketStatusJson_def idle_status_def checks_ok_def idle_links_present Let_def
      split: bool.split option.split prod.split)

section \<open>The refresh\<close>

lemma try_emplace_le:
  assumes "try_emplace k b m = (c, m')"
  shows "m \<subseteq>\<^sub>m m'" "m' k = Some c"
  using assms by (auto simp: try_emplace_def map_le_def split: option.splits)

lemma refresh_rows_spec:
  assumes "length rows = length adapters" and "refresh_rows q key rows adapters selected = (rows', selected', vis, title)"
    and "map lr_id rows = map na_id adapters"
  shows "map lr_id rows' = map lr_id rows \<and> map lr_hidden rows' = map lr_hidden rows
    \<and> map lr_cells rows' = map lr_cells rows \<and> (\<not> vis \<longrightarrow> map lr_use rows' = map lr_use rows)
    \<and> selected \<subseteq>\<^sub>m selected' \<and> (\<forall>(k, b)\<in>set (checks rows'). selected' k = Some b)"
  using assms
proof (induction rows adapters arbitrary: selected rows' selected' vis title rule: list_induct2)
  case Nil
  then show ?case by (simp add: checks_def)
next
  case (Cons r rows a adapters)
  obtain desired selected1 where e: "try_emplace (na_id a) (na_enabled a) selected = (desired, selected1)"
    by fastforce
  obtain rows1 selected2 v1 t1 where rec: "refresh_rows q key rows adapters selected1 = (rows1, selected2, v1, t1)"
    by (cases "refresh_rows q key rows adapters selected1")
  have eqs: "rows' = r\<lparr>lr_use := desired, lr_label := adapter_label q a, lr_state := adapter_state a\<rparr> # rows1"
    "selected' = selected2" "vis = (lr_use r \<noteq> desired \<or> v1)"
    using Cons.prems(1) e rec by (auto simp: Let_def)
  from Cons.prems(2) have "map lr_id rows = map na_id adapters" "lr_id r = na_id a" by simp_all
  with Cons.IH [OF rec] eqs try_emplace_le [OF e] show ?case
    by (auto simp: checks_def map_le_def dom_def)
qed

lemma build_rows_spec:
  assumes "build_rows q w adapters selected histories = (rows, selected', histories')"
    and "\<forall>a\<in>set adapters. fromUtf8 q (na_id a) = na_id a"
  shows "map lr_id rows = map na_id adapters \<and> list_all (\<lambda>n. n = 6) (map (length \<circ> lr_cells) rows)
    \<and> selected \<subseteq>\<^sub>m selected' \<and> (\<forall>(k, b)\<in>set (checks rows). selected' k = Some b)"
  using assms
proof (induction adapters arbitrary: selected histories rows selected' histories')
  case Nil
  then show ?case by (simp add: checks_def)
next
  case (Cons a adapters)
  obtain enabled selected1 where e: "try_emplace (na_id a) (na_enabled a) selected = (enabled, selected1)"
    by fastforce
  let ?h = "histories(na_id a \<mapsto> case histories (na_id a) of None \<Rightarrow> empty_history | Some h \<Rightarrow> h)"
  obtain rows1 selected2 h2 where rec: "build_rows q w adapters selected1 ?h = (rows1, selected2, h2)"
    by (cases "build_rows q w adapters selected1 ?h")
  obtain r where eqs: "rows = r # rows1" "selected' = selected2" "lr_id r = fromUtf8 q (na_id a)" "lr_use r = enabled"
    "length (lr_cells r) = 6"
    using Cons.prems(1) e rec by (auto simp: Let_def)
  from Cons.IH [OF rec] Cons.prems(2) eqs try_emplace_le [OF e] show ?case
    by (auto simp: checks_def map_le_def dom_def)
qed

lemma topology_same:
  "\<not> topology_changed rows adapters \<longleftrightarrow> map lr_id rows = map na_id adapters"
proof -
  have "list_all (\<lambda>(r, a). lr_id r = na_id a) (zip rows adapters) \<longleftrightarrow> map lr_id rows = map na_id adapters"
    if "length rows = length adapters"
    using that by (induction rows adapters rule: list_induct2) auto
  moreover have "map lr_id rows = map na_id adapters \<Longrightarrow> length rows = length adapters"
    by (metis length_map)
  ultimately show ?thesis
    by (auto simp: topology_changed_def list_ex_iff list_all_iff)
qed

text \<open>What the refresh relies on: adapter identifiers that are valid text and distinct, and Qt's current row.\<close>

definition adapters_ok :: "qt \<Rightarrow> network_adapter list \<Rightarrow> bool" where
  "adapters_ok q adapters \<longleftrightarrow> distinct (map na_id adapters) \<and> (\<forall>a\<in>set adapters. fromUtf8 q (na_id a) = na_id a)"

definition qt_rows_ok :: "qt \<Rightarrow> bool" where
  "qt_rows_ok q \<longleftrightarrow> (\<forall>n row. 0 \<le> n \<longrightarrow> - 1 \<le> row_after_shrink q n row \<and> row_after_shrink q n row < n)"

lemma shown_maps_eq:
  assumes "rows = shown a rows" and "map lr_use rows' = map lr_use rows" and "map lr_hidden rows' = map lr_hidden rows"
  shows "rows' = shown a rows'"
proof -
  have len: "length rows' = length rows"
    using assms(2) by (metis length_map)
  have use: "filter lr_use rows' = [] \<longleftrightarrow> filter lr_use rows = []"
    using assms(2) by (metis (no_types, lifting) filter_empty_conv in_set_conv_nth length_map nth_map)
  have "(shown a rows') ! i = rows' ! i" if "i < length rows'" for i
  proof -
    have "lr_hidden (rows ! i) = (\<not> ((a \<or> filter lr_use rows = []) \<or> lr_use (rows ! i)))"
      using arg_cong [OF assms(1), of "\<lambda>rs. lr_hidden (rs ! i)"] that len by (simp add: shown_def hide_rows_def)
    moreover have "lr_use (rows' ! i) = lr_use (rows ! i)" "lr_hidden (rows' ! i) = lr_hidden (rows ! i)"
      using assms(2,3) that len by (metis nth_map)+
    ultimately show ?thesis
      using that use by (cases "rows' ! i") (simp add: shown_def hide_rows_def)
  qed
  then show ?thesis by (auto intro: nth_equalityI simp: shown_maps)
qed

lemma cursor_ok_maps:
  assumes "cursor_ok rows row key" and "map lr_id rows' = map lr_id rows" and "map lr_hidden rows' = map lr_hidden rows"
  shows "cursor_ok rows' row key"
proof -
  have len: "length rows' = length rows"
    using assms(2) by (metis length_map)
  show ?thesis
  proof (cases "rows = []")
    case False
    with assms(1) have "0 \<le> row" "nat row < length rows"
      by (auto simp: cursor_ok_def)
    then have "lr_id (rows' ! nat row) = lr_id (rows ! nat row)" "lr_hidden (rows' ! nat row) = lr_hidden (rows ! nat row)"
      using assms(2,3) len by (metis nth_map)+
    with assms(1) len False show ?thesis by (auto simp: cursor_ok_def)
  qed (use assms(1) len in \<open>auto simp: cursor_ok_def\<close>)
qed

lemma table_ok_display [simp]:
  "view_ok (updateHistoryPanel q d) = view_ok d" "checks_ok (updateHistoryPanel q d) = checks_ok d"
  "view_ok (notify_adapters E d) = view_ok d" "checks_ok (notify_adapters E d) = checks_ok d"
  using table_ok_cong [OF core_parts(3) [OF core_display(2)], of q d] table_ok_cong [OF output_ops_parts(3), of E d]
  by simp_all

lemma refresh_same_ok:
  assumes "view_ok d" and same: "\<not> topology_changed (dk_links d) adapters"
  shows "view_ok (refreshAdapters E adapters d)" "checks_ok (refreshAdapters E adapters d)"
proof -
  obtain rows selected vis title where
    r: "refresh_rows (env_qt E) (dk_selected_link_key d) (dk_links d) adapters (dk_selected d) = (rows, selected, vis, title)"
    by (cases "refresh_rows (env_qt E) (dk_selected_link_key d) (dk_links d) adapters (dk_selected d)")
  have ids: "map lr_id (dk_links d) = map na_id adapters"
    using same by (simp add: topology_same)
  then have "length (dk_links d) = length adapters" by (metis length_map)
  note spec = refresh_rows_spec [OF this r ids]
  let ?d = "d\<lparr>dk_links := rows, dk_selected := selected\<rparr>"
  have checks: "checks_ok ?d" and len: "length rows = length (dk_links d)"
    using spec by (simp add: checks_ok_alt, metis length_map)
  have "map (length \<circ> lr_cells) rows = map (length \<circ> lr_cells) (dk_links d)"
    using spec by (metis map_map)
  then have complete: "rows_complete rows"
    using spec view_ok_cursor(3) [OF assms(1)] by (simp add: rows_complete_def)
  have "view_ok ?d" if "\<not> vis"
    using assms(1) spec that complete
    by (auto simp: view_ok_alt intro: shown_maps_eq cursor_ok_maps)
  moreover have "view_ok (applyAdapterVisibility (env_qt E) ?d)"
    using view_ok_cursor [OF assms(1)] complete len by (intro applyAdapterVisibility_view_ok) simp_all
  moreover note refreshAdapters_same [OF same r]
  ultimately show "view_ok (refreshAdapters E adapters d)" "checks_ok (refreshAdapters E adapters d)"
    using checks by (simp_all split: if_splits)
qed

lemma restored_row_current:
  assumes "cursor_ok rows row key" and "distinct (map lr_id rows)" and "rows \<noteq> []"
  shows "restored_row key rows = row"
proof -
  have r: "0 \<le> row" "nat row < length rows" "\<not> lr_hidden (rows ! nat row)" "key = lr_id (rows ! nat row)"
    using assms(1,3) by (auto simp: cursor_ok_def)
  let ?P = "\<lambda>r. lr_id r = key \<and> \<not> lr_hidden r"
  have "\<exists>x\<in>set (rev rows). ?P x"
    using r by auto
  then obtain i where i: "find_index ?P (rev rows) = Some i"
    by (cases "find_index ?P (rev rows)") (auto simp: find_index_None)
  from find_index_Some [OF i] have len: "i < length rows" and "lr_id (rows ! (length rows - Suc i)) = key"
    by (auto simp: rev_nth)
  then have "length rows - Suc i = nat row"
    using assms(2) r by (simp add: distinct_conv_nth) (metis diff_less length_pos_if_in_set nth_mem zero_less_Suc)
  then have "int (length rows) - 1 - int i = row"
    using len r(1) by linarith
  with i show ?thesis by (simp add: restored_row_def)
qed

lemma restore_selection_ok:
  assumes "view_ok d"
  shows "view_ok (restore_selection d)" "checks_ok (restore_selection d) = checks_ok d"
proof -
  show "checks_ok (restore_selection d) = checks_ok d"
    by (simp add: restore_selection_def checks_ok_def Let_def)
  show "view_ok (restore_selection d)"
  proof (cases "dk_links d = []")
    case True
    with assms show ?thesis
      by (simp add: restore_selection_def restored_row_def view_ok_alt cursor_ok_def Let_def)
  next
    case False
    with assms have r: "restored_row (dk_selected_link_key d) (dk_links d) = dk_current_row d"
      by (intro restored_row_current) (auto simp: view_ok_def)
    have "0 \<le> dk_current_row d" "dk_current_row d < int (length (dk_links d))"
      using assms False by (auto simp: view_ok_def cursor_ok_def)
    with assms r show ?thesis
      by (auto simp: restore_selection_def view_ok_alt cursor_ok_def row_key_def Let_def)
  qed
qed

lemma refresh_changed_ok:
  assumes "view_ok d" and ad: "adapters_ok (env_qt E) adapters" and "qt_rows_ok (env_qt E)"
    and changed: "topology_changed (dk_links d) adapters"
  shows "view_ok (refreshAdapters E adapters d)" "checks_ok (refreshAdapters E adapters d)"
proof -
  obtain rows selected histories where
    b: "build_rows (env_qt E) (dk_history_window d) adapters (dk_selected d) (dk_link_history d) = (rows, selected, histories)"
    by (cases "build_rows (env_qt E) (dk_history_window d) adapters (dk_selected d) (dk_link_history d)")
  note spec = build_rows_spec [OF b]
  have ids: "map lr_id rows = map na_id adapters" and cells: "list_all (\<lambda>n. n = 6) (map (length \<circ> lr_cells) rows)"
    and checks: "\<forall>(k, b)\<in>set (checks rows). selected k = Some b"
    using spec ad by (simp_all add: adapters_ok_def)
  have len: "length rows = length adapters"
    using ids by (metis length_map)
  let ?row = "if length adapters < length (dk_links d)
    then row_after_shrink (env_qt E) (int (length adapters)) (dk_current_row d) else dk_current_row d"
  have row: "- 1 \<le> ?row" "?row < int (length rows)"
    using assms(3) view_ok_cursor [OF assms(1)] len by (auto simp: qt_rows_ok_def)
  have view: "view_ok (rebuilt E adapters d)"
    unfolding rebuilt_def b prod.case using row ids cells ad
    by (intro applyAdapterVisibility_view_ok) (simp_all add: rows_complete_def adapters_ok_def)
  have "checks_ok (rebuilt E adapters d)"
    unfolding rebuilt_def b prod.case using checks by (simp only: applyAdapterVisibility_checks_ok) (simp add: checks_ok_alt)
  with view restore_selection_ok [OF view]
  show "view_ok (refreshAdapters E adapters d)" "checks_ok (refreshAdapters E adapters d)"
    by (simp_all add: refreshAdapters_changed [OF changed])
qed

lemma refreshAdapters_ok:
  assumes "view_ok d" and "adapters_ok (env_qt E) adapters" and "qt_rows_ok (env_qt E)"
  shows "view_ok (refreshAdapters E adapters d)" "checks_ok (refreshAdapters E adapters d)"
  using refresh_same_ok [OF assms(1)] refresh_changed_ok [OF assms]
  by (cases "topology_changed (dk_links d) adapters"; simp)+

text \<open>Telemetry changes neither identifiers nor check boxes.\<close>

lemma list_update_map_same: "i < length xs \<Longrightarrow> f y = f (xs ! i) \<Longrightarrow> map f (xs[i := y]) = map f xs"
  by (simp add: map_update list_update_same_conv)

lemma refresh_link_row_ok:
  assumes "view_ok d" and "checks_ok d"
  shows "view_ok (refresh_link_row q link d) \<and> checks_ok (refresh_link_row q link d)"
proof (cases "find_index (\<lambda>r. link_id_text (lr_id r) = variantString (jvalue ''id'' link)) (dk_links d)")
  case (Some row)
  then have row: "row < length (dk_links d)"
    by (blast dest: find_index_Some)
  obtain r h where eq: "refresh_link_row q link d = d\<lparr>dk_links := (dk_links d)[row := r], dk_link_history := h\<rparr>"
    and r: "lr_id r = lr_id (dk_links d ! row)" "lr_use r = lr_use (dk_links d ! row)"
      "lr_hidden r = lr_hidden (dk_links d ! row)" "length (lr_cells r) = 6"
    using Some by (simp add: refresh_link_row_def Let_def)
  let ?rows = "(dk_links d)[row := r]"
  have maps: "map lr_id ?rows = map lr_id (dk_links d)" "map lr_use ?rows = map lr_use (dk_links d)"
    "map lr_hidden ?rows = map lr_hidden (dk_links d)" "checks ?rows = checks (dk_links d)"
    using row r by (simp_all add: list_update_map_same checks_def)
  have "length (lr_cells (dk_links d ! row)) = 6"
    using assms(1) row by (auto simp: view_ok_def)
  then have "rows_complete ?rows"
    using view_ok_cursor(3) [OF assms(1)] r by (intro rows_complete_update) simp_all
  with assms(1) maps have "view_ok (refresh_link_row q link d)"
    unfolding eq view_ok_alt by (auto intro: shown_maps_eq [of "dk_links d"] cursor_ok_maps [of "dk_links d"])
  moreover have "checks_ok (refresh_link_row q link d)"
    using assms(2) maps(4) unfolding eq checks_ok_alt by simp
  ultimately show ?thesis ..
qed (use assms in \<open>simp_all add: refresh_link_row_def\<close>)

lemma show_status_ok:
  assumes "view_ok d" and "checks_ok d"
  shows "view_ok (show_status q status d) \<and> checks_ok (show_status q status d)"
proof -
  let ?d = "fold (refresh_link_row q) (toArray (jvalue ''links'' status)) d"
  have "view_ok ?d \<and> checks_ok ?d"
    using assms by (intro fold_invariant [where P = "\<lambda>d. view_ok d \<and> checks_ok d"]) (simp_all add: refresh_link_row_ok)
  moreover have "table (show_status q status d) = table ?d"
    by (simp add: show_status_def Let_def)
  ultimately show ?thesis using table_ok_cong by blast
qed

lemma refreshStatus_ok:
  assumes "view_ok d" and "checks_ok d"
  shows "view_ok (refreshStatus E E2 d) \<and> checks_ok (refreshStatus E E2 d)"
  using refreshStatus_core [of E E2 d]
proof
  assume "\<exists>status. core (refreshStatus E E2 d) = core (snd (websocketStatusJson E2 (show_status (env_qt E) status d)))"
  then obtain status where
    "core (refreshStatus E E2 d) = core (snd (websocketStatusJson E2 (show_status (env_qt E) status d)))" ..
  with show_status_ok [OF assms, of "env_qt E" status]
  have "core (refreshStatus E E2 d) = core (show_status (env_qt E) status d)"
    by (simp add: websocketStatusJson_same)
  from table_ok_cong [OF core_parts(3) [OF this]] show_status_ok [OF assms, of "env_qt E" status] show ?thesis
    by simp
qed (use assms in simp)

section \<open>References to OBS objects\<close>

fun held :: "obs_ref \<Rightarrow> ref_event list \<Rightarrow> int" where
  "held r [] = 0"
| "held r (Obtain x # es) = (if x = r then 1 else 0) + held r es"
| "held r (Release x # es) = (if x = r then - 1 else 0) + held r es"

lemma held_append [simp]: "held r (es @ fs) = held r es + held r fs"
  by (induction r es rule: held.induct) simp_all

lemma ref_refs [simp]: "dk_refs (ref e d) = dk_refs d @ [e]"
  by (simp add: ref_def)

lemma display_refs [simp]:
  "dk_refs (view_update f d) = dk_refs d" "dk_refs (set_state_text s d) = dk_refs d"
  "dk_refs (update_settings g d) = dk_refs d" "dk_refs (snd (saveProfile E d)) = dk_refs d"
  using core_parts(4) [OF core_display(1), of f d] core_parts(4) [OF core_display(5), of s d]
    core_parts(4) [OF core_profile(6), of E d]
  by (simp_all add: handles_def update_settings_def)

text \<open>What a start holds on to between obtaining the encoders and its end.\<close>

fun acquired :: "bool \<Rightarrow> encoder_ref option \<Rightarrow> encoder_ref option \<Rightarrow> obs_ref \<Rightarrow> int" where
  "acquired custom v a RefSourceOutput = (if custom then 0 else 1)"
| "acquired custom v a RefVideoEncoder = (if custom \<and> v \<noteq> None then 1 else 0)"
| "acquired custom v a RefAudioEncoder = (if custom \<and> a \<noteq> None then 1 else 0)"
| "acquired custom v a _ = 0"

lemma release_acquired_held: "held r (dk_refs (release_acquired c v a d)) = held r (dk_refs d) - acquired c v a r"
  by (cases r) (simp_all add: release_acquired_def Let_def)

lemma acquire_shared_held:
  "acquire_shared E s d = Inl d' \<Longrightarrow> held r (dk_refs d') = held r (dk_refs d)"
  "acquire_shared E s d = Inr (d', v, a) \<Longrightarrow> held r (dk_refs d') = held r (dk_refs d) + acquired False v a r"
  by (cases r; auto simp: acquire_shared_def Let_def split: option.splits if_splits)+

lemma acquire_custom_held:
  "acquire_custom E d = Inl d' \<Longrightarrow> held r (dk_refs d') = held r (dk_refs d)"
  "acquire_custom E d = Inr (d', v, a) \<Longrightarrow> held r (dk_refs d') = held r (dk_refs d) + acquired True v a r"
  by (cases r; auto simp: acquire_custom_def create_custom_video_encoder_def create_custom_audio_encoder_def Let_def
      split: option.splits if_splits)+

lemma check_codecs_held:
  "check_codecs c v a d = Inl d' \<Longrightarrow> held r (dk_refs d') = held r (dk_refs d) - acquired c v a r"
  "check_codecs c v a d = Inr (d', v', a') \<Longrightarrow> d' = d \<and> v' = v \<and> a' = a \<and> v \<noteq> None"
  by (auto simp: check_codecs_def release_acquired_held split: if_splits)

lemma phase_fields:
  "dk_connected (ref e d) = dk_connected d" "dk_running (ref e d) = dk_running d" "dk_output (ref e d) = dk_output d"
  "dk_settings (ref e d) = dk_settings d"
  "dk_connected (release_acquired c v a d) = dk_connected d" "dk_running (release_acquired c v a d) = dk_running d"
  "dk_output (release_acquired c v a d) = dk_output d" "dk_settings (release_acquired c v a d) = dk_settings d"
  "dk_connected (update_settings g d) = dk_connected d" "dk_running (update_settings g d) = dk_running d"
  "dk_output (update_settings g d) = dk_output d" "dk_settings (update_settings g d) = map_option g (dk_settings d)"
  "dk_connected (view_update f d) = dk_connected d" "dk_running (view_update f d) = dk_running d"
  "dk_output (view_update f d) = dk_output d" "dk_settings (view_update f d) = dk_settings d"
  "dk_connected (set_state_text s d) = dk_connected d" "dk_running (set_state_text s d) = dk_running d"
  "dk_output (set_state_text s d) = dk_output d" "dk_settings (set_state_text s d) = dk_settings d"
  by (simp_all add: ref_def release_acquired_def update_settings_def view_update_def set_state_text_def Let_def)

lemma ensure_output_handles:
  "dk_connected (ensure_output E d) = dk_connected d" "dk_running (ensure_output E d) = dk_running d"
  "dk_settings (ensure_output E d) = None \<longleftrightarrow> dk_settings d = None"
  "dk_output d \<noteq> None \<Longrightarrow> dk_output (ensure_output E d) \<noteq> None"
  "held r (dk_refs (ensure_output E d)) =
     held r (dk_refs d) + (if r = RefOutput \<and> dk_output d = None \<and> dk_output (ensure_output E d) \<noteq> None then 1 else 0)"
  by (auto simp: ensure_output_def phase_fields split: option.split)

lemma launch_handles:
  assumes "dk_settings d \<noteq> None" and "\<not> dk_running d"
  shows "dk_connected (launch E s v a d) = dk_connected d" "dk_settings (launch E s v a d) \<noteq> None"
    "dk_running (launch E s v a d) \<Longrightarrow> dk_output (launch E s v a d) \<noteq> None"
    "held r (dk_refs (launch E s v a d)) = held r (dk_refs d) - acquired (s = ''custom'') v a r
       + (if r = RefOutput \<and> dk_output d = None \<and> dk_output (launch E s v a d) \<noteq> None then 1 else 0)"
    "dk_output d \<noteq> None \<Longrightarrow> dk_output (launch E s v a d) \<noteq> None"
proof -
  define d1 where "d1 = ensure_output E (update_settings (output_settings E s v a d) d)"
  have d1: "dk_connected d1 = dk_connected d" "\<not> dk_running d1" "dk_settings d1 \<noteq> None"
    "dk_output d \<noteq> None \<Longrightarrow> dk_output d1 \<noteq> None"
    "held r (dk_refs d1) = held r (dk_refs d) + (if r = RefOutput \<and> dk_output d = None \<and> dk_output d1 \<noteq> None then 1 else 0)" for r
    using assms unfolding d1_def by (simp_all add: ensure_output_handles phase_fields)
  consider (fail) "dk_output d1 = None"
      "launch E s v a d = set_state_text ''Error: OBS output unavailable'' (release_acquired (s = ''custom'') v a d1)"
    | (start) o1 o3 s3 d3 where "dk_output d1 \<noteq> None"
        "core (launch E s v a d) = core ((release_acquired (s = ''custom'') v a (d1\<lparr>dk_output := Some o1\<rparr>))
           \<lparr>dk_output := Some o3, dk_settings := Some s3, dk_running := d3\<rparr>)"
  proof (cases "dk_output d1")
    case None
    then show ?thesis using fail by (simp add: launch_def Let_def flip: d1_def)
  next
    case (Some o_ref)
    let ?o1 = "obs_output_set_audio_encoder (env_out E) a (obs_output_set_video_encoder (env_out E) v o_ref)"
    let ?d2 = "release_acquired (s = ''custom'') v a (d1\<lparr>dk_output := Some ?o1\<rparr>)"
    obtain s1 where s1: "dk_settings ?d2 = Some s1"
      using d1(3) by (auto simp: phase_fields)
    obtain o2 s2 where o2: "obs_output_update (env_out E) s1 ?o1 = (o2, s2)" by fastforce
    obtain ok o3 where o3: "obs_output_start (env_out E) o2 = (ok, o3)" by fastforce
    have run: "\<not> dk_running ?d2"
      using d1(2) by (simp add: phase_fields)
    have "core (launch E s v a d) = core (?d2\<lparr>dk_output := Some o3, dk_settings := Some s2, dk_running := ok\<rparr>)"
      using Some s1 o2 o3 run by (simp add: launch_def Let_def flip: d1_def) (simp add: part_defs)
    from start [OF _ this] Some show ?thesis by simp
  qed
  then have "handles (launch E s v a d) = handles (set_state_text ''Error: OBS output unavailable'' (release_acquired (s = ''custom'') v a d1))
        \<and> dk_output d1 = None
      \<or> (\<exists>o1 o3 s3 b. dk_output d1 \<noteq> None \<and> handles (launch E s v a d) =
          handles ((release_acquired (s = ''custom'') v a (d1\<lparr>dk_output := Some o1\<rparr>))
           \<lparr>dk_output := Some o3, dk_settings := Some s3, dk_running := b\<rparr>))"
    by (metis core_parts(4))
  then show "dk_connected (launch E s v a d) = dk_connected d" "dk_settings (launch E s v a d) \<noteq> None"
    "dk_running (launch E s v a d) \<Longrightarrow> dk_output (launch E s v a d) \<noteq> None"
    "held r (dk_refs (launch E s v a d)) = held r (dk_refs d) - acquired (s = ''custom'') v a r
       + (if r = RefOutput \<and> dk_output d = None \<and> dk_output (launch E s v a d) \<noteq> None then 1 else 0)"
    "dk_output d \<noteq> None \<Longrightarrow> dk_output (launch E s v a d) \<noteq> None"
    using d1 by (auto simp: handles_def phase_fields release_acquired_held)
qed

text \<open>The phases up to the codec check, and the exits after it that keep what was obtained.\<close>

definition toggle_checked :: "('c, 'd, 'o) dock_env \<Rightarrow> ('c, 'd, 'o) dock \<Rightarrow> ('c, 'd, 'o) toggle_phase" where
  "toggle_checked E d =
     (let source = currentData (dk_encoder_source d)
      in go_on (if source \<noteq> ''custom'' then acquire_shared E source d else acquire_custom E d)
           (check_codecs (source = ''custom'')))"

definition leaked :: "('c, 'd, 'o) dock_env \<Rightarrow> ('c, 'd, 'o) dock \<Rightarrow> obs_ref \<Rightarrow> int" where
  "leaked E d r =
     (case toggle_checked E (ensure_settings E d) of
        Inl _ \<Rightarrow> 0
      | Inr (d1, v, a) \<Rightarrow>
          if dk_secret_error d1 \<or> \<not> fst (saveProfile E d1)
          then acquired (currentData (dk_encoder_source d) = ''custom'') v a r else 0)"

lemma toggle_phases_checked: "toggle_phases E d = go_on (toggle_checked E d) (store_profile E)"
  by (simp add: toggle_phases_def toggle_checked_def Let_def)

lemma acquire_held:
  assumes "(if s \<noteq> ''custom'' then acquire_shared E s d else acquire_custom E d) = p"
  shows "p = Inl d' \<Longrightarrow> held r (dk_refs d') = held r (dk_refs d)"
    "p = Inr (d', v, a) \<Longrightarrow> held r (dk_refs d') = held r (dk_refs d) + acquired (s = ''custom'') v a r"
  using assms acquire_shared_held [of E s d] acquire_custom_held [of E d] by (auto split: if_splits)

lemma toggle_checked_held:
  "toggle_checked E d = Inl d' \<Longrightarrow> held r (dk_refs d') = held r (dk_refs d)"
  "toggle_checked E d = Inr (d', v, a) \<Longrightarrow>
     held r (dk_refs d') = held r (dk_refs d) + acquired (currentData (dk_encoder_source d) = ''custom'') v a r"
proof -
  let ?s = "currentData (dk_encoder_source d)"
  let ?p = "if ?s \<noteq> ''custom'' then acquire_shared E ?s d else acquire_custom E d"
  note a = acquire_held [OF refl, of ?s E d]
  show "held r (dk_refs d') = held r (dk_refs d)" if "toggle_checked E d = Inl d'"
  proof (cases ?p rule: phase_dock.cases)
    case (1 d1)
    then show ?thesis using a(1) that by (auto simp: toggle_checked_def Let_def)
  next
    case (2 d1 v a')
    then have "check_codecs (?s = ''custom'') v a' d1 = Inl d'"
      using that by (simp add: toggle_checked_def Let_def)
    from check_codecs_held(1) [OF this, of r] a(2) [OF 2, of r] show ?thesis by simp
  qed
  show "held r (dk_refs d') = held r (dk_refs d) + acquired (?s = ''custom'') v a r"
    if "toggle_checked E d = Inr (d', v, a)"
  proof (cases ?p rule: phase_dock.cases)
    case (1 d1)
    then show ?thesis using that by (simp add: toggle_checked_def Let_def split: if_splits)
  next
    case (2 d1 v1 a1)
    then have "check_codecs (?s = ''custom'') v1 a1 d1 = Inr (d', v, a)"
      using that by (simp add: toggle_checked_def Let_def)
    from check_codecs_held(2) [OF this] a(2) [OF 2, of r] show ?thesis by simp
  qed
qed

lemma toggle_phases_held:
  "toggle_phases E d = Inl d' \<Longrightarrow> held r (dk_refs d') = held r (dk_refs d) +
     (case toggle_checked E d of Inl _ \<Rightarrow> 0 | Inr (d1, v, a) \<Rightarrow>
        if dk_secret_error d1 \<or> \<not> fst (saveProfile E d1)
        then acquired (currentData (dk_encoder_source d) = ''custom'') v a r else 0)"
  "toggle_phases E d = Inr (d', v, a) \<Longrightarrow>
     held r (dk_refs d') = held r (dk_refs d) + acquired (currentData (dk_encoder_source d) = ''custom'') v a r
     \<and> (\<exists>d1. toggle_checked E d = Inr (d1, v, a) \<and> \<not> dk_secret_error d1 \<and> fst (saveProfile E d1))"
proof -
  note save = display_refs(4) [of E]
  show "held r (dk_refs d') = held r (dk_refs d) +
     (case toggle_checked E d of Inl _ \<Rightarrow> 0 | Inr (d1, v, a) \<Rightarrow>
        if dk_secret_error d1 \<or> \<not> fst (saveProfile E d1)
        then acquired (currentData (dk_encoder_source d) = ''custom'') v a r else 0)"
    if "toggle_phases E d = Inl d'"
  proof (cases "toggle_checked E d" rule: phase_dock.cases)
    case (1 d1)
    then show ?thesis using that toggle_checked_held(1) [OF 1, of r] by (simp add: toggle_phases_checked)
  next
    case (2 d1 v a)
    then show ?thesis
      using that toggle_checked_held(2) [OF 2, of r] save [of d1]
      by (cases "saveProfile E d1") (auto simp: toggle_phases_checked store_profile_def split: if_splits)
  qed
  show "held r (dk_refs d') = held r (dk_refs d) + acquired (currentData (dk_encoder_source d) = ''custom'') v a r
     \<and> (\<exists>d1. toggle_checked E d = Inr (d1, v, a) \<and> \<not> dk_secret_error d1 \<and> fst (saveProfile E d1))"
    if "toggle_phases E d = Inr (d', v, a)"
  proof (cases "toggle_checked E d" rule: phase_dock.cases)
    case (1 d1)
    then show ?thesis using that by (simp add: toggle_phases_checked)
  next
    case (2 d1 v1 a1)
    then show ?thesis
      using that toggle_checked_held(2) [OF 2, of r] save [of d1]
      by (cases "saveProfile E d1") (auto simp: toggle_phases_checked store_profile_def split: if_splits)
  qed
qed

lemma ensure_settings_fields:
  "dk_running (ensure_settings E d) = dk_running d" "dk_settings (ensure_settings E d) \<noteq> None"
  "dk_connected (ensure_settings E d) = dk_connected d" "dk_output (ensure_settings E d) = dk_output d"
  "dk_encoder_source (ensure_settings E d) = dk_encoder_source d"
  "held r (dk_refs (ensure_settings E d)) = held r (dk_refs d) + (if r = RefSettings \<and> dk_settings d = None then 1 else 0)"
  by (auto simp: ensure_settings_def ref_def split: option.split)

definition flags :: "('c, 'd, 'o) dock \<Rightarrow> bool \<times> bool \<times> 'o option \<times> 'd option" where
  "flags d = (dk_connected d, dk_running d, dk_output d, dk_settings d)"

lemma phase_flags:
  "flags (phase_dock (check_codecs c v a d)) = flags d" "flags (phase_dock (store_profile E v a d)) = flags d"
  "flags (phase_dock (acquire_shared E s d)) = flags d" "flags (phase_dock (acquire_custom E d)) = flags d"
proof -
  show "flags (phase_dock (store_profile E v a d)) = flags d"
    using store_profile_parts(4) [of E v a d] by (simp add: handles_def flags_def)
qed (auto simp: check_codecs_def acquire_shared_def acquire_custom_def create_custom_video_encoder_def
    create_custom_audio_encoder_def flags_def phase_fields Let_def split: option.split)

lemma toggle_phases_flags: "flags (phase_dock (toggle_phases E d)) = flags d"
  by (simp add: toggle_phases_def Let_def go_on_keeps [where P = flags] phase_flags)

section \<open>Handles\<close>

text \<open>
  \<open>c\<close>: whether the handlers are connected. A running dock has an output, an output has settings,
  and the references obtained and released account for exactly the pointers the dock has.
\<close>

definition handles_ok :: "bool \<Rightarrow> ('c, 'd, 'o) dock \<Rightarrow> bool" where
  "handles_ok c d \<longleftrightarrow> dk_connected d = c \<and> (dk_running d \<longrightarrow> dk_output d \<noteq> None) \<and> (dk_output d \<noteq> None \<longrightarrow> dk_settings d \<noteq> None)
     \<and> held RefOutput (dk_refs d) = (if dk_output d = None then 0 else 1)
     \<and> held RefSettings (dk_refs d) = (if dk_settings d = None then 0 else 1)"

lemma handles_ok_cong: "handles d = handles e \<Longrightarrow> handles_ok c d = handles_ok c e"
  by (simp add: handles_def handles_ok_def)

lemma release_fields:
  "dk_running (release_output d) = dk_running d" "dk_output (release_output d) = None"
  "dk_settings (release_output d) = dk_settings d" "dk_connected (release_output d) = dk_connected d"
  "held r (dk_refs (release_output d)) = held r (dk_refs d) - (if r = RefOutput \<and> dk_output d \<noteq> None then 1 else 0)"
  "dk_running (release_settings d) = dk_running d" "dk_output (release_settings d) = dk_output d"
  "dk_settings (release_settings d) = None" "dk_connected (release_settings d) = dk_connected d"
  "held r (dk_refs (release_settings d)) = held r (dk_refs d) - (if r = RefSettings \<and> dk_settings d \<noteq> None then 1 else 0)"
  by (auto simp: release_output_def release_settings_def phase_fields split: option.split)

lemma stopOutput_handles:
  "dk_running (stopOutput E d) = False" "dk_output (stopOutput E d) = None" "dk_settings (stopOutput E d) = None"
  "dk_connected (stopOutput E d) = dk_connected d"
  "held r (dk_refs (stopOutput E d)) = held r (dk_refs d) - (if r = RefOutput \<and> dk_output d \<noteq> None then 1 else 0)
     - (if r = RefSettings \<and> dk_settings d \<noteq> None then 1 else 0)"
proof -
  let ?d = "release_settings (release_output (stop_if_active E (d\<lparr>dk_running := False\<rparr>)))"
  have h: "handles (stopOutput E d) = handles ?d"
    by (simp add: stopOutput_def)
  have s: "dk_running (stop_if_active E (d\<lparr>dk_running := False\<rparr>)) = False"
    "dk_connected (stop_if_active E (d\<lparr>dk_running := False\<rparr>)) = dk_connected d"
    "dk_output (stop_if_active E (d\<lparr>dk_running := False\<rparr>)) = None \<longleftrightarrow> dk_output d = None"
    "dk_settings (stop_if_active E (d\<lparr>dk_running := False\<rparr>)) = dk_settings d"
    "dk_refs (stop_if_active E (d\<lparr>dk_running := False\<rparr>)) = dk_refs d"
    by (auto simp: stop_if_active_def split: option.split)
  show "dk_running (stopOutput E d) = False" "dk_output (stopOutput E d) = None" "dk_settings (stopOutput E d) = None"
    "dk_connected (stopOutput E d) = dk_connected d"
    "held r (dk_refs (stopOutput E d)) = held r (dk_refs d) - (if r = RefOutput \<and> dk_output d \<noteq> None then 1 else 0)
     - (if r = RefSettings \<and> dk_settings d \<noteq> None then 1 else 0)"
    using h s by (auto simp: handles_def release_fields)
qed

lemma stopOutput_handles_ok: "handles_ok c d \<Longrightarrow> handles_ok c (stopOutput E d)"
  by (auto simp: handles_ok_def stopOutput_handles split: if_splits)

text \<open>A start as a whole.\<close>

lemma toggle_start_handles:
  assumes "\<not> dk_running d"
  shows "dk_connected (toggleOutput E d) = dk_connected d" "dk_settings (toggleOutput E d) \<noteq> None"
    "dk_running (toggleOutput E d) \<Longrightarrow> dk_output (toggleOutput E d) \<noteq> None"
    "held r (dk_refs (toggleOutput E d)) = held r (dk_refs d) + leaked E d r
       + (if r = RefSettings \<and> dk_settings d = None then 1 else 0)
       + (if r = RefOutput \<and> dk_output d = None \<and> dk_output (toggleOutput E d) \<noteq> None then 1 else 0)"
    "dk_output d \<noteq> None \<Longrightarrow> dk_output (toggleOutput E d) \<noteq> None"
proof -
  let ?d = "ensure_settings E d"
  note ens = ensure_settings_fields [where E = E and d = d]
  note fl = toggle_phases_flags [of E ?d, unfolded flags_def]
  have "dk_connected (toggleOutput E d) = dk_connected d \<and> dk_settings (toggleOutput E d) \<noteq> None
    \<and> (dk_running (toggleOutput E d) \<longrightarrow> dk_output (toggleOutput E d) \<noteq> None)
    \<and> held r (dk_refs (toggleOutput E d)) = held r (dk_refs d) + leaked E d r
       + (if r = RefSettings \<and> dk_settings d = None then 1 else 0)
       + (if r = RefOutput \<and> dk_output d = None \<and> dk_output (toggleOutput E d) \<noteq> None then 1 else 0)
    \<and> (dk_output d \<noteq> None \<longrightarrow> dk_output (toggleOutput E d) \<noteq> None)"
  proof (cases "toggle_phases E ?d" rule: phase_dock.cases)
    case (1 d1)
    then have "toggleOutput E d = d1"
      using assms by (simp add: toggleOutput_unfold)
    with 1 fl ens assms toggle_phases_held(1) [OF 1, of r, unfolded ensure_settings_fields(5)] show ?thesis
      by (auto simp: leaked_def)
  next
    case (2 d1 v a)
    then have t: "toggleOutput E d = launch E (currentData (dk_encoder_source d)) v a d1"
      using assms ens by (simp add: toggleOutput_unfold)
    from 2 fl ens assms have d1: "dk_settings d1 \<noteq> None" "\<not> dk_running d1" "dk_output d1 = dk_output d"
      "dk_connected d1 = dk_connected d"
      by simp_all
    note l = launch_handles [OF d1(1,2), where E = E and s = "currentData (dk_encoder_source d)" and v = v and a = a]
    from toggle_phases_held(2) [OF 2, of r, unfolded ensure_settings_fields(5)] ens have "leaked E d r = 0"
      "held r (dk_refs d1) = held r (dk_refs ?d) + acquired (currentData (dk_encoder_source d) = ''custom'') v a r"
      by (auto simp: leaked_def)
    with t l l(4) [of r] d1 ens show ?thesis by simp
  qed
  then show "dk_connected (toggleOutput E d) = dk_connected d" "dk_settings (toggleOutput E d) \<noteq> None"
    "dk_running (toggleOutput E d) \<Longrightarrow> dk_output (toggleOutput E d) \<noteq> None"
    "held r (dk_refs (toggleOutput E d)) = held r (dk_refs d) + leaked E d r
       + (if r = RefSettings \<and> dk_settings d = None then 1 else 0)
       + (if r = RefOutput \<and> dk_output d = None \<and> dk_output (toggleOutput E d) \<noteq> None then 1 else 0)"
    "dk_output d \<noteq> None \<Longrightarrow> dk_output (toggleOutput E d) \<noteq> None"
    by simp_all
qed

lemma leaked_own: "leaked E d RefOutput = 0" "leaked E d RefSettings = 0" "leaked E d RefEncoderSettings = 0"
  by (auto simp: leaked_def split: sum.split)

lemma toggleOutput_handles_ok:
  assumes "handles_ok c d"
  shows "handles_ok c (toggleOutput E d)"
proof (cases "dk_running d")
  case True
  then show ?thesis using assms by (simp add: toggleOutput_def stopOutput_handles_ok)
next
  case False
  note h = toggle_start_handles [OF False, where E = E]
  from assms h show ?thesis
    by (auto simp: handles_ok_def leaked_own)
qed

lemma handles_ok_output: "handles_ok c d \<Longrightarrow> dk_output d \<noteq> None \<Longrightarrow> handles_ok c (d\<lparr>dk_output := Some o'\<rparr>)"
  by (simp add: handles_ok_def)

lemma update_settings_handles_ok [simp]: "handles_ok c (update_settings f d) = handles_ok c d"
  by (simp add: handles_ok_def phase_fields)

lemma handles_ok_display [simp]:
  "handles_ok c (set_manual_enabled b d) = handles_ok c d" "handles_ok c (bitrate_refused d) = handles_ok c d"
  "handles_ok c (d\<lparr>dk_auto_bitrate := b\<rparr>) = handles_ok c d" "handles_ok c (d\<lparr>dk_max_bitrate := m\<rparr>) = handles_ok c d"
  "handles_ok c (d\<lparr>dk_manual_bitrate := m\<rparr>) = handles_ok c d"
  by (rule handles_ok_cong, simp)+

lemma set_handles_ok:
  assumes "handles_ok c d"
  shows "handles_ok c (on_auto_toggled E b d)" "handles_ok c (on_manual_changed E v d)" "handles_ok c (on_max_changed E v d)"
proof -
  have out: "handles_ok c (e\<lparr>dk_output := Some o'\<rparr>)" if "handles_ok c e" "dk_output e = Some o_ref" for e o_ref o'
    using handles_ok_output [OF that(1)] that(2) by simp
  have m: "dk_output (set_manual_enabled b e) = dk_output e" for b e
    by (simp add: set_manual_enabled_def phase_fields)
  show "handles_ok c (on_auto_toggled E b d)" "handles_ok c (on_manual_changed E v d)" "handles_ok c (on_max_changed E v d)"
    using assms
    by (auto simp: on_auto_toggled_def on_manual_changed_def on_max_changed_def m phase_fields Let_def intro!: out split: option.split prod.split)
qed

lemma set_widgets_handles_ok:
  assumes "handles_ok c d"
  shows "handles_ok c (set_auto E b d)" "handles_ok c (set_manual E v d)" "handles_ok c (set_max E v d)"
  using assms by (simp_all add: set_auto_def set_manual_def set_max_def Let_def set_handles_ok)

lemma load_encoding_handles_ok:
  assumes "handles_ok c d"
  shows "handles_ok c (load_encoding E d)"
proof -
  have "handles_ok c (set_audio_index x (set_video_index y (set_source_index z d)))" for x y z
    using assms handles_ok_cong [of "set_audio_index x (set_video_index y (set_source_index z d))" d] by simp
  then show ?thesis
    unfolding load_encoding_def Let_def by (intro set_widgets_handles_ok)
qed

lemma loadProfile_handles_ok:
  assumes "handles_ok c d"
  shows "handles_ok c (loadProfile E d)"
proof -
  have "handles_ok c (load_secret E (load_connection E (d\<lparr>dk_secret_error := False, dk_selected := Map.empty\<rparr>)))"
    using assms handles_ok_cong [of "load_secret E (load_connection E (d\<lparr>dk_secret_error := False, dk_selected := Map.empty\<rparr>))" d]
    by simp
  from load_encoding_handles_ok [OF this, of E] show ?thesis
    using handles_ok_cong [of "loadProfile E d"
        "load_encoding E (load_secret E (load_connection E (d\<lparr>dk_secret_error := False, dk_selected := Map.empty\<rparr>)))"]
    by (simp add: loadProfile_def)
qed

lemma loadProfile_table:
  "dk_links (loadProfile E d) = dk_links d" "dk_current_row (loadProfile E d) = dk_current_row d"
  "dk_show_all (loadProfile E d) = dk_show_all d" "dk_selected_link_key (loadProfile E d) = dk_selected_link_key d"
proof -
  have "table (loadProfile E d) = table (load_links E (load_encoding E (load_secret E (load_connection E
      (d\<lparr>dk_secret_error := False, dk_selected := Map.empty\<rparr>)))))"
    by (simp add: loadProfile_def)
  moreover have "table (load_encoding E (load_secret E (load_connection E (d\<lparr>dk_secret_error := False, dk_selected := Map.empty\<rparr>))))
      = table (d\<lparr>dk_selected := Map.empty\<rparr>)"
    by (simp add: table_def [of "d\<lparr>dk_selected := Map.empty\<rparr>"]) (simp add: table_def)
  ultimately show "dk_links (loadProfile E d) = dk_links d" "dk_current_row (loadProfile E d) = dk_current_row d"
    "dk_show_all (loadProfile E d) = dk_show_all d" "dk_selected_link_key (loadProfile E d) = dk_selected_link_key d"
    by (simp_all add: table_def load_links_def)
qed

lemma loadProfile_view_ok [simp]: "view_ok (loadProfile E d) = view_ok d"
  by (simp add: view_ok_def loadProfile_table)

lemma accept_use_handles [simp]: "handles (accept_use E row b d) = handles d"
  by (simp add: accept_use_def)

lemma setCheckState_handles_ok:
  assumes "handles_ok True d" and "row < length (dk_links d)"
  shows "handles_ok True (setCheckState E row b d)"
proof -
  have "dk_connected d" using assms(1) by (simp add: handles_ok_def)
  then show ?thesis using assms(2)
  proof (cases rule: setCheckState_cases [of d row b E])
    case (accepted o_ref o')
    then show ?thesis
      using handles_ok_output [OF assms(1)] handles_ok_cong [OF accept_use_handles, of True E row b "d\<lparr>dk_output := Some o'\<rparr>"]
      by simp
  next
    case (refused o_ref r o')
    then show ?thesis using handles_ok_output [OF assms(1)] by simp
  next
    case idle
    then show ?thesis using assms(1) handles_ok_cong [OF accept_use_handles, of True E row b d] by simp
  qed (use assms(1) in simp)
qed

lemma notify_adapters_handles_ok: "handles_ok c d \<Longrightarrow> handles_ok c (notify_adapters E d)"
  by (auto simp: notify_adapters_def intro: handles_ok_output split: option.split)

lemma refreshAdapters_handles_ok:
  assumes "handles_ok c d"
  shows "handles_ok c (refreshAdapters E adapters d)"
proof -
  have "\<exists>e. handles (refreshAdapters E adapters d) = handles (notify_adapters E e) \<and> handles e = handles d"
  proof (cases "topology_changed (dk_links d) adapters")
    case True
    then show ?thesis
      by (intro exI [of _ "restore_selection (rebuilt E adapters d)"]) (simp add: refreshAdapters_changed)
  next
    case False
    obtain rows selected vis title where
      r: "refresh_rows (env_qt E) (dk_selected_link_key d) (dk_links d) adapters (dk_selected d) = (rows, selected, vis, title)"
      by (cases "refresh_rows (env_qt E) (dk_selected_link_key d) (dk_links d) adapters (dk_selected d)")
    show ?thesis
      unfolding refreshAdapters_same [OF False r] by (rule exI, rule conjI, rule refl) simp
  qed
  then show ?thesis
    using assms notify_adapters_handles_ok handles_ok_cong by metis
qed

lemma ask_output_handles_ok: "handles_ok c d \<Longrightarrow> ask_output f d = (r, d1) \<Longrightarrow> handles_ok c d1"
  by (auto simp: ask_output_def intro: handles_ok_output split: bool.splits option.splits prod.splits)

lemma websocketSetBitrate_handles_ok:
  assumes "handles_ok c d"
  shows "handles_ok c (snd (websocketSetBitrateControl E b v d))" "handles_ok c (snd (websocketSetMaxBitrate E w d))"
proof -
  show "handles_ok c (snd (websocketSetBitrateControl E b v d))"
    by (cases rule: websocketSetBitrateControl_cases [of E b v d])
      (use assms ask_output_handles_ok [OF assms] in auto)
  show "handles_ok c (snd (websocketSetMaxBitrate E w d))"
    by (cases rule: websocketSetMaxBitrate_cases [of E w d]) (use assms ask_output_handles_ok [OF assms] in auto)
qed

lemma websocketSetBitrate_table:
  "table (snd (websocketSetBitrateControl E b v d)) = table d" "table (snd (websocketSetMaxBitrate E w d)) = table d"
  "telemetry (snd (websocketSetBitrateControl E b v d)) = telemetry d"
  "telemetry (snd (websocketSetMaxBitrate E w d)) = telemetry d"
proof -
  note c = output_ops_parts(5,6) [of "output_set_bitrate_control (env_out E) b v" d]
  show "table (snd (websocketSetBitrateControl E b v d)) = table d"
    "telemetry (snd (websocketSetBitrateControl E b v d)) = telemetry d"
    using c by (cases rule: websocketSetBitrateControl_cases [of E b v d]; simp)+
  note m = output_ops_parts(5,6) [of "output_set_max_bitrate (env_out E) w" d]
  show "table (snd (websocketSetMaxBitrate E w d)) = table d"
    "telemetry (snd (websocketSetMaxBitrate E w d)) = telemetry d"
    using m by (cases rule: websocketSetMaxBitrate_cases [of E w d]; simp)+
qed

text \<open>A check box that is set shows in the selection, whatever the output answered.\<close>

lemma setCheckState_selected:
  assumes "view_ok d" and "checks_ok d" and "dk_connected d" and row: "row < length (dk_links d)"
  shows "dk_selected (setCheckState E row b d) (lr_id (dk_links d ! row)) \<noteq> None"
  using assms(3,4)
proof (cases rule: setCheckState_cases [of d row b E])
  case (accepted o_ref o')
  have "view_ok (d\<lparr>dk_output := Some o'\<rparr>)" "checks_ok (d\<lparr>dk_output := Some o'\<rparr>)"
    using assms by (simp_all add: view_ok_def checks_ok_def)
  from accept_use_ok(3) [OF this] accepted row show ?thesis by simp
qed (use assms accept_use_ok(3) [OF assms(1,2,4)] in \<open>auto simp: checks_ok_def\<close>)

lemma websocketSetLinkEnabled_eq:
  assumes "view_ok d" and "checks_ok d" and "dk_connected d"
  shows "websocketSetLinkEnabled E i b d =
    (case find_index (\<lambda>r. srtla_output_link_id (Some (c_str (lr_id r))) = i) (dk_links d) of
       None \<Rightarrow> (Some ''Unknown link ID.'', d)
     | Some row \<Rightarrow>
         let d1 = setCheckState E row b d
         in (if dk_selected d1 (lr_id (dk_links d ! row)) = Some b then None else Some link_refused, d1))"
proof (cases "find_index (\<lambda>r. srtla_output_link_id (Some (c_str (lr_id r))) = i) (dk_links d)")
  case (Some row)
  then have "row < length (dk_links d)" by (blast dest: find_index_Some)
  from setCheckState_selected [OF assms this, of E b] Some show ?thesis
    by (auto simp: websocketSetLinkEnabled_def select_index_def Let_def)
qed (simp add: websocketSetLinkEnabled_def)

section \<open>The invariant\<close>

definition dock_ok :: "('c, 'd, 'o) dock \<Rightarrow> bool" where
  "dock_ok d \<longleftrightarrow> widgets_ok d \<and> telemetry_ok d \<and> view_ok d \<and> checks_ok d \<and> handles_ok True d"

lemma dock_ok_connected: "dock_ok d \<Longrightarrow> dk_connected d"
  by (simp add: dock_ok_def handles_ok_def)

lemma dock_ok_core: "core d = core e \<Longrightarrow> dock_ok d = dock_ok e"
  using core_parts [of d e] widgets_ok_cong [of d e] telemetry_ok_cong [of d e] table_ok_cong [of d e] handles_ok_cong [of d e]
  by (simp add: dock_ok_def)

text \<open>An operation that leaves a part alone keeps what is known of it.\<close>

lemma dock_okI:
  assumes "dock_ok d" and "widgets e = widgets d \<or> widgets_ok e" and "telemetry e = telemetry d \<or> telemetry_ok e"
    and "table e = table d \<or> view_ok e \<and> checks_ok e" and "handles e = handles d \<or> handles_ok True e"
  shows "dock_ok e"
  using assms widgets_ok_cong [of e d] telemetry_ok_cong [of e d] table_ok_cong [of e d] handles_ok_cong [of e d]
  by (auto simp: dock_ok_def)

lemma stopped_telemetry_ok: "telemetry d = (replicate 6 [], Map.empty) \<Longrightarrow> telemetry_ok d"
  by (simp add: telemetry_def telemetry_ok_def)

lemma stopOutput_ok: "dock_ok d \<Longrightarrow> dock_ok (stopOutput E d)"
  by (rule dock_okI [of d]) (simp_all add: dock_ok_def stopOutput_handles_ok stopped_telemetry_ok)

lemma toggleOutput_ok: "dock_ok d \<Longrightarrow> dock_ok (toggleOutput E d)"
  by (rule dock_okI [of d]) (auto simp: dock_ok_def toggleOutput_handles_ok stopped_telemetry_ok)

lemma refreshAdapters_dock_ok:
  assumes "widgets_ok d" and "telemetry_ok d" and "view_ok d" and "handles_ok True d"
    and "adapters_ok (env_qt E) adapters" and "qt_rows_ok (env_qt E)"
  shows "dock_ok (refreshAdapters E adapters d)"
  using refreshAdapters_ok [OF assms(3,5,6)] refreshAdapters_telemetry [OF assms(2), of E adapters]
    refreshAdapters_handles_ok [OF assms(4), of E adapters] assms(1) widgets_ok_cong [OF refreshAdapters_parts, of E adapters d]
  by (simp add: dock_ok_def)

lemma reloadProfile_ok:
  assumes "dock_ok d" and "adapters_ok (env_qt E) adapters" and "qt_rows_ok (env_qt E)"
  shows "dock_ok (reloadProfile E adapters d)"
proof -
  have none: "release_settings (release_output (stopOutput E d)) = stopOutput E d"
    using stopOutput_handles(2,3) [of E d] by (simp add: release_output_def release_settings_def)
  have s: "dock_ok (stopOutput E d)" using assms(1) by (rule stopOutput_ok)
  then have "widgets_ok (loadProfile E (stopOutput E d))" "telemetry_ok (loadProfile E (stopOutput E d))"
    "handles_ok True (loadProfile E (stopOutput E d))" "view_ok (loadProfile E (stopOutput E d))"
    using telemetry_ok_cong [OF loadProfile_parts, of E "stopOutput E d"]
    by (simp_all add: dock_ok_def loadProfile_widgets_ok loadProfile_handles_ok)
  then show ?thesis
    unfolding reloadProfile_def none using assms(2,3) by (intro refreshAdapters_dock_ok)
qed

lemma setCheckState_dock_ok:
  assumes "dock_ok d" and "row < length (dk_links d)"
  shows "dock_ok (setCheckState E row b d)"
proof -
  from assms(1) have d: "view_ok d" "checks_ok d" "handles_ok True d"
    by (simp_all add: dock_ok_def)
  show ?thesis
    using setCheckState_ok [OF d(1,2) dock_ok_connected [OF assms(1)] assms(2), of E b]
      setCheckState_handles_ok [OF d(3) assms(2), of E b]
    by (intro dock_okI [OF assms(1)]) simp_all
qed

lemma websocketSetLinkEnabled_dock_ok:
  assumes "dock_ok d"
  shows "dock_ok (snd (websocketSetLinkEnabled E i b d))"
proof -
  from assms have d: "view_ok d" "checks_ok d"
    by (simp_all add: dock_ok_def)
  note eq = websocketSetLinkEnabled_eq [OF d dock_ok_connected [OF assms], of E i b]
  show ?thesis
  proof (cases "find_index (\<lambda>r. srtla_output_link_id (Some (c_str (lr_id r))) = i) (dk_links d)")
    case None
    then show ?thesis using assms eq by simp
  next
    case (Some row)
    then have "row < length (dk_links d)" by (blast dest: find_index_Some)
    from setCheckState_dock_ok [OF assms this, of E b] Some show ?thesis
      by (simp add: eq Let_def)
  qed
qed

text \<open>What a step relies on: the adapters the monitor found and Qt's row after a removal.\<close>

fun op_ok :: "('c, 'd, 'o) dock_env \<Rightarrow> ('c, 'd, 'o) dock_op \<Rightarrow> bool" where
  "op_ok E (Timer adapters E2) = (adapters_ok (env_qt E) adapters \<and> qt_rows_ok (env_qt E))"
| "op_ok E (ProfileChanged adapters) = (adapters_ok (env_qt E) adapters \<and> qt_rows_ok (env_qt E))"
| "op_ok E _ = True"

lemma set_widget_ok:
  assumes "dock_ok d"
  shows "dock_ok (set_auto E b d)" "dock_ok (set_manual E v d)" "dock_ok (set_max E v d)"
    "combo_ok c \<Longrightarrow> dock_ok (set_source_index c d)" "combo_ok c \<Longrightarrow> dock_ok (set_video_index c d)"
    "combo_ok c \<Longrightarrow> dock_ok (set_audio_index c d)"
proof -
  from assms have d: "widgets_ok d" "handles_ok True d"
    by (simp_all add: dock_ok_def)
  show "dock_ok (set_auto E b d)" "dock_ok (set_manual E v d)" "dock_ok (set_max E v d)"
    using set_widgets_handles_ok [OF d(2)] set_manual_ok [OF d(1), of E v] set_max_ok [OF d(1), of E v] assms
    by (auto intro!: dock_okI [OF assms])
  show "combo_ok c \<Longrightarrow> dock_ok (set_source_index c d)" "combo_ok c \<Longrightarrow> dock_ok (set_video_index c d)"
    "combo_ok c \<Longrightarrow> dock_ok (set_audio_index c d)"
    using combo_sets_ok [OF d(1)] by (auto intro!: dock_okI [OF assms])
qed

lemma table_ops_ok:
  assumes "dock_ok d"
  shows "dock_ok (on_show_all q b d)" "seconds = 60 \<or> seconds = 300 \<or> seconds = 900 \<Longrightarrow> dock_ok (on_history_range q seconds d)"
    "row < length (dk_links d) \<Longrightarrow> \<not> lr_hidden (dk_links d ! row) \<Longrightarrow> dock_ok (on_row_selected q (int row) d)"
proof -
  from assms have d: "widgets_ok d" "view_ok d" "checks_ok d"
    by (simp_all add: dock_ok_def)
  have "view_ok (applyAdapterVisibility q (d\<lparr>dk_show_all := b\<rparr>))"
    using view_ok_cursor [OF d(2)] by (intro applyAdapterVisibility_view_ok) simp_all
  moreover have "checks_ok (d\<lparr>dk_show_all := b\<rparr>)"
    using d(3) by (simp add: checks_ok_def)
  ultimately have "view_ok (on_show_all q b d) \<and> checks_ok (on_show_all q b d)"
    using d by (simp add: on_show_all_def)
  then show "dock_ok (on_show_all q b d)"
    by (intro dock_okI [OF assms]) simp_all
  show "dock_ok (on_history_range q seconds d)" if "seconds = 60 \<or> seconds = 300 \<or> seconds = 900"
  proof -
    have "widgets_ok (d\<lparr>dk_history_window := seconds\<rparr>)"
      using d(1) that by (simp add: widgets_ok_def)
    moreover have "core (on_history_range q seconds d) = core (d\<lparr>dk_history_window := seconds\<rparr>)"
      by (simp add: on_history_range_def)
    ultimately show ?thesis
      using dock_okI [OF assms, of "d\<lparr>dk_history_window := seconds\<rparr>"]
        dock_ok_core [of "on_history_range q seconds d" "d\<lparr>dk_history_window := seconds\<rparr>"] by simp
  qed
  show "dock_ok (on_row_selected q (int row) d)" if "row < length (dk_links d)" "\<not> lr_hidden (dk_links d ! row)"
  proof -
    have "view_ok (on_row_selected q (int row) d)" "checks_ok (on_row_selected q (int row) d)"
      unfolding on_row_selected_def table_ok_display
      using that d by (auto simp: view_ok_alt cursor_ok_def row_key_def checks_ok_def)
    then show ?thesis by (intro dock_okI [OF assms]) simp_all
  qed
qed

lemma timer_ok:
  assumes "dock_ok d" and "adapters_ok (env_qt E) adapters" and "qt_rows_ok (env_qt E)"
  shows "dock_ok (refreshStatus E E2 (refreshAdapters E adapters d))"
proof -
  have r: "dock_ok (refreshAdapters E adapters d)"
    using assms by (intro refreshAdapters_dock_ok) (simp_all add: dock_ok_def)
  then have "view_ok (refreshAdapters E adapters d)" "checks_ok (refreshAdapters E adapters d)"
    "telemetry_ok (refreshAdapters E adapters d)"
    by (simp_all add: dock_ok_def)
  with refreshStatus_ok [of "refreshAdapters E adapters d" E E2]
    refreshStatus_telemetry [of "refreshAdapters E adapters d" E E2] show ?thesis
    by (intro dock_okI [OF r]) simp_all
qed

lemma dock_step_ok:
  assumes "dock_ok d" and "op_ok E op"
  shows "dock_ok (dock_step E op d)"
proof (cases op)
  case (WsActive b)
  then show ?thesis
    using assms toggleOutput_ok [OF assms(1), of E] by (auto simp: websocketSetOutputActive_def Let_def)
next
  case WsStatus
  then show ?thesis using assms websocketStatusJson_same [of d E] by (simp add: dock_ok_def)
next
  case (WsBitrate b v)
  then show ?thesis
    using assms websocketSetBitrate_widgets_ok(1) [of d E b v] websocketSetBitrate_handles_ok(1) [of True d E b v]
      websocketSetBitrate_table(1,3) [of E b v d]
    by (intro dock_okI [OF assms(1)]) (simp_all add: dock_ok_def)
next
  case (WsMax v)
  then show ?thesis
    using assms websocketSetBitrate_widgets_ok(2) [of d E v] websocketSetBitrate_handles_ok(2) [of True d E v]
      websocketSetBitrate_table(2,4) [of E v d]
    by (intro dock_okI [OF assms(1)]) (simp_all add: dock_ok_def)
next
  case (OutputMoves o')
  have "handles_ok True (dock_step E op d)"
    using OutputMoves assms handles_ok_output [of True d o'] by (simp add: dock_ok_def)
  then show ?thesis
    using OutputMoves by (intro dock_okI [OF assms(1)]) simp_all
next
  case (PickSource i)
  then show ?thesis using assms set_widget_ok(4) [of d "pick i (dk_encoder_source d)"] by (simp add: dock_ok_def widgets_ok_def)
next
  case (PickVideo i)
  then show ?thesis using assms set_widget_ok(5) [of d "pick i (dk_custom_video d)"] by (simp add: dock_ok_def widgets_ok_def)
next
  case (PickAudio i)
  then show ?thesis using assms set_widget_ok(6) [of d "pick i (dk_custom_audio d)"] by (simp add: dock_ok_def widgets_ok_def)
qed (use assms in \<open>auto simp: toggleOutput_ok stopOutput_ok timer_ok reloadProfile_ok set_widget_ok(1-3) table_ops_ok
      setCheckState_dock_ok websocketSetLinkEnabled_dock_ok dock_ok_core [OF core_profile(1)]
      dock_ok_core [OF core_profile(3)] dock_ok_core [OF core_other_fields(2)] dock_ok_core [OF core_other_fields(3)]\<close>)

end
