(* ===== verification/Dock_Properties.thy ===== *)
theory Dock_Properties
  imports Dock_Steps
begin

text \<open>
  The properties of the dock: well-formedness of every reachable state, the balance of the
  references to OBS objects, the requests of WebSocket clients, and the round trips through the
  profile.
\<close>

section \<open>Well-formedness\<close>

lemma blank_dock_ok:
  "widgets_ok (blank_dock E infos config)" "telemetry_ok (blank_dock E infos config)" "view_ok (blank_dock E infos config)"
  "handles_ok False (blank_dock E infos config)"
proof -
  have c: "combo_ok \<lparr>cb_items = [], cb_index = - 1\<rparr>"
    by (simp add: combo_ok_def)
  show "widgets_ok (blank_dock E infos config)"
    using add_encoder_choices_ok [OF c]
    by (simp add: widgets_ok_def blank_dock_def spin_ok_def) (simp add: combo_ok_def encoder_sources_def)
  show "telemetry_ok (blank_dock E infos config)"
    by (simp add: telemetry_ok_def blank_dock_def)
  show "view_ok (blank_dock E infos config)"
    by (simp add: view_ok_def blank_dock_def shown_def hide_rows_def cursor_ok_def)
  show "handles_ok False (blank_dock E infos config)"
    by (simp add: handles_ok_def blank_dock_def)
qed

lemma new_dock_ok:
  assumes "adapters_ok (env_qt E) adapters" and "qt_rows_ok (env_qt E)"
  shows "dock_ok (new_dock E infos config adapters)"
proof -
  let ?l = "loadProfile E (blank_dock E infos config)"
  let ?c = "connect_handlers ?l"
  note b = blank_dock_ok [of E infos config]
  have "widgets_ok ?l" "telemetry_ok ?l" "view_ok ?l" "handles_ok False ?l"
    using b telemetry_ok_cong [OF loadProfile_parts, of E "blank_dock E infos config"]
    by (simp_all add: loadProfile_widgets_ok loadProfile_handles_ok)
  then have c: "widgets_ok ?c" "telemetry_ok ?c" "view_ok ?c" "handles_ok True ?c"
    by (simp_all add: connect_handlers_def widgets_ok_def telemetry_ok_def view_ok_def handles_ok_def)
  obtain e where e: "new_dock E infos config adapters = refreshAdapters E adapters e" "core e = core ?c"
    by (simp add: new_dock_def Let_def)
  show ?thesis
    unfolding e(1)
    using c widgets_ok_cong [OF core_parts(1) [OF e(2)]] telemetry_ok_cong [OF core_parts(2) [OF e(2)]]
      table_ok_cong [OF core_parts(3) [OF e(2)]] handles_ok_cong [OF core_parts(4) [OF e(2)], of True] assms
    by (intro refreshAdapters_dock_ok) simp_all
qed

text \<open>The dock as an instance of the general step system of the prelude.\<close>

definition dock_run :: "(('c, 'd, 'o) dock_env \<times> ('c, 'd, 'o) dock_op) list \<Rightarrow> ('c, 'd, 'o) dock \<Rightarrow> ('c, 'd, 'o) dock" where
  "dock_run steps d = fold (\<lambda>(E, op). dock_step E op) steps d"

lemma dock_run_ok:
  "dock_ok d \<Longrightarrow> list_all (\<lambda>(E, op). op_ok E op) steps \<Longrightarrow> dock_ok (dock_run steps d)"
  unfolding dock_run_def by (induction steps arbitrary: d) (auto simp: dock_step_ok)

section \<open>A concrete surrounding\<close>

text \<open>
  Instances of the parameters for examples: a Qt whose URLs are plain text with a query, a
  configuration by name, OBS with one encoder of each kind.
\<close>

definition demo_qt :: qt where
  "demo_qt = \<lparr>fromUtf8 = (\<lambda>s. s), url_isValid = (\<lambda>s. s \<noteq> []), url_scheme = takeWhile (\<lambda>c. c \<noteq> CHR '':''),
     url_stripped = takeWhile (\<lambda>c. c \<noteq> CHR ''?''), url_queryItems = (\<lambda>s. []), string_toInt = (\<lambda>s. None),
     number_fixed = (\<lambda>p x. []), string_trimmed = (\<lambda>s. s), toJson = (\<lambda>j. ''{}''), fromJson = (\<lambda>s. None),
     row_after_shrink = (\<lambda>n row. max (- 1) (min row (n - 1)))\<rparr>"

definition map_config :: "(string \<rightharpoonup> setting) config_api" where
  "map_config = \<lparr>
     config_has_user_value = (\<lambda>c k. c k \<noteq> None),
     config_get_string = (\<lambda>c k. case c k of Some (SStr s) \<Rightarrow> Some s | _ \<Rightarrow> None),
     config_get_bool = (\<lambda>c k. case c k of Some (SBool b) \<Rightarrow> b | _ \<Rightarrow> False),
     config_get_int = (\<lambda>c k. case c k of Some (SInt i) \<Rightarrow> i | _ \<Rightarrow> 0),
     config_set_string = (\<lambda>k v c. c(k \<mapsto> SStr v)), config_set_bool = (\<lambda>k v c. c(k \<mapsto> SBool v)),
     config_set_int = (\<lambda>k v c. c(k \<mapsto> SInt v)), config_save_safe = (\<lambda>c. c)\<rparr>"

definition demo_video :: encoder_ref where
  "demo_video = \<lparr>ec_codec = Some ''h264'', ec_dyn_bitrate = True, ec_has_settings = True, ec_bitrate = 4000, er_identity = 1\<rparr>"

definition demo_frontend :: frontend where
  "demo_frontend = \<lparr>fe_streaming_output = Some \<lparr>src_active = False, src_video = Some demo_video, src_audio = None\<rparr>,
     fe_recording_output = None, fe_create_video = (\<lambda>i k. Some demo_video), fe_create_audio = (\<lambda>i k. None)\<rparr>"

definition demo_env :: "(string \<rightharpoonup> setting, 'o) output_api \<Rightarrow> (string \<rightharpoonup> setting, string \<rightharpoonup> setting, 'o) dock_env" where
  "demo_env out = \<lparr>env_qt = demo_qt, env_config = map_config, env_data = map_settings, env_data_create = Map.empty,
     env_out = out, env_frontend = demo_frontend, env_order = (\<lambda>m. [])\<rparr>"

text \<open>An output that accepts everything but a change of its links.\<close>

definition stub_outputs :: "(string \<rightharpoonup> setting, nat) output_api" where
  "stub_outputs = \<lparr>obs_output_create = (\<lambda>s. Some (0, s)), obs_output_update = (\<lambda>s x. (x, s)), obs_output_start = (\<lambda>x. (True, x)),
     obs_output_get_last_error = (\<lambda>x. None), obs_output_active = (\<lambda>x. False), obs_output_stop = (\<lambda>x. x),
     obs_output_set_video_encoder = (\<lambda>e x. x), obs_output_set_audio_encoder = (\<lambda>e x. x),
     obs_output_get_video_encoder = (\<lambda>x. Some 1), obs_output_get_audio_encoder = (\<lambda>x. None),
     output_set_link_enabled = (\<lambda>i b x. (- 3, x)), output_set_bitrate_control = (\<lambda>b k x. (- 2, x)),
     output_set_max_bitrate = (\<lambda>k x. (0, x)), output_update_adapters = (\<lambda>x. (0, x)),
     output_stats_size = (\<lambda>x. 0), output_copy_stats_json = (\<lambda>n x. (0, []))\<rparr>"

definition demo_adapters :: "network_adapter list" where
  "demo_adapters = [\<lparr>na_id = ''eth0/2'', na_label = ''eth0'', na_address = ''10.0.0.2'', na_family = 2, na_enabled = True,
       na_operational = True\<rparr>,
     \<lparr>na_id = ''wlan0/2'', na_label = ''wlan0'', na_address = ''10.0.1.2'', na_family = 2, na_enabled = False,
       na_operational = False\<rparr>]"

lemma demo_adapters_ok: "adapters_ok demo_qt demo_adapters"
  by (simp add: adapters_ok_def demo_adapters_def demo_qt_def)

lemma demo_qt_ok: "qt_rows_ok demo_qt"
  by (auto simp: qt_rows_ok_def demo_qt_def min_def)

section \<open>Properties\<close>

text \<open>Reachable docks, as an instance of the general step system of the prelude.\<close>

definition dock_init :: "('c, 'd, 'o) dock \<Rightarrow> bool" where
  "dock_init d \<longleftrightarrow> (\<exists>E infos config adapters. adapters_ok (env_qt E) adapters \<and> qt_rows_ok (env_qt E)
     \<and> d = new_dock (E :: ('c, 'd, 'o) dock_env) infos config adapters)"

definition dock_moves :: "('c, 'd, 'o) dock \<Rightarrow> ('c, 'd, 'o) dock \<Rightarrow> bool" where
  "dock_moves d e \<longleftrightarrow> (\<exists>E op. op_ok (E :: ('c, 'd, 'o) dock_env) op \<and> e = dock_step E op d)"

interpretation dock_system: invariant_system dock_init dock_moves dock_ok
  by unfold_locales (auto simp: dock_init_def dock_moves_def new_dock_ok dock_step_ok)

text \<open>
  C9. Every dock that can be reached is well-formed: the bitrates are within the ranges of their
  spin boxes, every combo box shows one of its items, every history has six series of at most 900
  samples; the adapter rows are distinct, an adapter's box is checked exactly when the selection
  says so, exactly the unchecked rows are hidden unless all are shown, and the current row is a
  visible one; a running dock has an output and settings, and the references obtained from OBS for
  them are held exactly once.
\<close>

theorem dock_well_formed:
  assumes "reach dock_init dock_moves d"
  shows "(500 \<le> sp_value (dk_manual_bitrate d) \<and> sp_value (dk_manual_bitrate d) \<le> 100000
      \<and> 500 \<le> sp_value (dk_max_bitrate d) \<and> sp_value (dk_max_bitrate d) \<le> 30000)
    \<and> (combo_ok (dk_encoder_source d) \<and> combo_ok (dk_custom_video d) \<and> combo_ok (dk_custom_audio d))
    \<and> (history_ok (dk_metric_history d) \<and> (\<forall>h\<in>ran (dk_link_history d). history_ok h))
    \<and> distinct (map lr_id (dk_links d))
    \<and> (\<forall>r\<in>set (dk_links d). dk_selected d (lr_id r) = Some (lr_use r)
         \<and> lr_hidden r = (\<not> dk_show_all d \<and> \<not> lr_use r \<and> (\<exists>r'\<in>set (dk_links d). lr_use r')))
    \<and> (dk_links d \<noteq> [] \<longrightarrow> 0 \<le> dk_current_row d \<and> dk_current_row d < int (length (dk_links d))
         \<and> \<not> lr_hidden (dk_links d ! nat (dk_current_row d))
         \<and> dk_selected_link_key d = lr_id (dk_links d ! nat (dk_current_row d)))
    \<and> (dk_running d \<longrightarrow> dk_output d \<noteq> None) \<and> (dk_output d \<noteq> None \<longrightarrow> dk_settings d \<noteq> None)
    \<and> held RefOutput (dk_refs d) = (if dk_output d = None then 0 else 1)
    \<and> held RefSettings (dk_refs d) = (if dk_settings d = None then 0 else 1)"
proof -
  have ok: "dock_ok d" using assms by (rule dock_system.reach_inv)
  then have "dk_links d = shown (dk_show_all d) (dk_links d)"
    by (simp add: dock_ok_def view_ok_def)
  then have "lr_hidden r = (\<not> dk_show_all d \<and> \<not> lr_use r \<and> (\<exists>r'\<in>set (dk_links d). lr_use r'))" if "r \<in> set (dk_links d)" for r
  proof -
    have "r \<in> set (shown (dk_show_all d) (dk_links d))"
      using that \<open>dk_links d = shown (dk_show_all d) (dk_links d)\<close> by simp
    then show ?thesis by (auto simp: shown_def hide_rows_def filter_empty_conv)
  qed
  with ok show ?thesis
    by (auto simp: dock_ok_def widgets_ok_def spin_ok_def telemetry_ok_def view_ok_def checks_ok_def cursor_ok_def
        handles_ok_def ran_def)
qed

theorem dock_well_formed_witness:
  "sp_value (dk_max_bitrate (dock_step (demo_env stub_outputs) (SpinMax 99999)
     (new_dock (demo_env stub_outputs) [] (Some Map.empty) demo_adapters))) \<le> 30000"
proof -
  let ?E = "demo_env stub_outputs"
  let ?d = "new_dock ?E [] (Some Map.empty) demo_adapters"
  have "dock_init ?d"
    unfolding dock_init_def
    by (rule exI [of _ ?E], rule exI [of _ "[]"], rule exI [of _ "Some Map.empty"], rule exI [of _ demo_adapters])
      (simp add: demo_env_def demo_qt_ok demo_adapters_ok)
  moreover have "dock_moves ?d (dock_step ?E (SpinMax 99999) ?d)"
    unfolding dock_moves_def by (rule exI [of _ ?E], rule exI [of _ "SpinMax 99999"]) simp
  ultimately have "reach dock_init dock_moves (dock_step ?E (SpinMax 99999) ?d)"
    by (rule reach_step [OF reach_init])
  from dock_well_formed [OF this] show ?thesis by blast
qed

text \<open>
  C24. A start gives back every reference it obtained from OBS, whichever way it ends, with one
  exception: on the two exits after the codec check that concern the passphrase, the source output
  or the encoders created for the dock stay referenced (\<open>leaked\<close> is exactly what they hold). The
  references to the dock's own output and settings are counted on top.
\<close>

theorem toggle_releases_references:
  assumes "\<not> dk_running d"
  shows "held r (dk_refs (toggleOutput E d)) = held r (dk_refs d)
      + (case toggle_checked E (ensure_settings E d) of
           Inl _ \<Rightarrow> 0
         | Inr (d1, v, a) \<Rightarrow>
             if dk_secret_error d1 \<or> \<not> fst (saveProfile E d1)
             then acquired (currentData (dk_encoder_source d) = ''custom'') v a r else 0)
      + (if r = RefSettings \<and> dk_settings d = None then 1 else 0)
      + (if r = RefOutput \<and> dk_output d = None \<and> dk_output (toggleOutput E d) \<noteq> None then 1 else 0)"
  using toggle_start_handles(4) [OF assms, of r E] by (simp only: leaked_def)

theorem toggle_releases_references_witness:
  "held RefSourceOutput (dk_refs (toggleOutput (demo_env stub_outputs)
     ((blank_dock (demo_env stub_outputs) [] (Some Map.empty))\<lparr>dk_secret_error := True\<rparr>))) = 1"
proof -
  let ?E = "demo_env stub_outputs"
  let ?d = "(blank_dock ?E [] (Some Map.empty))\<lparr>dk_secret_error := True\<rparr>"
  have d: "\<not> dk_running ?d" "dk_settings ?d = None" "currentData (dk_encoder_source ?d) = ''streaming''" "dk_secret_error ?d" "dk_refs ?d = []"
    by (simp_all add: blank_dock_def encoder_sources_def currentData_def current_item_def)
  have "get_encoder_source_output (env_frontend ?E) ''streaming'' = Some \<lparr>src_active = False, src_video = Some demo_video, src_audio = None\<rparr>"
    by (simp add: get_encoder_source_output_def demo_env_def demo_frontend_def)
  moreover have "is_supported_video_codec (codec_of (Some demo_video))"
    by (simp add: is_supported_video_codec_def codec_of_def demo_video_def)
  ultimately obtain d1 where d1: "toggle_checked ?E (ensure_settings ?E ?d) = Inr (d1, Some demo_video, None)" "dk_secret_error d1"
    using d by (auto simp: toggle_checked_def ensure_settings_def acquire_shared_def check_codecs_def ref_def)
  show ?thesis
    using toggle_releases_references [OF d(1), of RefSourceOutput ?E] d1 d
    by simp
qed

end
