(* ===== verification/Output_Limits.thy ===== *)
theory Output_Limits
  imports Srtla_Output
begin

text \<open>
  The bitrate limits of an output under its own operations: only creation, an update of the
  settings and the dock's call change them; and an output that is not running stays so until a
  start succeeds.
\<close>

definition limits_view :: "srtla_output \<Rightarrow> bool \<times> int \<times> int" where
  "limits_view d = (running d, so_min_bitrate_kbps d, so_max_bitrate_kbps d)"

lemma limits_view_updates [simp]:
  "limits_view (d\<lparr>so_muxer := x_m\<rparr>) = limits_view d" "limits_view (d\<lparr>so_session := x_s\<rparr>) = limits_view d"
  "limits_view (d\<lparr>needs_muxer_reset := x_b\<rparr>) = limits_view d" "limits_view (d\<lparr>worker_stop := x_b\<rparr>) = limits_view d"
  "limits_view (d\<lparr>so_capture_lifecycle := x_l\<rparr>) = limits_view d" "limits_view (d\<lparr>so_fatal_signal_queued := x_b\<rparr>) = limits_view d"
  "limits_view (d\<lparr>so_capture_active := x_b\<rparr>) = limits_view d" "limits_view (d\<lparr>so_abr_stop := x_b\<rparr>) = limits_view d"
  "limits_view (d\<lparr>so_worker := x_b\<rparr>) = limits_view d" "limits_view (d\<lparr>so_abr_worker := x_b\<rparr>) = limits_view d"
  "limits_view (d\<lparr>so_auto_bitrate := x_b\<rparr>) = limits_view d" "limits_view (d\<lparr>so_tasks := x_t\<rparr>) = limits_view d"
  "limits_view (d\<lparr>so_manual_bitrate_kbps := x_n\<rparr>) = limits_view d"
  "limits_view (d\<lparr>so_bitrate_overridden := x_b\<rparr>) = limits_view d"
  "limits_view (d\<lparr>so_original_bitrate_kbps := x_n\<rparr>) = limits_view d"
  "limits_view (d\<lparr>so_video_encoder := x_e\<rparr>) = limits_view d" "limits_view (d\<lparr>so_audio_encoder := x_a\<rparr>) = limits_view d"
  "limits_view (engine_does c d) = limits_view d" "limits_view (set_last_error e d) = limits_view d"
  "limits_view (queue_fatal_output ta e d) = limits_view d" "limits_view (set_encoder_bitrate k d) = limits_view d"
  by (simp_all add: limits_view_def engine_does_def set_last_error_def queue_fatal_output_def set_encoder_bitrate_def)

lemma limits_view_cong: "same_control d e \<Longrightarrow> limits_view d = limits_view e"
  using same_controlD [of d e] by (simp add: limits_view_def)

lemma limits_view_queue [simp]:
  "limits_view (enqueue_all ds d) = limits_view d" "limits_view (clear_queue d) = limits_view d"
  "limits_view (stop_worker_locked d) = limits_view d" "limits_view (start_queue d) = limits_view d"
  "limits_view (mark_muxer_reset d) = limits_view d" "limits_view (session_reconnecting d) = limits_view d"
  by (rule limits_view_cong, simp add: same_control_def enqueue_all_more queue_ops_more queue_ops_running)+

lemma limits_view_deliver [simp]: "limits_view (deliver_reports ta n ses d) = limits_view d"
proof -
  have step: "limits_view (on_session_status ta r e) = limits_view e" for r e
    by (cases r) (simp add: on_session_status_def)
  have "limits_view (fold (on_session_status ta) rs e) = limits_view e" for rs e
    by (induction rs arbitrary: e) (simp_all add: step)
  then show ?thesis by (simp add: deliver_reports_def)
qed

lemma limits_view_teardown [simp]:
  "limits_view (release_muxer ff d) = limits_view d" "limits_view (release_session td d) = limits_view d"
  "limits_view (stop_worker d) = limits_view d" "limits_view (stop_abr_worker d) = limits_view d"
  "limits_view (end_lifecycle d) = limits_view d" "limits_view (stop_engine d) = limits_view d"
  "limits_view (restore_shared_bitrate d) = limits_view d" "limits_view (apply_manual_bitrate d) = limits_view d"
  by (simp_all add: release_muxer_def release_session_def stop_worker_def stop_abr_worker_def end_lifecycle_def
      stop_engine_def restore_shared_bitrate_def apply_manual_bitrate_def Let_def split: option.split)

lemma limits_view_running: "limits_view (d\<lparr>running := b\<rparr>) = (b, snd (limits_view d))"
  by (simp add: limits_view_def)

lemma limits_stop: "limits_view (srtla_output_stop td d) = (False, snd (limits_view d))"
  by (simp add: srtla_output_stop_def) (simp add: limits_view_def)

lemma limits_fatal_task:
  "limits_view (signal_fatal_output_on_ui td d) = limits_view d
   \<or> limits_view (signal_fatal_output_on_ui td d) = (False, snd (limits_view d))"
  by (cases "so_tasks d") (simp_all add: signal_fatal_output_on_ui_def limits_stop Let_def)

lemma limits_packet: "limits_view (srtla_output_encoded_packet ff ov ta p d) = limits_view d"
  by (auto simp: srtla_output_encoded_packet_def Let_def split: option.splits prod.splits)

lemma limits_session: "limits_view (session_advances ta a d) = limits_view d"
  by (simp add: session_advances_def Let_def split: option.splits)

lemma limits_abr: "limits_view (abr_round ab d) = limits_view d"
  by (simp add: abr_round_def abr_report_stats_def Let_def split: option.splits prod.splits)

section \<open>A start\<close>

lemma limits_prepare:
  "start_prepare sa d = (ok, d1) \<Longrightarrow> \<not> running d \<Longrightarrow> limits_view d1 = limits_view d"
  unfolding start_prepare_def Let_def
  by (auto simp: limits_view_running split: if_splits prod.splits) (simp_all add: limits_view_def)

lemma limits_transport: "limits_view (snd (start_transport sa d)) = limits_view d"
  by (simp add: start_transport_def start_session_def Let_def split: prod.split)

lemma limits_bitrate: "limits_view (snd (start_bitrate sa d)) = limits_view d"
  by (simp add: start_bitrate_def start_failed_media_def Let_def)

lemma limits_media: "limits_view (snd (start_media sa d)) = limits_view d"
  by (simp add: start_media_def start_failed_media_def Let_def)

lemma limits_rollback: "limits_view (start_rollback sa e d) = (False, snd (limits_view d))"
  by (simp add: start_rollback_def limits_view_running)

lemma limits_capture:
  "start_capture sa d = (ok, d1) \<Longrightarrow> snd (limits_view d1) = snd (limits_view d) \<and> (\<not> ok \<longrightarrow> \<not> fst (limits_view d1))"
  by (auto simp: start_capture_def limits_rollback limits_view_running Let_def split: if_splits option.splits prod.splits)

lemma limits_start:
  assumes "srtla_output_start sa d = (ok, d1)" and "\<not> running d"
  shows "snd (limits_view d1) = snd (limits_view d) \<and> (\<not> ok \<longrightarrow> \<not> fst (limits_view d1))"
proof -
  obtain p1 d2 where p: "start_prepare sa d = (p1, d2)" by fastforce
  obtain t1 d3 where t: "start_transport sa d2 = (t1, d3)" by fastforce
  obtain b1 d4 where b: "start_bitrate sa d3 = (b1, d4)" by fastforce
  obtain m1 d5 where m: "start_media sa d4 = (m1, d5)" by fastforce
  obtain c1 d6 where c: "start_capture sa d5 = (c1, d6)" by fastforce
  have v: "limits_view d2 = limits_view d" "limits_view d3 = limits_view d2" "limits_view d4 = limits_view d3"
    "limits_view d5 = limits_view d4"
    using limits_prepare [OF p assms(2)] limits_transport [of sa d2] limits_bitrate [of sa d3] limits_media [of sa d4] t b m
    by simp_all
  moreover have "\<not> fst (limits_view d)"
    using assms(2) by (simp add: limits_view_def)
  ultimately show ?thesis
    using assms(1) limits_capture [OF c] p t b m c
    by (auto simp: srtla_output_start_def and_then_def split: if_splits)
qed

end
