(* ===== verification/Dock_Host.thy ===== *)
theory Dock_Host
  imports Dock_Properties Output_Limits
begin

text \<open>
  The dock and the output together: what the dock relies on from the output object is the locale
  \<open>limit_keeper\<close>, in which the bitrate limit shown by the dock is proved to be the one the output
  enforces; the output of \<open>Srtla_Output\<close> behind the calls of OBS is an interpretation of it.
\<close>

section \<open>Fields of the operations\<close>

lemma combo_sets_max:
  "dk_max_bitrate (set_source_index m d) = dk_max_bitrate d" "dk_max_bitrate (set_video_index m d) = dk_max_bitrate d"
  "dk_max_bitrate (set_audio_index m d) = dk_max_bitrate d"
  by (simp_all add: set_source_index_def set_video_index_def set_audio_index_def on_source_changed_def
      updateSettingsSummary_def view_update_def Let_def)

text \<open>Loading a profile never makes an output.\<close>

lemma set_widgets_output_None:
  assumes "dk_output d = None"
  shows "dk_output (set_auto E b d) = None" "dk_output (set_manual E v d) = None" "dk_output (set_max E v d) = None"
  using assms by (simp_all add: set_auto_def on_auto_toggled_def set_manual_def on_manual_changed_def set_max_def
      on_max_changed_def set_manual_enabled_def phase_fields Let_def)

lemma loadProfile_output_None:
  fixes d :: "('c, 'd, 'o) dock"
  assumes "dk_output d = None"
  shows "dk_output (loadProfile E d) = None"
proof -
  have cong: "handles e = handles d' \<Longrightarrow> dk_output e = dk_output d'" for e d' :: "('c, 'd, 'o) dock"
    by (simp add: handles_def)
  let ?d = "load_secret E (load_connection E (d\<lparr>dk_secret_error := False, dk_selected := Map.empty\<rparr>))"
  have "dk_output (set_audio_index x (set_video_index y (set_source_index z ?d))) = None" for x y z
    using assms cong [of "set_audio_index x (set_video_index y (set_source_index z ?d))" d] by simp
  then have "dk_output (load_encoding E ?d) = None"
    unfolding load_encoding_def Let_def by (intro set_widgets_output_None)
  then show ?thesis
    using cong [of "loadProfile E d" "load_encoding E ?d"] by (simp add: loadProfile_def)
qed

lemma refreshAdapters_output_None: "dk_output d = None \<Longrightarrow> dk_output (refreshAdapters E adapters d) = None"
proof (cases "topology_changed (dk_links d) adapters")
  case True
  assume "dk_output d = None"
  moreover have "handles (restore_selection (rebuilt E adapters d)) = handles d" by simp
  ultimately show ?thesis
    using core_parts(4) [OF core_display(2), of "env_qt E" "notify_adapters E (restore_selection (rebuilt E adapters d))"]
    by (simp add: refreshAdapters_changed [OF True] notify_adapters_def handles_def)
next
  case False
  assume d: "dk_output d = None"
  obtain rows selected vis title where
    r: "refresh_rows (env_qt E) (dk_selected_link_key d) (dk_links d) adapters (dk_selected d) = (rows, selected, vis, title)"
    by (cases "refresh_rows (env_qt E) (dk_selected_link_key d) (dk_links d) adapters (dk_selected d)")
  let ?d = "d\<lparr>dk_links := rows, dk_selected := selected\<rparr>"
  have "dk_output (applyAdapterVisibility (env_qt E) ?d) = None" "dk_output (updateHistoryPanel (env_qt E) ?d) = None"
    using d table_ops_parts(3) [of "env_qt E" ?d] core_parts(4) [OF core_display(2), of "env_qt E" ?d]
    by (simp_all add: handles_def)
  with d show ?thesis
    by (simp add: refreshAdapters_same [OF False r] notify_adapters_def)
qed

text \<open>A new dock is well-formed and has no output.\<close>

lemma new_dock_output_None: "dk_output (new_dock E infos config adapters) = None"
proof -
  have "dk_output (loadProfile E (blank_dock E infos config)) = None"
    by (rule loadProfile_output_None) (simp add: blank_dock_def)
  then show ?thesis
    unfolding new_dock_def Let_def
    by (intro refreshAdapters_output_None)
      (simp add: connect_handlers_def view_update_def set_manual_enabled_def updateHistoryPanel_def updateSettingsSummary_def Let_def)
qed

section \<open>The interface\<close>

text \<open>A step in which the output moves on its own moves as it may.\<close>

fun output_op :: "('o \<Rightarrow> 'o \<Rightarrow> bool) \<Rightarrow> ('c, 'd, 'o) dock_op \<Rightarrow> ('c, 'd, 'o) dock \<Rightarrow> bool" where
  "output_op moves (OutputMoves y) d = (\<forall>x. dk_output d = Some x \<longrightarrow> moves x y)"
| "output_op moves op d = True"

text \<open>
  \<open>limits\<close> are the lower and upper limit an output object enforces, \<open>busy\<close> whether it runs, \<open>moves\<close> what it does on its own.
\<close>

locale limit_keeper =
  fixes api :: "('d, 'o) output_api"
    and data :: "'d obs_data_api"
    and limits :: "'o \<Rightarrow> int \<times> int"
    and busy :: "'o \<Rightarrow> bool"
    and moves :: "'o \<Rightarrow> 'o \<Rightarrow> bool"
  assumes max_accepted: "fst (limits x) = 500 \<Longrightarrow> 500 \<le> k \<Longrightarrow> k \<le> 30000 \<Longrightarrow> output_set_max_bitrate api k x = (0, y) \<Longrightarrow> limits y = (500, k)"
    and max_refused: "output_set_max_bitrate api k x = (r, y) \<Longrightarrow> r \<noteq> 0 \<Longrightarrow> limits y = limits x"
    and control_limit: "limits (snd (output_set_bitrate_control api b k x)) = limits x"
    and link_limit: "limits (snd (output_set_link_enabled api i b x)) = limits x"
    and adapters_limit: "limits (snd (output_update_adapters api x)) = limits x"
    and create_idle: "obs_output_create api s = Some (x, s') \<Longrightarrow> \<not> busy x"
    and encoders_idle: "busy (obs_output_set_video_encoder api e x) = busy x" "busy (obs_output_set_audio_encoder api e x) = busy x"
    and update_limit: "\<not> busy x \<Longrightarrow> 500 \<le> obs_data_get_int data s ''max_bitrate'' \<Longrightarrow> obs_data_get_int data s ''max_bitrate'' \<le> 30000
      \<Longrightarrow> obs_data_get_int data s ''min_bitrate'' = 500 \<Longrightarrow> obs_output_update api s x = (y, s') \<Longrightarrow>
        \<not> busy y \<and> limits y = (500, obs_data_get_int data s ''max_bitrate'')
        \<and> obs_data_get_int data s' ''max_bitrate'' = obs_data_get_int data s ''max_bitrate''"
    and create_settings: "obs_output_create api s = Some (x, s') \<Longrightarrow>
        obs_data_get_int data s' ''max_bitrate'' = obs_data_get_int data s ''max_bitrate''
        \<and> obs_data_get_int data s' ''min_bitrate'' = obs_data_get_int data s ''min_bitrate''"
    and start_limit: "obs_output_start api x = (ok, y) \<Longrightarrow> \<not> busy x \<Longrightarrow> limits y = limits x \<and> (\<not> ok \<longrightarrow> \<not> busy y)"
    and moves_limit: "moves x y \<Longrightarrow> limits y = limits x \<and> (busy y \<longrightarrow> busy x)"
    and int_same: "obs_data_get_int data (obs_data_set_int data n k s) n = k"
    and int_other: "n' \<noteq> n \<Longrightarrow> obs_data_get_int data (obs_data_set_int data n k s) n' = obs_data_get_int data s n'"
    and int_bool: "n' \<noteq> n \<Longrightarrow> obs_data_get_int data (obs_data_set_bool data n b s) n' = obs_data_get_int data s n'"
    and int_string: "n' \<noteq> n \<Longrightarrow> obs_data_get_int data (obs_data_set_string data n v s) n' = obs_data_get_int data s n'"
begin

text \<open>
  While the dock runs, the output enforces the limit of the spin box, and the settings hold it too
  (a refused change falls back to them); a dock that does not run has no running output.
\<close>

definition agree :: "('c, 'd, 'o) dock \<Rightarrow> bool" where
  "agree d \<longleftrightarrow> (case dk_output d of
     None \<Rightarrow> True
   | Some x \<Rightarrow>
       if dk_running d then limits x = (500, sp_value (dk_max_bitrate d))
         \<and> (\<forall>s. dk_settings d = Some s \<longrightarrow> obs_data_get_int data s ''max_bitrate'' = sp_value (dk_max_bitrate d))
       else \<not> busy x)"

definition hosted :: "('c, 'd, 'o) dock_env \<Rightarrow> bool" where
  "hosted E \<longleftrightarrow> env_out E = api \<and> env_data E = data"

lemma hostedD: "hosted E \<Longrightarrow> env_out E = api" "hosted E \<Longrightarrow> env_data E = data"
  by (simp_all add: hosted_def)

lemma agree_cong:
  assumes "handles e = handles d" and "dk_max_bitrate e = dk_max_bitrate d"
  shows "agree e = agree d"
  using assms by (auto simp: agree_def handles_def split: option.split)

lemma agree_frame:
  assumes "handles e = handles d" and "widgets e = widgets d"
  shows "agree e = agree d"
  using assms by (intro agree_cong) (simp_all add: widgets_def)

lemma agree_none [simp]: "dk_output d = None \<Longrightarrow> agree d"
  by (simp add: agree_def)

text \<open>A call to the output that keeps the limit, and a change of other settings.\<close>

lemma agree_output:
  assumes "agree d" and "dk_running d" and "dk_output d = Some x" and "limits y = limits x"
  shows "agree (d\<lparr>dk_output := Some y\<rparr>)"
  using assms by (simp add: agree_def)

lemma agree_settings:
  assumes "agree d" and "\<And>s. obs_data_get_int data (f s) ''max_bitrate'' = obs_data_get_int data s ''max_bitrate''"
  shows "agree (update_settings f d)"
  using assms by (auto simp: agree_def update_settings_def split: option.splits)

lemmas data_ints = int_same int_other int_bool int_string

lemma agree_check:
  assumes "agree d" and "hosted E" and "dk_connected d" and "row < length (dk_links d)"
  shows "agree (setCheckState E row b d)"
  using assms(3,4)
proof (cases rule: setCheckState_cases [of d row b E])
  case idle
  then show ?thesis using assms(1) agree_frame [of "accept_use E row b d" d] by (simp add: accept_use_def)
next
  case (accepted x y)
  then have "limits y = limits x"
    using assms(2) link_limit by (metis hostedD(1) snd_conv)
  with accepted assms(1) have "agree (d\<lparr>dk_output := Some y\<rparr>)" by (intro agree_output)
  then show ?thesis
    using accepted agree_frame [of "accept_use E row b (d\<lparr>dk_output := Some y\<rparr>)" "d\<lparr>dk_output := Some y\<rparr>"]
    by (simp add: accept_use_def)
next
  case (refused x r y)
  then have "limits y = limits x"
    using assms(2) link_limit by (metis hostedD(1) snd_conv)
  with refused assms(1) show ?thesis by (simp add: agree_output)
qed (use assms(1) in simp)

lemma agree_notify: "agree d \<Longrightarrow> hosted E \<Longrightarrow> agree (notify_adapters E d)"
  by (auto simp: notify_adapters_def hostedD adapters_limit intro: agree_output split: option.split)

lemma agree_refreshAdapters:
  fixes d :: "('c, 'd, 'o) dock"
  assumes "agree d" and "hosted E"
  shows "agree (refreshAdapters E adapters d)"
proof (cases "topology_changed (dk_links d) adapters")
  case True
  have "agree (restore_selection (rebuilt E adapters d))"
    using assms(1) agree_frame [of "restore_selection (rebuilt E adapters d)" d] by simp
  from agree_notify [OF this assms(2)] show ?thesis
    using agree_frame [of "updateHistoryPanel (env_qt E) (notify_adapters E (restore_selection (rebuilt E adapters d)))"
        "notify_adapters E (restore_selection (rebuilt E adapters d))"]
    by (simp add: refreshAdapters_changed [OF True])
next
  case False
  obtain rows selected vis title where
    r: "refresh_rows (env_qt E) (dk_selected_link_key d) (dk_links d) adapters (dk_selected d) = (rows, selected, vis, title)"
    by (cases "refresh_rows (env_qt E) (dk_selected_link_key d) (dk_links d) adapters (dk_selected d)")
  have same: "agree e" if "handles e = handles d" "widgets e = widgets d" for e :: "('c, 'd, 'o) dock"
    using agree_frame [OF that] assms(1) by simp
  show ?thesis
    unfolding refreshAdapters_same [OF False r] by (intro agree_notify assms(2) same) simp_all
qed

lemma agree_auto_manual:
  fixes d :: "('c, 'd, 'o) dock"
  assumes "agree d" and "hosted E"
  shows "agree (on_auto_toggled E b d)" "agree (on_manual_changed E v d)"
proof -
  have dis: "agree (set_manual_enabled x e) = agree e" "agree (bitrate_refused e) = agree e"
    "agree (e\<lparr>dk_auto_bitrate := x\<rparr>) = agree e" for x and e :: "('c, 'd, 'o) dock"
    by (rule agree_frame, simp, simp)+
  have set: "agree (update_settings (\<lambda>s. obs_data_set_int data ''bitrate'' k (obs_data_set_bool data ''auto_bitrate'' x s)) e) "
    "agree (update_settings (obs_data_set_int data ''bitrate'' k) e)"
    "agree (update_settings (obs_data_set_bool data ''auto_bitrate'' x) e)" if "agree e" for k x and e :: "('c, 'd, 'o) dock"
    using that by (auto intro!: agree_settings simp: data_ints)
  have m: "dk_output (set_manual_enabled x e) = dk_output e" "dk_running (set_manual_enabled x e) = dk_running e"
    for x and e :: "('c, 'd, 'o) dock"
    by (simp_all add: set_manual_enabled_def phase_fields)
  have lim: "limits y = limits x" if "output_set_bitrate_control api b k x = (r, y)" for b k x r y
    using control_limit [of b k x] that by simp
  show "agree (on_auto_toggled E b d)"
    using assms by (auto simp: on_auto_toggled_def hostedD dis Let_def phase_fields m
        intro!: set agree_output dest!: lim split: option.split prod.split)
  show "agree (on_manual_changed E v d)"
    using assms by (auto simp: on_manual_changed_def hostedD dis Let_def phase_fields m
        intro!: set agree_output dest!: lim split: option.split prod.split)
qed

text \<open>Changing the limit itself: the spin box already has the new value.\<close>

lemma agree_max:
  fixes d :: "('c, 'd, 'o) dock"
  assumes "agree d" and "hosted E" and "widgets_ok d" and "dk_running d \<longrightarrow> dk_settings d \<noteq> None"
    and v: "v = sp_value s" and s: "spin_ok 500 30000 s"
  shows "agree (on_max_changed E v (d\<lparr>dk_max_bitrate := s\<rparr>))"
proof -
  have set: "agree (update_settings (obs_data_set_int data ''max_bitrate'' v) e)"
    if "dk_output e = Some y" "dk_running e" "limits y = (500, v)" "dk_max_bitrate e = s" for y and e :: "('c, 'd, 'o) dock"
    using that v by (auto simp: agree_def update_settings_def data_ints)
  have idle: "agree (update_settings g (d\<lparr>dk_max_bitrate := s\<rparr>))" if "\<not> dk_running d" for g
    using assms(1) that by (auto simp: agree_def update_settings_def split: option.split)
  show ?thesis
  proof (cases "dk_output d")
    case None
    then show ?thesis
      by (simp add: on_max_changed_def Let_def phase_fields)
  next
    case (Some x)
    show ?thesis
    proof (cases "dk_running d")
      case False
      then show ?thesis using Some idle by (simp add: on_max_changed_def Let_def)
    next
      case True
      obtain r y where call: "output_set_max_bitrate api v x = (r, y)" by fastforce
      obtain s0 where s0: "dk_settings d = Some s0" using assms(4) True by auto
      have old: "limits x = (500, sp_value (dk_max_bitrate d))" "obs_data_get_int data s0 ''max_bitrate'' = sp_value (dk_max_bitrate d)"
        using assms(1) True Some s0 by (simp_all add: agree_def)
      have range: "500 \<le> sp_value (dk_max_bitrate d)" "sp_value (dk_max_bitrate d) \<le> 30000"
        using assms(3) by (simp_all add: widgets_ok_def spin_ok_def)
      show ?thesis
      proof (cases "r = 0")
        case True
        then have "limits y = (500, v)"
          using max_accepted [of x v y] old call v s by (simp add: spin_ok_def)
        with True call Some \<open>dk_running d\<close> assms(2) show ?thesis
          by (simp add: on_max_changed_def hostedD Let_def) (rule set, simp_all)
      next
        case False
        have "cast_int (obs_data_get_int data s0 ''max_bitrate'') = sp_value (dk_max_bitrate d)"
          using old range by (simp add: cast_int_id)
        moreover have "sp_value (setValue (sp_value (dk_max_bitrate d)) s) = sp_value (dk_max_bitrate d)"
          using range s by (simp add: setValue_def spin_ok_def clamp_id)
        moreover have "agree (bitrate_refused e) = agree e" for e :: "('c, 'd, 'o) dock"
          by (rule agree_frame) simp_all
        ultimately show ?thesis
          using False call Some \<open>dk_running d\<close> assms(2) s0 old max_refused [OF call False]
          by (simp add: on_max_changed_def hostedD Let_def) (simp add: agree_def)
      qed
    qed
  qed
qed

lemma agree_set_widgets:
  fixes d :: "('c, 'd, 'o) dock"
  assumes "agree d" and "hosted E" and "widgets_ok d" and "handles_ok True d"
  shows "agree (set_auto E b d)" "agree (set_manual E v d)" "agree (set_max E v d)"
    "agree (set_source_index m d)" "agree (set_video_index m d)" "agree (set_audio_index m d)"
proof -
  show "agree (set_auto E b d)"
    using assms(1) agree_auto_manual(1) [of "d\<lparr>dk_auto_bitrate := b\<rparr>" E b] agree_frame [of "d\<lparr>dk_auto_bitrate := b\<rparr>" d]
      assms(2) by (simp add: set_auto_def)
  have man: "agree (d\<lparr>dk_manual_bitrate := m\<rparr>)" for m
    using assms(1) agree_cong [of "d\<lparr>dk_manual_bitrate := m\<rparr>" d] by simp
  then show "agree (set_manual E v d)"
    using agree_auto_manual(2) [OF man assms(2)] by (simp add: set_manual_def Let_def)
  have s: "spin_ok 500 30000 (setValue v (dk_max_bitrate d))"
    using assms(3) by (simp add: widgets_ok_def)
  have r: "dk_running d \<longrightarrow> dk_settings d \<noteq> None"
    using assms(4) by (auto simp: handles_ok_def)
  show "agree (set_max E v d)"
  proof (cases "dk_connected d \<and> sp_value (setValue v (dk_max_bitrate d)) \<noteq> sp_value (dk_max_bitrate d)")
    case True
    then show ?thesis
      using agree_max [OF assms(1,2,3) r refl s] by (simp add: set_max_def Let_def)
  next
    case False
    then have "sp_value (setValue v (dk_max_bitrate d)) = sp_value (dk_max_bitrate d)"
      using assms(4) by (simp add: handles_ok_def)
    then have "agree (d\<lparr>dk_max_bitrate := setValue v (dk_max_bitrate d)\<rparr>)"
      using assms(1) by (auto simp: agree_def split: option.split)
    with False show ?thesis by (auto simp: set_max_def Let_def)
  qed
  show "agree (set_source_index m d)" "agree (set_video_index m d)" "agree (set_audio_index m d)"
    using assms(1) agree_cong [of "set_source_index m d" d] agree_cong [of "set_video_index m d" d]
      agree_cong [of "set_audio_index m d" d] combo_sets_max [of m d] by simp_all
qed

lemma agree_bitrate_requests:
  fixes d :: "('c, 'd, 'o) dock"
  assumes "agree d" and "hosted E" and "widgets_ok d"
  shows "agree (snd (websocketSetBitrateControl E b v d))" "agree (snd (websocketSetMaxBitrate E w d))"
proof -
  have ask: "agree (snd (ask_output (output_set_bitrate_control api b v) d))"
    using assms(1) by (auto simp: ask_output_def split: bool.split option.split prod.split
        intro!: agree_output) (metis control_limit snd_conv)
  have dis: "agree (set_manual_enabled x e) = agree e" for x and e :: "('c, 'd, 'o) dock"
    by (rule agree_frame) simp_all
  have man: "agree (e\<lparr>dk_manual_bitrate := m, dk_auto_bitrate := x\<rparr>) = agree e" for m x and e :: "('c, 'd, 'o) dock"
    by (rule agree_cong) simp_all
  show "agree (snd (websocketSetBitrateControl E b v d))"
    using assms(1) ask assms(2)
    by (cases rule: websocketSetBitrateControl_cases [of E b v d])
      (auto simp: hostedD dis man intro!: agree_settings simp: data_ints)
  show "agree (snd (websocketSetMaxBitrate E w d))"
  proof (cases rule: websocketSetMaxBitrate_cases [of E w d])
    case (refused r)
    then obtain x y where "dk_running d" "dk_output d = Some x" "output_set_max_bitrate api w x = (r, y)"
      "snd (websocketSetMaxBitrate E w d) = d\<lparr>dk_output := Some y\<rparr>"
      using assms(2) by (auto simp: ask_output_def hostedD split: bool.splits option.splits prod.splits)
    with refused assms(1) max_refused show ?thesis by (simp add: agree_output)
  next
    case (accepted d1)
    have range: "sp_minimum (dk_max_bitrate d) = 500" "sp_maximum (dk_max_bitrate d) = 30000"
      using assms(3) by (simp_all add: widgets_ok_def spin_ok_def)
    have spin: "sp_value (setValue w (dk_max_bitrate d)) = w"
      using accepted(2,3) by (simp add: setValue_def clamp_id)
    show ?thesis
    proof (cases "dk_running d \<and> dk_output d \<noteq> None")
      case True
      then obtain x y where "dk_running d" "dk_output d = Some x" "output_set_max_bitrate api w x = (0, y)"
        "d1 = d\<lparr>dk_output := Some y\<rparr>"
        using accepted(1) assms(2) by (auto simp: ask_output_def hostedD split: bool.splits option.splits prod.splits)
      moreover from this(1-3) have "limits y = (500, w)"
        using max_accepted [of x w y] accepted(2,3) range assms(1) by (simp add: agree_def)
      ultimately show ?thesis
        using accepted(4) spin assms(2) by (auto simp: agree_def update_settings_def hostedD data_ints)
    next
      case False
      then have "d1 = d"
        using accepted(1) by (auto simp: ask_output_def split: bool.splits option.splits)
      with False assms(1) accepted(4) show ?thesis
        by (auto simp: agree_def update_settings_def split: option.split)
    qed
  qed (use assms(1) in simp)
qed

text \<open>A start: the settings of the new or updated output carry the value of the spin box.\<close>

lemma output_settings_max:
  "hosted E \<Longrightarrow> obs_data_get_int data (output_settings E source v a d s) ''max_bitrate'' = sp_value (dk_max_bitrate d)"
  "hosted E \<Longrightarrow> obs_data_get_int data (output_settings E source v a d s) ''min_bitrate'' = 500"
  by (simp_all add: output_settings_def hostedD data_ints Let_def)

lemma agree_launch:
  fixes d :: "('c, 'd, 'o) dock"
  assumes "agree d" and "hosted E" and "widgets_ok d" and "\<not> dk_running d" and "dk_settings d \<noteq> None"
  shows "agree (launch E source v a d)"
proof -
  define d1 where "d1 = ensure_output E (update_settings (output_settings E source v a d) d)"
  let ?k = "sp_value (dk_max_bitrate d)"
  have d1: "\<not> dk_running d1" "dk_max_bitrate d1 = dk_max_bitrate d"
    "\<And>x. dk_output d1 = Some x \<Longrightarrow> \<not> busy x"
    "\<And>s. dk_settings d1 = Some s \<Longrightarrow> obs_data_get_int data s ''max_bitrate'' = ?k \<and> obs_data_get_int data s ''min_bitrate'' = 500"
    using assms output_settings_max [OF assms(2), of source v a d]
    by (auto simp: d1_def ensure_output_def update_settings_def ref_def agree_def hostedD
        create_settings dest: create_idle split: option.splits)
  show ?thesis
  proof (cases "dk_output d1")
    case None
    then show ?thesis
      by (simp add: launch_def Let_def phase_fields flip: d1_def)
  next
    case (Some x)
    let ?o1 = "obs_output_set_audio_encoder api a (obs_output_set_video_encoder api v x)"
    let ?d2 = "release_acquired (source = ''custom'') v a (d1\<lparr>dk_output := Some ?o1\<rparr>)"
    obtain s1 where s1: "dk_settings d1 = Some s1"
      using assms(5) ensure_output_handles(3) [of E "update_settings (output_settings E source v a d) d"]
      by (auto simp: d1_def phase_fields)
    obtain o2 s2 where o2: "obs_output_update api s1 ?o1 = (o2, s2)" by fastforce
    obtain ok o3 where o3: "obs_output_start api o2 = (ok, o3)" by fastforce
    have range: "500 \<le> ?k" "?k \<le> 30000"
      using assms(3) by (simp_all add: widgets_ok_def spin_ok_def)
    have "\<not> busy ?o1" using d1(3) [OF Some] by (simp add: encoders_idle)
    from update_limit [OF this _ _ _ o2] d1(4) [OF s1] range
    have u: "\<not> busy o2" "limits o2 = (500, ?k)" "obs_data_get_int data s2 ''max_bitrate'' = ?k" by simp_all
    from start_limit [OF o3 u(1)] have st: "limits o3 = limits o2" "\<not> ok \<longrightarrow> \<not> busy o3" by simp_all
    have "dk_max_bitrate ?d2 = dk_max_bitrate d"
      using release_parts(22) [of "source = ''custom''" v a "d1\<lparr>dk_output := Some ?o1\<rparr>"] d1(2) by (simp add: widgets_def)
    then show ?thesis
      using Some s1 o2 o3 st u d1(1) assms(2)
      by (auto simp: launch_def hostedD Let_def phase_fields agree_def set_state_text_def view_update_def simp flip: d1_def)
  qed
qed

lemma agree_toggle:
  fixes d :: "('c, 'd, 'o) dock"
  assumes "agree d" and "hosted E" and "widgets_ok d"
  shows "agree (toggleOutput E d)"
proof (cases "dk_running d")
  case True
  then show ?thesis by (simp add: toggleOutput_def stopOutput_handles(2))
next
  case False
  let ?d = "ensure_settings E d"
  have "agree ?d" "widgets_ok ?d"
    using assms(1,3) False widgets_ok_cong [of ?d d]
    by (auto simp: agree_def ensure_settings_def ref_def split: option.splits)
  moreover have "flags (phase_dock (toggle_phases E ?d)) = flags ?d" "widgets (phase_dock (toggle_phases E ?d)) = widgets ?d"
    by (simp_all add: toggle_phases_flags)
  ultimately have p: "agree (phase_dock (toggle_phases E ?d))" "widgets_ok (phase_dock (toggle_phases E ?d))"
    "\<not> dk_running (phase_dock (toggle_phases E ?d))" "dk_settings (phase_dock (toggle_phases E ?d)) \<noteq> None"
    using False ensure_settings_fields(1,2) [of E d] widgets_ok_cong [of "phase_dock (toggle_phases E ?d)" ?d]
    by (auto simp: agree_def flags_def widgets_def split: option.splits)
  show ?thesis
  proof (cases "toggle_phases E ?d" rule: phase_dock.cases)
    case (1 d1)
    then show ?thesis using p False by (simp add: toggleOutput_unfold)
  next
    case (2 d1 v a)
    then show ?thesis
      using p False agree_launch [of d1 E _ v a] assms(2) by (simp add: toggleOutput_unfold)
  qed
qed

lemma agree_timer: "agree d \<Longrightarrow> hosted E \<Longrightarrow> agree (refreshStatus E E2 (refreshAdapters E adapters d))"
  using agree_refreshAdapters [of d E adapters]
    agree_frame [of "refreshStatus E E2 (refreshAdapters E adapters d)" "refreshAdapters E adapters d"]
  by simp

lemma agree_reload: "agree (reloadProfile E adapters d)" if "hosted E" for d :: "('c, 'd, 'o) dock"
proof -
  have "dk_output (loadProfile E (release_settings (release_output (stopOutput E d)))) = None"
    by (rule loadProfile_output_None) (simp add: release_fields)
  from agree_refreshAdapters [OF agree_none [OF this] that] show ?thesis
    by (simp add: reloadProfile_def)
qed

lemma agree_step:
  fixes d :: "('c, 'd, 'o) dock"
  assumes d: "agree d" "dock_ok d" and "hosted E" and "output_op moves op d"
  shows "agree (dock_step E op d)"
proof -
  from d(2) have ok: "widgets_ok d" "handles_ok True d" "view_ok d" "checks_ok d" and c: "dk_connected d"
    by (simp_all add: dock_ok_def dock_ok_connected)
  note w = agree_set_widgets [OF d(1) assms(3) ok(1,2)]
  note frame = agree_frame [of "dock_step E op d" d]
  show ?thesis
  proof (cases op)
    case (WsLink i b)
    show ?thesis
    proof (cases "find_index (\<lambda>r. srtla_output_link_id (Some (c_str (lr_id r))) = i) (dk_links d)")
      case (Some row)
      then have "row < length (dk_links d)" by (blast dest: find_index_Some)
      from agree_check [OF d(1) assms(3) c this] Some WsLink show ?thesis
        by (simp add: websocketSetLinkEnabled_eq [OF ok(3,4) c] Let_def)
    qed (use WsLink d(1) in \<open>simp add: websocketSetLinkEnabled_eq [OF ok(3,4) c]\<close>)
  next
    case (OutputMoves y)
    then show ?thesis
      using d(1) assms(4) moves_limit by (auto simp: agree_def split: option.splits)
  next
    case (WsActive b)
    then show ?thesis
      using agree_toggle [OF d(1) assms(3) ok(1)] d(1) by (simp add: websocketSetOutputActive_def Let_def)
  next
    case (PickRange seconds)
    then show ?thesis
      using d(1) agree_cong [of "on_history_range (env_qt E) seconds d" d]
      by (simp add: on_history_range_def updateHistoryPanel_def updateOverviewSparklines_def view_update_def Let_def)
  qed (use assms ok c w frame agree_toggle [OF d(1) assms(3) ok(1)] agree_timer [OF d(1) assms(3)]
      agree_reload [OF assms(3)] agree_check [OF d(1) assms(3) c] agree_bitrate_requests [OF d(1) assms(3) ok(1)]
      in \<open>auto simp: stopOutput_handles(2)\<close>)
qed

end

section \<open>The output behind OBS\<close>

text \<open>
  An output object of OBS with the plugin's data and the identity of its encoders; the answers of
  the engine and of OBS to the calls the object makes. The registered callbacks of
  \<^verbatim>\<open>srtla_output_info\<close> are what OBS calls: creation, update, start and stop.
\<close>

record output_object =
  ob_data :: srtla_output
  ob_video :: "nat option"
  ob_audio :: "nat option"

record host =
  ho_engine_create :: "string \<Rightarrow> bool"
  ho_ulong_bits :: nat
  ho_adapters :: "network_adapter list"
  ho_start :: start_answers
  ho_teardown :: teardown_answers
  ho_set_link :: "64 word \<Rightarrow> bool \<Rightarrow> int"
  ho_set_video :: "int \<Rightarrow> int"
  ho_set_max :: "int \<Rightarrow> int"
  ho_update_adapters :: "string \<Rightarrow> int"
  ho_stats_size :: nat
  ho_stats :: "nat \<Rightarrow> nat \<times> string"

definition with_data :: "output_object \<Rightarrow> int \<times> srtla_output option \<Rightarrow> int \<times> output_object" where
  "with_data x result = (fst result, case snd result of Some d \<Rightarrow> x\<lparr>ob_data := d\<rparr> | None \<Rightarrow> x)"

definition srtla_outputs :: "host \<Rightarrow> 'd obs_data_api \<Rightarrow> ('d, output_object) output_api" where
  "srtla_outputs h data = \<lparr>
     obs_output_create = (\<lambda>s.
       case srtla_output_create (ho_engine_create h) data (ho_ulong_bits h) (ho_adapters h) None None (Some s) of
         (d, settings) \<Rightarrow> map_option (\<lambda>s'. (\<lparr>ob_data = d, ob_video = None, ob_audio = None\<rparr>, s')) settings),
     obs_output_update = (\<lambda>s x.
       case srtla_output_update (ho_engine_create h) data (ho_ulong_bits h) (ho_adapters h) (Some s) (ob_data x) of
         (d, settings) \<Rightarrow> (x\<lparr>ob_data := d\<rparr>, case settings of Some s' \<Rightarrow> s' | None \<Rightarrow> s)),
     obs_output_start = (\<lambda>x. case srtla_output_start (ho_start h) (ob_data x) of (ok, d) \<Rightarrow> (ok, x\<lparr>ob_data := d\<rparr>)),
     obs_output_get_last_error = (\<lambda>x. Some (so_last_error (ob_data x))),
     obs_output_active = (\<lambda>x. so_capture_active (ob_data x)),
     obs_output_stop = (\<lambda>x. x\<lparr>ob_data := srtla_output_stop (ho_teardown h) (ob_data x)\<rparr>),
     obs_output_set_video_encoder = (\<lambda>e x. x\<lparr>ob_video := map_option er_identity e,
       ob_data := (ob_data x)\<lparr>so_video_encoder := map_option obs_encoder.truncate e\<rparr>\<rparr>),
     obs_output_set_audio_encoder = (\<lambda>e x. x\<lparr>ob_audio := map_option er_identity e,
       ob_data := (ob_data x)\<lparr>so_audio_encoder := map_option ec_codec e\<rparr>\<rparr>),
     obs_output_get_video_encoder = ob_video,
     obs_output_get_audio_encoder = ob_audio,
     output_set_link_enabled = (\<lambda>i b x. with_data x (srtla_output_set_link_enabled (ho_set_link h) i b (Some (ob_data x)))),
     output_set_bitrate_control = (\<lambda>b k x. with_data x (srtla_output_set_bitrate_control (ho_set_video h) b k (Some (ob_data x)))),
     output_set_max_bitrate = (\<lambda>k x. with_data x (srtla_output_set_max_bitrate (ho_set_max h) (ho_set_video h) k (Some (ob_data x)))),
     output_update_adapters = (\<lambda>x. with_data x (srtla_output_update_adapters (ho_update_adapters h) (ho_adapters h) (Some (ob_data x)))),
     output_stats_size = (\<lambda>x. fst (srtla_output_copy_stats_json (\<lambda>_. (ho_stats_size h, [])) 0 (Some (ob_data x)))),
     output_copy_stats_json = (\<lambda>n x. srtla_output_copy_stats_json (ho_stats h) n (Some (ob_data x)))\<rparr>"

text \<open>What an output does on its own: its threads, packets, and the task after a fatal error.\<close>

inductive srtla_moves :: "output_object \<Rightarrow> output_object \<Rightarrow> bool" where
  "srtla_moves x (x\<lparr>ob_data := abr_round ab (ob_data x)\<rparr>)"
| "srtla_moves x (x\<lparr>ob_data := srtla_output_encoded_packet ff ov ta p (ob_data x)\<rparr>)"
| "srtla_moves x (x\<lparr>ob_data := session_advances ta a (ob_data x)\<rparr>)"
| "srtla_moves x (x\<lparr>ob_data := signal_fatal_output_on_ui td (ob_data x)\<rparr>)"

definition object_limits :: "output_object \<Rightarrow> int \<times> int" where
  "object_limits x = (so_min_bitrate_kbps (ob_data x), so_max_bitrate_kbps (ob_data x))"

lemma object_limits_view: "object_limits x = snd (limits_view (ob_data x))"
  by (simp add: object_limits_def limits_view_def)

text \<open>The settings the output rewrites on its own (URL, passphrase, latency) are not the limits.\<close>

lemma map_settings_int:
  "obs_data_get_int map_settings (obs_data_set_int map_settings n k s) n' = (if n' = n then k else obs_data_get_int map_settings s n')"
  "n' \<noteq> n \<Longrightarrow> obs_data_get_int map_settings (obs_data_set_string map_settings n v s) n' = obs_data_get_int map_settings s n'"
  "n' \<noteq> n \<Longrightarrow> obs_data_get_int map_settings (obs_data_set_bool map_settings n b s) n' = obs_data_get_int map_settings s n'"
  by (simp_all add: map_settings_def)

lemma rewritten_settings:
  assumes "n = ''max_bitrate'' \<or> n = ''min_bitrate''"
  shows "\<exists>s'. snd (normalize_passphrase_setting map_settings (split_url_query_into_settings map_settings (Some s))) = Some s'
    \<and> obs_data_get_int map_settings s' n = obs_data_get_int map_settings s n"
proof -
  have ne: "n \<noteq> ''stream_id''" "n \<noteq> ''passphrase''" "n \<noteq> ''latency_ms''" "n \<noteq> ''pbkeylen''" "n \<noteq> ''url''"
    "n \<noteq> ''passphrase_secret''" "n \<noteq> ''passphrase_dpapi''"
    using assms by auto
  have item: "obs_data_get_int map_settings (apply_query_item map_settings item d) n = obs_data_get_int map_settings d n" for item d
    by (simp add: apply_query_item_def map_settings_int ne Let_def split: option.split)
  have "obs_data_get_int map_settings (foldl (\<lambda>d item. apply_query_item map_settings item d) d items) n
      = obs_data_get_int map_settings d n" for items d
    by (induction items arbitrary: d) (simp_all add: item)
  then obtain s1 where s1: "split_url_query_into_settings map_settings (Some s) = Some s1"
    "obs_data_get_int map_settings s1 n = obs_data_get_int map_settings s n"
    by (auto simp: split_url_query_into_settings_def map_settings_int ne Let_def split: option.split)
  then show ?thesis
    by (simp add: normalize_passphrase_setting_def map_settings_int ne Let_def)
qed

lemma updated_limits:
  assumes "500 \<le> obs_data_get_int map_settings s ''max_bitrate''" and "obs_data_get_int map_settings s ''max_bitrate'' \<le> 30000"
    and "obs_data_get_int map_settings s ''min_bitrate'' = 500"
  shows "so_min_bitrate_kbps (apply_settings map_settings bits (Some s) d) = 500"
    "so_max_bitrate_kbps (apply_settings map_settings bits (Some s) d) = obs_data_get_int map_settings s ''max_bitrate''"
    "running (apply_settings map_settings bits (Some s) d) = running d"
  using assms
  by (simp_all add: apply_settings_def configured_max_bitrate_kbps_def configured_min_bitrate_kbps_def bitrate_consts
      cast_int_id clamp_id Let_def)

lemma limits_view_max: "limits_view (d\<lparr>so_max_bitrate_kbps := m\<rparr>) = (fst (limits_view d), fst (snd (limits_view d)), m)"
  by (simp add: limits_view_def)

lemma max_bitrate_result:
  "\<exists>d'. snd (srtla_output_set_max_bitrate f (\<lambda>_. 0) k (Some d)) = Some d' \<and> limits_view d' =
     (if fst (srtla_output_set_max_bitrate f (\<lambda>_. 0) k (Some d)) = 0
      then (running d, so_min_bitrate_kbps d, clamp k (max 1 (so_min_bitrate_kbps d)) 30000) else limits_view d)"
proof -
  have v: "fst (limits_view d) = running d" "fst (snd (limits_view d)) = so_min_bitrate_kbps d"
    by (simp_all add: limits_view_def)
  show ?thesis
    by (simp add: srtla_output_set_max_bitrate_def limits_view_max v ABSOLUTE_MAX_BITRATE_KBPS_def Let_def)
qed

lemma control_result:
  "\<exists>d'. snd (srtla_output_set_bitrate_control f b k (Some d)) = Some d' \<and> limits_view d' = limits_view d"
  by (simp add: srtla_output_set_bitrate_control_def Let_def)

lemma link_result:
  "\<exists>d'. snd (srtla_output_set_link_enabled f i b (Some d)) = Some d' \<and> limits_view d' = limits_view d"
  "\<exists>d'. snd (srtla_output_update_adapters g adapters (Some d)) = Some d' \<and> limits_view d' = limits_view d"
  by (simp_all add: srtla_output_set_link_enabled_def srtla_output_update_adapters_def Let_def)

lemma moves_limits:
  assumes "srtla_moves x y"
  shows "object_limits y = object_limits x \<and> (running (ob_data y) \<longrightarrow> running (ob_data x))"
proof -
  have run: "running z = fst (limits_view z)" for z :: srtla_output
    by (simp add: limits_view_def)
  show ?thesis
    using assms
  proof cases
    case (4 td)
    with limits_fatal_task [of td "ob_data x"] show ?thesis by (auto simp: object_limits_view run)
  qed (simp_all add: object_limits_view run limits_abr limits_packet limits_session)
qed

text \<open>
  The output as the keeper of the limit, for an engine that accepts every encoder bitrate: when it
  refuses one after it accepted a new limit, \<^verbatim>\<open>srtla_output_set_max_bitrate\<close> reports a failure although
  the limit has changed.
\<close>

definition accepting :: "host \<Rightarrow> host" where
  "accepting h = h\<lparr>ho_set_video := (\<lambda>_. 0)\<rparr>"

interpretation keeper: limit_keeper "srtla_outputs (accepting h) map_settings" map_settings object_limits
  "\<lambda>x. running (ob_data x)" srtla_moves for h
proof
  fix k x y
  assume "fst (object_limits x) = 500" "500 \<le> k" "k \<le> 30000"
    and c: "output_set_max_bitrate (srtla_outputs (accepting h) map_settings) k x = (0, y)"
  then show "object_limits y = (500, k)"
    using max_bitrate_result [of "ho_set_max h" k "ob_data x"]
    by (auto simp: srtla_outputs_def accepting_def with_data_def object_limits_def limits_view_def clamp_id)
next
  fix k x r y
  assume "output_set_max_bitrate (srtla_outputs (accepting h) map_settings) k x = (r, y)" "r \<noteq> 0"
  then show "object_limits y = object_limits x"
    using max_bitrate_result [of "ho_set_max h" k "ob_data x"]
    by (auto simp: srtla_outputs_def accepting_def with_data_def object_limits_view)
next
  fix b k x
  show "object_limits (snd (output_set_bitrate_control (srtla_outputs (accepting h) map_settings) b k x)) = object_limits x"
    using control_result [of "\<lambda>_. 0" b k "ob_data x"]
    by (auto simp: srtla_outputs_def accepting_def with_data_def object_limits_view)
next
  fix i b x
  show "object_limits (snd (output_set_link_enabled (srtla_outputs (accepting h) map_settings) i b x)) = object_limits x"
    using link_result(1) [of "ho_set_link h" i b "ob_data x"]
    by (auto simp: srtla_outputs_def accepting_def with_data_def object_limits_view)
next
  fix x
  show "object_limits (snd (output_update_adapters (srtla_outputs (accepting h) map_settings) x)) = object_limits x"
    using link_result(2) [of "ho_update_adapters h" "ho_adapters h" "ob_data x"]
    by (auto simp: srtla_outputs_def accepting_def with_data_def object_limits_view)
next
  fix s x s'
  assume "obs_output_create (srtla_outputs (accepting h) map_settings) s = Some (x, s')"
  then show "\<not> running (ob_data x)"
    by (auto simp: srtla_outputs_def srtla_output_create_def apply_settings_def new_srtla_output_def engine_does_def Let_def
        split: prod.splits)
next
  fix e x
  show "running (ob_data (obs_output_set_video_encoder (srtla_outputs (accepting h) map_settings) e x)) = running (ob_data x)"
    "running (ob_data (obs_output_set_audio_encoder (srtla_outputs (accepting h) map_settings) e x)) = running (ob_data x)"
    by (simp_all add: srtla_outputs_def)
next
  fix x s y s'
  assume x: "\<not> running (ob_data x)"
    and r: "500 \<le> obs_data_get_int map_settings s ''max_bitrate''" "obs_data_get_int map_settings s ''max_bitrate'' \<le> 30000"
      "obs_data_get_int map_settings s ''min_bitrate'' = 500"
    and u: "obs_output_update (srtla_outputs (accepting h) map_settings) s x = (y, s')"
  obtain s1 where s1: "snd (normalize_passphrase_setting map_settings (split_url_query_into_settings map_settings (Some s))) = Some s1"
    "obs_data_get_int map_settings s1 ''max_bitrate'' = obs_data_get_int map_settings s ''max_bitrate''"
    using rewritten_settings [of "''max_bitrate''" s] by blast
  from rewritten_settings [of "''min_bitrate''" s] s1(1) r(3)
  have min: "obs_data_get_int map_settings s1 ''min_bitrate'' = 500" by auto
  obtain c where n: "normalize_passphrase_setting map_settings (split_url_query_into_settings map_settings (Some s)) = (c, Some s1)"
    using s1(1) by (cases "normalize_passphrase_setting map_settings (split_url_query_into_settings map_settings (Some s))") auto
  let ?d = "\<lambda>e. engine_does EngineCreate (if so_engine (ob_data x) then engine_does EngineDestroy (ob_data x) else ob_data x)
    \<lparr>so_engine := e\<rparr>"
  have "s' = s1" "\<exists>e c'. ob_data y = (apply_settings map_settings (ho_ulong_bits h) (Some s1) (?d e))\<lparr>so_credential_error := c'\<rparr>"
    using u x n by (auto simp: srtla_outputs_def accepting_def srtla_output_update_def Let_def) (rule exI, rule exI, rule refl)+
  then show "\<not> running (ob_data y) \<and> object_limits y = (500, obs_data_get_int map_settings s ''max_bitrate'')
      \<and> obs_data_get_int map_settings s' ''max_bitrate'' = obs_data_get_int map_settings s ''max_bitrate''"
    using updated_limits [of s1] s1(2) min r x by (auto simp: object_limits_def engine_does_def split: if_splits)
next
  fix s x s'
  assume c: "obs_output_create (srtla_outputs (accepting h) map_settings) s = Some (x, s')"
  then have "snd (normalize_passphrase_setting map_settings (split_url_query_into_settings map_settings (Some s))) = Some s'"
    by (auto simp: srtla_outputs_def srtla_output_create_def Let_def split: prod.splits)
  then show "obs_data_get_int map_settings s' ''max_bitrate'' = obs_data_get_int map_settings s ''max_bitrate''
      \<and> obs_data_get_int map_settings s' ''min_bitrate'' = obs_data_get_int map_settings s ''min_bitrate''"
    using rewritten_settings [of "''max_bitrate''" s] rewritten_settings [of "''min_bitrate''" s] by auto
next
  fix x ok y
  assume s: "obs_output_start (srtla_outputs (accepting h) map_settings) x = (ok, y)" and x: "\<not> running (ob_data x)"
  then have "srtla_output_start (ho_start h) (ob_data x) = (ok, ob_data y)"
    by (auto simp: srtla_outputs_def accepting_def split: prod.splits)
  from limits_start [OF this x] show "object_limits y = object_limits x \<and> (\<not> ok \<longrightarrow> \<not> running (ob_data y))"
    by (simp add: object_limits_view) (simp add: limits_view_def)
next
  fix x y
  assume "srtla_moves x y"
  then show "object_limits y = object_limits x \<and> (running (ob_data y) \<longrightarrow> running (ob_data x))"
    by (rule moves_limits)
qed (simp_all add: map_settings_int)

section \<open>The dock with its output\<close>

text \<open>
  A run of the dock whose output is the plugin's: OBS and the engine may answer every step
  differently, and the output moves on its own between the steps.
\<close>

definition srtla_env :: "('c, string \<rightharpoonup> setting, output_object) dock_env \<Rightarrow> bool" where
  "srtla_env E \<longleftrightarrow> (\<exists>h. env_out E = srtla_outputs (accepting h) map_settings) \<and> env_data E = map_settings"

fun srtla_run :: "(('c, string \<rightharpoonup> setting, output_object) dock_env \<times> ('c, string \<rightharpoonup> setting, output_object) dock_op) list
    \<Rightarrow> ('c, string \<rightharpoonup> setting, output_object) dock \<Rightarrow> bool" where
  "srtla_run [] d \<longleftrightarrow> True"
| "srtla_run ((E, op) # steps) d \<longleftrightarrow>
     srtla_env E \<and> op_ok E op \<and> output_op srtla_moves op d \<and> srtla_run steps (dock_step E op d)"

lemma srtla_run_agree:
  "keeper.agree d \<Longrightarrow> dock_ok d \<Longrightarrow> srtla_run steps d \<Longrightarrow> keeper.agree (dock_run steps d) \<and> dock_ok (dock_run steps d)"
proof (induction steps arbitrary: d)
  case (Cons step steps)
  obtain E op where s: "step = (E, op)" by fastforce
  with Cons.prems(3) obtain h where "env_out E = srtla_outputs (accepting h) map_settings" "env_data E = map_settings"
    and ops: "op_ok E op" "output_op srtla_moves op d" "srtla_run steps (dock_step E op d)"
    by (auto simp: srtla_env_def)
  then have "keeper.hosted h E" by (simp add: keeper.hosted_def)
  from keeper.agree_step [OF Cons.prems(1,2) this ops(2)] dock_step_ok [OF Cons.prems(2) ops(1)] Cons.IH ops(3) s
  show ?case by (simp add: dock_run_def)
qed (simp add: dock_run_def)

subsection \<open>A dock that starts\<close>

definition demo_host :: host where
  "demo_host = \<lparr>ho_engine_create = (\<lambda>_. True), ho_ulong_bits = 64, ho_adapters = [], ho_start = demo_start_answers,
     ho_teardown = demo_teardown, ho_set_link = (\<lambda>i b. 0), ho_set_video = (\<lambda>_. 0), ho_set_max = (\<lambda>_. 0),
     ho_update_adapters = (\<lambda>_. 0), ho_stats_size = 0, ho_stats = (\<lambda>_. (0, []))\<rparr>"
definition demo_srtla :: "(string \<rightharpoonup> setting, string \<rightharpoonup> setting, output_object) dock_env" where
  "demo_srtla = demo_env (srtla_outputs (accepting demo_host) map_settings)"
definition demo_dock :: "(string \<rightharpoonup> setting, string \<rightharpoonup> setting, output_object) dock" where
  "demo_dock = (blank_dock demo_srtla [(Some ''x264'', OBS_ENCODER_VIDEO, Some ''h264'', None)] (Some Map.empty))
     \<lparr>dk_connected := True, dk_encoder_source := encoder_sources\<lparr>cb_index := 2\<rparr>, dk_url := ''srtla://relay:5000''\<rparr>"

lemma demo_srtla_simps:
  "env_qt demo_srtla = demo_qt" "env_config demo_srtla = map_config" "env_data demo_srtla = map_settings"
  "env_data_create demo_srtla = Map.empty" "env_frontend demo_srtla = demo_frontend"
  "env_out demo_srtla = srtla_outputs (accepting demo_host) map_settings" "enabled_links_text demo_srtla m = []"
  by (simp_all add: demo_srtla_def demo_env_def enabled_links_text_def)

lemma demo_fields:
  "currentData (dk_encoder_source demo_dock) = ''custom''" "dk_running demo_dock = False" "dk_settings demo_dock = None"
  "currentData (dk_custom_video demo_dock) = ''x264''" "currentData (dk_custom_audio demo_dock) = []"
  "dk_config demo_dock = Some Map.empty" "dk_passphrase demo_dock = []" "dk_secret_error demo_dock = False"
  "dk_output demo_dock = None" "dk_url demo_dock = ''srtla://relay:5000''" "dk_stream_id demo_dock = []"
  "dk_latency_ms demo_dock = 2000" "dk_pbkeylen demo_dock = 16" "sp_value (dk_max_bitrate demo_dock) = 6000"
  "sp_value (dk_manual_bitrate demo_dock) = 1500" "dk_auto_bitrate demo_dock"
  by (simp_all add: demo_dock_def blank_dock_def encoder_sources_def currentData_def current_item_def addItem_def
      is_supported_video_codec_def demo_srtla_simps demo_qt_def)

lemma demo_url: "parse_legacy_url demo_qt ''srtla://relay:5000'' = new_legacy_url_fields\<lparr>lu_endpoint := ''srtla://relay:5000''\<rparr>"
  by (simp add: parse_legacy_url_def demo_qt_def)

lemma demo_checked:
  "\<exists>d1. toggle_phases demo_srtla (ensure_settings demo_srtla demo_dock) = Inr (d1, Some demo_video, None)
     \<and> dk_settings d1 = Some Map.empty \<and> dk_output d1 = None \<and> dk_running d1 = False \<and> dk_url d1 = ''srtla://relay:5000''
     \<and> dk_passphrase d1 = [] \<and> dk_stream_id d1 = [] \<and> dk_latency_ms d1 = 2000 \<and> dk_pbkeylen d1 = 16
     \<and> sp_value (dk_max_bitrate d1) = 6000"
  by (simp add: toggle_phases_def ensure_settings_def demo_fields ref_def acquire_custom_def
      create_custom_video_encoder_def demo_srtla_simps demo_frontend_def Let_def check_codecs_def is_supported_video_codec_def
      codec_of_def demo_video_def store_profile_def saveProfile_def demo_url new_legacy_url_fields_def save_profile_config_def view_update_def)

lemma demo_launch:
  assumes "dk_settings d1 = Some Map.empty" "dk_output d1 = None" "dk_running d1 = False" "dk_url d1 = ''srtla://relay:5000''"
     "dk_passphrase d1 = []" "dk_stream_id d1 = []" "dk_latency_ms d1 = 2000" "dk_pbkeylen d1 = 16"
     "sp_value (dk_max_bitrate d1) = 6000"
  shows "dk_running (launch demo_srtla ''custom'' (Some demo_video) None d1)"
proof -
  define s where "s = output_settings demo_srtla ''custom'' (Some demo_video) None d1 Map.empty"
  have get: "s ''url'' = Some (SStr ''srtla://relay:5000'')" "s ''stream_id'' = Some (SStr [])" "s ''passphrase'' = Some (SStr [])"
    "s ''passphrase_secret'' = Some (SStr [])" "s ''passphrase_dpapi'' = Some (SStr [])" "s ''latency_ms'' = Some (SInt 2000)"
    "s ''pbkeylen'' = Some (SInt 16)" "s ''encoder_mode'' = Some (SStr ''dedicated'')"
    unfolding s_def using assms
    by (simp_all add: output_settings_def demo_srtla_simps map_settings_def demo_url new_legacy_url_fields_def c_str_def)
  have split: "split_url_query_into_settings map_settings (Some s) = Some s"
    by (simp add: split_url_query_into_settings_def map_settings_def get str_find_def)
  have norm: "normalize_passphrase_setting map_settings (Some s) = (False, Some s)"
    by (simp add: normalize_passphrase_setting_def map_settings_def get nonempty_cstr_def)
  have endpoint: "parse_endpoint 64 (Some ''srtla://relay:5000'') = (''relay'', 5000)"
    by code_simp
  have pass: "passphrase_from_settings map_settings (Some s) = ([], False)"
    by (simp add: passphrase_from_settings_def map_settings_def get nonempty_cstr_def)
  have gs: "obs_data_get_string map_settings s ''url'' = Some ''srtla://relay:5000''" "obs_data_get_string map_settings s ''stream_id'' = Some []"
    "obs_data_get_string map_settings s ''encoder_mode'' = Some ''dedicated''"
    "obs_data_get_int map_settings s ''latency_ms'' = 2000" "obs_data_get_int map_settings s ''pbkeylen'' = 16"
    by (simp_all add: map_settings_def get)
  have ap: "session_config_of (apply_settings map_settings 64 (Some s) d) = session_config_of demo_output"
    "so_output (apply_settings map_settings 64 (Some s) d) = so_output d"
    "so_engine (apply_settings map_settings 64 (Some s) d) = so_engine d"
    "running (apply_settings map_settings 64 (Some s) d) = running d"
    "so_video_encoder (apply_settings map_settings 64 (Some s) d) = so_video_encoder d"
    "so_audio_encoder (apply_settings map_settings 64 (Some s) d) = so_audio_encoder d"
    "so_shared_encoder (apply_settings map_settings 64 (Some s) d) = False" for d
    by (simp_all add: apply_settings_def pass settings_string_def settings_int_def gs endpoint
        session_config_of_def demo_output_def new_srtla_output_def value_or_def cast_int_id clamp_id Let_def)
  let ?h = "accepting demo_host"
  have hs: "ho_engine_create ?h = (\<lambda>_. True)" "ho_ulong_bits ?h = 64" "ho_start ?h = demo_start_answers" "ho_adapters ?h = []"
    by (simp_all add: accepting_def demo_host_def)
  have made: "create_engine_from_settings (\<lambda>config. Some ()) map_settings 64 a (Some s) \<noteq> None" for a
    by (simp add: create_engine_from_settings_def)
  obtain dc where dc: "srtla_output_create (\<lambda>_. True) map_settings 64 [] None None (Some s) = (dc, Some s)" "so_output dc" "\<not> running dc"
    by (simp add: srtla_output_create_def split norm pass ap engine_does_def new_srtla_output_def Let_def)
  let ?x = "dc\<lparr>so_video_encoder := Some (obs_encoder.truncate demo_video), so_audio_encoder := None\<rparr>"
  have cred: "session_config_of (d\<lparr>so_credential_error := b\<rparr>) = session_config_of d" for d b
    by (simp add: session_config_of_def)
  let ?d = "(engine_does EngineCreate (if so_engine ?x then engine_does EngineDestroy ?x else ?x))\<lparr>so_engine := True\<rparr>"
  have d: "so_output ?d" "\<not> running ?d" "so_engine ?d" "so_video_encoder ?d = Some (obs_encoder.truncate demo_video)" "so_audio_encoder ?d = None"
    using dc(2,3) by (simp_all add: engine_does_def)
  obtain du where du: "srtla_output_update (\<lambda>_. True) map_settings 64 [] (Some s) ?x = (du, Some s)" "startable du" "\<not> running du"
    "session_config_of du = session_config_of demo_output"
  proof
    show "srtla_output_update (\<lambda>_. True) map_settings 64 [] (Some s) ?x = ((apply_settings map_settings 64 (Some s) ?d)\<lparr>so_credential_error := False\<rparr>, Some s)"
      using dc(3) made by (simp add: srtla_output_update_def split norm pass Let_def)
  qed (use d in \<open>simp_all add: ap cred startable_def supported_video_encoder_def supported_audio_encoder_def demo_video_def obs_encoder.defs\<close>)
  from demo_start [OF du(2,4)] obtain ds where ds: "srtla_output_start demo_start_answers du = (True, ds)"
    by (cases "srtla_output_start demo_start_answers du") auto
  have create: "obs_output_create (srtla_outputs ?h map_settings) s = Some (\<lparr>ob_data = dc, ob_video = None, ob_audio = None\<rparr>, s)"
    by (simp add: srtla_outputs_def hs dc)
  have update: "obs_output_update (srtla_outputs ?h map_settings) s x = (x\<lparr>ob_data := du\<rparr>, s)" if "ob_data x = ?x" for x
    using that by (simp add: srtla_outputs_def hs du)
  have start: "obs_output_start (srtla_outputs ?h map_settings) x = (True, x\<lparr>ob_data := ds\<rparr>)" if "ob_data x = du" for x
    using that by (simp add: srtla_outputs_def hs ds)
  have sets: "ob_data (obs_output_set_audio_encoder (srtla_outputs ?h map_settings) None
      (obs_output_set_video_encoder (srtla_outputs ?h map_settings) (Some demo_video) \<lparr>ob_data = dc, ob_video = None, ob_audio = None\<rparr>)) = ?x"
    by (simp add: srtla_outputs_def)
  have settings: "update_settings (output_settings demo_srtla ''custom'' (Some demo_video) None d1) d1 = d1\<lparr>dk_settings := Some s\<rparr>"
    using assms(1) by (simp add: update_settings_def s_def)
  show ?thesis
    using assms(2)
    by (simp add: launch_def settings ensure_output_def demo_srtla_simps create update [OF sets] start phase_fields ref_def Let_def)
qed
lemma demo_running: "dk_running (dock_run [(demo_srtla, ClickStartStop)] demo_dock)"
proof -
  obtain d1 where d1: "toggle_phases demo_srtla (ensure_settings demo_srtla demo_dock) = Inr (d1, Some demo_video, None)"
    and f: "dk_settings d1 = Some Map.empty" "dk_output d1 = None" "dk_running d1 = False" "dk_url d1 = ''srtla://relay:5000''"
     "dk_passphrase d1 = []" "dk_stream_id d1 = []" "dk_latency_ms d1 = 2000" "dk_pbkeylen d1 = 16"
     "sp_value (dk_max_bitrate d1) = 6000"
    using demo_checked by blast
  from demo_launch [OF f] d1 show ?thesis
    by (simp add: dock_run_def toggleOutput_unfold demo_fields ensure_settings_fields)
qed

lemma demo_dock_ok: "dock_ok demo_dock"
proof -
  let ?b = "blank_dock demo_srtla [(Some ''x264'', OBS_ENCODER_VIDEO, Some ''h264'', None)] (Some Map.empty)"
  have "checks_ok ?b" by (simp add: checks_ok_def blank_dock_def)
  with blank_dock_ok [of demo_srtla "[(Some ''x264'', OBS_ENCODER_VIDEO, Some ''h264'', None)]" "Some Map.empty"] show ?thesis
    by (simp add: dock_ok_def demo_dock_def widgets_ok_def telemetry_ok_def view_ok_def checks_ok_def handles_ok_def)
      (simp add: combo_ok_def encoder_sources_def)
qed

section \<open>Property\<close>

text \<open>
  C10. The bitrate limit the dock shows is the one the output enforces: from any well-formed dock
  without an output (a new one is), and whatever the user, WebSocket clients, profiles, OBS and the
  output's own threads do then, a running dock has an output whose limits are 500 kb/s and the
  value of the dock's spin box, also after changes that were refused. The engine is one that never
  refuses a bitrate of the encoder it was given.
\<close>

theorem dock_limit_enforced:
  assumes "dock_ok d0" and "dk_output d0 = None" and "srtla_run steps d0" and "d = dock_run steps d0" and "dk_running d"
  shows "\<exists>x. dk_output d = Some x \<and> so_min_bitrate_kbps (ob_data x) = 500
    \<and> so_max_bitrate_kbps (ob_data x) = sp_value (dk_max_bitrate d)"
proof -
  from srtla_run_agree [OF keeper.agree_none [OF assms(2)] assms(1,3)] assms(4)
  have d: "keeper.agree d" "dock_ok d" by simp_all
  obtain x where "dk_output d = Some x"
    using d(2) assms(5) by (auto simp: dock_ok_def handles_ok_def)
  then show ?thesis
    using d(1) assms(5) by (simp add: keeper.agree_def object_limits_def)
qed

theorem dock_limit_enforced_witness:
  "\<exists>x. dk_output (dock_run [(demo_srtla, ClickStartStop)] demo_dock) = Some x \<and> so_min_bitrate_kbps (ob_data x) = 500
    \<and> so_max_bitrate_kbps (ob_data x) = sp_value (dk_max_bitrate (dock_run [(demo_srtla, ClickStartStop)] demo_dock))"
proof (rule dock_limit_enforced [OF demo_dock_ok _ _ refl demo_running])
  show "srtla_run [(demo_srtla, ClickStartStop)] demo_dock"
    by (auto simp: srtla_env_def demo_srtla_simps)
qed (simp add: demo_fields)

end
