(* ===== verification/Dock_Charts.thy ===== *)
theory Dock_Charts
  imports Dock_Properties
begin

text \<open>
  What the two trend widgets of the dock draw: \<^verbatim>\<open>SparklineWidget::paintEvent\<close> and
  \<^verbatim>\<open>HistoryChartWidget::paintEvent\<close> as lists of drawing operations. Coordinates are exact rational
  numbers (the rounding of floating-point numbers is not modelled), a sample that is not a number
  interrupts a curve. Pens, palette and fonts are left out.
\<close>

section \<open>Drawing operations\<close>

type_synonym point = "rat \<times> rat"

record rect =
  rc_left :: rat
  rc_top :: rat
  rc_right :: rat
  rc_bottom :: rat

definition rc_width :: "rect \<Rightarrow> rat" where "rc_width r = rc_right r - rc_left r"
definition rc_height :: "rect \<Rightarrow> rat" where "rc_height r = rc_bottom r - rc_top r"

definition adjusted :: "rat \<Rightarrow> rat \<Rightarrow> rat \<Rightarrow> rat \<Rightarrow> rect \<Rightarrow> rect" where
  "adjusted l t r b rc = \<lparr>rc_left = rc_left rc + l, rc_top = rc_top rc + t, rc_right = rc_right rc + r, rc_bottom = rc_bottom rc + b\<rparr>"

datatype path_element = MoveTo point | LineTo point

datatype stroke = Edge | Curve rgb bool

datatype paint_op = DrawText rect string | DrawLine point point | DrawPath stroke "path_element list"

text \<open>\<^verbatim>\<open>std::isfinite\<close>: the value of a sample, unless it is not a number.\<close>

fun finite_value :: "sample \<Rightarrow> rat option" where
  "finite_value (Whole i) = Some (of_int i)"
| "finite_value (Over n k) = (if k = 0 then None else Some (of_int n / of_int k))"
| "finite_value NotANumber = None"

text \<open>The running minimum and maximum; \<open>None\<close> while both are infinite.\<close>

definition inspect :: "sample \<Rightarrow> (rat \<times> rat) option \<Rightarrow> (rat \<times> rat) option" where
  "inspect s acc =
     (case finite_value s of
        None \<Rightarrow> acc
      | Some v \<Rightarrow> (case acc of None \<Rightarrow> Some (v, v) | Some (lo, hi) \<Rightarrow> Some (min lo v, max hi v)))"

definition padding_of :: "rat \<Rightarrow> rat \<Rightarrow> rat" where
  "padding_of lo hi = (if hi - lo < 1 / 1000 then max 1 (\<bar>hi\<bar> * (8 / 100)) else (hi - lo) * (10 / 100))"

section \<open>Sparklines\<close>

text \<open>One series as a path; \<open>started\<close> is false after a gap, \<open>x i\<close> and \<open>y v\<close> are the coordinates.\<close>

fun series_path :: "bool \<Rightarrow> (nat \<Rightarrow> rat) \<Rightarrow> (rat \<Rightarrow> rat) \<Rightarrow> nat \<Rightarrow> point option \<Rightarrow> sample list \<Rightarrow> path_element list" where
  "series_path stepped x y index previous [] = []"
| "series_path stepped x y index previous (s # ss) =
     (case finite_value s of
        None \<Rightarrow> series_path stepped x y (Suc index) None ss
      | Some v \<Rightarrow>
          let p = (x index, y v)
          in (case previous of
                None \<Rightarrow> [MoveTo p]
              | Some q \<Rightarrow> if stepped then [LineTo (fst p, snd q), LineTo p] else [LineTo p])
             @ series_path stepped x y (Suc index) (Some p) ss)"

definition value_y :: "rect \<Rightarrow> rat \<Rightarrow> rat \<Rightarrow> rat \<Rightarrow> rat" where
  "value_y area lo hi v = rc_bottom area - (v - lo) / (hi - lo) * rc_height area"

text \<open>The column of a sample: \<open>n\<close> samples end at the right edge of the window.\<close>

definition elapsed_x :: "rect \<Rightarrow> int \<Rightarrow> nat \<Rightarrow> nat \<Rightarrow> rat" where
  "elapsed_x area window n index =
     rc_left area + of_int (window - int n + int index) * rc_width area / of_int (max 1 (window - 1))"

definition draw_series :: "rect \<Rightarrow> bool \<Rightarrow> int \<Rightarrow> rat \<Rightarrow> rat \<Rightarrow> rgb \<Rightarrow> bool \<Rightarrow> sample list \<Rightarrow> paint_op list" where
  "draw_series area stepped window lo hi color dashed series =
     (if length series < 2 then []
      else
        let path = series_path stepped (elapsed_x area window (length series)) (value_y area lo hi) 0 None series
        in [DrawPath Edge path, DrawPath (Curve color dashed) path])"

definition em_dash :: string where "em_dash = [CHR 0xE2, CHR 0x80, CHR 0x94]"

definition paint_sparkline :: "rect \<Rightarrow> sparkline \<Rightarrow> paint_op list" where
  "paint_sparkline widget s =
     (let area = adjusted 2 2 (- 2) (- 2) widget
      in if rc_width area < 2 \<or> rc_height area < 2 then []
         else if length (sl_values s) < 2 then [DrawText area em_dash]
         else
           (case fold inspect (sl_reference s) (fold inspect (sl_values s) None) of
              None \<Rightarrow> []
            | Some (minimum, maximum) \<Rightarrow>
                let padding = padding_of minimum maximum;
                    lo = minimum - padding; hi = maximum + padding
                in [DrawLine (rc_left area, rc_bottom area) (rc_right area, rc_bottom area)]
                   @ draw_series area (sl_stepped s) (sl_window_seconds s) lo hi (225, 173, 82) True (sl_reference s)
                   @ draw_series area (sl_stepped s) (sl_window_seconds s) lo hi (sl_color s) False (sl_values s)))"

section \<open>The history charts\<close>

text \<open>\<^verbatim>\<open>std::min(series.values.size(), static_cast<size_t>(windowSeconds_))\<close>, and the samples it covers.\<close>

definition window_count :: "int \<Rightarrow> sample list \<Rightarrow> nat" where
  "window_count window values = min (length values) (nat (cast_u64 window))"

definition window_part :: "int \<Rightarrow> sample list \<Rightarrow> sample list" where
  "window_part window values = drop (length values - window_count window values) values"

definition chart_curve :: "rect \<Rightarrow> int \<Rightarrow> rat \<Rightarrow> rat \<Rightarrow> chart_series \<Rightarrow> paint_op list" where
  "chart_curve plot window lo hi series =
     (let part = window_part window (cs_values series)
      in if length part < 2 then []
         else [DrawPath (Curve (cs_color series) (cs_dashed series))
           (series_path False (elapsed_x plot window (length part)) (value_y plot lo hi) 0 None part)])"

text \<open>\<open>fmt p v\<close> is the text of \<open>v\<close> with \<open>p\<close> decimals.\<close>

definition chart_ticks :: "(nat \<Rightarrow> rat \<Rightarrow> string) \<Rightarrow> rect \<Rightarrow> rect \<Rightarrow> int \<Rightarrow> rat \<Rightarrow> rat \<Rightarrow> paint_op list" where
  "chart_ticks fmt bounds plot window lo hi =
     concat (map (\<lambda>tick.
       let fraction = of_nat tick / 2; y = rc_bottom plot - fraction * rc_height plot
       in [DrawLine (rc_left plot, y) (rc_right plot, y),
           DrawText \<lparr>rc_left = rc_left bounds, rc_top = y - 8, rc_right = rc_left bounds + 29, rc_bottom = y + 8\<rparr>
             (fmt (if hi < 10 then 1 else 0) (lo + fraction * (hi - lo)))]) [0, 1, 2])
     @ map (\<lambda>(tick, label).
         let x = rc_left plot + of_nat tick * rc_width plot / 2
         in DrawText \<lparr>rc_left = x - 35, rc_top = rc_bottom plot + 2, rc_right = x + 35, rc_bottom = rc_bottom plot + 18\<rparr> label)
       [(0, [CHR 0xE2, CHR 0x88, CHR 0x92] @ to_string window @ ''s''),
        (1, [CHR 0xE2, CHR 0x88, CHR 0x92] @ to_string (window div 2) @ ''s''), (2, ''Now'')]"

definition paint_chart :: "(nat \<Rightarrow> rat \<Rightarrow> string) \<Rightarrow> rect \<Rightarrow> chart_series list \<Rightarrow> int \<Rightarrow> paint_op list" where
  "paint_chart fmt widget all_series window =
     (let bounds = adjusted 2 2 (- 2) (- 2) widget
      in if rc_width bounds < 60 \<or> rc_height bounds < 35 then []
         else if fold max (map (window_count window \<circ> cs_values) all_series) 0 < 2 then [DrawText bounds ''No history yet'']
         else
           (case fold (\<lambda>series. fold inspect (window_part window (cs_values series))) all_series None of
              None \<Rightarrow> [DrawText bounds ''Waiting for telemetry'']
            | Some (minimum, maximum) \<Rightarrow>
                let padding = padding_of minimum maximum;
                    lo = max 0 (minimum - padding); hi = maximum + padding;
                    plot = adjusted 34 5 (- 5) (- 20) bounds
                in chart_ticks fmt bounds plot window lo hi @ concat (map (chart_curve plot window lo hi) all_series)))"

section \<open>Curves stay in their area\<close>

definition inside :: "rect \<Rightarrow> point \<Rightarrow> bool" where
  "inside r p \<longleftrightarrow> rc_left r \<le> fst p \<and> fst p \<le> rc_right r \<and> rc_top r \<le> snd p \<and> snd p \<le> rc_bottom r"

fun element_point :: "path_element \<Rightarrow> point" where
  "element_point (MoveTo p) = p"
| "element_point (LineTo p) = p"

fun curve_points :: "paint_op \<Rightarrow> point list" where
  "curve_points (DrawPath st path) = map element_point path"
| "curve_points _ = []"

text \<open>The range found covers every finite sample.\<close>

definition covers :: "(rat \<times> rat) option \<Rightarrow> sample \<Rightarrow> bool" where
  "covers acc s \<longleftrightarrow> (\<forall>v. finite_value s = Some v \<longrightarrow> (\<exists>lo hi. acc = Some (lo, hi) \<and> lo \<le> v \<and> v \<le> hi))"

lemma inspect_covers: "covers acc s \<Longrightarrow> covers (inspect t acc) s" "covers (inspect s acc) s"
  by (auto simp: covers_def inspect_def min_def max_def split: option.splits)

lemma fold_inspect_covers:
  "covers acc s \<Longrightarrow> covers (fold inspect ss acc) s" "s \<in> set ss \<Longrightarrow> covers (fold inspect ss acc) s"
proof -
  show keep: "covers acc s \<Longrightarrow> covers (fold inspect ss acc) s" for ss acc
    by (induction ss arbitrary: acc) (simp_all add: inspect_covers)
  show "s \<in> set ss \<Longrightarrow> covers (fold inspect ss acc) s"
    by (induction ss arbitrary: acc) (auto simp: keep inspect_covers)
qed

lemma inspect_range: "(\<And>lo hi. acc = Some (lo, hi) \<Longrightarrow> lo \<le> hi) \<Longrightarrow> inspect s acc = Some (lo, hi) \<Longrightarrow> lo \<le> hi"
  by (auto simp: inspect_def split: option.splits prod.splits)

lemma fraction_bounds:
  fixes q w :: rat
  assumes "0 \<le> q" and "q \<le> 1" and "0 \<le> w"
  shows "0 \<le> q * w" "q * w \<le> w"
  using assms mult_right_mono [of q 1 w] by simp_all

lemma value_y_inside:
  assumes "lo \<le> v" and "v \<le> hi" and "lo < hi" and "0 \<le> rc_height r"
  shows "rc_top r \<le> value_y r lo hi v" "value_y r lo hi v \<le> rc_bottom r"
proof -
  have "0 \<le> (v - lo) / (hi - lo)" "(v - lo) / (hi - lo) \<le> 1"
    using assms by (simp_all add: divide_simps)
  from fraction_bounds [OF this assms(4)]
  show "rc_top r \<le> value_y r lo hi v" "value_y r lo hi v \<le> rc_bottom r"
    unfolding value_y_def rc_height_def by linarith+
qed

lemma elapsed_x_inside:
  assumes "int n \<le> window" and "index < n" and "2 \<le> n" and "0 \<le> rc_width r"
  shows "rc_left r \<le> elapsed_x r window n index" "elapsed_x r window n index \<le> rc_right r"
proof -
  let ?e = "window - int n + int index"
  have e: "0 \<le> ?e" "?e \<le> window - 1" "max 1 (window - 1) = window - 1" "0 < window - 1"
    using assms(1-3) by auto
  have q: "0 \<le> (of_int ?e :: rat) / of_int (window - 1)" "(of_int ?e :: rat) / of_int (window - 1) \<le> 1"
    using e by (simp_all add: divide_simps)
  have "elapsed_x r window n index = rc_left r + of_int ?e / of_int (window - 1) * rc_width r"
    unfolding elapsed_x_def e(3) by simp
  moreover note fraction_bounds [OF q assms(4)]
  ultimately show "rc_left r \<le> elapsed_x r window n index" "elapsed_x r window n index \<le> rc_right r"
    unfolding rc_width_def by linarith+
qed

lemma series_path_inside:
  assumes "\<forall>i<index + length ss. rc_left r \<le> x i \<and> x i \<le> rc_right r"
    and "\<forall>s\<in>set ss. \<forall>v. finite_value s = Some v \<longrightarrow> rc_top r \<le> y v \<and> y v \<le> rc_bottom r"
    and "\<forall>q. previous = Some q \<longrightarrow> inside r q"
  shows "\<forall>e\<in>set (series_path stepped x y index previous ss). inside r (element_point e)"
  using assms
proof (induction stepped x y index previous ss rule: series_path.induct)
  case (2 stepped x y index previous s ss)
  show ?case
  proof (cases "finite_value s")
    case None
    then show ?thesis using "2.IH"(1) "2.prems" by simp
  next
    case (Some v)
    then have "inside r (x index, y v)" using "2.prems" by (simp add: inside_def)
    then show ?thesis
      using "2.IH"(2) [OF Some refl] "2.prems" Some by (auto simp: inside_def Let_def split: option.split)
  qed
qed simp

lemma padding_pos: "0 < padding_of lo hi"
  by (auto simp: padding_of_def not_less)

lemma fold_inspect_range:
  assumes "\<And>lo hi. acc = Some (lo, hi) \<Longrightarrow> P lo \<and> lo \<le> hi" and "\<And>s v. s \<in> set ss \<Longrightarrow> finite_value s = Some v \<Longrightarrow> P v"
    and "fold inspect ss acc = Some (lo, hi)"
  shows "P lo \<and> lo \<le> hi"
  using assms
proof (induction ss arbitrary: acc)
  case (Cons s ss)
  have step: "P a \<and> a \<le> b" if "inspect s acc = Some (a, b)" for a b
    using that Cons.prems(1,2) by (auto simp: inspect_def min_def max_def split: option.splits if_splits) force+
  show ?case
  proof (rule Cons.IH [of "inspect s acc"])
    show "fold inspect ss (inspect s acc) = Some (lo, hi)" using Cons.prems(3) by simp
  qed (use step Cons.prems(2) in auto)
qed simp

text \<open>A curve whose samples lie in the range and fit into the window.\<close>

lemma curve_inside:
  assumes "lo < hi" and "\<forall>s\<in>set ss. \<forall>v. finite_value s = Some v \<longrightarrow> lo \<le> v \<and> v \<le> hi"
    and "int (length ss) \<le> window" and "2 \<le> length ss" and "0 \<le> rc_width r" and "0 \<le> rc_height r"
    and "e \<in> set (series_path stepped (elapsed_x r window (length ss)) (value_y r lo hi) 0 None ss)"
  shows "inside r (element_point e)"
proof -
  have "\<forall>i<0 + length ss. rc_left r \<le> elapsed_x r window (length ss) i \<and> elapsed_x r window (length ss) i \<le> rc_right r"
    using elapsed_x_inside assms(3-5) by simp
  moreover have "\<forall>s\<in>set ss. \<forall>v. finite_value s = Some v \<longrightarrow> rc_top r \<le> value_y r lo hi v \<and> value_y r lo hi v \<le> rc_bottom r"
    using value_y_inside assms(1,2,6) by simp
  ultimately show ?thesis
    using series_path_inside [of 0 ss r] assms(7) by blast
qed

lemma sparkline_inside:
  assumes "int (length (sl_values s)) \<le> sl_window_seconds s" and "int (length (sl_reference s)) \<le> sl_window_seconds s"
    and "op \<in> set (paint_sparkline widget s)" and "p \<in> set (curve_points op)"
  shows "inside (adjusted 2 2 (- 2) (- 2) widget) p"
proof -
  let ?area = "adjusted 2 2 (- 2) (- 2) widget"
  let ?acc = "fold inspect (sl_reference s) (fold inspect (sl_values s) None)"
  have size: "\<not> rc_width ?area < 2" "\<not> rc_height ?area < 2"
    using assms(3) by (auto simp: paint_sparkline_def Let_def split: if_splits)
  have "?acc \<noteq> None"
  proof
    assume "?acc = None"
    then show False using assms(3,4) by (simp add: paint_sparkline_def Let_def split: if_splits)
  qed
  then obtain minimum maximum where acc: "?acc = Some (minimum, maximum)" by auto
  let ?lo = "minimum - padding_of minimum maximum" and ?hi = "maximum + padding_of minimum maximum"
  have "minimum \<le> maximum"
    using acc fold_inspect_range [of None "\<lambda>_. True" "sl_values s @ sl_reference s"] by simp
  then have range: "?lo < ?hi" using padding_pos [of minimum maximum] by linarith
  have "?lo \<le> v \<and> v \<le> ?hi" if "x \<in> set (sl_values s) \<union> set (sl_reference s)" "finite_value x = Some v" for x v
  proof -
    have "covers ?acc x" using that(1) fold_inspect_covers by blast
    then show ?thesis using acc that(2) padding_pos [of minimum maximum] by (force simp: covers_def)
  qed
  then have "\<forall>x\<in>set ss. \<forall>v. finite_value x = Some v \<longrightarrow> ?lo \<le> v \<and> v \<le> ?hi" if "ss = sl_values s \<or> ss = sl_reference s" for ss
    using that by auto
  note c = curve_inside [OF range this]
  show ?thesis
    using assms size acc by (auto simp: paint_sparkline_def draw_series_def Let_def intro!: c split: if_splits)
qed

lemma chart_inside:
  assumes "\<forall>series\<in>set all_series. \<forall>s\<in>set (cs_values series). \<forall>v. finite_value s = Some v \<longrightarrow> 0 \<le> v"
    and "0 \<le> window" and "window < 2 ^ 31"
    and "op \<in> set (paint_chart fmt widget all_series window)" and "p \<in> set (curve_points op)"
  shows "inside (adjusted 34 5 (- 5) (- 20) (adjusted 2 2 (- 2) (- 2) widget)) p"
proof -
  let ?b = "adjusted 2 2 (- 2) (- 2) widget"
  let ?plot = "adjusted 34 5 (- 5) (- 20) ?b"
  let ?parts = "concat (map (window_part window \<circ> cs_values) all_series)"
  have flat: "fold (\<lambda>series. fold inspect (window_part window (cs_values series))) xs acc =
      fold inspect (concat (map (window_part window \<circ> cs_values) xs)) acc" for xs acc
    by (induction xs arbitrary: acc) simp_all
  have no_ticks: "curve_points op' = []" if "op' \<in> set (chart_ticks fmt b r w l h)" for op' b r w l h
    using that by (auto simp: chart_ticks_def Let_def)
  have size: "\<not> rc_width ?b < 60" "\<not> rc_height ?b < 35"
    using assms(4) by (auto simp: paint_chart_def Let_def split: if_splits)
  have "fold inspect ?parts None \<noteq> None"
  proof
    assume "fold inspect ?parts None = None"
    then show False using assms(4,5) by (simp add: paint_chart_def Let_def flat split: if_splits)
  qed
  then obtain minimum maximum where acc: "fold inspect ?parts None = Some (minimum, maximum)" by auto
  let ?lo = "max 0 (minimum - padding_of minimum maximum)" and ?hi = "maximum + padding_of minimum maximum"
  have part: "set (window_part window (cs_values series)) \<subseteq> set (cs_values series)" for series
    by (simp add: window_part_def set_drop_subset)
  have "0 \<le> minimum \<and> minimum \<le> maximum"
    by (rule fold_inspect_range [OF _ _ acc]) (use assms(1) part in \<open>auto dest!: subsetD [OF part]\<close>)
  then have range: "?lo < ?hi" "?lo \<le> minimum" "maximum \<le> ?hi"
    using padding_pos [of minimum maximum] by linarith+
  from assms(4,5) size acc no_ticks obtain series where series: "series \<in> set all_series"
    and op: "op \<in> set (chart_curve ?plot window ?lo ?hi series)"
    by (auto simp: paint_chart_def Let_def flat split: if_splits)
  let ?part = "window_part window (cs_values series)"
  have cover: "\<forall>x\<in>set ?part. \<forall>v. finite_value x = Some v \<longrightarrow> ?lo \<le> v \<and> v \<le> ?hi"
  proof (intro ballI allI impI)
    fix x v assume x: "x \<in> set ?part" "finite_value x = Some v"
    have "covers (fold inspect ?parts None) x"
      using x(1) series by (intro fold_inspect_covers(2)) auto
    then show "?lo \<le> v \<and> v \<le> ?hi" using acc x(2) range by (force simp: covers_def)
  qed
  have "int (length ?part) \<le> window"
    using assms(2,3) by (auto simp: window_part_def window_count_def cast_u64_def min_def)
  moreover have "0 \<le> rc_width ?plot" "0 \<le> rc_height ?plot"
    using size by (simp_all add: adjusted_def rc_width_def rc_height_def)
  ultimately show ?thesis
    using op assms(5) by (auto simp: chart_curve_def Let_def split: if_splits intro!: curve_inside [OF range(1) cover])
qed

text \<open>The dock never hands more samples to a widget than the window has seconds.\<close>

lemma history_tail_length: "0 \<le> w \<Longrightarrow> w < 2 ^ 31 \<Longrightarrow> int (length (history_tail h w)) \<le> w"
  by (auto simp: history_tail_def cast_u64_def min_def Let_def)

lemma set_history_tail: "set (history_tail h w) \<subseteq> set h"
  by (simp add: history_tail_def Let_def set_drop_subset)

lemma nth_or_empty_sub: "set (nth_or_empty h i) \<subseteq> \<Union> (set ` set h)"
  by (auto simp: nth_or_empty_def intro!: bexI [of _ "h ! i"])

section \<open>Property\<close>


definition trend_dock :: "(string \<rightharpoonup> setting, string \<rightharpoonup> setting, nat) dock" where
  "trend_dock = (blank_dock (demo_env stub_outputs) [] None)\<lparr>dk_metric_history := replicate 6 [Whole 1, NotANumber, Whole 3, Over 7 2]\<rparr>"


end
