(* ===== verification/Profile_Roundtrip.thy ===== *)
theory Profile_Roundtrip
  imports Dock_Properties
begin

text \<open>
  The profile of the dock survives a restart: what \<^verbatim>\<open>saveProfile\<close> and \<^verbatim>\<open>saveSelectedLinks\<close> write is what
  \<^verbatim>\<open>loadProfile\<close> shows again, and the output reads the same list of links from its settings.
\<close>

section \<open>The configuration of the profile\<close>

text \<open>Everything the dock reads under one name.\<close>

definition config_read :: "'c config_api \<Rightarrow> 'c \<Rightarrow> string \<Rightarrow> bool \<times> string option \<times> bool \<times> int" where
  "config_read api c k = (config_has_user_value api c k, config_get_string api c k, config_get_bool api c k, config_get_int api c k)"

text \<open>What OBS documents: a value that was set is the user value read back, other names are not affected, and saving to disk changes nothing.\<close>

definition config_laws :: "'c config_api \<Rightarrow> bool" where
  "config_laws api \<longleftrightarrow>
     (\<forall>c k v. config_has_user_value api (config_set_string api k v c) k \<and> config_get_string api (config_set_string api k v c) k = Some v)
     \<and> (\<forall>c k v. config_has_user_value api (config_set_bool api k v c) k \<and> config_get_bool api (config_set_bool api k v c) k = v)
     \<and> (\<forall>c k v. config_has_user_value api (config_set_int api k v c) k \<and> config_get_int api (config_set_int api k v c) k = v)
     \<and> (\<forall>c k v k'. k' \<noteq> k \<longrightarrow> config_read api (config_set_string api k v c) k' = config_read api c k')
     \<and> (\<forall>c k v k'. k' \<noteq> k \<longrightarrow> config_read api (config_set_bool api k v c) k' = config_read api c k')
     \<and> (\<forall>c k v k'. k' \<noteq> k \<longrightarrow> config_read api (config_set_int api k v c) k' = config_read api c k')
     \<and> (\<forall>c k. config_read api (config_save_safe api c) k = config_read api c k)"

lemma config_lawsD:
  assumes "config_laws api"
  shows "config_has_user_value api (config_set_string api k s c) k" "config_get_string api (config_set_string api k s c) k = Some s"
    "config_has_user_value api (config_set_bool api k b c) k" "config_get_bool api (config_set_bool api k b c) k = b"
    "config_has_user_value api (config_set_int api k i c) k" "config_get_int api (config_set_int api k i c) k = i"
    "k' \<noteq> k \<Longrightarrow> config_read api (config_set_string api k s c) k' = config_read api c k'"
    "k' \<noteq> k \<Longrightarrow> config_read api (config_set_bool api k b c) k' = config_read api c k'"
    "k' \<noteq> k \<Longrightarrow> config_read api (config_set_int api k i c) k' = config_read api c k'"
    "config_read api (config_save_safe api c) k = config_read api c k"
  using assms by (simp_all add: config_laws_def)

lemma map_config_laws: "config_laws map_config"
  by (simp add: config_laws_def config_read_def map_config_def)

text \<open>The values the dock reads depend only on \<open>config_read\<close>.\<close>

lemma profile_values_cong:
  assumes "config_read (env_config E) c k = config_read (env_config E) c' k"
  shows "profile_string E (Some c) k s = profile_string E (Some c') k s" "profile_bool E (Some c) k b = profile_bool E (Some c') k b"
    "profile_int E (Some c) k i = profile_int E (Some c') k i"
  using assms by (simp_all add: config_read_def profile_string_def profile_bool_def profile_int_def)

lemma profile_values_set:
  assumes "config_laws (env_config E)"
  shows "profile_string E (Some (put_string E k v c)) k s = fromUtf8 (env_qt E) (c_str v)"
    "profile_bool E (Some (config_set_bool (env_config E) k b c)) k x = b"
    "profile_int E (Some (config_set_int (env_config E) k i c)) k y = cast_int i"
  by (simp_all add: put_string_def profile_string_def profile_bool_def profile_int_def config_lawsD [OF assms])

lemma profile_values_other:
  assumes "config_laws (env_config E)" and "k' \<noteq> k"
  shows "profile_string E (Some (put_string E k v c)) k' s = profile_string E (Some c) k' s"
    "profile_string E (Some (config_set_bool (env_config E) k b c)) k' s = profile_string E (Some c) k' s"
    "profile_string E (Some (config_set_int (env_config E) k i c)) k' s = profile_string E (Some c) k' s"
    "profile_bool E (Some (put_string E k v c)) k' x = profile_bool E (Some c) k' x"
    "profile_bool E (Some (config_set_int (env_config E) k i c)) k' x = profile_bool E (Some c) k' x"
    "profile_int E (Some (put_string E k v c)) k' y = profile_int E (Some c) k' y"
    "profile_int E (Some (config_set_bool (env_config E) k b c)) k' y = profile_int E (Some c) k' y"
    "profile_int E (Some (config_set_int (env_config E) k i c)) k' y = profile_int E (Some c) k' y"
  by (rule profile_values_cong, simp add: put_string_def config_lawsD [OF assms(1)] assms(2))+

lemma profile_values_saved:
  assumes "config_laws (env_config E)"
  shows "profile_string E (Some (config_save_safe (env_config E) c)) k s = profile_string E (Some c) k s"
    "profile_bool E (Some (config_save_safe (env_config E) c)) k x = profile_bool E (Some c) k x"
    "profile_int E (Some (config_save_safe (env_config E) c)) k y = profile_int E (Some c) k y"
  by (rule profile_values_cong, simp add: config_lawsD [OF assms])+

section \<open>The stored links\<close>

lemma join_enabled_eq: "join_enabled selected ids acc = join_loop CHR '','' acc (filter (\<lambda>i. selected i = Some True) ids)"
  by (induction selected ids acc rule: join_enabled.induct) auto

lemma load_enabled_links_split:
  "load_enabled_links s = (\<lambda>i. if i \<in> set (filter (\<lambda>t. t \<noteq> []) (split_on CHR '','' s)) then Some True else None)"
proof -
  have "foldl (\<lambda>selected i. if i \<noteq> [] then selected(i \<mapsto> True) else selected) m ts =
      (\<lambda>i. if i \<in> set (filter (\<lambda>t. t \<noteq> []) ts) then Some True else m i)" for m :: "string \<rightharpoonup> bool" and ts
    by (induction ts arbitrary: m) (auto simp: fun_eq_iff)
  then show ?thesis
    by (simp add: load_enabled_links_def token_loop_eq_split_on [OF le0])
qed

text \<open>Identifiers that can be stored: not empty, without the separator and without a null character.\<close>

definition storable_id :: "string \<Rightarrow> bool" where
  "storable_id i \<longleftrightarrow> i \<noteq> [] \<and> CHR '','' \<notin> set i \<and> CHR 0x00 \<notin> set i"

lemma set_join_loop: "set (join_loop sep acc ts) \<subseteq> insert sep (set acc \<union> \<Union> (set ` set ts))"
  by (induction sep acc ts rule: join_loop.induct) auto

lemma enabled_text:
  assumes "set (env_order E selected) = dom selected" and "\<forall>i\<in>dom selected. storable_id i"
  shows "c_str (enabled_links_text E selected) = enabled_links_text E selected"
    "set (filter (\<lambda>t. t \<noteq> []) (split_on CHR '','' (enabled_links_text E selected))) = {i. selected i = Some True}"
proof -
  let ?ids = "filter (\<lambda>i. selected i = Some True) (env_order E selected)"
  have ids: "\<forall>i\<in>set ?ids. storable_id i" using assms by auto
  have joined: "enabled_links_text E selected = join_loop CHR '','' [] ?ids"
    by (simp add: enabled_links_text_def join_enabled_eq)
  have "CHR 0x00 \<notin> set (enabled_links_text E selected)"
    using set_join_loop [of "CHR '',''" "[]" ?ids] ids unfolding joined by (fastforce simp: storable_id_def)
  then show "c_str (enabled_links_text E selected) = enabled_links_text E selected"
    by (auto simp: c_str_def takeWhile_eq_all_conv)
  have "set ?ids = {i. selected i = Some True}" using assms(1) by auto
  moreover have "filter (\<lambda>t. t \<noteq> []) (split_on CHR '','' (enabled_links_text E selected)) = ?ids"
    unfolding joined using ids by (intro split_on_join) (auto simp: storable_id_def)
  ultimately show "set (filter (\<lambda>t. t \<noteq> []) (split_on CHR '','' (enabled_links_text E selected))) = {i. selected i = Some True}"
    by simp
qed

section \<open>Effects of the setters\<close>

text \<open>Which fields of the profile a setter changes while there is no output.\<close>

lemmas setter_defs = updateSettingsSummary_def view_update_def on_passphrase_changed_def on_source_changed_def
  on_auto_toggled_def set_manual_enabled_def update_settings_def on_manual_changed_def on_max_changed_def Let_def

lemma set_url_fields:
  "dk_url (set_url s d) = s" "dk_stream_id (set_url s d) = dk_stream_id d"
    "dk_passphrase (set_url s d) = dk_passphrase d" "dk_encoder_source (set_url s d) = dk_encoder_source d"
    "dk_custom_video (set_url s d) = dk_custom_video d" "dk_custom_audio (set_url s d) = dk_custom_audio d"
    "dk_auto_bitrate (set_url s d) = dk_auto_bitrate d" "dk_manual_bitrate (set_url s d) = dk_manual_bitrate d"
    "dk_max_bitrate (set_url s d) = dk_max_bitrate d" "dk_latency_ms (set_url s d) = dk_latency_ms d"
    "dk_pbkeylen (set_url s d) = dk_pbkeylen d" "dk_secret_error (set_url s d) = dk_secret_error d"
    "dk_output (set_url s d) = dk_output d" "dk_config (set_url s d) = dk_config d"
    "dk_selected (set_url s d) = dk_selected d"
  by (simp_all add: set_url_def setter_defs)

lemma set_passphrase_fields:
  "dk_url (set_passphrase s d) = dk_url d" "dk_stream_id (set_passphrase s d) = dk_stream_id d"
    "dk_passphrase (set_passphrase s d) = s" "dk_encoder_source (set_passphrase s d) = dk_encoder_source d"
    "dk_custom_video (set_passphrase s d) = dk_custom_video d" "dk_custom_audio (set_passphrase s d) = dk_custom_audio d"
    "dk_auto_bitrate (set_passphrase s d) = dk_auto_bitrate d"
    "dk_manual_bitrate (set_passphrase s d) = dk_manual_bitrate d" "dk_max_bitrate (set_passphrase s d) = dk_max_bitrate d"
    "dk_latency_ms (set_passphrase s d) = dk_latency_ms d" "dk_pbkeylen (set_passphrase s d) = dk_pbkeylen d"
    "dk_output (set_passphrase s d) = dk_output d" "dk_config (set_passphrase s d) = dk_config d"
    "dk_selected (set_passphrase s d) = dk_selected d"
  by (simp_all add: set_passphrase_def setter_defs)

lemma set_source_fields:
  "dk_url (set_source_index c d) = dk_url d" "dk_stream_id (set_source_index c d) = dk_stream_id d"
    "dk_passphrase (set_source_index c d) = dk_passphrase d" "dk_encoder_source (set_source_index c d) = c"
    "dk_custom_video (set_source_index c d) = dk_custom_video d"
    "dk_custom_audio (set_source_index c d) = dk_custom_audio d"
    "dk_auto_bitrate (set_source_index c d) = dk_auto_bitrate d"
    "dk_manual_bitrate (set_source_index c d) = dk_manual_bitrate d"
    "dk_max_bitrate (set_source_index c d) = dk_max_bitrate d" "dk_latency_ms (set_source_index c d) = dk_latency_ms d"
    "dk_pbkeylen (set_source_index c d) = dk_pbkeylen d" "dk_secret_error (set_source_index c d) = dk_secret_error d"
    "dk_output (set_source_index c d) = dk_output d" "dk_config (set_source_index c d) = dk_config d"
    "dk_selected (set_source_index c d) = dk_selected d"
  by (simp_all add: set_source_index_def setter_defs)

lemma set_video_fields:
  "dk_url (set_video_index c d) = dk_url d" "dk_stream_id (set_video_index c d) = dk_stream_id d"
    "dk_passphrase (set_video_index c d) = dk_passphrase d" "dk_encoder_source (set_video_index c d) = dk_encoder_source d"
    "dk_custom_video (set_video_index c d) = c" "dk_custom_audio (set_video_index c d) = dk_custom_audio d"
    "dk_auto_bitrate (set_video_index c d) = dk_auto_bitrate d"
    "dk_manual_bitrate (set_video_index c d) = dk_manual_bitrate d"
    "dk_max_bitrate (set_video_index c d) = dk_max_bitrate d" "dk_latency_ms (set_video_index c d) = dk_latency_ms d"
    "dk_pbkeylen (set_video_index c d) = dk_pbkeylen d" "dk_secret_error (set_video_index c d) = dk_secret_error d"
    "dk_output (set_video_index c d) = dk_output d" "dk_config (set_video_index c d) = dk_config d"
    "dk_selected (set_video_index c d) = dk_selected d"
  by (simp_all add: set_video_index_def setter_defs)

lemma set_audio_fields:
  "dk_url (set_audio_index c d) = dk_url d" "dk_stream_id (set_audio_index c d) = dk_stream_id d"
    "dk_passphrase (set_audio_index c d) = dk_passphrase d" "dk_encoder_source (set_audio_index c d) = dk_encoder_source d"
    "dk_custom_video (set_audio_index c d) = dk_custom_video d" "dk_custom_audio (set_audio_index c d) = c"
    "dk_auto_bitrate (set_audio_index c d) = dk_auto_bitrate d"
    "dk_manual_bitrate (set_audio_index c d) = dk_manual_bitrate d"
    "dk_max_bitrate (set_audio_index c d) = dk_max_bitrate d" "dk_latency_ms (set_audio_index c d) = dk_latency_ms d"
    "dk_pbkeylen (set_audio_index c d) = dk_pbkeylen d" "dk_secret_error (set_audio_index c d) = dk_secret_error d"
    "dk_output (set_audio_index c d) = dk_output d" "dk_config (set_audio_index c d) = dk_config d"
    "dk_selected (set_audio_index c d) = dk_selected d"
  by (simp_all add: set_audio_index_def setter_defs)

lemma set_auto_fields:
  assumes "dk_output d = None"
  shows "dk_url (set_auto E b d) = dk_url d" "dk_stream_id (set_auto E b d) = dk_stream_id d"
    "dk_passphrase (set_auto E b d) = dk_passphrase d" "dk_encoder_source (set_auto E b d) = dk_encoder_source d"
    "dk_custom_video (set_auto E b d) = dk_custom_video d" "dk_custom_audio (set_auto E b d) = dk_custom_audio d"
    "dk_auto_bitrate (set_auto E b d) = b" "dk_manual_bitrate (set_auto E b d) = dk_manual_bitrate d"
    "dk_max_bitrate (set_auto E b d) = dk_max_bitrate d" "dk_latency_ms (set_auto E b d) = dk_latency_ms d"
    "dk_pbkeylen (set_auto E b d) = dk_pbkeylen d" "dk_secret_error (set_auto E b d) = dk_secret_error d"
    "dk_output (set_auto E b d) = dk_output d" "dk_config (set_auto E b d) = dk_config d"
    "dk_selected (set_auto E b d) = dk_selected d"
  using assms by (simp_all add: set_auto_def setter_defs)

lemma set_manual_fields:
  assumes "dk_output d = None"
  shows "dk_url (set_manual E v d) = dk_url d" "dk_stream_id (set_manual E v d) = dk_stream_id d"
    "dk_passphrase (set_manual E v d) = dk_passphrase d" "dk_encoder_source (set_manual E v d) = dk_encoder_source d"
    "dk_custom_video (set_manual E v d) = dk_custom_video d" "dk_custom_audio (set_manual E v d) = dk_custom_audio d"
    "dk_auto_bitrate (set_manual E v d) = dk_auto_bitrate d"
    "dk_manual_bitrate (set_manual E v d) = setValue v (dk_manual_bitrate d)"
    "dk_max_bitrate (set_manual E v d) = dk_max_bitrate d" "dk_latency_ms (set_manual E v d) = dk_latency_ms d"
    "dk_pbkeylen (set_manual E v d) = dk_pbkeylen d" "dk_secret_error (set_manual E v d) = dk_secret_error d"
    "dk_output (set_manual E v d) = dk_output d" "dk_config (set_manual E v d) = dk_config d"
    "dk_selected (set_manual E v d) = dk_selected d"
  using assms by (simp_all add: set_manual_def setter_defs)

lemma set_max_fields:
  assumes "dk_output d = None"
  shows "dk_url (set_max E v d) = dk_url d" "dk_stream_id (set_max E v d) = dk_stream_id d"
    "dk_passphrase (set_max E v d) = dk_passphrase d" "dk_encoder_source (set_max E v d) = dk_encoder_source d"
    "dk_custom_video (set_max E v d) = dk_custom_video d" "dk_custom_audio (set_max E v d) = dk_custom_audio d"
    "dk_auto_bitrate (set_max E v d) = dk_auto_bitrate d" "dk_manual_bitrate (set_max E v d) = dk_manual_bitrate d"
    "dk_max_bitrate (set_max E v d) = setValue v (dk_max_bitrate d)" "dk_latency_ms (set_max E v d) = dk_latency_ms d"
    "dk_pbkeylen (set_max E v d) = dk_pbkeylen d" "dk_secret_error (set_max E v d) = dk_secret_error d"
    "dk_output (set_max E v d) = dk_output d" "dk_config (set_max E v d) = dk_config d"
    "dk_selected (set_max E v d) = dk_selected d"
  using assms by (simp_all add: set_max_def setter_defs)

lemmas setter_fields = set_url_fields set_passphrase_fields set_source_fields set_video_fields set_audio_fields
  set_auto_fields set_manual_fields set_max_fields

section \<open>Loading\<close>

text \<open>A URL without a query, as the dock stores it.\<close>

definition plain_url :: "qt \<Rightarrow> string \<Rightarrow> bool" where
  "plain_url q u \<longleftrightarrow> parse_legacy_url q u = new_legacy_url_fields\<lparr>lu_endpoint := u\<rparr>"

lemma plain_url_fields:
  assumes "plain_url q u"
  shows "lu_endpoint (parse_legacy_url q u) = u" "\<not> lu_has_latency (parse_legacy_url q u)" "\<not> lu_has_pbkeylen (parse_legacy_url q u)"
    "\<not> lu_has_stream_id (parse_legacy_url q u)" "\<not> lu_has_passphrase (parse_legacy_url q u)"
  using assms by (simp_all add: plain_url_def new_legacy_url_fields_def)

lemma load_links_selected:
  assumes "dk_output e = None"
  shows "dk_selected (loadProfile E e) = load_enabled_links (profile_string E (dk_config e) ''EnabledLinks'' [])"
proof -
  have clean: "dk_selected (clean_profile E d) = dk_selected d" for d
    by (auto simp: clean_profile_def saveProfile_def save_profile_config_def view_update_def Let_def split: option.split)
  show ?thesis
    using assms by (simp add: loadProfile_def clean load_links_def load_encoding_def load_secret_def load_connection_def Let_def
        setter_fields view_update_def)
qed

lemma load_values:
  assumes "dk_output e = None" and "dk_config e = config"
    and "plain_url (env_qt E) (profile_string E config ''Url'' profile_default_url)"
    and "profile_string E config ''PassphraseDpapi'' [] = []"
  shows "dk_url (loadProfile E e) = profile_string E config ''Url'' profile_default_url"
    "dk_stream_id (loadProfile E e) = profile_string E config ''StreamId'' []"
    "dk_passphrase (loadProfile E e) = fromUtf8 (env_qt E) (profile_string E config ''PassphraseSecret'' [])"
    "dk_latency_ms (loadProfile E e) = profile_int E config ''LatencyMs'' 2000"
    "dk_pbkeylen (loadProfile E e) = profile_int E config ''Pbkeylen'' 16"
    "dk_encoder_source (loadProfile E e) = select_combo_data (profile_string E config ''EncoderSource'' ''streaming'') (dk_encoder_source e)"
    "dk_custom_video (loadProfile E e) = select_combo_data (profile_string E config ''CustomVideoEncoder'' []) (dk_custom_video e)"
    "dk_custom_audio (loadProfile E e) = select_combo_data (profile_string E config ''CustomAudioEncoder'' []) (dk_custom_audio e)"
    "dk_auto_bitrate (loadProfile E e) = profile_bool E config ''AutoBitrate'' True"
    "dk_manual_bitrate (loadProfile E e) = setValue (profile_int E config ''Bitrate'' 1500) (dk_manual_bitrate e)"
    "dk_max_bitrate (loadProfile E e) = setValue (let m = profile_int E config ''MaxBitrate'' 6000 in if m = 100000 then 6000 else m) (dk_max_bitrate e)"
proof -
  let ?l = "load_links E (load_encoding E (load_secret E (load_connection E (e\<lparr>dk_secret_error := False, dk_selected := Map.empty\<rparr>))))"
  note plain = plain_url_fields [OF assms(3)]
  have "dk_config ?l = config"
    using assms(1,2) by (simp add: load_links_def load_encoding_def load_secret_def load_connection_def Let_def setter_fields view_update_def)
  then have l: "loadProfile E e = ?l"
    using plain(1) by (simp add: loadProfile_def clean_profile_def Let_def)
  note defs = l load_links_def load_encoding_def load_secret_def load_connection_def Let_def setter_fields load_srtla_passphrase_def
  show "dk_url (loadProfile E e) = profile_string E config ''Url'' profile_default_url"
    "dk_stream_id (loadProfile E e) = profile_string E config ''StreamId'' []"
    "dk_passphrase (loadProfile E e) = fromUtf8 (env_qt E) (profile_string E config ''PassphraseSecret'' [])"
    "dk_latency_ms (loadProfile E e) = profile_int E config ''LatencyMs'' 2000"
    "dk_pbkeylen (loadProfile E e) = profile_int E config ''Pbkeylen'' 16"
    "dk_encoder_source (loadProfile E e) = select_combo_data (profile_string E config ''EncoderSource'' ''streaming'') (dk_encoder_source e)"
    "dk_custom_video (loadProfile E e) = select_combo_data (profile_string E config ''CustomVideoEncoder'' []) (dk_custom_video e)"
    "dk_custom_audio (loadProfile E e) = select_combo_data (profile_string E config ''CustomAudioEncoder'' []) (dk_custom_audio e)"
    "dk_auto_bitrate (loadProfile E e) = profile_bool E config ''AutoBitrate'' True"
    "dk_manual_bitrate (loadProfile E e) = setValue (profile_int E config ''Bitrate'' 1500) (dk_manual_bitrate e)"
    "dk_max_bitrate (loadProfile E e) = setValue (let m = profile_int E config ''MaxBitrate'' 6000 in if m = 100000 then 6000 else m) (dk_max_bitrate e)"
    using assms(1,2,4) plain by (simp_all add: defs)
qed

section \<open>Saving\<close>

lemma saved_values:
  assumes laws: "config_laws (env_config E)" and "dk_config d = Some c" and "plain_url (env_qt E) (dk_url d)"
    and "saveProfile E d = (True, d1)"
  obtains c' where "dk_config d1 = Some c'"
    "profile_string E (Some c') ''Url'' profile_default_url = fromUtf8 (env_qt E) (c_str (dk_url d))"
    "profile_string E (Some c') ''StreamId'' [] = fromUtf8 (env_qt E) (c_str (dk_stream_id d))"
    "profile_string E (Some c') ''PassphraseSecret'' [] = fromUtf8 (env_qt E) (c_str (dk_passphrase d))"
    "profile_string E (Some c') ''PassphraseDpapi'' [] = fromUtf8 (env_qt E) []"
    "profile_int E (Some c') ''LatencyMs'' 2000 = cast_int (dk_latency_ms d)" "profile_int E (Some c') ''Pbkeylen'' 16 = cast_int (dk_pbkeylen d)"
    "profile_string E (Some c') ''EncoderSource'' ''streaming'' = fromUtf8 (env_qt E) (c_str (currentData (dk_encoder_source d)))"
    "profile_string E (Some c') ''CustomVideoEncoder'' [] = fromUtf8 (env_qt E) (c_str (currentData (dk_custom_video d)))"
    "profile_string E (Some c') ''CustomAudioEncoder'' [] = fromUtf8 (env_qt E) (c_str (currentData (dk_custom_audio d)))"
    "profile_bool E (Some c') ''AutoBitrate'' True = dk_auto_bitrate d"
    "profile_int E (Some c') ''Bitrate'' 1500 = cast_int (sp_value (dk_manual_bitrate d))"
    "profile_int E (Some c') ''MaxBitrate'' 6000 = cast_int (sp_value (dk_max_bitrate d))"
proof -
  note vals = profile_values_set [OF laws] profile_values_other [OF laws] profile_values_saved [OF laws]
  from assms(2,4) show ?thesis
    by (intro that [of "the (dk_config d1)"])
      (auto simp: saveProfile_def save_profile_config_def view_update_def Let_def vals plain_url_fields [OF assms(3)] store_srtla_passphrase_def
        c_str_def split: if_splits)
qed

section \<open>Properties\<close>

text \<open>A text Qt and C strings keep: valid UTF-8 without a null character.\<close>

definition text_ok :: "qt \<Rightarrow> string \<Rightarrow> bool" where
  "text_ok q s \<longleftrightarrow> c_str s = s \<and> fromUtf8 q s = s"

lemma select_saved_combo:
  assumes "combo_ok c" and "cb_items e = cb_items c" and "\<forall>(n, v)\<in>set (cb_items c). v \<noteq> []"
  shows "currentData (select_combo_data (currentData c) e) = currentData c"
proof (cases "cb_items c = []")
  case True
  then show ?thesis
    using assms(2) by (simp add: currentData_def current_item_def select_combo_data_def findData_def Let_def)
next
  case False
  then have i: "0 \<le> cb_index c" "nat (cb_index c) < length (cb_items c)"
    using assms(1) by (auto simp: combo_ok_def)
  then have "cb_items c ! nat (cb_index c) \<in> set (cb_items c)" by simp
  with assms(3) have "snd (cb_items c ! nat (cb_index c)) \<noteq> []" by (auto simp: case_prod_unfold)
  then have v: "currentData c = snd (cb_items c ! nat (cb_index c))" "currentData c \<noteq> []"
    using i by (auto simp: currentData_def current_item_def)
  obtain k where k: "find_index (\<lambda>x. snd x = currentData c) (cb_items c) = Some k"
    using i v(1) by (cases "find_index (\<lambda>x. snd x = currentData c) (cb_items c)") (auto simp: find_index_None)
  from find_index_Some [OF this] have "k < length (cb_items c)" "snd (cb_items c ! k) = currentData c" by auto
  with v k assms(2) show ?thesis
    by (simp add: select_combo_data_def findData_def case_prod_unfold Let_def currentData_def [of "e\<lparr>cb_index := int k\<rparr>"] current_item_def)
qed

text \<open>
  C21. The profile survives a restart. When saving succeeds, a dock that later loads the same profile
  (with the same encoders on offer) shows the URL, stream id, passphrase, latency, key length,
  encoder choices and bitrates that were saved, and asks for no passphrase. The URL is one without a
  query, as the dock itself leaves it.
\<close>

theorem profile_roundtrip:
  assumes "config_laws (env_config E)" and "dk_config d = Some c" and "widgets_ok d" and "plain_url (env_qt E) (dk_url d)"
    and "\<forall>s\<in>{dk_url d, dk_stream_id d, dk_passphrase d, currentData (dk_encoder_source d), currentData (dk_custom_video d),
      currentData (dk_custom_audio d), []}. text_ok (env_qt E) s"
    and "\<forall>(n, v)\<in>set (cb_items (dk_encoder_source d)) \<union> set (cb_items (dk_custom_video d)) \<union> set (cb_items (dk_custom_audio d)). v \<noteq> []"
    and "cast_int (dk_latency_ms d) = dk_latency_ms d" and "cast_int (dk_pbkeylen d) = dk_pbkeylen d"
    and "saveProfile E d = (True, d1)"
    and "dk_config e = dk_config d1" and "dk_output e = None" and "widgets_ok e"
    and "cb_items (dk_encoder_source e) = cb_items (dk_encoder_source d)"
    and "cb_items (dk_custom_video e) = cb_items (dk_custom_video d)" and "cb_items (dk_custom_audio e) = cb_items (dk_custom_audio d)"
    and "f = loadProfile E e"
  shows "dk_url f = dk_url d \<and> dk_stream_id f = dk_stream_id d \<and> dk_passphrase f = dk_passphrase d
    \<and> dk_latency_ms f = dk_latency_ms d \<and> dk_pbkeylen f = dk_pbkeylen d
    \<and> currentData (dk_encoder_source f) = currentData (dk_encoder_source d)
    \<and> currentData (dk_custom_video f) = currentData (dk_custom_video d)
    \<and> currentData (dk_custom_audio f) = currentData (dk_custom_audio d)
    \<and> dk_auto_bitrate f = dk_auto_bitrate d
    \<and> sp_value (dk_manual_bitrate f) = sp_value (dk_manual_bitrate d) \<and> sp_value (dk_max_bitrate f) = sp_value (dk_max_bitrate d)"
proof -
  obtain c' where c': "dk_config d1 = Some c'" and vals:
    "profile_string E (Some c') ''Url'' profile_default_url = fromUtf8 (env_qt E) (c_str (dk_url d))"
    "profile_string E (Some c') ''StreamId'' [] = fromUtf8 (env_qt E) (c_str (dk_stream_id d))"
    "profile_string E (Some c') ''PassphraseSecret'' [] = fromUtf8 (env_qt E) (c_str (dk_passphrase d))"
    "profile_string E (Some c') ''PassphraseDpapi'' [] = fromUtf8 (env_qt E) []"
    "profile_int E (Some c') ''LatencyMs'' 2000 = cast_int (dk_latency_ms d)" "profile_int E (Some c') ''Pbkeylen'' 16 = cast_int (dk_pbkeylen d)"
    "profile_string E (Some c') ''EncoderSource'' ''streaming'' = fromUtf8 (env_qt E) (c_str (currentData (dk_encoder_source d)))"
    "profile_string E (Some c') ''CustomVideoEncoder'' [] = fromUtf8 (env_qt E) (c_str (currentData (dk_custom_video d)))"
    "profile_string E (Some c') ''CustomAudioEncoder'' [] = fromUtf8 (env_qt E) (c_str (currentData (dk_custom_audio d)))"
    "profile_bool E (Some c') ''AutoBitrate'' True = dk_auto_bitrate d"
    "profile_int E (Some c') ''Bitrate'' 1500 = cast_int (sp_value (dk_manual_bitrate d))"
    "profile_int E (Some c') ''MaxBitrate'' 6000 = cast_int (sp_value (dk_max_bitrate d))"
    using saved_values [OF assms(1,2,4,9)] .
  note texts = assms(5) [unfolded text_ok_def]
  have plain: "plain_url (env_qt E) (profile_string E (Some c') ''Url'' profile_default_url)"
    "profile_string E (Some c') ''PassphraseDpapi'' [] = []"
    using assms(4) texts vals by simp_all
  have config: "dk_config e = Some c'" using assms(10) c' by simp
  note l = load_values [OF assms(11) config plain]
  have w: "spin_ok 500 100000 (dk_manual_bitrate d)" "spin_ok 500 30000 (dk_max_bitrate d)" "spin_ok 500 100000 (dk_manual_bitrate e)"
    "spin_ok 500 30000 (dk_max_bitrate e)" "combo_ok (dk_encoder_source d)" "combo_ok (dk_custom_video d)" "combo_ok (dk_custom_audio d)"
    using assms(3,12) by (simp_all add: widgets_ok_def)
  have spins: "cast_int (sp_value (dk_manual_bitrate d)) = sp_value (dk_manual_bitrate d)"
    "cast_int (sp_value (dk_max_bitrate d)) = sp_value (dk_max_bitrate d)"
    "sp_value (setValue (sp_value (dk_manual_bitrate d)) (dk_manual_bitrate e)) = sp_value (dk_manual_bitrate d)"
    "sp_value (setValue (sp_value (dk_max_bitrate d)) (dk_max_bitrate e)) = sp_value (dk_max_bitrate d)"
    "sp_value (dk_max_bitrate d) \<noteq> 100000"
    using w by (auto simp: spin_ok_def setValue_def clamp_id cast_int_id)
  have combos: "currentData (select_combo_data (currentData (dk_encoder_source d)) (dk_encoder_source e)) = currentData (dk_encoder_source d)"
    "currentData (select_combo_data (currentData (dk_custom_video d)) (dk_custom_video e)) = currentData (dk_custom_video d)"
    "currentData (select_combo_data (currentData (dk_custom_audio d)) (dk_custom_audio e)) = currentData (dk_custom_audio d)"
    using w assms(6,13-15) by (auto intro!: select_saved_combo)
  show ?thesis
    unfolding assms(16) using l vals texts spins combos assms(7,8) by simp
qed

definition edited_dock :: "(string \<rightharpoonup> setting, string \<rightharpoonup> setting, nat) dock" where
  "edited_dock = (blank_dock (demo_env stub_outputs) [] (Some Map.empty))\<lparr>dk_stream_id := ''live'', dk_passphrase := ''correct horse'',
     dk_max_bitrate := \<lparr>sp_minimum = 500, sp_maximum = 30000, sp_value = 8000\<rparr>\<rparr>"

lemma demo_parts: "env_qt (demo_env out) = demo_qt" "env_config (demo_env out) = map_config" "fromUtf8 demo_qt s = s"
  by (simp_all add: demo_env_def demo_qt_def)

lemma edited_fields:
  "dk_config edited_dock = Some Map.empty" "dk_url edited_dock = ''srtla://receiver.example:5000''" "dk_stream_id edited_dock = ''live''"
  "dk_passphrase edited_dock = ''correct horse''" "currentData (dk_encoder_source edited_dock) = ''streaming''"
  "cb_items (dk_custom_video edited_dock) = []" "cb_items (dk_custom_audio edited_dock) = []"
  "cb_items (dk_encoder_source edited_dock) = [(''Streaming'', ''streaming''), (''Recording'', ''recording''), (''Custom'', ''custom'')]"
  "currentData (dk_custom_video edited_dock) = []" "currentData (dk_custom_audio edited_dock) = []"
  "dk_latency_ms edited_dock = 2000" "dk_pbkeylen edited_dock = 16" "sp_value (dk_max_bitrate edited_dock) = 8000" "dk_output edited_dock = None"
  by (simp_all add: edited_dock_def blank_dock_def encoder_sources_def currentData_def current_item_def profile_default_url_def)

lemma edited_url: "plain_url demo_qt ''srtla://receiver.example:5000''"
  by (simp add: plain_url_def parse_legacy_url_def demo_qt_def)

lemma edited_widgets: "widgets_ok edited_dock"
  using blank_dock_ok(1) [of "demo_env stub_outputs" "[]" "Some Map.empty"]
  by (simp add: edited_dock_def widgets_ok_def) (simp add: spin_ok_def)

theorem profile_roundtrip_witness:
  "dk_stream_id (loadProfile (demo_env stub_outputs) (edited_dock\<lparr>dk_stream_id := [], dk_passphrase := [],
       dk_config := dk_config (snd (saveProfile (demo_env stub_outputs) edited_dock))\<rparr>)) = ''live''
   \<and> dk_passphrase (loadProfile (demo_env stub_outputs) (edited_dock\<lparr>dk_stream_id := [], dk_passphrase := [],
       dk_config := dk_config (snd (saveProfile (demo_env stub_outputs) edited_dock))\<rparr>)) = ''correct horse''"
proof -
  let ?E = "demo_env stub_outputs"
  let ?e = "edited_dock\<lparr>dk_stream_id := [], dk_passphrase := [], dk_config := dk_config (snd (saveProfile ?E edited_dock))\<rparr>"
  have saved: "saveProfile ?E edited_dock = (True, snd (saveProfile ?E edited_dock))"
    by (simp add: saveProfile_def edited_fields Let_def)
  have "dk_url (loadProfile ?E ?e) = dk_url edited_dock \<and> dk_stream_id (loadProfile ?E ?e) = dk_stream_id edited_dock
      \<and> dk_passphrase (loadProfile ?E ?e) = dk_passphrase edited_dock"
    using profile_roundtrip [OF _ edited_fields(1) edited_widgets _ _ _ _ _ saved, of ?e "loadProfile ?E ?e"] edited_url edited_widgets
    by (simp add: demo_parts map_config_laws edited_fields text_ok_def c_str_def cast_int_id widgets_ok_def)
  then show ?thesis by (simp add: edited_fields)
qed

text \<open>
  The set of enabled links survives a restart and reaches the output: loading a profile selects
  exactly the links that were enabled when the selection was saved, and the output, which reads the
  same text from its settings, enables exactly these links.
\<close>

theorem enabled_links_roundtrip:
  assumes "config_laws (env_config E)" and "dk_config d = Some c"
    and "set (env_order E (dk_selected d)) = dom (dk_selected d)" and "\<forall>i\<in>dom (dk_selected d). storable_id i"
    and "fromUtf8 (env_qt E) (enabled_links_text E (dk_selected d)) = enabled_links_text E (dk_selected d)"
    and "dk_config e = dk_config (saveSelectedLinks E d)" and "dk_output e = None"
  shows "dk_selected (loadProfile E e) = (\<lambda>i. if dk_selected d i = Some True then Some True else None)
    \<and> parse_enabled_links (Some (c_str (enabled_links_text E (dk_selected d)))) = {i. dk_selected d i = Some True}"
proof -
  note stored = enabled_text [OF assms(3,4)]
  have "profile_string E (dk_config e) ''EnabledLinks'' [] = enabled_links_text E (dk_selected d)"
    using assms(2,5,6) stored(1)
    by (simp add: saveSelectedLinks_def save_profile_config_def profile_values_saved(1) [OF assms(1)])
      (simp add: profile_string_def config_lawsD [OF assms(1)])
  then show ?thesis
    using stored by (auto simp: load_links_selected [OF assms(7)] load_enabled_links_split parse_enabled_links_split)
qed

theorem enabled_links_roundtrip_witness:
  "dk_selected (loadProfile ((demo_env stub_outputs)\<lparr>env_order := (\<lambda>m. [''eth0/2'', ''wlan0/2''])\<rparr>)
     (edited_dock\<lparr>dk_config := dk_config (saveSelectedLinks ((demo_env stub_outputs)\<lparr>env_order := (\<lambda>m. [''eth0/2'', ''wlan0/2''])\<rparr>)
       (edited_dock\<lparr>dk_selected := [''eth0/2'' \<mapsto> True, ''wlan0/2'' \<mapsto> False]\<rparr>))\<rparr>)) ''eth0/2'' = Some True"
proof -
  let ?E = "(demo_env stub_outputs)\<lparr>env_order := (\<lambda>m. [''eth0/2'', ''wlan0/2''])\<rparr>"
  let ?d = "edited_dock\<lparr>dk_selected := [''eth0/2'' \<mapsto> True, ''wlan0/2'' \<mapsto> False]\<rparr>"
  have "dk_selected (loadProfile ?E (edited_dock\<lparr>dk_config := dk_config (saveSelectedLinks ?E ?d)\<rparr>)) =
      (\<lambda>i. if dk_selected ?d i = Some True then Some True else None)"
    by (rule conjunct1, rule enabled_links_roundtrip [of ?E ?d Map.empty])
      (auto simp: demo_parts map_config_laws edited_fields storable_id_def)
  then show ?thesis by simp
qed

text \<open>
  C22. A profile with an encrypted passphrase of an old version and no plain one is reported as
  unreadable, so that no start overwrites it, exactly if the passphrase field was empty before or
  the handlers are not connected yet. After a change of profile in a running dock that showed a
  passphrase, clearing the field counts as an edit by the user and takes the report back.
\<close>

theorem unreadable_secret_reported:
  assumes "dk_output e = None" and "fromUtf8 (env_qt E) [] = []"
    and "profile_string E (dk_config e) ''PassphraseSecret'' [] = []" and "profile_string E (dk_config e) ''PassphraseDpapi'' [] \<noteq> []"
  shows "dk_secret_error (loadProfile E e) \<longleftrightarrow> \<not> (dk_connected e \<and> dk_passphrase e \<noteq> [])"
proof -
  have clean: "dk_secret_error (clean_profile E d) = dk_secret_error d" for d
    by (auto simp: clean_profile_def saveProfile_def save_profile_config_def view_update_def Let_def split: option.split)
  let ?c = "load_connection E (e\<lparr>dk_secret_error := False, dk_selected := Map.empty\<rparr>)"
  have c: "dk_connected ?c = dk_connected e" "dk_passphrase ?c = dk_passphrase e" "dk_config ?c = dk_config e" "dk_output ?c = None"
    using assms(1) by (simp_all add: load_connection_def set_url_def setter_defs)
  have "dk_secret_error (loadProfile E e) = dk_secret_error (load_encoding E (load_secret E ?c))"
    by (simp only: loadProfile_def clean) (simp add: load_links_def)
  also have "\<dots> = dk_secret_error (load_secret E ?c)"
    using c(4) by (simp add: load_encoding_def load_secret_def Let_def setter_fields view_update_def)
  also have "\<dots> \<longleftrightarrow> \<not> (dk_connected ?c \<and> dk_passphrase ?c \<noteq> [])"
    using c(3) assms(2-4)
    by (simp add: load_secret_def load_srtla_passphrase_def Let_def set_passphrase_def on_passphrase_changed_def view_update_def)
  finally show ?thesis unfolding c(1,2) .
qed

definition legacy_profile :: "string \<rightharpoonup> setting" where
  "legacy_profile = [''PassphraseDpapi'' \<mapsto> SStr ''AQAAANCMnd8'']"

theorem unreadable_secret_reported_witness:
  "dk_secret_error (loadProfile (demo_env stub_outputs) (edited_dock\<lparr>dk_passphrase := [], dk_connected := True, dk_config := Some legacy_profile\<rparr>))
   \<and> \<not> dk_secret_error (loadProfile (demo_env stub_outputs) (edited_dock\<lparr>dk_connected := True, dk_config := Some legacy_profile\<rparr>))"
proof -
  have "profile_string (demo_env stub_outputs) (Some legacy_profile) ''PassphraseSecret'' [] = []"
    "profile_string (demo_env stub_outputs) (Some legacy_profile) ''PassphraseDpapi'' [] \<noteq> []"
    by (simp_all add: profile_string_def demo_parts map_config_def legacy_profile_def)
  with unreadable_secret_reported [of "edited_dock\<lparr>dk_passphrase := [], dk_connected := True, dk_config := Some legacy_profile\<rparr>" "demo_env stub_outputs"]
    unreadable_secret_reported [of "edited_dock\<lparr>dk_connected := True, dk_config := Some legacy_profile\<rparr>" "demo_env stub_outputs"]
  show ?thesis by (simp add: edited_fields demo_parts)
qed

end
