(* ===== verification/Srtla_Websocket.thy ===== *)
theory Srtla_Websocket
  imports Dock_Properties
begin

text \<open>
  The requests of obs-websocket clients (\<^verbatim>\<open>srtla-websocket.cpp\<close>). The three global variables of the
  file are fields of a record; docks live in a heap, so that a pointer can be null or dangling:
  an operation that uses a destroyed dock has the value \<open>None\<close>. The procedure handlers of OBS and of
  obs-websocket are parameters, \<open>ws_peer\<close> is the state of obs-websocket.
\<close>

section \<open>Call data\<close>

datatype request_callback = RequestGetStatus | RequestSetOutputActive | RequestSetLinkEnabled
  | RequestSetBitrateControl | RequestSetMaxBitrate

datatype 'd calldata_value = CdPtr "nat option" | CdString string | CdBool bool | CdCallback request_callback | CdData 'd

type_synonym 'd calldata = "string \<rightharpoonup> 'd calldata_value"

definition calldata_bool :: "'d calldata \<Rightarrow> string \<Rightarrow> bool" where
  "calldata_bool data k = (case data k of Some (CdBool b) \<Rightarrow> b | _ \<Rightarrow> False)"

definition calldata_ptr :: "'d calldata \<Rightarrow> string \<Rightarrow> nat option" where
  "calldata_ptr data k = (case data k of Some (CdPtr p) \<Rightarrow> p | _ \<Rightarrow> None)"

record ('d, 'w) obs_procs =
  proc_handler_call :: "nat \<Rightarrow> string \<Rightarrow> 'd calldata \<Rightarrow> 'w \<Rightarrow> bool \<times> 'd calldata \<times> 'w"
  obs_get_proc_handler :: nat
  obs_data_create_from_json :: "string \<Rightarrow> 'd option"
  obs_data_apply :: "'d \<Rightarrow> 'd \<Rightarrow> 'd"

record ('c, 'd, 'o, 'w) websocket =
  ws_heap :: "nat \<rightharpoonup> ('c, 'd, 'o) dock"
  ws_proc_handler :: "nat option"
  ws_vendor :: "nat option"
  ws_dock :: "nat option"
  ws_peer :: 'w

definition vendor_name :: string where
  "vendor_name = ''obs-srtla-output''"

section \<open>Registration\<close>

definition call_websocket_proc ::
    "('d, 'w) obs_procs \<Rightarrow> string \<Rightarrow> 'd calldata \<Rightarrow> ('c, 'd, 'o, 'w) websocket \<Rightarrow> 'd calldata \<times> ('c, 'd, 'o, 'w) websocket" where
  "call_websocket_proc P name data s =
     (case ws_proc_handler s of
        None \<Rightarrow> (data, s)
      | Some ph \<Rightarrow> (case proc_handler_call P ph name data (ws_peer s) of (_, data', w) \<Rightarrow> (data', s\<lparr>ws_peer := w\<rparr>)))"

definition register_request ::
    "('d, 'w) obs_procs \<Rightarrow> string \<Rightarrow> request_callback \<Rightarrow> ('c, 'd, 'o, 'w) websocket \<Rightarrow> bool \<times> ('c, 'd, 'o, 'w) websocket" where
  "register_request P typ callback s =
     (case call_websocket_proc P ''vendor_request_register''
         [''vendor'' \<mapsto> CdPtr (ws_vendor s), ''type'' \<mapsto> CdString typ, ''callback'' \<mapsto> CdCallback callback] s of
        (data, s') \<Rightarrow> (calldata_bool data ''success'', s'))"

definition unregister_request ::
    "('d, 'w) obs_procs \<Rightarrow> string \<Rightarrow> ('c, 'd, 'o, 'w) websocket \<Rightarrow> ('c, 'd, 'o, 'w) websocket" where
  "unregister_request P typ s =
     snd (call_websocket_proc P ''vendor_request_unregister''
       [''vendor'' \<mapsto> CdPtr (ws_vendor s), ''type'' \<mapsto> CdString typ] s)"

definition srtla_websocket_shutdown ::
    "('d, 'w) obs_procs \<Rightarrow> ('c, 'd, 'o, 'w) websocket \<Rightarrow> ('c, 'd, 'o, 'w) websocket" where
  "srtla_websocket_shutdown P s =
     (let s1 = (if ws_vendor s \<noteq> None
                then unregister_request P ''SetMaxBitrate'' (unregister_request P ''SetBitrateControl''
                  (unregister_request P ''SetLinkEnabled'' (unregister_request P ''SetOutputActive''
                    (unregister_request P ''GetStatus'' s))))
                else s)
      in s1\<lparr>ws_dock := None, ws_vendor := None, ws_proc_handler := None\<rparr>)"

definition register_requests ::
    "('d, 'w) obs_procs \<Rightarrow> ('c, 'd, 'o, 'w) websocket \<Rightarrow> bool \<times> ('c, 'd, 'o, 'w) websocket" where
  "register_requests P s =
     (let (status, s1) = register_request P ''GetStatus'' RequestGetStatus s;
          (output, s2) = register_request P ''SetOutputActive'' RequestSetOutputActive s1;
          (link, s3) = register_request P ''SetLinkEnabled'' RequestSetLinkEnabled s2;
          (bitrate, s4) = register_request P ''SetBitrateControl'' RequestSetBitrateControl s3;
          (maximum, s5) = register_request P ''SetMaxBitrate'' RequestSetMaxBitrate s4
      in if \<not> status \<or> \<not> output \<or> \<not> link \<or> \<not> bitrate \<or> \<not> maximum
         then (False, srtla_websocket_shutdown P s5) else (True, s5))"

definition srtla_websocket_initialize ::
    "('d, 'w) obs_procs \<Rightarrow> nat \<Rightarrow> ('c, 'd, 'o, 'w) websocket \<Rightarrow> bool \<times> ('c, 'd, 'o, 'w) websocket" where
  "srtla_websocket_initialize P activeDock s =
     (let s0 = s\<lparr>ws_dock := Some activeDock\<rparr>
      in case proc_handler_call P (obs_get_proc_handler P) ''obs_websocket_api_get_ph'' Map.empty (ws_peer s0) of
           (found, data, w) \<Rightarrow>
             let s1 = s0\<lparr>ws_peer := w\<rparr>
             in if \<not> found then (False, s1)
                else
                  let s2 = s1\<lparr>ws_proc_handler := calldata_ptr data ''ph''\<rparr>
                  in if ws_proc_handler s2 = None then (False, s2)
                     else
                       (case call_websocket_proc P ''vendor_register'' [''name'' \<mapsto> CdString vendor_name] s2 of
                          (data', s3) \<Rightarrow>
                            let s4 = s3\<lparr>ws_vendor := calldata_ptr data' ''vendor''\<rparr>
                            in if ws_vendor s4 = None then (False, s4) else register_requests P s4))"

text \<open>A null pointer is the empty text here: both are ignored.\<close>

definition srtla_websocket_emit_status_json ::
    "('d, 'w) obs_procs \<Rightarrow> string \<Rightarrow> ('c, 'd, 'o, 'w) websocket \<Rightarrow> ('c, 'd, 'o, 'w) websocket" where
  "srtla_websocket_emit_status_json P json s =
     (if ws_vendor s = None \<or> json = [] then s
      else
        (case obs_data_create_from_json P json of
           None \<Rightarrow> s
         | Some eventData \<Rightarrow>
             snd (call_websocket_proc P ''vendor_event_emit''
               [''vendor'' \<mapsto> CdPtr (ws_vendor s), ''type'' \<mapsto> CdString ''StatusChanged'', ''data'' \<mapsto> CdData eventData] s)))"

section \<open>Requests\<close>

definition set_error_response :: "'d obs_data_api \<Rightarrow> string \<Rightarrow> 'd \<Rightarrow> 'd" where
  "set_error_response api message response =
     obs_data_set_string api ''error'' (c_str message) (obs_data_set_bool api ''success'' False response)"

text \<open>A call through a pointer; on a destroyed dock the program's behaviour is undefined.\<close>

definition call_dock ::
    "nat \<Rightarrow> (('c, 'd, 'o) dock \<Rightarrow> 'r \<times> ('c, 'd, 'o) dock) \<Rightarrow> ('c, 'd, 'o, 'w) websocket
      \<Rightarrow> ('r \<times> ('c, 'd, 'o, 'w) websocket) option" where
  "call_dock p f s =
     map_option (\<lambda>d. case f d of (r, d') \<Rightarrow> (r, s\<lparr>ws_heap := (ws_heap s)(p \<mapsto> d')\<rparr>)) (ws_heap s p)"

text \<open>
  On the UI thread the function runs at once, otherwise the caller blocks until the UI thread has
  run it: in both cases it has run when the call returns. \<open>None\<close> inside: there is no dock.
\<close>

definition on_dock_thread ::
    "(('c, 'd, 'o) dock \<Rightarrow> 'r \<times> ('c, 'd, 'o) dock) \<Rightarrow> ('c, 'd, 'o, 'w) websocket
      \<Rightarrow> ('r option \<times> ('c, 'd, 'o, 'w) websocket) option" where
  "on_dock_thread f s =
     (case ws_dock s of
        None \<Rightarrow> Some (None, s)
      | Some target \<Rightarrow> map_option (\<lambda>(r, s'). (Some r, s')) (call_dock target f s))"

definition request_get_status ::
    "('c, 'd, 'o) dock_env \<Rightarrow> ('d, 'w) obs_procs \<Rightarrow> 'd \<Rightarrow> ('c, 'd, 'o, 'w) websocket
      \<Rightarrow> ('d \<times> ('c, 'd, 'o, 'w) websocket) option" where
  "request_get_status E P response s =
     map_option (\<lambda>(invoked, s').
       (case invoked of
          Some json \<Rightarrow>
            if json = [] then set_error_response (env_data E) ''SRTLA status is unavailable'' response
            else (case obs_data_create_from_json P (c_str json) of
                    None \<Rightarrow> set_error_response (env_data E) ''SRTLA status is unavailable'' response
                  | Some status \<Rightarrow> obs_data_apply P response status)
        | None \<Rightarrow> set_error_response (env_data E) ''SRTLA status is unavailable'' response, s'))
       (on_dock_thread (websocketStatusJson E) s)"

definition dock_unavailable :: string where
  "dock_unavailable = ''SRTLA dock is unavailable''"

text \<open>
  The common end of the four handlers that change something: the refusal of the dock or, with no
  dock, a fixed text; otherwise success and the values that were set.
\<close>

definition answer ::
    "'d obs_data_api \<Rightarrow> ('d \<Rightarrow> 'd) \<Rightarrow> 'd \<Rightarrow> (string option option \<times> ('c, 'd, 'o, 'w) websocket) option
      \<Rightarrow> ('d \<times> ('c, 'd, 'o, 'w) websocket) option" where
  "answer api echo response outcome =
     map_option (\<lambda>(invoked, s').
       (case invoked of
          None \<Rightarrow> set_error_response api dock_unavailable response
        | Some (Some error) \<Rightarrow> set_error_response api error response
        | Some None \<Rightarrow> echo (obs_data_set_bool api ''success'' True response), s')) outcome"

definition request_set_output_active ::
    "('c, 'd, 'o) dock_env \<Rightarrow> 'd \<Rightarrow> 'd \<Rightarrow> ('c, 'd, 'o, 'w) websocket \<Rightarrow> ('d \<times> ('c, 'd, 'o, 'w) websocket) option" where
  "request_set_output_active E request response s =
     (let api = env_data E
      in if \<not> obs_data_has_user_value api request ''active''
         then Some (set_error_response api ''active is required'' response, s)
         else
           let active = obs_data_get_bool api request ''active''
           in answer api (obs_data_set_bool api ''active'' active) response
                (on_dock_thread (websocketSetOutputActive E active) s))"

definition request_set_link_enabled ::
    "('c, 'd, 'o) dock_env \<Rightarrow> 'd \<Rightarrow> 'd \<Rightarrow> ('c, 'd, 'o, 'w) websocket \<Rightarrow> ('d \<times> ('c, 'd, 'o, 'w) websocket) option" where
  "request_set_link_enabled E request response s =
     (let api = env_data E
      in if \<not> obs_data_has_user_value api request ''linkId'' \<or> \<not> obs_data_has_user_value api request ''enabled''
         then Some (set_error_response api ''linkId and enabled are required'' response, s)
         else
           (case obs_data_get_string api request ''linkId'' of
              None \<Rightarrow> Some (set_error_response api ''linkId must be a decimal string'' response, s)
            | Some linkIdText \<Rightarrow>
                if linkIdText = [] then Some (set_error_response api ''linkId must be a decimal string'' response, s)
                else
                  (case from_chars_u64 linkIdText of
                     Inr (linkId, []) \<Rightarrow>
                       let enabled = obs_data_get_bool api request ''enabled''
                       in answer api (\<lambda>r. obs_data_set_bool api ''enabled'' enabled
                              (obs_data_set_string api ''linkId'' linkIdText r)) response
                            (on_dock_thread (websocketSetLinkEnabled E (word_of_nat linkId) enabled) s)
                   | _ \<Rightarrow> Some (set_error_response api ''linkId must be a non-negative decimal string'' response, s))))"

definition request_set_bitrate_control ::
    "('c, 'd, 'o) dock_env \<Rightarrow> 'd \<Rightarrow> 'd \<Rightarrow> ('c, 'd, 'o, 'w) websocket \<Rightarrow> ('d \<times> ('c, 'd, 'o, 'w) websocket) option" where
  "request_set_bitrate_control E request response s =
     (let api = env_data E
      in if \<not> obs_data_has_user_value api request ''automatic'' \<or> \<not> obs_data_has_user_value api request ''manualBitrateKbps''
         then Some (set_error_response api ''automatic and manualBitrateKbps are required'' response, s)
         else
           let automatic = obs_data_get_bool api request ''automatic'';
               manual = obs_data_get_int api request ''manualBitrateKbps''
           in if manual < 0 \<or> int_max < manual
              then Some (set_error_response api ''manualBitrateKbps is outside the supported range'' response, s)
              else answer api (\<lambda>r. obs_data_set_int api ''manualBitrateKbps'' manual (obs_data_set_bool api ''automatic'' automatic r))
                     response (on_dock_thread (websocketSetBitrateControl E automatic (cast_int manual)) s))"

definition request_set_max_bitrate ::
    "('c, 'd, 'o) dock_env \<Rightarrow> 'd \<Rightarrow> 'd \<Rightarrow> ('c, 'd, 'o, 'w) websocket \<Rightarrow> ('d \<times> ('c, 'd, 'o, 'w) websocket) option" where
  "request_set_max_bitrate E request response s =
     (let api = env_data E
      in if \<not> obs_data_has_user_value api request ''maxBitrateKbps''
         then Some (set_error_response api ''maxBitrateKbps is required'' response, s)
         else
           let maximum = obs_data_get_int api request ''maxBitrateKbps''
           in if maximum < 0 \<or> int_max < maximum
              then Some (set_error_response api ''maxBitrateKbps is outside the supported range'' response, s)
              else answer api (obs_data_set_int api ''maxBitrateKbps'' maximum) response
                     (on_dock_thread (websocketSetMaxBitrate E (cast_int maximum)) s))"

text \<open>What obs-websocket runs for a registered request.\<close>

fun run_request ::
    "('c, 'd, 'o) dock_env \<Rightarrow> ('d, 'w) obs_procs \<Rightarrow> request_callback \<Rightarrow> 'd \<Rightarrow> 'd \<Rightarrow> ('c, 'd, 'o, 'w) websocket
      \<Rightarrow> ('d \<times> ('c, 'd, 'o, 'w) websocket) option" where
  "run_request E P RequestGetStatus request response s = request_get_status E P response s"
| "run_request E P RequestSetOutputActive request response s = request_set_output_active E request response s"
| "run_request E P RequestSetLinkEnabled request response s = request_set_link_enabled E request response s"
| "run_request E P RequestSetBitrateControl request response s = request_set_bitrate_control E request response s"
| "run_request E P RequestSetMaxBitrate request response s = request_set_max_bitrate E request response s"

section \<open>Frames\<close>

lemma peer_frame [simp]:
  "ws_heap (snd (call_websocket_proc P name data w)) = ws_heap w" "ws_dock (snd (call_websocket_proc P name data w)) = ws_dock w"
  "ws_vendor (snd (call_websocket_proc P name data w)) = ws_vendor w"
  "ws_proc_handler (snd (call_websocket_proc P name data w)) = ws_proc_handler w"
  by (simp_all add: call_websocket_proc_def split: option.split prod.split)

lemma registration_frame [simp]:
  "ws_heap (snd (register_request P t c w)) = ws_heap w" "ws_dock (snd (register_request P t c w)) = ws_dock w"
  "ws_heap (unregister_request P t w) = ws_heap w" "ws_dock (unregister_request P t w) = ws_dock w"
  by (simp_all add: register_request_def unregister_request_def case_prod_unfold)

lemma shutdown_frame [simp]:
  "ws_heap (srtla_websocket_shutdown P w) = ws_heap w" "ws_dock (srtla_websocket_shutdown P w) = None"
  by (simp_all add: srtla_websocket_shutdown_def Let_def)

lemma initialize_frame:
  "ws_heap (snd (srtla_websocket_initialize P p w)) = ws_heap w"
  "ws_dock (snd (srtla_websocket_initialize P p w)) = Some p \<or> ws_dock (snd (srtla_websocket_initialize P p w)) = None"
proof -
  have r: "ws_heap (snd (register_requests P v)) = ws_heap v \<and>
      (ws_dock (snd (register_requests P v)) = ws_dock v \<or> ws_dock (snd (register_requests P v)) = None)" for v
    by (simp add: register_requests_def Let_def case_prod_unfold)
  have r2: "ws_dock v = Some p \<Longrightarrow> ws_dock (snd (register_requests P v)) = Some p \<or> ws_dock (snd (register_requests P v)) = None" for v
    using r [of v] by auto
  show "ws_heap (snd (srtla_websocket_initialize P p w)) = ws_heap w"
    by (simp add: srtla_websocket_initialize_def Let_def case_prod_unfold r)
  show "ws_dock (snd (srtla_websocket_initialize P p w)) = Some p \<or> ws_dock (snd (srtla_websocket_initialize P p w)) = None"
    by (simp add: srtla_websocket_initialize_def Let_def case_prod_unfold) (intro impI conjI r2, simp)
qed

lemma emit_frame [simp]:
  "ws_heap (srtla_websocket_emit_status_json P t w) = ws_heap w" "ws_dock (srtla_websocket_emit_status_json P t w) = ws_dock w"
  by (simp_all add: srtla_websocket_emit_status_json_def split: option.split)

lemma emits_frame [simp]:
  "ws_heap (fold (srtla_websocket_emit_status_json P) ts w) = ws_heap w"
  "ws_dock (fold (srtla_websocket_emit_status_json P) ts w) = ws_dock w"
  by (induction ts arbitrary: w) simp_all

section \<open>The registry of requests\<close>

text \<open>
  What obs-websocket documents of its registry; \<open>reg w v\<close> are the requests of vendor \<open>v\<close>. A new vendor
  has none, and a request type is added only if the call reports success.
\<close>

definition registry_laws :: "('d, 'w) obs_procs \<Rightarrow> ('w \<Rightarrow> nat \<Rightarrow> string \<rightharpoonup> request_callback) \<Rightarrow> bool" where
  "registry_laws P reg \<longleftrightarrow>
     (\<forall>ph data w ok data' w'. proc_handler_call P ph ''obs_websocket_api_get_ph'' data w = (ok, data', w') \<longrightarrow> reg w' = reg w)
     \<and> (\<forall>ph data w ok data' w'. proc_handler_call P ph ''vendor_register'' data w = (ok, data', w') \<longrightarrow>
          reg w' = (case calldata_ptr data' ''vendor'' of None \<Rightarrow> reg w | Some v \<Rightarrow> (reg w)(v := Map.empty)))
     \<and> (\<forall>ph v t c w ok data' w'. proc_handler_call P ph ''vendor_request_register''
            [''vendor'' \<mapsto> CdPtr (Some v), ''type'' \<mapsto> CdString t, ''callback'' \<mapsto> CdCallback c] w = (ok, data', w') \<longrightarrow>
          reg w' = (if calldata_bool data' ''success'' then (reg w)(v := (reg w v)(t \<mapsto> c)) else reg w))
     \<and> (\<forall>ph v t w ok data' w'. proc_handler_call P ph ''vendor_request_unregister''
            [''vendor'' \<mapsto> CdPtr (Some v), ''type'' \<mapsto> CdString t] w = (ok, data', w') \<longrightarrow>
          reg w' = (reg w)(v := (reg w v)(t := None)))"

lemma registry_lawsD:
  assumes "registry_laws P reg"
  shows "proc_handler_call P ph ''obs_websocket_api_get_ph'' data w = (ok, data', w') \<Longrightarrow> reg w' = reg w"
    "proc_handler_call P ph ''vendor_register'' data w = (ok, data', w') \<Longrightarrow>
      reg w' = (case calldata_ptr data' ''vendor'' of None \<Rightarrow> reg w | Some v \<Rightarrow> (reg w)(v := Map.empty))"
    "proc_handler_call P ph ''vendor_request_register''
        [''vendor'' \<mapsto> CdPtr (Some v), ''type'' \<mapsto> CdString t, ''callback'' \<mapsto> CdCallback c] w = (ok, data', w') \<Longrightarrow>
      reg w' = (if calldata_bool data' ''success'' then (reg w)(v := (reg w v)(t \<mapsto> c)) else reg w)"
    "proc_handler_call P ph ''vendor_request_unregister'' [''vendor'' \<mapsto> CdPtr (Some v), ''type'' \<mapsto> CdString t] w = (ok, data', w') \<Longrightarrow>
      reg w' = (reg w)(v := (reg w v)(t := None))"
  using assms unfolding registry_laws_def by meson+

text \<open>A socket that is registered as vendor \<open>v\<close>.\<close>

definition vendor_of :: "nat \<Rightarrow> ('c, 'd, 'o, 'w) websocket \<Rightarrow> bool" where
  "vendor_of v w \<longleftrightarrow> ws_vendor w = Some v \<and> ws_proc_handler w \<noteq> None"

lemma register_request_reg:
  assumes "registry_laws P reg" and "vendor_of v w" and "register_request P t c w = (ok, w')"
  shows "vendor_of v w' \<and> ws_dock w' = ws_dock w
    \<and> reg (ws_peer w') = (if ok then (reg (ws_peer w))(v := (reg (ws_peer w) v)(t \<mapsto> c)) else reg (ws_peer w))"
proof -
  from assms(2) obtain ph where ph: "ws_proc_handler w = Some ph" "ws_vendor w = Some v"
    by (auto simp: vendor_of_def)
  obtain ok0 data' w0 where call: "proc_handler_call P ph ''vendor_request_register''
      [''vendor'' \<mapsto> CdPtr (Some v), ''type'' \<mapsto> CdString t, ''callback'' \<mapsto> CdCallback c] (ws_peer w) = (ok0, data', w0)"
    by (rule prod_cases3)
  then show ?thesis
    using assms(3) ph registry_lawsD(3) [OF assms(1) call]
    by (auto simp: register_request_def call_websocket_proc_def vendor_of_def)
qed

lemma unregister_request_reg:
  assumes "registry_laws P reg" and "vendor_of v w"
  shows "vendor_of v (unregister_request P t w)"
    "reg (ws_peer (unregister_request P t w)) = (reg (ws_peer w))(v := (reg (ws_peer w) v)(t := None))"
proof -
  from assms(2) obtain ph where ph: "ws_proc_handler w = Some ph" "ws_vendor w = Some v"
    by (auto simp: vendor_of_def)
  obtain ok0 data' w0 where call: "proc_handler_call P ph ''vendor_request_unregister''
      [''vendor'' \<mapsto> CdPtr (Some v), ''type'' \<mapsto> CdString t] (ws_peer w) = (ok0, data', w0)"
    by (rule prod_cases3)
  then show "vendor_of v (unregister_request P t w)"
    "reg (ws_peer (unregister_request P t w)) = (reg (ws_peer w))(v := (reg (ws_peer w) v)(t := None))"
    using ph registry_lawsD(4) [OF assms(1) call]
    by (auto simp: unregister_request_def call_websocket_proc_def vendor_of_def)
qed

definition request_types :: "string set" where
  "request_types = {''GetStatus'', ''SetOutputActive'', ''SetLinkEnabled'', ''SetBitrateControl'', ''SetMaxBitrate''}"

lemma shutdown_reg:
  assumes "registry_laws P reg" and "vendor_of v w"
  shows "reg (ws_peer (srtla_websocket_shutdown P w)) = (reg (ws_peer w))(v := (reg (ws_peer w) v) |` (- request_types))"
proof -
  note u = unregister_request_reg [OF assms(1)]
  note v1 = assms(2) note v2 = u(1) [OF v1, of "''GetStatus''"]
  note v3 = u(1) [OF v2, of "''SetOutputActive''"] note v4 = u(1) [OF v3, of "''SetLinkEnabled''"]
  note v5 = u(1) [OF v4, of "''SetBitrateControl''"]
  have "ws_vendor w \<noteq> None" using assms(2) by (simp add: vendor_of_def)
  then show ?thesis
    unfolding srtla_websocket_shutdown_def Let_def
    by (simp add: u(2) [OF v1] u(2) [OF v2] u(2) [OF v3] u(2) [OF v4] u(2) [OF v5])
      (auto simp: request_types_def restrict_map_def fun_eq_iff)
qed

lemma register_requests_reg:
  assumes "registry_laws P reg" and "vendor_of v w" and "reg (ws_peer w) v = Map.empty"
    and "register_requests P w = (ok, w')"
  shows "if ok then vendor_of v w' \<and> ws_dock w' = ws_dock w \<and> reg (ws_peer w') = (reg (ws_peer w))(v :=
        [''GetStatus'' \<mapsto> RequestGetStatus, ''SetOutputActive'' \<mapsto> RequestSetOutputActive, ''SetLinkEnabled'' \<mapsto> RequestSetLinkEnabled,
         ''SetBitrateControl'' \<mapsto> RequestSetBitrateControl, ''SetMaxBitrate'' \<mapsto> RequestSetMaxBitrate])
    else ws_vendor w' = None \<and> reg (ws_peer w') = reg (ws_peer w)"
proof -
  note r = register_request_reg [OF assms(1)]
  obtain k1 w1 where 1: "register_request P ''GetStatus'' RequestGetStatus w = (k1, w1)" by fastforce
  obtain k2 w2 where 2: "register_request P ''SetOutputActive'' RequestSetOutputActive w1 = (k2, w2)" by fastforce
  obtain k3 w3 where 3: "register_request P ''SetLinkEnabled'' RequestSetLinkEnabled w2 = (k3, w3)" by fastforce
  obtain k4 w4 where 4: "register_request P ''SetBitrateControl'' RequestSetBitrateControl w3 = (k4, w4)" by fastforce
  obtain k5 w5 where 5: "register_request P ''SetMaxBitrate'' RequestSetMaxBitrate w4 = (k5, w5)" by fastforce
  note r1 = r [OF assms(2) 1] note r2 = r [OF conjunct1 [OF r1] 2] note r3 = r [OF conjunct1 [OF r2] 3]
  note r4 = r [OF conjunct1 [OF r3] 4] note r5 = r [OF conjunct1 [OF r4] 5]
  have run: "(ok, w') = (if \<not> (k1 \<and> k2 \<and> k3 \<and> k4 \<and> k5) then (False, srtla_websocket_shutdown P w5) else (True, w5))"
    using assms(4) 1 2 3 4 5 by (simp add: register_requests_def)
  let ?Q = "\<lambda>x. (\<forall>u. u \<noteq> v \<longrightarrow> reg (ws_peer x) u = reg (ws_peer w) u) \<and> dom (reg (ws_peer x) v) \<subseteq> request_types"
  have q: "?Q b" if "?Q a" "t \<in> request_types" "register_request P t c a = (k, b)" "vendor_of v a" for a b t c k
    using r [OF that(4,3)] that(1,2) by (cases k) auto
  have t: "''GetStatus'' \<in> request_types" "''SetOutputActive'' \<in> request_types" "''SetLinkEnabled'' \<in> request_types"
    "''SetBitrateControl'' \<in> request_types" "''SetMaxBitrate'' \<in> request_types"
    by (simp_all add: request_types_def)
  have "?Q w" using assms(3) by simp
  note q1 = q [OF this t(1) 1 assms(2)] note q2 = q [OF q1 t(2) 2 conjunct1 [OF r1]]
  note q3 = q [OF q2 t(3) 3 conjunct1 [OF r2]] note q4 = q [OF q3 t(4) 4 conjunct1 [OF r3]]
  note all = q [OF q4 t(5) 5 conjunct1 [OF r4]]
  show ?thesis
  proof (cases "k1 \<and> k2 \<and> k3 \<and> k4 \<and> k5")
    case True
    then show ?thesis using run r1 r2 r3 r4 r5 assms(3) by simp
  next
    case False
    have "(reg (ws_peer w5) v) |` (- request_types) = Map.empty"
      using all by (auto simp: restrict_map_def fun_eq_iff)
    then have "reg (ws_peer (srtla_websocket_shutdown P w5)) = reg (ws_peer w)"
      using shutdown_reg [OF assms(1) conjunct1 [OF r5]] all assms(3) by (simp add: fun_eq_iff)
    with False run show ?thesis by (simp add: srtla_websocket_shutdown_def Let_def)
  qed
qed

lemma shutdown_idle: "ws_vendor w = None \<Longrightarrow> ws_peer (srtla_websocket_shutdown P w) = ws_peer w"
  by (simp add: srtla_websocket_shutdown_def)

lemma initialize_cases:
  assumes "registry_laws P reg" and "ws_vendor s = None" and "srtla_websocket_initialize P p s = (ok, s')"
  obtains (Refused) "\<not> ok" "ws_vendor s' = None" "reg (ws_peer s') = reg (ws_peer s)"
    | (Vendor) v s1 where "vendor_of v s1" "ws_dock s1 = Some p" "reg (ws_peer s1) = (reg (ws_peer s))(v := Map.empty)"
        "register_requests P s1 = (ok, s')"
proof -
  obtain found data w where ph: "proc_handler_call P (obs_get_proc_handler P) ''obs_websocket_api_get_ph'' Map.empty (ws_peer s) = (found, data, w)"
    by (rule prod_cases3)
  note w = registry_lawsD(1) [OF assms(1) ph]
  show thesis
  proof (cases "found \<and> calldata_ptr data ''ph'' \<noteq> None")
    case False
    then show thesis
      using assms(2,3) ph w by (intro Refused) (auto simp: srtla_websocket_initialize_def Let_def split: if_splits)
  next
    case True
    then obtain h where h: "calldata_ptr data ''ph'' = Some h" "found" by auto
    obtain ok1 data1 w1 where reg: "proc_handler_call P h ''vendor_register'' [''name'' \<mapsto> CdString vendor_name] w = (ok1, data1, w1)"
      by (rule prod_cases3)
    note w1 = registry_lawsD(2) [OF assms(1) reg]
    let ?s = "s\<lparr>ws_dock := Some p, ws_proc_handler := Some h, ws_peer := w1, ws_vendor := calldata_ptr data1 ''vendor''\<rparr>"
    have run: "(ok, s') = (if calldata_ptr data1 ''vendor'' = None then (False, ?s) else register_requests P ?s)"
      using assms(3) ph h reg by (auto simp: srtla_websocket_initialize_def Let_def call_websocket_proc_def)
    show thesis
    proof (cases "calldata_ptr data1 ''vendor''")
      case None
      then show thesis using run w w1 by (intro Refused) simp_all
    next
      case (Some v)
      then show thesis using run w w1 by (intro Vendor [of v ?s]) (simp_all add: vendor_of_def)
    qed
  qed
qed

text \<open>
  C19. Registration with obs-websocket is all or nothing. If it succeeds, the plugin's vendor has
  exactly the five requests, each with its handler; if it fails at any point (no obs-websocket, no
  vendor, one refused request), no request is left behind and no vendor is kept. Shutting down
  removes all requests and forgets the dock.
\<close>

theorem websocket_registration:
  assumes "registry_laws P reg" and "ws_vendor s = None" and "srtla_websocket_initialize P p s = (ok, s')"
  shows "(ok \<longrightarrow> ws_dock s' = Some p \<and> (\<exists>v. ws_vendor s' = Some v \<and> reg (ws_peer s') v =
        [''GetStatus'' \<mapsto> RequestGetStatus, ''SetOutputActive'' \<mapsto> RequestSetOutputActive, ''SetLinkEnabled'' \<mapsto> RequestSetLinkEnabled,
         ''SetBitrateControl'' \<mapsto> RequestSetBitrateControl, ''SetMaxBitrate'' \<mapsto> RequestSetMaxBitrate]))
    \<and> (\<not> ok \<longrightarrow> ws_vendor s' = None \<and> (\<forall>v. reg (ws_peer s') v = reg (ws_peer s) v \<or> reg (ws_peer s') v = Map.empty))
    \<and> (\<forall>v. reg (ws_peer (srtla_websocket_shutdown P s')) v = reg (ws_peer s) v \<or> reg (ws_peer (srtla_websocket_shutdown P s')) v = Map.empty)
    \<and> ws_dock (srtla_websocket_shutdown P s') = None"
proof (cases rule: initialize_cases [OF assms])
  case 1
  then show ?thesis using shutdown_idle [of s' P] by simp
next
  case (2 v s1)
  have "reg (ws_peer s1) v = Map.empty" using 2(3) by simp
  note rr = register_requests_reg [OF assms(1) 2(1) this 2(4)]
  show ?thesis
  proof (cases ok)
    case True
    then have "vendor_of v s'" using rr by simp
    note sd = shutdown_reg [OF assms(1) this]
    have "reg (ws_peer s') v |` (- request_types) = Map.empty"
      using rr True by (auto simp: restrict_map_def request_types_def fun_eq_iff)
    then show ?thesis using rr True 2(2,3) sd by (auto simp: vendor_of_def)
  next
    case False
    then show ?thesis using rr 2(3) shutdown_idle [of s' P] by auto
  qed
qed

text \<open>A registry that accepts every request, for an example.\<close>

definition map_registry :: "('d, nat \<Rightarrow> string \<rightharpoonup> request_callback) obs_procs" where
  "map_registry = \<lparr>proc_handler_call = (\<lambda>ph name data w.
       if name = ''obs_websocket_api_get_ph'' then (True, [''ph'' \<mapsto> CdPtr (Some 1)], w)
       else if name = ''vendor_register'' then (True, [''vendor'' \<mapsto> CdPtr (Some 7)], w(7 := Map.empty))
       else (case (data ''vendor'', data ''type'', data ''callback'') of
           (Some (CdPtr (Some v)), Some (CdString t), Some (CdCallback c)) \<Rightarrow> (True, [''success'' \<mapsto> CdBool True], w(v := (w v)(t \<mapsto> c)))
         | (Some (CdPtr (Some v)), Some (CdString t), None) \<Rightarrow> (True, Map.empty, w(v := (w v)(t := None)))
         | _ \<Rightarrow> (False, Map.empty, w))),
     obs_get_proc_handler = 0, obs_data_create_from_json = (\<lambda>s. None), obs_data_apply = (\<lambda>r s. r)\<rparr>"

lemma map_registry_laws: "registry_laws map_registry (\<lambda>w. w)"
  unfolding registry_laws_def by (auto simp: map_registry_def calldata_ptr_def calldata_bool_def)

definition unregistered :: "(unit, unit, unit, nat \<Rightarrow> string \<rightharpoonup> request_callback) websocket" where
  "unregistered = \<lparr>ws_heap = Map.empty, ws_proc_handler = None, ws_vendor = None, ws_dock = None, ws_peer = (\<lambda>_. Map.empty)\<rparr>"

theorem websocket_registration_witness:
  "\<forall>v. ws_peer (srtla_websocket_shutdown map_registry (snd (srtla_websocket_initialize map_registry 0 unregistered))) v = Map.empty"
proof -
  have "ws_vendor unregistered = None" "ws_peer unregistered = (\<lambda>_. Map.empty)"
    by (simp_all add: unregistered_def)
  with websocket_registration [OF map_registry_laws _ surjective_pairing, of unregistered 0] show ?thesis
    by simp
qed

section \<open>Replies\<close>

text \<open>What a handler relies on of \<^verbatim>\<open>obs_data_t\<close>: a value that was set is read back, others stay.\<close>

definition reply_laws :: "'d obs_data_api \<Rightarrow> bool" where
  "reply_laws api \<longleftrightarrow> obs_data_laws api
     \<and> (\<forall>d k v k'. obs_data_get_bool api (obs_data_set_bool api k v d) k' = (if k' = k then v else obs_data_get_bool api d k'))
     \<and> (\<forall>d k v k'. k' \<noteq> k \<longrightarrow> obs_data_get_bool api (obs_data_set_string api k v d) k' = obs_data_get_bool api d k')
     \<and> (\<forall>d k v k'. k' \<noteq> k \<longrightarrow> obs_data_get_bool api (obs_data_set_int api k v d) k' = obs_data_get_bool api d k')
     \<and> (\<forall>d k v k'. k' \<noteq> k \<longrightarrow> obs_data_get_string api (obs_data_set_bool api k v d) k' = obs_data_get_string api d k')"

lemma reply_lawsD:
  assumes "reply_laws api"
  shows "obs_data_laws api"
    "obs_data_get_bool api (obs_data_set_bool api k v d) k' = (if k' = k then v else obs_data_get_bool api d k')"
    "k' \<noteq> k \<Longrightarrow> obs_data_get_bool api (obs_data_set_string api k x d) k' = obs_data_get_bool api d k'"
    "k' \<noteq> k \<Longrightarrow> obs_data_get_bool api (obs_data_set_int api k i d) k' = obs_data_get_bool api d k'"
    "k' \<noteq> k \<Longrightarrow> obs_data_get_string api (obs_data_set_bool api k v d) k' = obs_data_get_string api d k'"
  using assms by (simp_all add: reply_laws_def)

lemma map_settings_reply: "reply_laws map_settings"
  unfolding reply_laws_def using map_settings_laws by (simp add: map_settings_def)

lemma set_error_reply:
  assumes "reply_laws api"
  shows "obs_data_get_bool api (set_error_response api m r) ''success'' = False"
    "obs_data_get_string api (set_error_response api m r) ''error'' = Some (c_str m)"
  by (simp_all add: set_error_response_def reply_lawsD(2,3) [OF assms] obs_data_lawsD(1) [OF reply_lawsD(1) [OF assms]])

text \<open>A handler that reaches the dock: the dock's verdict is the reply.\<close>

lemma answer_reply:
  assumes "ws_dock s = Some p" and "ws_heap s p = Some d" and "f d = (verdict, d')"
  shows "answer api echo response (on_dock_thread f s) =
    Some (case verdict of None \<Rightarrow> echo (obs_data_set_bool api ''success'' True response) | Some e \<Rightarrow> set_error_response api e response,
      s\<lparr>ws_heap := (ws_heap s)(p \<mapsto> d')\<rparr>)"
  using assms by (simp add: answer_def on_dock_thread_def call_dock_def split: option.split)

text \<open>The dock's verdict on a bitrate.\<close>

lemma ask_output_frame: "snd (ask_output f d) = d\<lparr>dk_output := dk_output (snd (ask_output f d))\<rparr>"
  by (simp add: ask_output_def split: option.split bool.split prod.split)

lemma update_settings_fields:
  "dk_manual_bitrate (update_settings g d) = dk_manual_bitrate d" "dk_max_bitrate (update_settings g d) = dk_max_bitrate d"
  "dk_auto_bitrate (update_settings g d) = dk_auto_bitrate d"
  by (simp_all add: update_settings_def)

lemma setMaxBitrate_verdict:
  assumes "widgets_ok d" and w: "websocketSetMaxBitrate E v d = (verdict, d')"
  shows "case verdict of None \<Rightarrow> 500 \<le> v \<and> v \<le> 30000 \<and> sp_value (dk_max_bitrate d') = v
    | Some e \<Rightarrow> d' = d\<lparr>dk_output := dk_output d'\<rparr>"
proof (cases rule: websocketSetMaxBitrate_cases [of E v d])
  case (refused r)
  then show ?thesis
    using w ask_output_frame [of "output_set_max_bitrate (env_out E) v" d] by simp
next
  case (accepted d1)
  have "widgets d1 = widgets d"
    using accepted(1) output_ops_parts(4) [of "output_set_max_bitrate (env_out E) v" d] by simp
  then have "spin_ok 500 30000 (dk_max_bitrate d1)" "dk_max_bitrate d1 = dk_max_bitrate d"
    using assms(1) by (simp_all add: widgets_ok_def widgets_def)
  then show ?thesis
    using accepted w by (auto simp: update_settings_fields setValue_def spin_ok_def clamp_id)
qed (use w in simp)

lemma setBitrateControl_verdict:
  assumes "widgets_ok d" and w: "websocketSetBitrateControl E b v d = (verdict, d')"
  shows "case verdict of None \<Rightarrow> 500 \<le> v \<and> v \<le> 100000 \<and> sp_value (dk_manual_bitrate d') = v \<and> dk_auto_bitrate d' = b
    | Some e \<Rightarrow> d' = d\<lparr>dk_output := dk_output d'\<rparr>"
proof (cases rule: websocketSetBitrateControl_cases [of E b v d])
  case (refused r)
  then show ?thesis
    using w ask_output_frame [of "output_set_bitrate_control (env_out E) b v" d] by simp
next
  case (accepted d1)
  have "widgets d1 = widgets d"
    using accepted(1) output_ops_parts(4) [of "output_set_bitrate_control (env_out E) b v" d] by simp
  then have "spin_ok 500 100000 (dk_manual_bitrate d1)" "dk_manual_bitrate d1 = dk_manual_bitrate d"
    using assms(1) by (simp_all add: widgets_ok_def widgets_def)
  then show ?thesis
    using accepted w by (auto simp: update_settings_fields setValue_def spin_ok_def clamp_id set_manual_enabled_def view_update_def)
qed (use w in simp)

text \<open>A dock with two adapters and its registration, for examples.\<close>

definition demo_socket :: "(string \<rightharpoonup> setting, string \<rightharpoonup> setting, nat, unit) websocket" where
  "demo_socket = \<lparr>ws_heap = [0 \<mapsto> new_dock (demo_env stub_outputs) [] (Some Map.empty) demo_adapters], ws_proc_handler = None,
     ws_vendor = None, ws_dock = Some 0, ws_peer = ()\<rparr>"

lemma demo_data: "env_data (demo_env out) = map_settings"
  by (simp add: demo_env_def)

lemma demo_request:
  "obs_data_get_int map_settings r k = (case r k of Some (SInt i) \<Rightarrow> i | _ \<Rightarrow> 0)"
  "obs_data_get_bool map_settings r k = (case r k of Some (SBool b) \<Rightarrow> b | _ \<Rightarrow> False)"
  by (simp_all add: map_settings_def)

lemma demo_socket_ok:
  "reply_laws (env_data (demo_env stub_outputs))"
  "ws_dock demo_socket = Some 0"
  "ws_heap demo_socket 0 = Some (new_dock (demo_env stub_outputs) [] (Some Map.empty) demo_adapters)"
  "dock_ok (new_dock (demo_env stub_outputs) [] (Some Map.empty) demo_adapters)"
proof -
  have "env_qt (demo_env stub_outputs) = demo_qt" by (simp add: demo_env_def)
  then show "dock_ok (new_dock (demo_env stub_outputs) [] (Some Map.empty) demo_adapters)"
    using demo_adapters_ok demo_qt_ok new_dock_ok [of "demo_env stub_outputs" demo_adapters "[]" "Some Map.empty"] by simp
qed (simp_all add: demo_data map_settings_reply demo_socket_def)

lemma max_bitrate_request:
  assumes "reply_laws (env_data E)" and "ws_dock s = Some p" and "ws_heap s p = Some d" and "dock_ok d"
  shows "\<exists>reply d'. request_set_max_bitrate E request response s = Some (reply, s\<lparr>ws_heap := (ws_heap s)(p \<mapsto> d')\<rparr>)
      \<and> (if obs_data_get_bool (env_data E) reply ''success''
         then 500 \<le> sp_value (dk_max_bitrate d') \<and> sp_value (dk_max_bitrate d') \<le> 30000
           \<and> obs_data_has_user_value (env_data E) request ''maxBitrateKbps''
           \<and> sp_value (dk_max_bitrate d') = obs_data_get_int (env_data E) request ''maxBitrateKbps''
           \<and> obs_data_get_int (env_data E) reply ''maxBitrateKbps'' = sp_value (dk_max_bitrate d')
         else obs_data_get_string (env_data E) reply ''error'' \<noteq> None \<and> d' = d\<lparr>dk_output := dk_output d'\<rparr>)"
proof -
  note laws = set_error_reply [OF assms(1)] reply_lawsD [OF assms(1)] obs_data_lawsD [OF reply_lawsD(1) [OF assms(1)]]
  have w: "widgets_ok d" using assms(4) by (simp add: dock_ok_def)
  have same: "s = s\<lparr>ws_heap := (ws_heap s)(p \<mapsto> d)\<rparr>" using assms(3) by (simp add: fun_upd_idem)
  show ?thesis
  proof (cases "obs_data_has_user_value (env_data E) request ''maxBitrateKbps''
      \<and> 0 \<le> obs_data_get_int (env_data E) request ''maxBitrateKbps'' \<and> obs_data_get_int (env_data E) request ''maxBitrateKbps'' \<le> int_max")
    case False
    then have "\<exists>m. request_set_max_bitrate E request response s = Some (set_error_response (env_data E) m response, s)"
      by (auto simp: request_set_max_bitrate_def Let_def not_le)
    then obtain m where m: "request_set_max_bitrate E request response s = Some (set_error_response (env_data E) m response, s)" ..
    show ?thesis
      by (rule exI [of _ "set_error_response (env_data E) m response"], rule exI [of _ d]) (use m same laws(1,2) in simp)
  next
    case True
    let ?v = "obs_data_get_int (env_data E) request ''maxBitrateKbps''"
    obtain verdict d' where v: "websocketSetMaxBitrate E ?v d = (verdict, d')" by fastforce
    have "request_set_max_bitrate E request response s = Some
        (case verdict of None \<Rightarrow> obs_data_set_int (env_data E) ''maxBitrateKbps'' ?v (obs_data_set_bool (env_data E) ''success'' True response)
           | Some e \<Rightarrow> set_error_response (env_data E) e response, s\<lparr>ws_heap := (ws_heap s)(p \<mapsto> d')\<rparr>)"
      using True answer_reply [of s p d "websocketSetMaxBitrate E ?v", OF assms(2,3) v]
      by (simp add: request_set_max_bitrate_def Let_def cast_int_id int_max_def)
    with setMaxBitrate_verdict [OF w v] True laws show ?thesis
      by (auto split: option.splits)
  qed
qed

lemma bitrate_control_request:
  assumes "reply_laws (env_data E)" and "ws_dock s = Some p" and "ws_heap s p = Some d" and "dock_ok d"
  shows "\<exists>reply d'. request_set_bitrate_control E request response s = Some (reply, s\<lparr>ws_heap := (ws_heap s)(p \<mapsto> d')\<rparr>)
      \<and> (if obs_data_get_bool (env_data E) reply ''success''
         then 500 \<le> sp_value (dk_manual_bitrate d') \<and> sp_value (dk_manual_bitrate d') \<le> 100000
           \<and> sp_value (dk_manual_bitrate d') = obs_data_get_int (env_data E) request ''manualBitrateKbps''
           \<and> dk_auto_bitrate d' = obs_data_get_bool (env_data E) request ''automatic''
           \<and> obs_data_get_int (env_data E) reply ''manualBitrateKbps'' = sp_value (dk_manual_bitrate d')
           \<and> obs_data_get_bool (env_data E) reply ''automatic'' = dk_auto_bitrate d'
         else obs_data_get_string (env_data E) reply ''error'' \<noteq> None \<and> d' = d\<lparr>dk_output := dk_output d'\<rparr>)"
proof -
  note laws = set_error_reply [OF assms(1)] reply_lawsD [OF assms(1)] obs_data_lawsD [OF reply_lawsD(1) [OF assms(1)]]
  have w: "widgets_ok d" using assms(4) by (simp add: dock_ok_def)
  have same: "s = s\<lparr>ws_heap := (ws_heap s)(p \<mapsto> d)\<rparr>" using assms(3) by (simp add: fun_upd_idem)
  show ?thesis
  proof (cases "obs_data_has_user_value (env_data E) request ''automatic'' \<and> obs_data_has_user_value (env_data E) request ''manualBitrateKbps''
      \<and> 0 \<le> obs_data_get_int (env_data E) request ''manualBitrateKbps'' \<and> obs_data_get_int (env_data E) request ''manualBitrateKbps'' \<le> int_max")
    case False
    then have "\<exists>m. request_set_bitrate_control E request response s = Some (set_error_response (env_data E) m response, s)"
      by (auto simp: request_set_bitrate_control_def Let_def not_le)
    then obtain m where m: "request_set_bitrate_control E request response s = Some (set_error_response (env_data E) m response, s)" ..
    show ?thesis
      by (rule exI [of _ "set_error_response (env_data E) m response"], rule exI [of _ d]) (use m same laws(1,2) in simp)
  next
    case True
    let ?v = "obs_data_get_int (env_data E) request ''manualBitrateKbps''"
    let ?b = "obs_data_get_bool (env_data E) request ''automatic''"
    obtain verdict d' where v: "websocketSetBitrateControl E ?b ?v d = (verdict, d')" by fastforce
    have "request_set_bitrate_control E request response s = Some
        (case verdict of None \<Rightarrow> obs_data_set_int (env_data E) ''manualBitrateKbps'' ?v (obs_data_set_bool (env_data E) ''automatic'' ?b
             (obs_data_set_bool (env_data E) ''success'' True response))
           | Some e \<Rightarrow> set_error_response (env_data E) e response, s\<lparr>ws_heap := (ws_heap s)(p \<mapsto> d')\<rparr>)"
      using True answer_reply [of s p d "websocketSetBitrateControl E ?b ?v", OF assms(2,3) v]
      by (simp add: request_set_bitrate_control_def Let_def cast_int_id int_max_def)
    with setBitrateControl_verdict [OF w v] True laws show ?thesis
      by (auto split: option.splits)
  qed
qed



text \<open>The decimal text of a link id is read back.\<close>

lemma link_id_text_read: "from_chars_u64 (link_id_text key) = Inr (unat (srtla_output_link_id (Some (c_str key))), [])"
proof -
  let ?w = "srtla_output_link_id (Some (c_str key))"
  have "link_id_text key = dec_digits (unat ?w)"
    by (simp add: link_id_text_def to_string_def)
  moreover have "takeWhile is_digit (dec_digits (unat ?w)) = dec_digits (unat ?w)" "dropWhile is_digit (dec_digits (unat ?w)) = []"
    using dec_digits_span [of "[]" "unat ?w"] by simp_all
  ultimately show ?thesis
    using dec_digits_props(2,3) [of "unat ?w"] unsigned_less [of ?w, where 'a = nat]
    by (simp only: from_chars_u64_def) (simp add: not_le)
qed

lemma link_id_text_nonempty: "link_id_text key \<noteq> []"
  by (simp add: link_id_text_def to_string_def dec_digits_props)

lemma find_index_first:
  assumes "row < length xs" and "P (xs ! row)" and "\<forall>j<row. \<not> P (xs ! j)"
  shows "find_index P xs = Some row"
proof (cases "find_index P xs")
  case None
  then show ?thesis using assms(1,2) by (simp add: find_index_None)
next
  case (Some i)
  from find_index_Some [OF this] assms Some show ?thesis
    by (metis linorder_neqE_nat)
qed

lemma setCheckState_outcome:
  fixes E and enabled and d
  assumes "view_ok d" "checks_ok d" "dk_connected d" and "row < length (dk_links d)"
  defines "key \<equiv> lr_id (dk_links d ! row)" and "d' \<equiv> setCheckState E row enabled d"
  shows "if dk_selected d' key = Some enabled then dk_selected d' = (dk_selected d)(key \<mapsto> enabled)
    else dk_running d \<and> lr_use (dk_links d ! row) \<noteq> enabled \<and> d' = d\<lparr>dk_output := dk_output d'\<rparr>
      \<and> (\<exists>o_ref r o'. dk_output d = Some o_ref \<and> r \<noteq> 0
        \<and> output_set_link_enabled (env_out E) (srtla_output_link_id (Some (c_str key))) enabled o_ref = (r, o'))"
proof -
  note ok = assms(1-3)
  have use: "dk_selected d key = Some (lr_use (dk_links d ! row))"
    using ok(2) assms(4) by (simp add: checks_ok_def key_def)
  show ?thesis
  proof (cases rule: setCheckState_cases [OF ok(3) assms(4), of enabled E])
    case 1
    then show ?thesis using use by (simp add: fun_upd_idem d'_def)
  next
    case 2
    then show ?thesis using accept_use_ok(3) [OF ok(1,2) assms(4), of E enabled] by (simp add: key_def d'_def)
  next
    case (3 o_ref o')
    have "view_ok (d\<lparr>dk_output := Some o'\<rparr>)" "checks_ok (d\<lparr>dk_output := Some o'\<rparr>)"
      using ok by (simp_all add: view_ok_def checks_ok_def)
    from accept_use_ok(3) [OF this, of row E enabled] 3 assms(4) show ?thesis by (simp add: key_def d'_def)
  next
    case (4 o_ref r o')
    then show ?thesis using use by (simp add: key_def d'_def)
  qed
qed

text \<open>
  C17. A client that names a link by the id of the status document reaches that link. The request
  is always answered: on success the selection of exactly this adapter has the value asked for; a
  refusal happens only while the output runs, when the output itself refuses the change, and then
  the dock (check boxes, selection, stored profile) is as before.
\<close>

theorem websocket_link_request:
  assumes "reply_laws (env_data E)" and "ws_dock s = Some p" and "ws_heap s p = Some d" and "dock_ok d"
    and "row < length (dk_links d)"
    and "\<forall>j<row. srtla_output_link_id (Some (c_str (lr_id (dk_links d ! j))))
      \<noteq> srtla_output_link_id (Some (c_str (lr_id (dk_links d ! row))))"
    and "obs_data_has_user_value (env_data E) request ''linkId''" and "obs_data_has_user_value (env_data E) request ''enabled''"
    and "obs_data_get_string (env_data E) request ''linkId'' = Some (link_id_text (lr_id (dk_links d ! row)))"
    and "obs_data_get_bool (env_data E) request ''enabled'' = enabled"
  shows "\<exists>reply d'. request_set_link_enabled E request response s = Some (reply, s\<lparr>ws_heap := (ws_heap s)(p \<mapsto> d')\<rparr>)
    \<and> (if obs_data_get_bool (env_data E) reply ''success''
       then dk_selected d' = (dk_selected d)(lr_id (dk_links d ! row) \<mapsto> enabled)
         \<and> obs_data_get_bool (env_data E) reply ''enabled'' = enabled
       else obs_data_get_string (env_data E) reply ''error'' = Some (c_str link_refused)
         \<and> dk_running d \<and> lr_use (dk_links d ! row) \<noteq> enabled \<and> d' = d\<lparr>dk_output := dk_output d'\<rparr>
         \<and> (\<exists>o_ref r o'. dk_output d = Some o_ref \<and> r \<noteq> 0
            \<and> output_set_link_enabled (env_out E) (srtla_output_link_id (Some (c_str (lr_id (dk_links d ! row))))) enabled o_ref = (r, o')))"
proof -
  let ?key = "lr_id (dk_links d ! row)"
  let ?i = "srtla_output_link_id (Some (c_str ?key))"
  let ?d' = "setCheckState E row enabled d"
  note laws = set_error_reply [OF assms(1)] reply_lawsD [OF assms(1)] obs_data_lawsD [OF reply_lawsD(1) [OF assms(1)]]
  have ok: "view_ok d" "checks_ok d" "dk_connected d"
    using assms(4) dock_ok_connected by (simp_all add: dock_ok_def)
  have "find_index (\<lambda>r. srtla_output_link_id (Some (c_str (lr_id r))) = ?i) (dk_links d) = Some row"
    using assms(5,6) by (intro find_index_first) auto
  then have v: "websocketSetLinkEnabled E ?i enabled d =
      (if dk_selected ?d' ?key = Some enabled then None else Some link_refused, ?d')"
    by (simp add: websocketSetLinkEnabled_eq [OF ok] Let_def)
  have run: "request_set_link_enabled E request response s = Some
      (if dk_selected ?d' ?key = Some enabled
       then obs_data_set_bool (env_data E) ''enabled'' enabled (obs_data_set_string (env_data E) ''linkId'' (link_id_text ?key)
         (obs_data_set_bool (env_data E) ''success'' True response))
       else set_error_response (env_data E) link_refused response, s\<lparr>ws_heap := (ws_heap s)(p \<mapsto> ?d')\<rparr>)"
    using assms(7-10) answer_reply [of s p d "websocketSetLinkEnabled E ?i enabled", OF assms(2,3) v]
    by (simp add: request_set_link_enabled_def Let_def link_id_text_read link_id_text_nonempty)
  show ?thesis
    unfolding run using setCheckState_outcome [OF ok assms(5), of E enabled] laws
    by (intro exI conjI) (rule refl, auto)
qed

definition demo_table :: "(string \<rightharpoonup> setting, string \<rightharpoonup> setting, nat) dock" where
  "demo_table = (blank_dock (demo_env stub_outputs) [] (Some Map.empty))\<lparr>dk_connected := True,
     dk_links := [\<lparr>lr_use = True, lr_id = ''eth0/2'', lr_label = ''eth0 / 10.0.0.2'', lr_state = ''Ready'',
       lr_cells = replicate 6 (telemetry_cell 3 ''--'' [] [] 60), lr_hidden = False\<rparr>],
     dk_current_row := 0, dk_selected_link_key := ''eth0/2'', dk_selected := [''eth0/2'' \<mapsto> True]\<rparr>"

lemma demo_table_ok: "dock_ok demo_table"
proof -
  note b = blank_dock_ok [of "demo_env stub_outputs" "[]" "Some Map.empty"]
  have "widgets_ok demo_table" "telemetry_ok demo_table" "handles_ok True demo_table"
    using b by (simp_all add: demo_table_def widgets_ok_def telemetry_ok_def handles_ok_def)
  moreover have "view_ok demo_table" "checks_ok demo_table"
    by (simp_all add: demo_table_def view_ok_def checks_ok_def cursor_ok_def shown_def hide_rows_def row_key_def blank_dock_def)
  ultimately show ?thesis by (simp add: dock_ok_def)
qed

lemma demo_table_fields: "lr_id (dk_links demo_table ! 0) = ''eth0/2''" "length (dk_links demo_table) = 1" "\<not> dk_running demo_table"
  by (simp_all add: demo_table_def blank_dock_def)

theorem websocket_link_request_witness:
  "\<exists>reply d'. request_set_link_enabled (demo_env stub_outputs)
      [''linkId'' \<mapsto> SStr (link_id_text ''eth0/2''), ''enabled'' \<mapsto> SBool False] Map.empty (demo_socket\<lparr>ws_heap := [0 \<mapsto> demo_table]\<rparr>)
      = Some (reply, demo_socket\<lparr>ws_heap := [0 \<mapsto> d']\<rparr>) \<and> dk_selected d' ''eth0/2'' = Some False"
proof -
  let ?r = "[''linkId'' \<mapsto> SStr (link_id_text ''eth0/2''), ''enabled'' \<mapsto> SBool False]"
  let ?s = "demo_socket\<lparr>ws_heap := [0 \<mapsto> demo_table]\<rparr>"
  have "\<exists>reply d'. request_set_link_enabled (demo_env stub_outputs) ?r Map.empty ?s = Some (reply, ?s\<lparr>ws_heap := (ws_heap ?s)(0 \<mapsto> d')\<rparr>)
    \<and> (if obs_data_get_bool (env_data (demo_env stub_outputs)) reply ''success''
       then dk_selected d' = (dk_selected demo_table)(lr_id (dk_links demo_table ! 0) \<mapsto> False)
         \<and> obs_data_get_bool (env_data (demo_env stub_outputs)) reply ''enabled'' = False
       else obs_data_get_string (env_data (demo_env stub_outputs)) reply ''error'' = Some (c_str link_refused)
         \<and> dk_running demo_table \<and> lr_use (dk_links demo_table ! 0) \<noteq> False \<and> d' = demo_table\<lparr>dk_output := dk_output d'\<rparr>
         \<and> (\<exists>o_ref r o'. dk_output demo_table = Some o_ref \<and> r \<noteq> 0
            \<and> output_set_link_enabled (env_out (demo_env stub_outputs)) (srtla_output_link_id (Some (c_str (lr_id (dk_links demo_table ! 0))))) False o_ref = (r, o')))"
    by (rule websocket_link_request [OF demo_socket_ok(1)])
      (simp_all add: demo_table_ok demo_table_fields demo_socket_def demo_data map_settings_def)
  then show ?thesis
    by (auto simp: demo_table_fields demo_socket_def split: if_splits)
qed

end
