(* ===== verification/Srtla_Module.thy ===== *)
theory Srtla_Module
  imports Srtla_Websocket
begin

text \<open>
  The module (\<^verbatim>\<open>srtla-module.cpp\<close>): loading, unloading and the events of the OBS frontend, and the
  plugin as a whole. The dock is one heap object that the module, obs-websocket's requests and OBS
  itself point to. OBS's list of docks, its event callbacks and registered outputs are fields; a use
  of a destroyed dock, or its second destruction, has the value \<open>None\<close>.
\<close>

section \<open>Operations\<close>

record ('c, 'd, 'o, 'w) plugin =
  pl_socket :: "('c, 'd, 'o, 'w) websocket"
  pl_dock :: "nat option"
  pl_next :: nat
  pl_outputs :: nat
  pl_callbacks :: nat
  pl_docks :: "string \<rightharpoonup> nat"
  pl_destroyed :: "('c, 'd, 'o) dock list"
  pl_refs :: "ref_event list"

datatype obs_frontend_event = PROFILE_CHANGING | PROFILE_CHANGED | STREAMING_STARTING | RECORDING_STARTING
  | REPLAY_BUFFER_STARTING | ANY_OTHER_EVENT

definition use_dock ::
    "nat \<Rightarrow> (('c, 'd, 'o) dock \<Rightarrow> ('c, 'd, 'o) dock) \<Rightarrow> ('c, 'd, 'o, 'w) plugin \<Rightarrow> ('c, 'd, 'o, 'w) plugin option" where
  "use_dock p f s = map_option (\<lambda>(_, w). s\<lparr>pl_socket := w\<rparr>) (call_dock p (\<lambda>d. ((), f d)) (pl_socket s))"

text \<open>
  \<open>replay\<close> is the replay buffer output OBS returns, \<open>same\<close> whether the output that starts is the
  dock's own; \<open>adapters\<close> is what the network monitor finds during a reload.
\<close>

definition frontend_event ::
    "('c, 'd, 'o) dock_env \<Rightarrow> network_adapter list \<Rightarrow> source_output option \<Rightarrow> bool \<Rightarrow> obs_frontend_event
      \<Rightarrow> ('c, 'd, 'o, 'w) plugin \<Rightarrow> ('c, 'd, 'o, 'w) plugin option" where
  "frontend_event E adapters replay same event s =
     (case pl_dock s of
        None \<Rightarrow> Some s
      | Some p \<Rightarrow>
          if event = PROFILE_CHANGING then use_dock p (stopOutput E) s
          else if event = PROFILE_CHANGED then use_dock p (reloadProfile E adapters) s
          else
            let other = (if event = STREAMING_STARTING then fe_streaming_output (env_frontend E)
                         else if event = RECORDING_STARTING then fe_recording_output (env_frontend E)
                         else if event = REPLAY_BUFFER_STARTING then replay else None)
            in if other = None then Some s
               else
                 (case ws_heap (pl_socket s) p of
                    None \<Rightarrow> None
                  | Some d \<Rightarrow>
                      let conflict = sharesEncoderWith E same other d;
                          s1 = s\<lparr>pl_refs := pl_refs s @ [Obtain RefSourceOutput, Release RefSourceOutput]\<rparr>
                      in if conflict then use_dock p (stopOutput E) s1 else Some s1))"

definition dock_id :: string where
  "dock_id = ''srtla-output-dock''"

definition delete_dock ::
    "('c, 'd, 'o) dock_env \<Rightarrow> nat \<Rightarrow> ('c, 'd, 'o, 'w) plugin \<Rightarrow> ('c, 'd, 'o, 'w) plugin option" where
  "delete_dock E p s =
     map_option (\<lambda>d. s\<lparr>pl_socket := (pl_socket s)\<lparr>ws_heap := (ws_heap (pl_socket s))(p := None)\<rparr>,
                       pl_destroyed := pl_destroyed s @ [destroy_dock E d]\<rparr>) (ws_heap (pl_socket s) p)"

text \<open>OBS owns an added dock; removing it destroys the widget. \<open>willing\<close>: OBS accepts the dock.\<close>

definition obs_frontend_add_dock_by_id ::
    "bool \<Rightarrow> string \<Rightarrow> nat \<Rightarrow> ('c, 'd, 'o, 'w) plugin \<Rightarrow> bool \<times> ('c, 'd, 'o, 'w) plugin" where
  "obs_frontend_add_dock_by_id willing i p s =
     (if willing \<and> pl_docks s i = None then (True, s\<lparr>pl_docks := (pl_docks s)(i \<mapsto> p)\<rparr>) else (False, s))"

definition obs_frontend_remove_dock ::
    "('c, 'd, 'o) dock_env \<Rightarrow> string \<Rightarrow> ('c, 'd, 'o, 'w) plugin \<Rightarrow> ('c, 'd, 'o, 'w) plugin option" where
  "obs_frontend_remove_dock E i s =
     (case pl_docks s i of
        None \<Rightarrow> Some s
      | Some p \<Rightarrow> delete_dock E p (s\<lparr>pl_docks := (pl_docks s)(i := None)\<rparr>))"

definition obs_module_load ::
    "('c, 'd, 'o) dock_env \<Rightarrow> encoder_info list \<Rightarrow> 'c option \<Rightarrow> network_adapter list \<Rightarrow> bool
      \<Rightarrow> ('c, 'd, 'o, 'w) plugin \<Rightarrow> (bool \<times> ('c, 'd, 'o, 'w) plugin) option" where
  "obs_module_load E infos config adapters willing s =
     (let p = pl_next s;
          s1 = s\<lparr>pl_outputs := pl_outputs s + 1,
                 pl_socket := (pl_socket s)\<lparr>ws_heap := (ws_heap (pl_socket s))(p \<mapsto> new_dock E infos config adapters)\<rparr>,
                 pl_next := p + 1, pl_dock := Some p, pl_callbacks := pl_callbacks s + 1\<rparr>
      in case obs_frontend_add_dock_by_id willing dock_id p s1 of
           (True, s2) \<Rightarrow> Some (True, s2)
         | (False, s2) \<Rightarrow>
             map_option (\<lambda>s3. (False, s3\<lparr>pl_dock := None\<rparr>)) (delete_dock E p (s2\<lparr>pl_callbacks := pl_callbacks s2 - 1\<rparr>)))"

definition obs_module_post_load ::
    "('d, 'w) obs_procs \<Rightarrow> ('c, 'd, 'o, 'w) plugin \<Rightarrow> ('c, 'd, 'o, 'w) plugin" where
  "obs_module_post_load P s =
     (case pl_dock s of
        None \<Rightarrow> s
      | Some p \<Rightarrow> s\<lparr>pl_socket := snd (srtla_websocket_initialize P p (pl_socket s))\<rparr>)"

text \<open>Removing a callback that is not registered does nothing.\<close>

definition obs_module_unload ::
    "('c, 'd, 'o) dock_env \<Rightarrow> ('d, 'w) obs_procs \<Rightarrow> ('c, 'd, 'o, 'w) plugin \<Rightarrow> ('c, 'd, 'o, 'w) plugin option" where
  "obs_module_unload E P s =
     (let s1 = s\<lparr>pl_socket := srtla_websocket_shutdown P (pl_socket s), pl_callbacks := pl_callbacks s - 1\<rparr>
      in map_option (\<lambda>s2. s2\<lparr>pl_dock := None\<rparr>)
           (if pl_dock s \<noteq> None then obs_frontend_remove_dock E dock_id s1 else Some s1))"

section \<open>The plugin as a system of steps\<close>

text \<open>
  A step on the UI thread of the dock sends the status documents it produced to obs-websocket;
  requests are carried out on the UI thread as well.
\<close>

definition ui_step ::
    "('c, 'd, 'o) dock_env \<Rightarrow> ('d, 'w) obs_procs \<Rightarrow> ('c, 'd, 'o) dock_op \<Rightarrow> ('c, 'd, 'o, 'w) plugin
      \<Rightarrow> ('c, 'd, 'o, 'w) plugin option" where
  "ui_step E P op s =
     (case pl_dock s of
        None \<Rightarrow> Some s
      | Some p \<Rightarrow>
          map_option (\<lambda>(texts, w). s\<lparr>pl_socket := fold (srtla_websocket_emit_status_json P) texts w\<rparr>)
            (call_dock p (\<lambda>d. let d' = dock_step E op d in (drop (length (dk_emitted d)) (dk_emitted d'), d')) (pl_socket s)))"

datatype ('c, 'd, 'o) plugin_op =
    Load "encoder_info list" "'c option" "network_adapter list" bool
  | PostLoad
  | Unload
  | Event "network_adapter list" "source_output option" bool obs_frontend_event
  | Request request_callback 'd 'd
  | Ui "('c, 'd, 'o) dock_op"

fun plugin_step ::
    "('c, 'd, 'o) dock_env \<Rightarrow> ('d, 'w) obs_procs \<Rightarrow> ('c, 'd, 'o) plugin_op \<Rightarrow> ('c, 'd, 'o, 'w) plugin
      \<Rightarrow> ('c, 'd, 'o, 'w) plugin option" where
  "plugin_step E P (Load infos config adapters willing) s = map_option snd (obs_module_load E infos config adapters willing s)"
| "plugin_step E P PostLoad s = Some (obs_module_post_load P s)"
| "plugin_step E P Unload s = obs_module_unload E P s"
| "plugin_step E P (Event adapters replay same event) s = frontend_event E adapters replay same event s"
| "plugin_step E P (Request callback request response) s =
     map_option (\<lambda>(_, w). s\<lparr>pl_socket := w\<rparr>) (run_request E P callback request response (pl_socket s))"
| "plugin_step E P (Ui op) s = ui_step E P op s"

text \<open>OBS loads a module once before it unloads it; the adapters are what the network monitor lists.\<close>

fun plugin_op_ok :: "('c, 'd, 'o) dock_env \<Rightarrow> ('c, 'd, 'o) plugin_op \<Rightarrow> ('c, 'd, 'o, 'w) plugin \<Rightarrow> bool" where
  "plugin_op_ok E (Load infos config adapters willing) s =
     (pl_dock s = None \<and> adapters_ok (env_qt E) adapters \<and> qt_rows_ok (env_qt E))"
| "plugin_op_ok E (Event adapters replay same event) s = (adapters_ok (env_qt E) adapters \<and> qt_rows_ok (env_qt E))"
| "plugin_op_ok E (Ui op) s = op_ok E op"
| "plugin_op_ok E _ s = True"

section \<open>Requests on a live dock\<close>

text \<open>Every request runs to its end on a live dock, and touches only that dock.\<close>

lemma on_dock_thread_live:
  assumes "ws_dock w = Some p" and "ws_heap w p = Some d"
  shows "on_dock_thread f w = Some (Some (fst (f d)), w\<lparr>ws_heap := (ws_heap w)(p \<mapsto> snd (f d))\<rparr>)"
  using assms by (simp add: on_dock_thread_def call_dock_def case_prod_unfold)

lemma run_request_no_dock:
  assumes "ws_dock w = None"
  shows "\<exists>reply. run_request E P callback request response w = Some (reply, w)"
  using assms by (cases callback)
    (auto simp: request_get_status_def request_set_output_active_def request_set_link_enabled_def request_set_bitrate_control_def
      request_set_max_bitrate_def answer_def on_dock_thread_def Let_def split: option.splits sum.splits list.splits)

lemma run_request_live:
  assumes "ws_dock w = Some p" and "ws_heap w p = Some d" and "dock_ok d"
  shows "\<exists>reply d'. run_request E P callback request response w = Some (reply, w\<lparr>ws_heap := (ws_heap w)(p \<mapsto> d')\<rparr>) \<and> dock_ok d'"
proof -
  have same: "w = w\<lparr>ws_heap := (ws_heap w)(p \<mapsto> d)\<rparr>" using assms(2) by (simp add: fun_upd_idem)
  have keep: "\<exists>reply d'. Some (m, w) = Some (reply, w\<lparr>ws_heap := (ws_heap w)(p \<mapsto> d')\<rparr>) \<and> dock_ok d'" for m
    using same assms(3) by blast
  have asked: "\<exists>reply d'. answer api echo response (on_dock_thread f w) = Some (reply, w\<lparr>ws_heap := (ws_heap w)(p \<mapsto> d')\<rparr>) \<and> dock_ok d'"
    if "dock_ok (snd (f d))" for api echo f
    using that by (simp add: answer_def on_dock_thread_live [OF assms(1,2)]) (rule exI [of _ "snd (f d)"], simp)
  have step: "dock_ok (dock_step E op d)" if "op_ok E op" for op
    using assms(3) that by (rule dock_step_ok)
  show ?thesis
  proof (cases callback)
    case RequestGetStatus
    then show ?thesis
      using step [of WsStatus]
      by (simp add: request_get_status_def on_dock_thread_live [OF assms(1,2)])
        (rule exI [of _ "snd (websocketStatusJson E d)"], simp)
  next
    case RequestSetOutputActive
    then show ?thesis
      using keep asked step [of "WsActive _"] by (simp add: request_set_output_active_def Let_def)
  next
    case RequestSetLinkEnabled
    then show ?thesis
      using keep asked step [of "WsLink _ _"]
      by (simp add: request_set_link_enabled_def Let_def split: option.split sum.split list.split prod.split)
  next
    case RequestSetBitrateControl
    then show ?thesis
      using keep asked step [of "WsBitrate _ _"] by (simp add: request_set_bitrate_control_def Let_def)
  next
    case RequestSetMaxBitrate
    then show ?thesis
      using keep asked step [of "WsMax _"] by (simp add: request_set_max_bitrate_def Let_def)
  qed
qed

section \<open>The invariant of the plugin\<close>

definition dock_released :: "('c, 'd, 'o) dock \<Rightarrow> bool" where
  "dock_released d \<longleftrightarrow> \<not> dk_running d \<and> dk_output d = None \<and> held RefOutput (dk_refs d) = 0 \<and> held RefSettings (dk_refs d) = 0"

definition plugin_ok :: "('c, 'd, 'o, 'w) plugin \<Rightarrow> bool" where
  "plugin_ok s \<longleftrightarrow>
     (case pl_dock s of
        None \<Rightarrow> ws_heap (pl_socket s) = Map.empty \<and> ws_dock (pl_socket s) = None \<and> pl_callbacks s = 0 \<and> pl_docks s dock_id = None
      | Some p \<Rightarrow> (\<exists>d. ws_heap (pl_socket s) = [p \<mapsto> d] \<and> dock_ok d)
          \<and> (ws_dock (pl_socket s) = None \<or> ws_dock (pl_socket s) = Some p) \<and> pl_callbacks s = 1 \<and> pl_docks s dock_id = Some p)
     \<and> list_all dock_released (pl_destroyed s) \<and> held RefSourceOutput (pl_refs s) = 0"

lemma destroy_dock_released: "dock_ok d \<Longrightarrow> dock_released (destroy_dock E d)"
proof -
  assume "dock_ok d"
  then have "handles_ok True (stopOutput E d)" by (simp add: dock_ok_def stopOutput_handles_ok)
  moreover have "destroy_dock E d = stopOutput E d"
    using stopOutput_handles(2,3) [of E d] by (simp add: destroy_dock_def release_output_def release_settings_def)
  ultimately show ?thesis
    by (simp add: dock_released_def handles_ok_def stopOutput_handles)
qed

lemma plugin_okE:
  assumes "plugin_ok s" and "pl_dock s = Some p"
  obtains d where "ws_heap (pl_socket s) = [p \<mapsto> d]" "dock_ok d"
  using assms by (auto simp: plugin_ok_def)

text \<open>A use of the live dock that keeps it well-formed.\<close>

lemma plugin_ok_socket:
  assumes "plugin_ok s" and "pl_dock s = Some p" and "ws_heap w = [p \<mapsto> d]" and "dock_ok d"
    and "ws_dock w = None \<or> ws_dock w = Some p"
  shows "plugin_ok (s\<lparr>pl_socket := w\<rparr>)"
  using assms by (auto simp: plugin_ok_def)

lemma use_dock_ok:
  assumes "plugin_ok s" and "pl_dock s = Some p" and "\<And>d. dock_ok d \<Longrightarrow> dock_ok (f d)"
  shows "\<exists>t. use_dock p f s = Some t \<and> plugin_ok t"
proof -
  obtain d where d: "ws_heap (pl_socket s) = [p \<mapsto> d]" "dock_ok d"
    using plugin_okE [OF assms(1,2)] .
  have "plugin_ok (s\<lparr>pl_socket := (pl_socket s)\<lparr>ws_heap := [p \<mapsto> f d]\<rparr>\<rparr>)"
    using assms(1,2) assms(3) [OF d(2)]
    by (intro plugin_ok_socket [OF assms(1,2), of _ "f d"]) (auto simp: plugin_ok_def)
  with d show ?thesis
    by (simp add: use_dock_def call_dock_def)
qed

lemma frontend_event_ok:
  assumes ok: "plugin_ok s" and "adapters_ok (env_qt E) adapters" and "qt_rows_ok (env_qt E)"
  shows "\<exists>t. frontend_event E adapters replay same event s = Some t \<and> plugin_ok t"
proof (cases "pl_dock s")
  case None
  then show ?thesis using ok by (simp add: frontend_event_def)
next
  case (Some p)
  let ?s1 = "s\<lparr>pl_refs := pl_refs s @ [Obtain RefSourceOutput, Release RefSourceOutput]\<rparr>"
  obtain d where d: "ws_heap (pl_socket s) = [p \<mapsto> d]" "dock_ok d"
    using plugin_okE [OF ok Some] .
  have s1: "plugin_ok ?s1" "pl_dock ?s1 = Some p"
    using ok Some by (simp_all add: plugin_ok_def)
  have "\<exists>t. use_dock p (stopOutput E) s = Some t \<and> plugin_ok t" "\<exists>t. use_dock p (stopOutput E) ?s1 = Some t \<and> plugin_ok t"
    "\<exists>t. use_dock p (reloadProfile E adapters) s = Some t \<and> plugin_ok t"
    using reloadProfile_ok [OF _ assms(2,3)] by (auto intro!: use_dock_ok ok Some s1 stopOutput_ok)
  then show ?thesis
    using ok s1 d Some by (cases event) (simp_all add: frontend_event_def Let_def)
qed

lemma ui_step_ok:
  assumes ok: "plugin_ok s" and "op_ok E op"
  shows "\<exists>t. ui_step E P op s = Some t \<and> plugin_ok t"
proof (cases "pl_dock s")
  case None
  then show ?thesis using ok by (simp add: ui_step_def)
next
  case (Some p)
  obtain d where d: "ws_heap (pl_socket s) = [p \<mapsto> d]" "dock_ok d"
    using plugin_okE [OF ok Some] .
  with dock_step_ok [OF d(2) assms(2)] ok Some show ?thesis
    by (simp add: ui_step_def call_dock_def Let_def)
      (rule plugin_ok_socket [OF ok Some, of _ "dock_step E op d"], auto simp: plugin_ok_def)
qed

lemma request_ok:
  assumes ok: "plugin_ok s"
  shows "\<exists>t. plugin_step E P (Request callback request response) s = Some t \<and> plugin_ok t"
proof (cases "ws_dock (pl_socket s)")
  case None
  from run_request_no_dock [OF this, of E P callback request response] ok show ?thesis by auto
next
  case (Some p)
  then have p: "pl_dock s = Some p" using ok by (auto simp: plugin_ok_def split: option.splits)
  obtain d where d: "ws_heap (pl_socket s) = [p \<mapsto> d]" "dock_ok d"
    using plugin_okE [OF ok p] .
  from run_request_live [OF Some, of d E P callback request response] d
  obtain reply d' where "run_request E P callback request response (pl_socket s) =
      Some (reply, (pl_socket s)\<lparr>ws_heap := [p \<mapsto> d']\<rparr>)" "dock_ok d'"
    by auto
  with plugin_ok_socket [OF ok p, of "(pl_socket s)\<lparr>ws_heap := [p \<mapsto> d']\<rparr>" d'] Some show ?thesis
    by simp
qed

lemma load_ok:
  assumes ok: "plugin_ok s" and "pl_dock s = None" and "adapters_ok (env_qt E) adapters" and "qt_rows_ok (env_qt E)"
  shows "\<exists>t. plugin_step E P (Load infos config adapters willing) s = Some t \<and> plugin_ok t"
proof -
  have d: "dock_ok (new_dock E infos config adapters)"
    using assms(3,4) by (rule new_dock_ok)
  then show ?thesis
    using ok assms(2) destroy_dock_released [OF d, of E]
    by (auto simp: obs_module_load_def obs_frontend_add_dock_by_id_def delete_dock_def plugin_ok_def Let_def)
qed

lemma unload_ok:
  assumes ok: "plugin_ok s"
  shows "\<exists>t. obs_module_unload E P s = Some t \<and> plugin_ok t \<and> pl_dock t = None"
proof (cases "pl_dock s")
  case None
  then show ?thesis using ok by (simp add: obs_module_unload_def plugin_ok_def Let_def)
next
  case (Some p)
  obtain d where d: "ws_heap (pl_socket s) = [p \<mapsto> d]" "dock_ok d"
    using plugin_okE [OF ok Some] .
  then show ?thesis
    using ok Some destroy_dock_released [OF d(2), of E]
    by (auto simp: obs_module_unload_def obs_frontend_remove_dock_def delete_dock_def plugin_ok_def Let_def)
qed

lemma plugin_step_ok:
  assumes "plugin_ok s" and "plugin_op_ok E op s"
  shows "\<exists>t. plugin_step E P op s = Some t \<and> plugin_ok t"
proof (cases op)
  case PostLoad
  then show ?thesis
    using assms(1) initialize_frame [of P _ "pl_socket s"]
    by (auto simp: obs_module_post_load_def plugin_ok_def split: option.split)
next
  case (Request callback request response)
  then show ?thesis using request_ok [OF assms(1)] by simp
next
  case (Load infos config adapters willing)
  then show ?thesis using load_ok [OF assms(1)] assms(2) by simp
next
  case Unload
  then show ?thesis using unload_ok [OF assms(1), of E P] by auto
qed (use assms frontend_event_ok ui_step_ok in auto)

section \<open>Properties\<close>

definition plugin_init :: "('c, 'd, 'o, 'w) plugin \<Rightarrow> bool" where
  "plugin_init s \<longleftrightarrow> pl_dock s = None \<and> ws_heap (pl_socket s) = Map.empty \<and> ws_dock (pl_socket s) = None
     \<and> pl_callbacks s = 0 \<and> pl_docks s dock_id = None \<and> pl_destroyed s = [] \<and> pl_refs s = []"

definition plugin_moves :: "('c, 'd, 'o, 'w) plugin \<Rightarrow> ('c, 'd, 'o, 'w) plugin \<Rightarrow> bool" where
  "plugin_moves s t \<longleftrightarrow> (\<exists>(E :: ('c, 'd, 'o) dock_env) P op. plugin_op_ok E op s \<and> plugin_step E P op s = Some t)"

interpretation plugin_system: invariant_system plugin_init plugin_moves plugin_ok
proof
  show "plugin_ok s" if "plugin_init s" for s :: "('a, 'b, 'c, 'd) plugin"
    using that by (simp add: plugin_init_def plugin_ok_def)
  show "plugin_ok t" if "plugin_ok s" "plugin_moves s t" for s t :: "('a, 'b, 'c, 'd) plugin"
  proof -
    from that(2) obtain E :: "('a, 'b, 'c) dock_env" and P op where "plugin_op_ok E op s" "plugin_step E P op s = Some t"
      unfolding plugin_moves_def by blast
    with plugin_step_ok [OF that(1), of E op P] show ?thesis by simp
  qed
qed


definition demo_plugin :: "(string \<rightharpoonup> setting, string \<rightharpoonup> setting, nat, unit) plugin" where
  "demo_plugin = \<lparr>pl_socket = demo_socket\<lparr>ws_heap := Map.empty, ws_dock := None\<rparr>, pl_dock = None, pl_next = 0, pl_outputs = 0,
     pl_callbacks = 0, pl_docks = Map.empty, pl_destroyed = [], pl_refs = []\<rparr>"

lemma demo_plugin_reached: "reach plugin_init plugin_moves demo_plugin"
  by (rule reach_init) (simp add: plugin_init_def demo_plugin_def demo_socket_def)

definition demo_loaded :: "(string \<rightharpoonup> setting, string \<rightharpoonup> setting, nat, unit) plugin" where
  "demo_loaded = \<lparr>pl_socket = demo_socket\<lparr>ws_dock := None\<rparr>, pl_dock = Some 0, pl_next = 1, pl_outputs = 1, pl_callbacks = 1,
     pl_docks = [dock_id \<mapsto> 0], pl_destroyed = [], pl_refs = []\<rparr>"

definition silent_procs :: "('d, unit) obs_procs" where
  "silent_procs = \<lparr>proc_handler_call = (\<lambda>ph name data w. (False, data, w)), obs_get_proc_handler = 0,
     obs_data_create_from_json = (\<lambda>s. None), obs_data_apply = (\<lambda>r s. r)\<rparr>"




text \<open>
  A request is not carried out in one step: its thread first loads the pointer to the dock. If the
  module is unloaded before the thread uses that pointer, the use is undefined; nothing waits for
  requests that are under way.
\<close>

lemma request_under_way_dangles:
  assumes "plugin_ok s" and "ws_dock (pl_socket s) = Some p"
  shows "\<exists>t. obs_module_unload E P s = Some t \<and> call_dock p f (pl_socket t) = None"
proof -
  from unload_ok [OF assms(1)] obtain t where "obs_module_unload E P s = Some t" "plugin_ok t" "pl_dock t = None" by blast
  then show ?thesis by (auto simp: call_dock_def plugin_ok_def)
qed

end
