(* ===== verification/Rust_Float.thy ===== *)
theory Rust_Float
  imports Prelude "HOL-Library.Log_Nat"
begin

text \<open>
  The Rust type \<^verbatim>\<open>f64\<close> as the bitrate controller of the engine uses it: binary64 numbers with the
  rounding of IEEE 754 (to nearest, ties to even, gradual underflow, overflow to infinity). The two
  zeros are one value: no operation of the controller distinguishes them.
\<close>

section \<open>Rounding\<close>

definition pow2 :: "int \<Rightarrow> rat" where
  "pow2 e = (if 0 \<le> e then 2 ^ nat e else 1 / 2 ^ nat (- e))"

definition log2_floor :: "rat \<Rightarrow> int" where
  "log2_floor x =
     (let (p, q) = quotient_of x; k = bitlen p - bitlen q in if pow2 k \<le> x then k else k - 1)"

definition round_half_even :: "rat \<Rightarrow> int" where
  "round_half_even x =
     (let n = \<lfloor>x\<rfloor>; part = x - of_int n
      in if part < 1 / 2 \<or> part = 1 / 2 \<and> even n then n else n + 1)"

datatype f64 = F64 rat | Infinite bool | Not_a_number

definition f64_round :: "rat \<Rightarrow> f64" where
  "f64_round x =
     (if x = 0 then F64 0
      else
        let e = max (log2_floor \<bar>x\<bar> - 52) (- 1074);
            y = of_int (round_half_even (x / pow2 e)) * pow2 e
        in if pow2 1024 \<le> \<bar>y\<bar> then Infinite (x < 0) else F64 y)"

section \<open>Operations\<close>

text \<open>Arithmetic rounds the exact result; \<open>Infinite True\<close> is negative infinity.\<close>

fun f64_add :: "f64 \<Rightarrow> f64 \<Rightarrow> f64" where
  "f64_add (F64 x) (F64 y) = f64_round (x + y)"
| "f64_add (Infinite a) (Infinite b) = (if a = b then Infinite a else Not_a_number)"
| "f64_add (Infinite a) (F64 y) = Infinite a"
| "f64_add (F64 x) (Infinite b) = Infinite b"
| "f64_add Not_a_number y = Not_a_number"
| "f64_add x Not_a_number = Not_a_number"

fun f64_neg :: "f64 \<Rightarrow> f64" where
  "f64_neg (F64 x) = F64 (- x)"
| "f64_neg (Infinite a) = Infinite (\<not> a)"
| "f64_neg Not_a_number = Not_a_number"

definition f64_sub :: "f64 \<Rightarrow> f64 \<Rightarrow> f64" where
  "f64_sub x y = f64_add x (f64_neg y)"

fun f64_mul :: "f64 \<Rightarrow> f64 \<Rightarrow> f64" where
  "f64_mul (F64 x) (F64 y) = f64_round (x * y)"
| "f64_mul (Infinite a) (Infinite b) = Infinite (a \<noteq> b)"
| "f64_mul (Infinite a) (F64 y) = (if y = 0 then Not_a_number else Infinite (a \<noteq> (y < 0)))"
| "f64_mul (F64 x) (Infinite b) = (if x = 0 then Not_a_number else Infinite ((x < 0) \<noteq> b))"
| "f64_mul Not_a_number y = Not_a_number"
| "f64_mul x Not_a_number = Not_a_number"

text \<open>Division by a finite constant other than zero, the only one the controller has.\<close>

fun f64_div_by :: "rat \<Rightarrow> f64 \<Rightarrow> f64" where
  "f64_div_by c (F64 x) = f64_round (x / c)"
| "f64_div_by c (Infinite a) = Infinite (a \<noteq> (c < 0))"
| "f64_div_by c Not_a_number = Not_a_number"

fun f64_less :: "f64 \<Rightarrow> f64 \<Rightarrow> bool" where
  "f64_less (F64 x) (F64 y) = (x < y)"
| "f64_less (F64 x) (Infinite b) = (\<not> b)"
| "f64_less (Infinite a) (F64 y) = a"
| "f64_less (Infinite a) (Infinite b) = (a \<and> \<not> b)"
| "f64_less Not_a_number y = False"
| "f64_less x Not_a_number = False"

text \<open>\<^verbatim>\<open>f64::max\<close> and \<^verbatim>\<open>f64::min\<close> return the other operand when one is not a number.\<close>

definition f64_max :: "f64 \<Rightarrow> f64 \<Rightarrow> f64" where
  "f64_max x y = (if x = Not_a_number then y else if f64_less x y then y else x)"

definition f64_min :: "f64 \<Rightarrow> f64 \<Rightarrow> f64" where
  "f64_min x y = (if x = Not_a_number then y else if f64_less y x then y else x)"

text \<open>\<^verbatim>\<open>f64::from(u32)\<close> is exact, \<^verbatim>\<open>u64 as f64\<close> and a literal are rounded.\<close>

definition f64_of_u32 :: "int \<Rightarrow> f64" where
  "f64_of_u32 n = F64 (of_int n)"

definition f64_of_u64 :: "int \<Rightarrow> f64" where
  "f64_of_u64 n = f64_round (of_int n)"

section \<open>Accuracy\<close>

lemma pow2_pos [simp]: "0 < pow2 e"
  by (simp add: pow2_def)

lemma pow2_powi: "pow2 e = 2 powi e"
  by (cases "0 \<le> e") (simp_all add: pow2_def power_int_def inverse_eq_divide power_one_over)

lemma pow2_add: "pow2 (a + b) = pow2 a * pow2 b"
  by (simp add: pow2_powi power_int_add)

lemma pow2_diff: "pow2 (a - b) = pow2 a / pow2 b"
  by (simp add: pow2_powi power_int_diff)

lemma pow2_mono: "a \<le> b \<Longrightarrow> pow2 a \<le> pow2 b"
  by (simp add: pow2_powi power_int_increasing)

lemma pow2_less_iff: "pow2 a < pow2 b \<longleftrightarrow> a < b"
  using pow2_mono [of b a] power_int_strict_increasing [of a b "2::rat"]
  by (auto simp: pow2_powi not_less [symmetric])

lemma bitlen_pow2_bounds:
  assumes "0 < (p::int)"
  shows "pow2 (bitlen p - 1) \<le> of_int p" "of_int p < pow2 (bitlen p)"
proof -
  from bitlen_bounds [OF assms] have b: "2 ^ nat (bitlen p - 1) \<le> p" "p < 2 ^ nat (bitlen p)"
    by simp_all
  have pos: "0 \<le> bitlen p - 1"
    using assms bitlen_eq_zero_iff [of p] bitlen_nonneg [of p] by linarith
  have "(of_int (2 ^ nat (bitlen p - 1)) :: rat) \<le> of_int p"
    using b(1) by (simp only: of_int_le_iff)
  with pos show "pow2 (bitlen p - 1) \<le> of_int p" by (simp add: pow2_def)
  have "(of_int p :: rat) < of_int (2 ^ nat (bitlen p))"
    using b(2) by (simp only: of_int_less_iff)
  then show "of_int p < pow2 (bitlen p)" by (simp add: pow2_def bitlen_nonneg)
qed

lemma log2_floor_bounds:
  assumes "0 < x"
  shows "pow2 (log2_floor x) \<le> x" "x < pow2 (log2_floor x + 1)"
proof -
  obtain p q where pq: "quotient_of x = (p, q)" by fastforce
  from quotient_of_denom_pos [OF pq] have q: "0 < q" .
  from quotient_of_div [OF pq] have x: "x = of_int p / of_int q" .
  with assms q have p: "0 < p" by (simp add: zero_less_divide_iff)
  let ?k = "bitlen p - bitlen q"
  note bp = bitlen_pow2_bounds [OF p] and bq = bitlen_pow2_bounds [OF q]
  have "pow2 (bitlen p - 1) / pow2 (bitlen q) \<le> of_int p / of_int q"
    using bp(1) bq(2) q p by (intro frac_le) (auto simp: less_imp_le)
  then have lo: "pow2 (?k - 1) \<le> x"
    unfolding x pow2_diff by (simp add: mult.commute)
  have "of_int p / of_int q < pow2 (bitlen p) / pow2 (bitlen q - 1)"
    using bp(2) bq(1) q p by (intro frac_less) auto
  then have hi: "x < pow2 (?k + 1)"
    unfolding x pow2_diff pow2_add by (simp add: mult.commute)
  show "pow2 (log2_floor x) \<le> x" "x < pow2 (log2_floor x + 1)"
    using lo hi by (auto simp: log2_floor_def pq Let_def)
qed

lemma log2_floor_unique:
  assumes "pow2 k \<le> x" "x < pow2 (k + 1)"
  shows "log2_floor x = k"
proof -
  have x: "0 < x" using assms(1) pow2_pos [of k] by linarith
  from log2_floor_bounds [OF x] assms have "pow2 k < pow2 (log2_floor x + 1)" "pow2 (log2_floor x) < pow2 (k + 1)"
    by linarith+
  then show ?thesis by (simp add: pow2_less_iff)
qed

lemma round_half_even_error: "\<bar>of_int (round_half_even x) - x\<bar> \<le> 1 / 2"
  using floor_correct [of x] by (auto simp: round_half_even_def Let_def)

lemma round_half_even_of_int [simp]: "round_half_even (of_int n) = n"
  by (simp add: round_half_even_def)

lemma pow2_scale: "x / pow2 e * pow2 e = x"
  using pow2_pos [of e] by (simp del: pow2_pos)

text \<open>Within the normal range the relative error of a rounded result is at most \<open>2\<^sup>-\<^sup>5\<^sup>3\<close>.\<close>

definition unit_roundoff :: rat where
  "unit_roundoff = 1 / 2 ^ 53"

lemma f64_round_error:
  assumes "x \<noteq> 0" and "- 1022 \<le> log2_floor \<bar>x\<bar>"
  defines "e \<equiv> max (log2_floor \<bar>x\<bar> - 52) (- 1074)"
  shows "\<bar>of_int (round_half_even (x / pow2 e)) * pow2 e - x\<bar> \<le> \<bar>x\<bar> * unit_roundoff"
proof -
  have e: "e = log2_floor \<bar>x\<bar> - 52" using assms(2) by (simp add: e_def)
  have "\<bar>of_int (round_half_even (x / pow2 e)) * pow2 e - x\<bar>
      = \<bar>of_int (round_half_even (x / pow2 e)) - x / pow2 e\<bar> * pow2 e"
    by (metis abs_mult abs_of_pos left_diff_distrib pow2_pos pow2_scale)
  also have "\<dots> \<le> 1 / 2 * pow2 e"
    using round_half_even_error [of "x / pow2 e"] by (intro mult_right_mono) (auto simp: less_imp_le)
  also have "\<dots> = pow2 (log2_floor \<bar>x\<bar>) * unit_roundoff"
    by (simp add: e pow2_diff unit_roundoff_def) (simp add: pow2_def)
  also have "\<dots> \<le> \<bar>x\<bar> * unit_roundoff"
    using log2_floor_bounds(1) [of "\<bar>x\<bar>"] assms(1)
    by (intro mult_right_mono) (auto simp: unit_roundoff_def)
  finally show ?thesis .
qed

lemma f64_round_near:
  assumes lo: "1 / 2 ^ 100 \<le> x" and hi: "x \<le> 2 ^ 100"
  shows "\<exists>y. f64_round x = F64 y \<and> x * (1 - unit_roundoff) \<le> y \<and> y \<le> x * (1 + unit_roundoff)"
proof -
  have x: "0 < x" using lo by (rule less_le_trans [rotated]) simp
  have "pow2 (- 100) < pow2 (log2_floor x + 1)"
    using log2_floor_bounds(2) [OF x] lo by (simp add: pow2_def)
  then have l: "- 1022 \<le> log2_floor \<bar>x\<bar>" using x by (simp add: pow2_less_iff)
  let ?e = "max (log2_floor \<bar>x\<bar> - 52) (- 1074)"
  let ?y = "of_int (round_half_even (x / pow2 ?e)) * pow2 ?e :: rat"
  have err: "\<bar>?y - x\<bar> \<le> x * unit_roundoff"
    using f64_round_error [OF _ l] x by simp
  have u: "x * unit_roundoff \<le> x * 1"
    using x by (intro mult_left_mono) (auto simp: unit_roundoff_def)
  have "\<bar>?y\<bar> \<le> x + x" using err u x by linarith
  also have "\<dots> \<le> 2 ^ 101" using hi by simp
  also have "\<dots> < pow2 1024" by (simp add: pow2_def)
  finally have "f64_round x = F64 ?y"
    using x by (simp add: f64_round_def Let_def)
  moreover have "x * (1 - unit_roundoff) \<le> ?y" "?y \<le> x * (1 + unit_roundoff)"
    using err by (auto simp: abs_le_iff algebra_simps)
  ultimately show ?thesis by blast
qed

text \<open>Small integers are exact.\<close>

lemma f64_round_of_nat:
  assumes "n < 2 ^ 53"
  shows "f64_round (of_nat n) = F64 (of_nat n)"
proof (cases "n = 0")
  case False
  let ?x = "of_nat n :: rat" and ?l = "log2_floor (of_nat n)"
  have x: "0 < ?x" using False by simp
  have "pow2 0 \<le> ?x" "?x < pow2 53"
    using False assms by (simp_all add: pow2_def Suc_le_eq)
  with log2_floor_bounds [OF x] have "pow2 0 < pow2 (?l + 1)" "pow2 ?l < pow2 53" by linarith+
  then have l: "0 \<le> ?l" "?l \<le> 52" by (simp_all add: pow2_less_iff)
  let ?e = "?l - 52"
  have "?x / pow2 ?e = of_int (int n * 2 ^ nat (52 - ?l))"
    using l by (simp add: pow2_def)
  then have "round_half_even (?x / pow2 ?e) = int n * 2 ^ nat (52 - ?l)"
    by (simp only: round_half_even_of_int)
  then have y: "of_int (round_half_even (?x / pow2 ?e)) * pow2 ?e = ?x"
    using l by (simp add: pow2_def)
  have "pow2 53 < pow2 1024" by (simp add: pow2_less_iff)
  with \<open>?x < pow2 53\<close> show ?thesis
    using x l y by (simp add: f64_round_def Let_def max_def)
qed (simp add: f64_round_def)

text \<open>Numbers that are not positive stay so.\<close>

fun f64_nonpos :: "f64 \<Rightarrow> bool" where
  "f64_nonpos (F64 x) = (x \<le> 0)"
| "f64_nonpos (Infinite a) = a"
| "f64_nonpos Not_a_number = False"

lemma round_half_even_nonpos: "x \<le> 0 \<Longrightarrow> round_half_even x \<le> 0"
  using floor_mono [of x 0] by (auto simp: round_half_even_def Let_def)

lemma f64_round_nonpos:
  assumes "x \<le> 0"
  shows "f64_nonpos (f64_round x)"
proof -
  have "round_half_even (x / pow2 e) \<le> 0" for e
    using assms pow2_pos [of e] by (intro round_half_even_nonpos) (simp add: divide_le_0_iff less_imp_le)
  then have "of_int (round_half_even (x / pow2 e)) * pow2 e \<le> 0" for e
    using pow2_pos [of e] by (simp add: mult_le_0_iff less_imp_le)
  with assms show ?thesis by (auto simp: f64_round_def Let_def)
qed

lemma f64_nonpos_add: "f64_nonpos x \<Longrightarrow> f64_nonpos y \<Longrightarrow> f64_nonpos (f64_add x y)"
  by (cases x; cases y) (auto intro: f64_round_nonpos)

lemma f64_nonpos_mul: "f64_nonpos x \<Longrightarrow> 0 < c \<Longrightarrow> f64_nonpos (f64_mul x (F64 c))"
  by (cases x) (auto intro!: f64_round_nonpos simp: mult_le_0_iff)

end
