(* ===== verification/Abr_Controller.thy ===== *)
theory Abr_Controller
  imports Rust_Float
begin

text \<open>
  The adaptive bitrate controller of the engine (\<^verbatim>\<open>engine/src/abr.rs\<close>): its configuration, its
  measurements of the sender queue and the round trip time, the thresholds it derives from them
  and its control law. A \<^verbatim>\<open>u64\<close> or \<^verbatim>\<open>u32\<close> is an integer, with every saturating operation and
  conversion written out; \<^verbatim>\<open>f64\<close> is the type of \<open>Rust_Float\<close>. \<^verbatim>\<open>Ord::clamp\<close> is \<open>clamp\<close> of the
  prelude; it panics when its bounds are not ordered, which \<open>abr_ok\<close> below excludes.
\<close>

section \<open>Data\<close>

definition U64_MAX :: int where "U64_MAX = 2 ^ 64 - 1"
definition U32_MAX :: int where "U32_MAX = 2 ^ 32 - 1"

definition saturating_add :: "int \<Rightarrow> int \<Rightarrow> int" where
  "saturating_add a b = min U64_MAX (a + b)"

definition saturating_sub :: "int \<Rightarrow> int \<Rightarrow> int" where
  "saturating_sub a b = max 0 (a - b)"

definition DEFAULT_MIN_BPS :: int where "DEFAULT_MIN_BPS = 500000"
definition DEFAULT_START_BPS :: int where "DEFAULT_START_BPS = 1500000"
definition BITRATE_INCREASE_MIN_BPS :: int where "BITRATE_INCREASE_MIN_BPS = 30000"
definition BITRATE_INCREASE_INTERVAL_MS :: int where "BITRATE_INCREASE_INTERVAL_MS = 500"
definition BITRATE_INCREASE_SCALE :: int where "BITRATE_INCREASE_SCALE = 30"
definition BITRATE_DECREASE_MIN_BPS :: int where "BITRATE_DECREASE_MIN_BPS = 100000"
definition BITRATE_DECREASE_INTERVAL_MS :: int where "BITRATE_DECREASE_INTERVAL_MS = 200"
definition BITRATE_DECREASE_FAST_INTERVAL_MS :: int where "BITRATE_DECREASE_FAST_INTERVAL_MS = 250"
definition BITRATE_DECREASE_SCALE :: int where "BITRATE_DECREASE_SCALE = 10"
definition ROUNDING_BPS :: int where "ROUNDING_BPS = 100000"
definition SRT_PAYLOAD_BYTES :: rat where "SRT_PAYLOAD_BYTES = 1316"

lemmas abr_consts =
  DEFAULT_MIN_BPS_def DEFAULT_START_BPS_def
  BITRATE_INCREASE_MIN_BPS_def BITRATE_INCREASE_INTERVAL_MS_def BITRATE_INCREASE_SCALE_def
  BITRATE_DECREASE_MIN_BPS_def BITRATE_DECREASE_INTERVAL_MS_def BITRATE_DECREASE_FAST_INTERVAL_MS_def
  BITRATE_DECREASE_SCALE_def ROUNDING_BPS_def

datatype control_state =
  Disconnected | Waiting | Hold | Increasing | LightCongestion | HeavyCongestion | SevereCongestion

fun control_state_text :: "control_state \<Rightarrow> string" where
  "control_state_text Disconnected = ''Disconnected''"
| "control_state_text Waiting = ''Waiting for SRT feedback''"
| "control_state_text Hold = ''Hold''"
| "control_state_text Increasing = ''Increasing''"
| "control_state_text LightCongestion = ''Light congestion''"
| "control_state_text HeavyCongestion = ''Heavy congestion''"
| "control_state_text SevereCongestion = ''Severe congestion''"

record abr_config =
  min_bps :: int
  start_bps :: int
  max_bps :: int

definition default_abr_config :: abr_config where
  "default_abr_config = \<lparr>min_bps = DEFAULT_MIN_BPS, start_bps = DEFAULT_START_BPS, max_bps = DEFAULT_START_BPS\<rparr>"

definition normalized :: "abr_config \<Rightarrow> abr_config" where
  "normalized c =
     (let mx = max (max_bps c) ROUNDING_BPS; mn = min (min_bps c) mx
      in \<lparr>min_bps = mn, start_bps = clamp (start_bps c) mn mx, max_bps = mx\<rparr>)"

record link_capacity =
  lc_enabled :: bool
  lc_payload_eligible :: bool
  lc_capacity_ready :: bool
  lc_target_bps :: int
  lc_delivered_bps :: int

record srt_capacity =
  sc_ready :: bool
  sc_sampled_at_ms :: int
  sc_bandwidth_bps :: int
  sc_send_rate_bps :: int
  sc_send_buffer_ms :: int
  sc_send_buffer_packets :: int
  sc_rtt_ms :: int
  sc_latency_ms :: int
  sc_retransmit_permille :: int
  sc_dropped_bytes :: int

record abr_sample =
  sm_links :: "link_capacity list"
  sm_audio_bps :: int
  sm_current_video_bps :: int
  sm_now_ms :: int
  sm_capacity_ready :: bool
  sm_all_links_down :: bool
  sm_srt :: srt_capacity

record abr_decision =
  dn_link_capacity_bps :: int
  dn_srt_capacity_bps :: int
  dn_estimated_capacity_bps :: int
  dn_media_budget_bps :: int
  dn_recommended_bps :: int
  dn_applied_bps :: int
  dn_changed :: bool
  dn_emergency :: bool
  dn_srt_limited :: bool
  dn_transport_stressed :: bool
  dn_control_state :: string
  dn_queue_light_packets :: int
  dn_queue_heavy_packets :: int
  dn_queue_severe_packets :: int
  dn_rtt_increase_below_ms :: int
  dn_rtt_decrease_above_ms :: int

record abr_controller =
  ac_config :: abr_config
  internal_bitrate_bps :: int
  last_srt_sample_ms :: "int option"
  send_buffer_average :: f64
  send_buffer_jitter :: f64
  previous_send_buffer :: int
  rtt_average :: f64
  rtt_average_delta :: f64
  previous_rtt_ms :: int
  rtt_minimum :: f64
  rtt_jitter :: f64
  throughput :: f64
  next_increase_ms :: int
  next_decrease_ms :: int
  last_control_state :: control_state
  queue_light_packets :: int
  queue_heavy_packets :: int
  queue_severe_packets :: int
  rtt_increase_below_ms :: int
  rtt_decrease_above_ms :: int

section \<open>Operations\<close>

definition new_controller :: "abr_config \<Rightarrow> abr_controller" where
  "new_controller config =
     (let config = normalized config
      in \<lparr>ac_config = config, internal_bitrate_bps = start_bps config, last_srt_sample_ms = None,
          send_buffer_average = F64 0, send_buffer_jitter = F64 0, previous_send_buffer = 0,
          rtt_average = F64 0, rtt_average_delta = F64 0, previous_rtt_ms = 300,
          rtt_minimum = F64 200, rtt_jitter = F64 0, throughput = F64 0,
          next_increase_ms = 0, next_decrease_ms = 0, last_control_state = Waiting,
          queue_light_packets = 0, queue_heavy_packets = 0, queue_severe_packets = 0,
          rtt_increase_below_ms = 0, rtt_decrease_above_ms = 0\<rparr>)"

definition set_max_bps :: "int \<Rightarrow> abr_controller \<Rightarrow> int \<times> abr_controller" where
  "set_max_bps max_bps' c =
     (let mx = max (max max_bps' (min_bps (ac_config c))) ROUNDING_BPS
      in (mx, c\<lparr>ac_config := (ac_config c)\<lparr>max_bps := mx\<rparr>,
                internal_bitrate_bps := min (internal_bitrate_bps c) mx\<rparr>))"

definition set_current_bps :: "int \<Rightarrow> abr_controller \<Rightarrow> int \<times> abr_controller" where
  "set_current_bps current_bps c =
     (let current_bps = clamp current_bps (min_bps (ac_config c)) (max_bps (ac_config c))
      in (current_bps, c\<lparr>internal_bitrate_bps := current_bps\<rparr>))"

definition reset_for_bitrate :: "int \<Rightarrow> abr_controller \<Rightarrow> abr_controller" where
  "reset_for_bitrate current_bps c =
     c\<lparr>internal_bitrate_bps := clamp current_bps (min_bps (ac_config c)) (max_bps (ac_config c)),
       last_srt_sample_ms := None,
       send_buffer_average := F64 0, send_buffer_jitter := F64 0, previous_send_buffer := 0,
       rtt_average := F64 0, rtt_average_delta := F64 0, previous_rtt_ms := 300,
       rtt_minimum := F64 200, rtt_jitter := F64 0, throughput := F64 0,
       next_increase_ms := 0, next_decrease_ms := 0, last_control_state := Waiting,
       queue_light_packets := 0, queue_heavy_packets := 0, queue_severe_packets := 0,
       rtt_increase_below_ms := 0, rtt_decrease_above_ms := 0\<rparr>"

fun to_u32 :: "f64 \<Rightarrow> int" where
  "to_u32 (F64 x) = (if x \<le> 0 then 0 else if of_int U32_MAX \<le> x then U32_MAX else \<lfloor>x\<rfloor>)"
| "to_u32 (Infinite a) = 0"
| "to_u32 Not_a_number = 0"

definition rounded_bps :: "int \<Rightarrow> int" where
  "rounded_bps value = value div ROUNDING_BPS * ROUNDING_BPS"

text \<open>A literal of the source, given as a fraction.\<close>

definition lit :: "rat \<Rightarrow> f64" where
  "lit x = f64_round x"

text \<open>The exponential average \<^verbatim>\<open>old * a + sample * b\<close>.\<close>

definition smoothed :: "f64 \<Rightarrow> rat \<Rightarrow> f64 \<Rightarrow> rat \<Rightarrow> f64" where
  "smoothed old a sample b = f64_add (f64_mul old (lit a)) (f64_mul sample (lit b))"

text \<open>The two halves of \<^verbatim>\<open>update_measurements\<close>: sender queue with throughput, and round trip time.\<close>

definition measure_queue :: "srt_capacity \<Rightarrow> abr_controller \<Rightarrow> abr_controller" where
  "measure_queue srt c =
     (let send_buffer = f64_of_u32 (sc_send_buffer_packets srt);
          jitter = f64_mul (send_buffer_jitter c) (lit (99 / 100));
          buffer_delta = f64_sub send_buffer (f64_of_u32 (previous_send_buffer c))
      in c\<lparr>send_buffer_average := smoothed (send_buffer_average c) (99 / 100) send_buffer (1 / 100),
           send_buffer_jitter := (if f64_less jitter buffer_delta then buffer_delta else jitter),
           previous_send_buffer := sc_send_buffer_packets srt\<rparr>)"

definition measure_rtt :: "srt_capacity \<Rightarrow> abr_controller \<Rightarrow> abr_controller" where
  "measure_rtt srt c =
     (let rtt = f64_of_u32 (sc_rtt_ms srt);
          rtt_delta = f64_sub rtt (f64_of_u32 (previous_rtt_ms c));
          average_delta = smoothed (rtt_average_delta c) (8 / 10) rtt_delta (2 / 10);
          minimum = f64_mul (rtt_minimum c) (lit (1001 / 1000));
          jitter = f64_mul (rtt_jitter c) (lit (99 / 100))
      in c\<lparr>rtt_average := (if rtt_average c = F64 0 then rtt
                           else smoothed (rtt_average c) (99 / 100) rtt (1 / 100)),
           rtt_average_delta := average_delta,
           previous_rtt_ms := sc_rtt_ms srt,
           rtt_minimum := (if sc_rtt_ms srt \<noteq> 100 \<and> f64_less rtt minimum \<and> f64_less average_delta (lit 1)
                           then rtt else minimum),
           rtt_jitter := (if f64_less jitter rtt_delta then rtt_delta else jitter)\<rparr>)"

definition update_measurements :: "srt_capacity \<Rightarrow> abr_controller \<Rightarrow> abr_controller" where
  "update_measurements srt c =
     (let c = measure_rtt srt (measure_queue srt c);
          throughput_sample = f64_div_by 1024 (f64_of_u64 (sc_send_rate_bps srt))
      in c\<lparr>throughput := smoothed (throughput c) (97 / 100) throughput_sample (3 / 100)\<rparr>)"

definition update_thresholds :: "srt_capacity \<Rightarrow> abr_controller \<Rightarrow> abr_controller" where
  "update_thresholds srt c =
     (let average = send_buffer_average c; jitter = send_buffer_jitter c;
          queue_heavy = f64_max (lit 50) (f64_add average (f64_max (f64_mul jitter (lit 3)) average));
          half_latency_packets = f64_div_by SRT_PAYLOAD_BYTES
            (f64_mul (f64_div_by 8 (throughput c)) (f64_of_u32 (sc_latency_ms srt div 2)))
      in c\<lparr>queue_severe_packets := to_u32 (f64_mul (f64_add average jitter) (lit 4)),
           queue_heavy_packets := to_u32 (f64_min queue_heavy half_latency_packets),
           queue_light_packets := to_u32 (f64_max (lit 50) (f64_add average (f64_mul jitter (lit (5 / 2))))),
           rtt_decrease_above_ms := to_u32 (f64_add (rtt_average c)
             (f64_max (f64_mul (rtt_jitter c) (lit 4)) (f64_mul (rtt_average c) (lit (15 / 100))))),
           rtt_increase_below_ms := to_u32 (f64_add (rtt_minimum c)
             (f64_max (lit 1) (f64_mul (rtt_jitter c) (lit 2))))\<rparr>)"

definition decision ::
    "abr_sample \<Rightarrow> int \<Rightarrow> int \<Rightarrow> int \<Rightarrow> bool \<Rightarrow> bool \<Rightarrow> abr_controller \<Rightarrow> abr_decision" where
  "decision sample link_capacity_bps current_bps applied_bps emergency stressed c =
     \<lparr>dn_link_capacity_bps = link_capacity_bps, dn_srt_capacity_bps = 0, dn_estimated_capacity_bps = 0,
      dn_media_budget_bps = saturating_add (internal_bitrate_bps c) (sm_audio_bps sample),
      dn_recommended_bps = applied_bps, dn_applied_bps = applied_bps,
      dn_changed = (applied_bps \<noteq> current_bps), dn_emergency = emergency, dn_srt_limited = False,
      dn_transport_stressed = stressed, dn_control_state = control_state_text (last_control_state c),
      dn_queue_light_packets = queue_light_packets c, dn_queue_heavy_packets = queue_heavy_packets c,
      dn_queue_severe_packets = queue_severe_packets c,
      dn_rtt_increase_below_ms = rtt_increase_below_ms c, dn_rtt_decrease_above_ms = rtt_decrease_above_ms c\<rparr>"

text \<open>The conditions of the control law, evaluated on the updated measurements.\<close>

definition severe_congestion :: "srt_capacity \<Rightarrow> abr_controller \<Rightarrow> bool" where
  "severe_congestion srt c \<longleftrightarrow> sc_latency_ms srt div 3 \<le> sc_rtt_ms srt \<or> queue_severe_packets c < sc_send_buffer_packets srt"

definition heavy_congestion :: "srt_capacity \<Rightarrow> abr_controller \<Rightarrow> bool" where
  "heavy_congestion srt c \<longleftrightarrow> sc_latency_ms srt div 5 < sc_rtt_ms srt \<or> queue_heavy_packets c < sc_send_buffer_packets srt"

definition light_congestion :: "srt_capacity \<Rightarrow> abr_controller \<Rightarrow> bool" where
  "light_congestion srt c \<longleftrightarrow> rtt_decrease_above_ms c < sc_rtt_ms srt \<or> queue_light_packets c < sc_send_buffer_packets srt"

definition may_increase :: "srt_capacity \<Rightarrow> abr_controller \<Rightarrow> bool" where
  "may_increase srt c \<longleftrightarrow>
     sc_rtt_ms srt < rtt_increase_below_ms c \<and> f64_less (rtt_average_delta c) (lit (1 / 100))"

text \<open>The chain of branches of \<^verbatim>\<open>decide\<close>: emergency, stressed and the controller.\<close>

definition control :: "abr_sample \<Rightarrow> abr_controller \<Rightarrow> bool \<times> bool \<times> abr_controller" where
  "control sample c =
     (let srt = sm_srt sample; now_ms = sm_now_ms sample; internal = internal_bitrate_bps c
      in if min_bps (ac_config c) < internal \<and> severe_congestion srt c then
           (True, True,
            c\<lparr>internal_bitrate_bps := min_bps (ac_config c),
              next_decrease_ms := saturating_add now_ms BITRATE_DECREASE_INTERVAL_MS,
              last_control_state := SevereCongestion\<rparr>)
         else if next_decrease_ms c < now_ms \<and> heavy_congestion srt c then
           (False, True,
            c\<lparr>internal_bitrate_bps := saturating_sub internal
                (saturating_add BITRATE_DECREASE_MIN_BPS (internal div BITRATE_DECREASE_SCALE)),
              next_decrease_ms := saturating_add now_ms BITRATE_DECREASE_FAST_INTERVAL_MS,
              last_control_state := HeavyCongestion\<rparr>)
         else if next_decrease_ms c < now_ms \<and> light_congestion srt c then
           (False, True,
            c\<lparr>internal_bitrate_bps := saturating_sub internal BITRATE_DECREASE_MIN_BPS,
              next_decrease_ms := saturating_add now_ms BITRATE_DECREASE_INTERVAL_MS,
              last_control_state := LightCongestion\<rparr>)
         else if next_increase_ms c < now_ms \<and> may_increase srt c then
           (False, False,
            c\<lparr>internal_bitrate_bps := saturating_add internal
                (saturating_add BITRATE_INCREASE_MIN_BPS (internal div BITRATE_INCREASE_SCALE)),
              next_increase_ms := saturating_add now_ms BITRATE_INCREASE_INTERVAL_MS,
              last_control_state := Increasing\<rparr>)
         else (False, False, c\<lparr>last_control_state := Hold\<rparr>))"

definition link_capacity_of :: "link_capacity list \<Rightarrow> int" where
  "link_capacity_of links =
     sum_list (map lc_target_bps
       (filter (\<lambda>l. lc_enabled l \<and> lc_payload_eligible l \<and> lc_capacity_ready l) links)) mod 2 ^ 64"

definition unusable :: "srt_capacity \<Rightarrow> bool" where
  "unusable srt \<longleftrightarrow> \<not> sc_ready srt \<or> sc_rtt_ms srt = 0 \<or> sc_latency_ms srt = 0"

definition replayed :: "srt_capacity \<Rightarrow> abr_controller \<Rightarrow> bool" where
  "replayed srt c \<longleftrightarrow>
     last_srt_sample_ms c = Some (sc_sampled_at_ms srt)
     \<or> (case last_srt_sample_ms c of None \<Rightarrow> False | Some previous \<Rightarrow> sc_sampled_at_ms srt < previous)"

definition clamp_internal :: "abr_controller \<Rightarrow> abr_controller" where
  "clamp_internal c =
     c\<lparr>internal_bitrate_bps := clamp (internal_bitrate_bps c) (min_bps (ac_config c)) (max_bps (ac_config c))\<rparr>"

definition decide :: "abr_sample \<Rightarrow> abr_controller \<Rightarrow> abr_decision \<times> abr_controller" where
  "decide sample c =
     (let lo = min_bps (ac_config c); hi = max_bps (ac_config c); srt = sm_srt sample;
          link_capacity_bps = link_capacity_of (sm_links sample);
          current = clamp (sm_current_video_bps sample) lo hi
      in if sm_all_links_down sample then
           let c = c\<lparr>internal_bitrate_bps := lo, last_control_state := Disconnected\<rparr>;
               applied_bps = clamp (rounded_bps (internal_bitrate_bps c)) lo hi
           in (decision sample link_capacity_bps current applied_bps True True c, c)
         else if unusable srt \<or> replayed srt c then
           let c = (if unusable srt then c\<lparr>last_control_state := Waiting\<rparr> else c)
           in (decision sample link_capacity_bps current current False False c, c)
         else
           let c = c\<lparr>last_srt_sample_ms := Some (sc_sampled_at_ms srt)\<rparr>;
               c = update_thresholds srt (update_measurements srt c);
               (emergency, stressed, c) = control sample c;
               c = clamp_internal c;
               applied_bps = clamp (rounded_bps (internal_bitrate_bps c)) lo hi
           in (decision sample link_capacity_bps current applied_bps emergency stressed c, c))"

section \<open>Bounds\<close>

text \<open>The bounds of the configuration are ordered and the bitrate lies between them.\<close>

definition abr_ok :: "abr_controller \<Rightarrow> bool" where
  "abr_ok c \<longleftrightarrow>
     min_bps (ac_config c) \<le> internal_bitrate_bps c \<and> internal_bitrate_bps c \<le> max_bps (ac_config c)
     \<and> ROUNDING_BPS \<le> max_bps (ac_config c)"

lemma abr_okD:
  assumes "abr_ok c"
  shows "min_bps (ac_config c) \<le> max_bps (ac_config c)"
  using assms by (simp add: abr_ok_def)

lemma to_u32_nonneg: "0 \<le> to_u32 x"
  by (cases x) (auto simp: U32_MAX_def)

text \<open>Measuring changes neither the bitrate nor the configuration nor the timers.\<close>

lemma measured_fields [simp]:
  "ac_config (update_thresholds srt (update_measurements srt c)) = ac_config c"
  "internal_bitrate_bps (update_thresholds srt (update_measurements srt c)) = internal_bitrate_bps c"
  "next_increase_ms (update_thresholds srt (update_measurements srt c)) = next_increase_ms c"
  "next_decrease_ms (update_thresholds srt (update_measurements srt c)) = next_decrease_ms c"
  "last_srt_sample_ms (update_thresholds srt (update_measurements srt c)) = last_srt_sample_ms c"
  by (simp_all add: update_thresholds_def update_measurements_def measure_rtt_def measure_queue_def Let_def)

lemma control_fields:
  assumes "control sample c = (emergency, stressed, c')"
  shows "ac_config c' = ac_config c" "last_srt_sample_ms c' = last_srt_sample_ms c"
  using assms by (auto simp: control_def Let_def split: if_splits)

lemma clamp_internal_fields [simp]:
  "ac_config (clamp_internal c) = ac_config c" "last_srt_sample_ms (clamp_internal c) = last_srt_sample_ms c"
  "next_increase_ms (clamp_internal c) = next_increase_ms c" "next_decrease_ms (clamp_internal c) = next_decrease_ms c"
  by (simp_all add: clamp_internal_def)

text \<open>The controller as \<^verbatim>\<open>decide\<close> sees it after taking a new sample into account.\<close>

definition measured :: "abr_sample \<Rightarrow> abr_controller \<Rightarrow> abr_controller" where
  "measured sample c =
     update_thresholds (sm_srt sample) (update_measurements (sm_srt sample)
       (c\<lparr>last_srt_sample_ms := Some (sc_sampled_at_ms (sm_srt sample))\<rparr>))"

lemma measured_simps [simp]:
  "ac_config (measured s c) = ac_config c" "internal_bitrate_bps (measured s c) = internal_bitrate_bps c"
  "next_increase_ms (measured s c) = next_increase_ms c" "next_decrease_ms (measured s c) = next_decrease_ms c"
  "last_srt_sample_ms (measured s c) = Some (sc_sampled_at_ms (sm_srt s))"
  by (simp_all add: measured_def)

text \<open>A sample that \<^verbatim>\<open>decide\<close> evaluates: links are up, the data is usable and newer than the last.\<close>

definition fresh :: "abr_sample \<Rightarrow> abr_controller \<Rightarrow> bool" where
  "fresh s c \<longleftrightarrow> \<not> sm_all_links_down s \<and> \<not> unusable (sm_srt s) \<and> \<not> replayed (sm_srt s) c"

lemma decide_fresh:
  assumes "fresh s c" and "control s (measured s c) = (emergency, stressed, c1)"
  shows "snd (decide s c) = clamp_internal c1"
    "dn_applied_bps (fst (decide s c)) =
       clamp (rounded_bps (internal_bitrate_bps (clamp_internal c1))) (min_bps (ac_config c)) (max_bps (ac_config c))"
    "dn_emergency (fst (decide s c)) = emergency"
  using assms by (simp_all add: decide_def fresh_def measured_def Let_def decision_def)

lemma decide_down:
  assumes "sm_all_links_down s"
  shows "snd (decide s c) = c\<lparr>internal_bitrate_bps := min_bps (ac_config c), last_control_state := Disconnected\<rparr>"
    "dn_applied_bps (fst (decide s c)) =
       clamp (rounded_bps (min_bps (ac_config c))) (min_bps (ac_config c)) (max_bps (ac_config c))"
    "dn_emergency (fst (decide s c))"
  using assms by (simp_all add: decide_def Let_def decision_def)

lemma decide_hold:
  assumes "\<not> sm_all_links_down s" and "unusable (sm_srt s) \<or> replayed (sm_srt s) c"
  shows "snd (decide s c) = (if unusable (sm_srt s) then c\<lparr>last_control_state := Waiting\<rparr> else c)"
    "dn_applied_bps (fst (decide s c)) =
       clamp (sm_current_video_bps s) (min_bps (ac_config c)) (max_bps (ac_config c))"
  using assms by (simp_all add: decide_def Let_def decision_def)

lemma decide_cases:
  obtains (down) "sm_all_links_down s"
  | (hold) "\<not> sm_all_links_down s" "unusable (sm_srt s) \<or> replayed (sm_srt s) c"
  | (evaluated) emergency stressed c1 where "fresh s c" "control s (measured s c) = (emergency, stressed, c1)"
proof -
  obtain emergency stressed c1 where "control s (measured s c) = (emergency, stressed, c1)"
    by (cases "control s (measured s c)")
  then show thesis using that by (auto simp: fresh_def)
qed

lemma decide_config [simp]: "ac_config (snd (decide s c)) = ac_config c"
  by (cases rule: decide_cases [where s = s and c = c]) (auto simp: decide_down decide_hold decide_fresh dest: control_fields)

lemma clamp_internal_ok: "abr_ok c0 \<Longrightarrow> ac_config c = ac_config c0 \<Longrightarrow> abr_ok (clamp_internal c)"
  by (auto simp: abr_ok_def clamp_internal_def clamp_def)

lemma decide_ok:
  assumes "abr_ok c"
  shows "abr_ok (snd (decide s c))"
proof (cases rule: decide_cases [where s = s and c = c])
  case (evaluated emergency stressed c1)
  then show ?thesis
    using clamp_internal_ok [OF assms, of c1] control_fields(1) [OF evaluated(2)] by (simp add: decide_fresh)
qed (use assms in \<open>auto simp: decide_down decide_hold abr_ok_def\<close>)

lemma decide_applied:
  assumes "abr_ok c"
  shows "min_bps (ac_config c) \<le> dn_applied_bps (fst (decide s c))"
    "dn_applied_bps (fst (decide s c)) \<le> max_bps (ac_config c)"
  using clamp_bounds [OF abr_okD [OF assms]]
  by (cases rule: decide_cases [where s = s and c = c]; simp add: decide_down decide_hold decide_fresh)+

text \<open>Every operation of the controller.\<close>

datatype abr_op = SetMax int | SetCurrent int | Reset int | Decide abr_sample

fun abr_apply :: "abr_op \<Rightarrow> abr_controller \<Rightarrow> abr_controller" where
  "abr_apply (SetMax v) c = snd (set_max_bps v c)"
| "abr_apply (SetCurrent v) c = snd (set_current_bps v c)"
| "abr_apply (Reset v) c = reset_for_bitrate v c"
| "abr_apply (Decide s) c = snd (decide s c)"

lemma new_controller_ok: "abr_ok (new_controller cfg)"
  by (simp add: new_controller_def normalized_def abr_ok_def Let_def clamp_bounds)

lemma abr_apply_ok: "abr_ok c \<Longrightarrow> abr_ok (abr_apply op c)"
  by (cases op) (auto simp: set_max_bps_def set_current_bps_def reset_for_bitrate_def Let_def decide_ok,
      auto simp: abr_ok_def clamp_def)

interpretation abr: invariant_system "\<lambda>c. \<exists>cfg. c = new_controller cfg" "\<lambda>c c'. \<exists>op. c' = abr_apply op c" abr_ok
  by unfold_locales (auto simp: new_controller_ok abr_apply_ok)

section \<open>The bitrate stays within its limits\<close>

text \<open>The limits as the caller knows them: the configured minimum and the last maximum that was set.\<close>

definition lower_limit :: "abr_config \<Rightarrow> int" where
  "lower_limit cfg = min (min_bps cfg) (max (max_bps cfg) 100000)"

fun upper_limit :: "abr_config \<Rightarrow> abr_op list \<Rightarrow> int" where
  "upper_limit cfg [] = max (max_bps cfg) 100000"
| "upper_limit cfg (SetMax v # later) = max v (max (lower_limit cfg) 100000)"
| "upper_limit cfg (op # later) = upper_limit cfg later"

text \<open>The controller after a sequence of operations, the last one first.\<close>

fun abr_after :: "abr_config \<Rightarrow> abr_op list \<Rightarrow> abr_controller" where
  "abr_after cfg [] = new_controller cfg"
| "abr_after cfg (op # earlier) = abr_apply op (abr_after cfg earlier)"

lemma abr_after_ok: "abr_ok (abr_after cfg ops)"
proof -
  have "reach (\<lambda>c. \<exists>cfg. c = new_controller cfg) (\<lambda>c c'. \<exists>op. c' = abr_apply op c) (abr_after cfg ops)"
    by (induction ops) (auto intro: reach.intros)
  then show ?thesis by (rule abr.reach_inv)
qed

lemma abr_after_limits:
  "min_bps (ac_config (abr_after cfg ops)) = lower_limit cfg \<and> max_bps (ac_config (abr_after cfg ops)) = upper_limit cfg ops"
proof (induction ops)
  case Nil
  then show ?case by (simp add: new_controller_def normalized_def lower_limit_def ROUNDING_BPS_def Let_def)
next
  case (Cons op ops)
  then show ?case
    by (cases op) (auto simp: set_max_bps_def set_current_bps_def reset_for_bitrate_def ROUNDING_BPS_def Let_def)
qed

lemma clamp_rounded_cases:
  "100000 dvd clamp (rounded_bps v) lo hi \<or> clamp (rounded_bps v) lo hi \<in> {lo, hi}"
  by (auto simp: clamp_def rounded_bps_def ROUNDING_BPS_def)

lemma decide_applied_cases:
  "100000 dvd dn_applied_bps (fst (decide s c))
   \<or> dn_applied_bps (fst (decide s c)) \<in> {min_bps (ac_config c), max_bps (ac_config c),
       clamp (sm_current_video_bps s) (min_bps (ac_config c)) (max_bps (ac_config c))}"
  by (cases rule: decide_cases [where s = s and c = c])
    (use clamp_rounded_cases in \<open>auto simp: decide_down decide_hold decide_fresh\<close>)

text \<open>
  Whatever configuration the controller was created with, whatever limits and bitrates were set and
  whatever was measured since, its bitrate and every bitrate \<^verbatim>\<open>decide\<close> returns lie between the
  configured minimum and the maximum set last, and these limits are ordered, so \<^verbatim>\<open>clamp\<close> never
  panics. A returned bitrate is a multiple of 100 kbit/s, one of the limits, or the bitrate
  in use.
\<close>

theorem abr_bitrate_bounded:
  "let c = abr_after cfg ops; lo = lower_limit cfg; hi = upper_limit cfg ops; r = dn_applied_bps (fst (decide s c))
   in lo \<le> internal_bitrate_bps c \<and> internal_bitrate_bps c \<le> hi \<and> lo \<le> r \<and> r \<le> hi
      \<and> (100000 dvd r \<or> r \<in> {lo, hi, clamp (sm_current_video_bps s) lo hi})"
  using abr_after_ok [of cfg ops] abr_after_limits [of cfg ops] decide_applied [of "abr_after cfg ops" s]
    decide_applied_cases [of s "abr_after cfg ops"]
  by (simp add: abr_ok_def Let_def)

section \<open>The response to congestion\<close>

lemma saturating_add_nonneg: "0 \<le> a \<Longrightarrow> 0 \<le> b \<Longrightarrow> 0 \<le> saturating_add a b"
  by (simp add: saturating_add_def U64_MAX_def)

lemma saturating_add_le: "saturating_add a b \<le> a + b"
  by (simp add: saturating_add_def)

lemma saturating_add_ge: "a \<le> U64_MAX \<Longrightarrow> 0 \<le> b \<Longrightarrow> a \<le> saturating_add a b"
  by (simp add: saturating_add_def)

lemma saturating_sub_le: "0 \<le> a \<Longrightarrow> 0 \<le> b \<Longrightarrow> saturating_sub a b \<le> a"
  by (simp add: saturating_sub_def)

text \<open>What one evaluated sample does to the bitrate, by the state it is left in.\<close>

lemma control_cases:
  assumes "control s c = (emergency, stressed, c1)"
  obtains
    (severe_congestion) "emergency" "min_bps (ac_config c) < internal_bitrate_bps c" "severe_congestion (sm_srt s) c"
      "internal_bitrate_bps c1 = min_bps (ac_config c)" "next_increase_ms c1 = next_increase_ms c"
      "next_decrease_ms c1 = saturating_add (sm_now_ms s) 200"
  | (reduce) step wait where "\<not> emergency" "next_decrease_ms c < sm_now_ms s" "heavy_congestion (sm_srt s) c \<or> light_congestion (sm_srt s) c"
      "internal_bitrate_bps c1 = saturating_sub (internal_bitrate_bps c) step"
      "step \<in> {100000, saturating_add 100000 (internal_bitrate_bps c div 10)}" "wait \<in> {200, 250}"
      "next_increase_ms c1 = next_increase_ms c" "next_decrease_ms c1 = saturating_add (sm_now_ms s) wait"
  | (raise) "\<not> emergency" "next_increase_ms c < sm_now_ms s" "may_increase (sm_srt s) c"
      "\<not> (min_bps (ac_config c) < internal_bitrate_bps c \<and> severe_congestion (sm_srt s) c)"
      "internal_bitrate_bps c1 =
         saturating_add (internal_bitrate_bps c) (saturating_add 30000 (internal_bitrate_bps c div 30))"
      "next_increase_ms c1 = saturating_add (sm_now_ms s) 500" "next_decrease_ms c1 = next_decrease_ms c"
  | (hold) "\<not> emergency" "internal_bitrate_bps c1 = internal_bitrate_bps c"
      "next_increase_ms c1 = next_increase_ms c" "next_decrease_ms c1 = next_decrease_ms c"
proof -
  let ?severe_congestion = "min_bps (ac_config c) < internal_bitrate_bps c \<and> severe_congestion (sm_srt s) c"
  let ?due = "next_decrease_ms c < sm_now_ms s"
  note run = assms [unfolded control_def Let_def abr_consts]
  consider "?severe_congestion" | "\<not> ?severe_congestion" "?due \<and> heavy_congestion (sm_srt s) c"
    | "\<not> ?severe_congestion" "\<not> (?due \<and> heavy_congestion (sm_srt s) c)" "?due \<and> light_congestion (sm_srt s) c"
    | "\<not> ?severe_congestion" "\<not> (?due \<and> heavy_congestion (sm_srt s) c)" "\<not> (?due \<and> light_congestion (sm_srt s) c)"
    by blast
  then show thesis
  proof cases
    case 1
    with run show thesis by (intro severe_congestion) auto
  next
    case 2
    with run show thesis
      by (intro reduce [of "saturating_add 100000 (internal_bitrate_bps c div 10)" 250]) auto
  next
    case 3
    with run show thesis by (intro reduce [of 100000 200]) (auto split: if_splits)
  next
    case 4
    show thesis
    proof (cases "next_increase_ms c < sm_now_ms s \<and> may_increase (sm_srt s) c")
      case True
      with run 4 show thesis by (intro raise) (auto split: if_splits)
    next
      case False
      with run 4 show thesis by (intro hold) (auto split: if_splits)
    qed
  qed
qed

lemma control_severe:
  assumes "control s c = (emergency, stressed, c1)" "min_bps (ac_config c) < internal_bitrate_bps c" "severe_congestion (sm_srt s) c"
  shows "emergency" "internal_bitrate_bps c1 = min_bps (ac_config c)"
  using assms by (auto simp: control_def Let_def)

lemma clamp_internal_bitrate:
  "internal_bitrate_bps (clamp_internal c) =
     clamp (internal_bitrate_bps c) (min_bps (ac_config c)) (max_bps (ac_config c))"
  by (simp add: clamp_internal_def)

text \<open>A sample raises the bitrate, or lowers it without an emergency.\<close>

definition raises :: "abr_sample \<Rightarrow> abr_controller \<Rightarrow> bool" where
  "raises s c \<longleftrightarrow> internal_bitrate_bps c < internal_bitrate_bps (snd (decide s c))"

definition lowers :: "abr_sample \<Rightarrow> abr_controller \<Rightarrow> bool" where
  "lowers s c \<longleftrightarrow> internal_bitrate_bps (snd (decide s c)) < internal_bitrate_bps c \<and> \<not> dn_emergency (fst (decide s c))"

definition abr_valid :: "abr_controller \<Rightarrow> bool" where
  "abr_valid c \<longleftrightarrow> abr_ok c \<and> 0 \<le> min_bps (ac_config c) \<and> max_bps (ac_config c) \<le> U64_MAX"

lemma abr_validD:
  assumes "abr_valid c"
  shows "0 \<le> internal_bitrate_bps c" "min_bps (ac_config c) \<le> internal_bitrate_bps c"
    "internal_bitrate_bps c \<le> max_bps (ac_config c)" "min_bps (ac_config c) \<le> max_bps (ac_config c)"
    "internal_bitrate_bps c \<le> U64_MAX" "0 \<le> internal_bitrate_bps c div 10" "0 \<le> internal_bitrate_bps c div 30"
  using assms by (auto simp: abr_valid_def abr_ok_def pos_imp_zdiv_nonneg_iff)

lemma reduce_step_nonneg: "step \<in> {100000, saturating_add 100000 (b div 10)} \<Longrightarrow> 0 \<le> b \<Longrightarrow> 0 \<le> step"
  by (auto intro!: saturating_add_nonneg simp: pos_imp_zdiv_nonneg_iff)

lemma raises_fresh:
  assumes "abr_valid c" and "raises s c"
  shows "fresh s c \<and> next_increase_ms c < sm_now_ms s \<and> may_increase (sm_srt s) (measured s c)
    \<and> (severe_congestion (sm_srt s) (measured s c) \<longrightarrow> internal_bitrate_bps c = min_bps (ac_config c))
    \<and> next_increase_ms (snd (decide s c)) = saturating_add (sm_now_ms s) 500
    \<and> internal_bitrate_bps (snd (decide s c)) \<le> internal_bitrate_bps c + 30000 + internal_bitrate_bps c div 30"
proof (cases rule: decide_cases [where s = s and c = c])
  case down
  with assms show ?thesis by (auto simp: raises_def decide_down dest: abr_validD)
next
  case hold
  with assms show ?thesis by (auto simp: raises_def decide_hold split: if_splits)
next
  case (evaluated emergency stressed c1)
  note v = abr_validD [OF assms(1)]
  have up: "internal_bitrate_bps c < clamp (internal_bitrate_bps c1) (min_bps (ac_config c)) (max_bps (ac_config c))"
    using assms(2) evaluated control_fields(1) [OF evaluated(2)]
    by (simp add: raises_def decide_fresh clamp_internal_bitrate)
  with v have up: "internal_bitrate_bps c < internal_bitrate_bps c1" by (auto simp: clamp_def split: if_splits)
  from evaluated(2) show ?thesis
  proof (cases rule: control_cases)
    case (reduce step wait)
    with up v saturating_sub_le [OF v(1) reduce_step_nonneg] show ?thesis by fastforce
  next
    case raise
    let ?b = "internal_bitrate_bps c"
    have "internal_bitrate_bps c1 \<le> ?b + 30000 + ?b div 30"
      using raise(5) saturating_add_le [of ?b "saturating_add 30000 (?b div 30)"] saturating_add_le [of 30000 "?b div 30"]
      by simp
    then have "clamp (internal_bitrate_bps c1) (min_bps (ac_config c)) (max_bps (ac_config c)) \<le> ?b + 30000 + ?b div 30"
      using v by (simp add: clamp_def)
    with raise evaluated v control_fields(1) [OF evaluated(2)] show ?thesis
      by (simp add: decide_fresh clamp_internal_bitrate) auto
  qed (use up v in auto)
qed

lemma lowers_fresh:
  assumes "abr_valid c" and "lowers s c"
  shows "fresh s c \<and> next_decrease_ms c < sm_now_ms s
    \<and> (heavy_congestion (sm_srt s) (measured s c) \<or> light_congestion (sm_srt s) (measured s c))
    \<and> \<not> (min_bps (ac_config c) < internal_bitrate_bps c \<and> severe_congestion (sm_srt s) (measured s c))
    \<and> saturating_add (sm_now_ms s) 200 \<le> next_decrease_ms (snd (decide s c))
    \<and> internal_bitrate_bps c - 100000 - internal_bitrate_bps c div 10 \<le> internal_bitrate_bps (snd (decide s c))"
proof (cases rule: decide_cases [where s = s and c = c])
  case down
  with assms show ?thesis by (auto simp: lowers_def decide_down)
next
  case hold
  with assms show ?thesis by (auto simp: lowers_def decide_hold split: if_splits)
next
  case (evaluated emergency stressed c1)
  note v = abr_validD [OF assms(1)] and cfg = control_fields(1) [OF evaluated(2)]
  have down: "clamp (internal_bitrate_bps c1) (min_bps (ac_config c)) (max_bps (ac_config c)) < internal_bitrate_bps c"
    and calm: "\<not> emergency"
    using assms(2) evaluated cfg by (simp_all add: lowers_def decide_fresh clamp_internal_bitrate)
  then have not_severe: "\<not> (min_bps (ac_config c) < internal_bitrate_bps c \<and> severe_congestion (sm_srt s) (measured s c))"
    using control_severe(1) [OF evaluated(2)] by auto
  from down v have down: "internal_bitrate_bps c1 < internal_bitrate_bps c" by (auto simp: clamp_def split: if_splits)
  from evaluated(2) show ?thesis
  proof (cases rule: control_cases)
    case (reduce step wait)
    have "step \<le> 100000 + internal_bitrate_bps c div 10"
      using reduce(5) v by (auto simp: saturating_add_def pos_imp_zdiv_nonneg_iff)
    then have "internal_bitrate_bps c - 100000 - internal_bitrate_bps c div 10 \<le> internal_bitrate_bps c1"
      using reduce(4) by (simp add: saturating_sub_def)
    moreover have "saturating_add (sm_now_ms s) 200 \<le> saturating_add (sm_now_ms s) wait"
      using reduce(6) by (auto simp: saturating_add_def)
    ultimately show ?thesis
      using reduce evaluated v cfg not_severe down by (simp add: decide_fresh clamp_internal_bitrate) (simp add: clamp_def)
  next
    case raise
    have "internal_bitrate_bps c \<le> internal_bitrate_bps c1"
      unfolding raise(5) measured_simps
      using v by (intro saturating_add_ge saturating_add_nonneg) auto
    with down show ?thesis by simp
  qed (use down calm in auto)
qed

text \<open>
  The timers that space the changes only move forward: the one for raises under every operation but a
  reset, the one for reductions as far as 200 ms after a time that no later sample precedes.
\<close>

fun keeps_timers :: "int \<Rightarrow> abr_op \<Rightarrow> bool" where
  "keeps_timers t (Reset v) = False"
| "keeps_timers t (Decide s) = (t \<le> sm_now_ms s)"
| "keeps_timers t op = True"

lemma decide_timers:
  assumes "next_increase_ms c \<le> U64_MAX"
  shows "next_increase_ms c \<le> next_increase_ms (snd (decide s c)) \<and> next_increase_ms (snd (decide s c)) \<le> U64_MAX
    \<and> (t \<le> sm_now_ms s \<longrightarrow> saturating_add t 200 \<le> next_decrease_ms c
         \<longrightarrow> saturating_add t 200 \<le> next_decrease_ms (snd (decide s c)))"
proof (cases rule: decide_cases [where s = s and c = c])
  case (evaluated emergency stressed c1)
  have eq: "next_increase_ms (snd (decide s c)) = next_increase_ms c1" "next_decrease_ms (snd (decide s c)) = next_decrease_ms c1"
    using evaluated by (simp_all add: decide_fresh)
  from evaluated(2) show ?thesis
    by (cases rule: control_cases) (use assms in \<open>auto simp: eq saturating_add_def\<close>)
qed (use assms in \<open>auto simp: decide_down decide_hold\<close>)

lemma abr_apply_timers:
  assumes "keeps_timers t op" and "next_increase_ms c \<le> U64_MAX"
  shows "next_increase_ms c \<le> next_increase_ms (abr_apply op c) \<and> next_increase_ms (abr_apply op c) \<le> U64_MAX
    \<and> (saturating_add t 200 \<le> next_decrease_ms c \<longrightarrow> saturating_add t 200 \<le> next_decrease_ms (abr_apply op c))"
  using assms decide_timers [OF assms(2)] by (cases op) (auto simp: set_max_bps_def set_current_bps_def Let_def)

lemma abr_run_timers:
  assumes "list_all (keeps_timers t) ops" and "next_increase_ms c \<le> U64_MAX"
  shows "next_increase_ms c \<le> next_increase_ms (fold abr_apply ops c) \<and> next_increase_ms (fold abr_apply ops c) \<le> U64_MAX
    \<and> (saturating_add t 200 \<le> next_decrease_ms c \<longrightarrow> saturating_add t 200 \<le> next_decrease_ms (fold abr_apply ops c))"
  using assms
proof (induction ops arbitrary: c)
  case (Cons op ops)
  then have k: "keeps_timers t op" "list_all (keeps_timers t) ops" by simp_all
  note one = abr_apply_timers [OF k(1) Cons.prems(2)]
  from Cons.IH [OF k(2), of "abr_apply op c"] one show ?case by auto
qed simp

text \<open>The values a caller can set are those of the type \<^verbatim>\<open>u64\<close>.\<close>

fun u64_op :: "abr_op \<Rightarrow> bool" where
  "u64_op (SetMax v) = (0 \<le> v \<and> v \<le> U64_MAX)"
| "u64_op op = True"

lemma abr_apply_valid: "abr_valid c \<Longrightarrow> u64_op op \<Longrightarrow> abr_valid (abr_apply op c)"
  using abr_apply_ok [of c op] abr_okD [of c]
  by (cases op) (auto simp: abr_valid_def set_max_bps_def set_current_bps_def reset_for_bitrate_def Let_def
      ROUNDING_BPS_def U64_MAX_def)

lemma abr_run_valid: "abr_valid c \<Longrightarrow> list_all u64_op ops \<Longrightarrow> abr_valid (fold abr_apply ops c)"
  by (induction ops arbitrary: c) (auto simp: abr_apply_valid)

text \<open>
  C14. The controller changes the bitrate gradually: a raise is at most 30 kbit/s and a thirtieth, is never made
  on a sample with severe congestion unless the bitrate is already at the floor, and
  the next one comes more than 500 ms later. A reduction other than the
  drop to the floor needs heavy or light congestion, takes at most 100 kbit/s and a tenth, and the next one
  comes more than 200 ms later, whatever other operations except a reset come between.
\<close>

theorem abr_changes_spaced:
  assumes "abr_valid c" and "next_increase_ms c \<le> U64_MAX"
    and "list_all u64_op ops" and "list_all (keeps_timers (sm_now_ms s)) ops" and "sm_now_ms s' \<le> U64_MAX"
  defines "c1 \<equiv> snd (decide s c)"
  defines "c2 \<equiv> fold abr_apply ops c1"
  shows "(raises s c \<longrightarrow>
       internal_bitrate_bps c1 \<le> internal_bitrate_bps c + 30000 + internal_bitrate_bps c div 30
       \<and> (severe_congestion (sm_srt s) (measured s c) \<longrightarrow> internal_bitrate_bps c = min_bps (ac_config c))
       \<and> (raises s' c2 \<longrightarrow> sm_now_ms s + 500 < sm_now_ms s'))
    \<and> (lowers s c \<longrightarrow>
       internal_bitrate_bps c - 100000 - internal_bitrate_bps c div 10 \<le> internal_bitrate_bps c1
       \<and> (heavy_congestion (sm_srt s) (measured s c) \<or> light_congestion (sm_srt s) (measured s c))
       \<and> (lowers s' c2 \<longrightarrow> sm_now_ms s + 200 < sm_now_ms s'))"
proof -
  have v1: "abr_valid c1" using abr_apply_valid [OF assms(1), of "Decide s"] by (simp add: c1_def)
  have v2: "abr_valid c2" using abr_run_valid [OF v1 assms(3)] by (simp add: c2_def)
  have n1: "next_increase_ms c1 \<le> U64_MAX" using decide_timers [OF assms(2)] by (simp add: c1_def)
  note run = abr_run_timers [OF assms(4) n1, folded c2_def]
  have "sm_now_ms s + 500 < sm_now_ms s'" if "raises s c" "raises s' c2"
    using raises_fresh [OF assms(1) that(1)] raises_fresh [OF v2 that(2)] run assms(5)
    by (auto simp: c1_def saturating_add_def)
  moreover have "sm_now_ms s + 200 < sm_now_ms s'" if "lowers s c" "lowers s' c2"
    using lowers_fresh [OF assms(1) that(1)] lowers_fresh [OF v2 that(2)] run assms(5)
    by (auto simp: c1_def saturating_add_def)
  ultimately show ?thesis
    using raises_fresh [OF assms(1)] lowers_fresh [OF assms(1)] by (auto simp: c1_def)
qed

definition demo_sample :: "int \<Rightarrow> int \<Rightarrow> abr_sample" where
  "demo_sample now_ms rtt_ms =
     \<lparr>sm_links = [], sm_audio_bps = 128000, sm_current_video_bps = 1500000, sm_now_ms = now_ms,
      sm_capacity_ready = True, sm_all_links_down = False,
      sm_srt = \<lparr>sc_ready = True, sc_sampled_at_ms = now_ms, sc_bandwidth_bps = 100000000, sc_send_rate_bps = 6128000,
        sc_send_buffer_ms = 0, sc_send_buffer_packets = 0, sc_rtt_ms = rtt_ms, sc_latency_ms = 2000,
        sc_retransmit_permille = 0, sc_dropped_bytes = 0\<rparr>\<rparr>"

lemma heavy_sample_lowers:
  assumes "c = abr_after \<lparr>min_bps = 500000, start_bps = 6000000, max_bps = 20000000\<rparr> []"
  shows "internal_bitrate_bps (snd (decide (demo_sample 20 450) c)) = 5300000" "lowers (demo_sample 20 450) c"
proof -
  let ?s = "demo_sample 20 450" and ?m = "measured (demo_sample 20 450) c"
  have c: "internal_bitrate_bps c = 6000000" "min_bps (ac_config c) = 500000" "max_bps (ac_config c) = 20000000"
    "next_decrease_ms c = 0" "last_srt_sample_ms c = None"
    using assms by (simp_all add: new_controller_def normalized_def clamp_def ROUNDING_BPS_def Let_def)
  have "0 \<le> queue_severe_packets ?m" by (simp add: measured_def update_thresholds_def Let_def to_u32_nonneg)
  then have "\<not> severe_congestion (sm_srt ?s) ?m" "heavy_congestion (sm_srt ?s) ?m"
    by (auto simp: severe_congestion_def heavy_congestion_def demo_sample_def)
  then have ctl: "control ?s ?m = (False, True, ?m\<lparr>internal_bitrate_bps := 5300000, next_decrease_ms := 270,
      last_control_state := HeavyCongestion\<rparr>)"
    by (simp add: control_def Let_def c abr_consts saturating_sub_def saturating_add_def U64_MAX_def) (simp add: demo_sample_def)
  have fresh: "fresh ?s c" by (simp add: fresh_def unusable_def replayed_def c(5)) (simp add: demo_sample_def)
  note d = decide_fresh [OF fresh ctl]
  show "internal_bitrate_bps (snd (decide ?s c)) = 5300000"
    by (simp add: d clamp_internal_def c clamp_def)
  then show "lowers ?s c" by (simp add: lowers_def d(3) c)
qed

theorem abr_changes_spaced_witness:
  "let c = abr_after \<lparr>min_bps = 500000, start_bps = 6000000, max_bps = 20000000\<rparr> [];
       c1 = snd (decide (demo_sample 20 450) c); c2 = fold abr_apply [SetMax 4000000, Decide (demo_sample 40 450)] c1
   in internal_bitrate_bps c1 = 5300000 \<and> \<not> lowers (demo_sample 60 450) c2"
proof -
  let ?cfg = "\<lparr>min_bps = 500000, start_bps = 6000000, max_bps = 20000000\<rparr> :: abr_config"
  define c where "c = abr_after ?cfg []"
  let ?s = "demo_sample 20 450" and ?s' = "demo_sample 60 450"
  let ?ops = "[SetMax 4000000, Decide (demo_sample 40 450)]"
  have "abr_valid c"
    unfolding c_def using abr_after_ok [of ?cfg "[]"]
    by (simp add: abr_valid_def) (simp add: new_controller_def normalized_def ROUNDING_BPS_def U64_MAX_def Let_def)
  moreover have "next_increase_ms c \<le> U64_MAX" by (simp add: c_def new_controller_def U64_MAX_def Let_def)
  ultimately have spaced: "lowers ?s c \<longrightarrow> lowers ?s' (fold abr_apply ?ops (snd (decide ?s c)))
      \<longrightarrow> sm_now_ms ?s + 200 < sm_now_ms ?s'"
    using abr_changes_spaced [of c ?ops ?s ?s'] by (simp add: U64_MAX_def demo_sample_def)
  have "\<not> sm_now_ms ?s + 200 < sm_now_ms ?s'" by (simp add: demo_sample_def)
  with spaced heavy_sample_lowers [OF c_def] show ?thesis unfolding Let_def c_def by blast
qed

end
