(* ===== verification/Abr_Recovery.thy ===== *)
theory Abr_Recovery
  imports Abr_Controller
begin

text \<open>
  The controller on a steady link: as long as the round trip time stays the same and nothing waits in
  the sender queue, the bitrate climbs to its maximum. The proof follows the floating-point
  measurements through their rounding errors.
\<close>

section \<open>Rounded products\<close>

lemma f64_round_coarse:
  assumes "1 / 2 ^ 100 \<le> x" "x \<le> 2 ^ 100"
  obtains y where "f64_round x = F64 y" "x * (999999 / 1000000) \<le> y" "y \<le> x * (1000001 / 1000000)"
proof -
  from f64_round_near [OF assms] obtain y where
    y: "f64_round x = F64 y" "x * (1 - unit_roundoff) \<le> y" "y \<le> x * (1 + unit_roundoff)"
    by blast
  have x: "0 \<le> x" using assms(1) by (rule order_trans [rotated]) simp
  have "x * (999999 / 1000000) \<le> x * (1 - unit_roundoff)" "x * (1 + unit_roundoff) \<le> x * (1000001 / 1000000)"
    using x by (intro mult_left_mono; simp add: unit_roundoff_def)+
  with y show thesis by (intro that [of y]) linarith+
qed

lemma lit_of_nat: "n < 2 ^ 53 \<Longrightarrow> lit (of_nat n) = F64 (of_nat n)"
  by (simp add: lit_def f64_round_of_nat)

lemma lit_whole [simp]: "lit 1 = F64 1" "lit 2 = F64 2" "lit 4 = F64 4"
  using lit_of_nat [of 1] lit_of_nat [of 2] lit_of_nat [of 4] by simp_all

lemma f64_round_zero [simp]: "f64_round 0 = F64 0"
  by (simp add: f64_round_def)

text \<open>A product of a number of ordinary size with a literal.\<close>

lemma f64_mul_lit:
  assumes "1 / 1000 \<le> v" "v \<le> 10" "1 / 1000 \<le> x" "x \<le> 1000"
  obtains y where "f64_mul (F64 x) (lit v) = F64 y" "v * x * (99999 / 100000) \<le> y" "y \<le> v * x * (100001 / 100000)"
proof -
  have small: "(1::rat) / 2 ^ 100 \<le> 1 / 1000000" "(100000::rat) \<le> 2 ^ 100" by simp_all
  obtain c where c: "f64_round v = F64 c" "v * (999999 / 1000000) \<le> c" "c \<le> v * (1000001 / 1000000)"
    using assms(1,2) small by (rule_tac f64_round_coarse [of v]) auto
  have "v * (999999 / 1000000) * x \<le> c * x" "c * x \<le> v * (1000001 / 1000000) * x"
    using c(2,3) assms(3) by (auto intro!: mult_right_mono)
  then have p: "v * x * (999999 / 1000000) \<le> c * x" "c * x \<le> v * x * (1000001 / 1000000)"
    by (simp_all add: mult_ac)
  have vx: "1 / 1000000 \<le> v * x" "v * x \<le> 10000"
    using mult_mono [of "1 / 1000" v "1 / 1000" x] mult_mono [of v 10 x 1000] assms by auto
  have "1 / 2 ^ 100 \<le> c * x" "c * x \<le> 2 ^ 100"
    using p vx by simp_all
  then obtain y where y: "f64_round (c * x) = F64 y" "c * x * (999999 / 1000000) \<le> y" "y \<le> c * x * (1000001 / 1000000)"
    by (rule f64_round_coarse)
  show thesis
  proof (rule that [of y])
    show "f64_mul (F64 x) (lit v) = F64 y"
      using c(1) y(1) by (simp add: lit_def mult.commute)
    show "v * x * (99999 / 100000) \<le> y" "y \<le> v * x * (100001 / 100000)"
      using p y(2,3) vx by linarith+
  qed
qed

lemma f64_mul_lit_zero: "1 / 1000 \<le> v \<Longrightarrow> v \<le> 10 \<Longrightarrow> f64_mul (F64 0) (lit v) = F64 0"
proof -
  assume v: "1 / 1000 \<le> v" "v \<le> 10"
  have "(1::rat) / 2 ^ 100 \<le> 1 / 1000" "(10::rat) \<le> 2 ^ 100" by simp_all
  with v obtain c where "f64_round v = F64 c"
    by (rule_tac f64_round_coarse [of v]) auto
  then show ?thesis by (simp add: lit_def)
qed

lemma f64_mul_lit_nonpos:
  assumes "f64_nonpos x" "1 / 1000 \<le> v" "v \<le> 10"
  shows "f64_nonpos (f64_mul x (lit v))"
proof -
  have "(1::rat) / 2 ^ 100 \<le> 1 / 1000" "(10::rat) \<le> 2 ^ 100" by simp_all
  with assms obtain c where c: "f64_round v = F64 c" "v * (999999 / 1000000) \<le> c"
    by (rule_tac f64_round_coarse [of v]) auto
  with assms(2) have "0 < c" by simp
  with f64_nonpos_mul [OF assms(1)] c show ?thesis by (simp add: lit_def)
qed

section \<open>Measurements on a steady link\<close>

text \<open>The average round trip time \<open>a\<close> stays within five percent of the steady one.\<close>

lemma smoothed_steady:
  assumes "1 \<le> r" "r \<le> 200" "95 / 100 * r \<le> a" "a \<le> 105 / 100 * r"
  obtains a' where "smoothed (F64 a) (99 / 100) (F64 r) (1 / 100) = F64 a'"
    "95 / 100 * r \<le> a'" "a' \<le> 105 / 100 * r"
proof -
  from assms obtain m where m: "f64_mul (F64 a) (lit (99 / 100)) = F64 m"
    "99 / 100 * a * (99999 / 100000) \<le> m" "m \<le> 99 / 100 * a * (100001 / 100000)"
    by (rule_tac f64_mul_lit [of "99 / 100" a]) auto
  from assms obtain n where n: "f64_mul (F64 r) (lit (1 / 100)) = F64 n"
    "1 / 100 * r * (99999 / 100000) \<le> n" "n \<le> 1 / 100 * r * (100001 / 100000)"
    by (rule_tac f64_mul_lit [of "1 / 100" r]) auto
  have "1 / 1000 \<le> m + n" "m + n \<le> 1000" using m(2,3) n(2,3) assms by linarith+
  then have "1 / 2 ^ 100 \<le> m + n" "m + n \<le> 2 ^ 100" by simp_all
  then obtain y where y: "f64_round (m + n) = F64 y" "(m + n) * (999999 / 1000000) \<le> y" "y \<le> (m + n) * (1000001 / 1000000)"
    by (rule f64_round_coarse)
  show thesis
  proof (rule that [of y])
    show "smoothed (F64 a) (99 / 100) (F64 r) (1 / 100) = F64 y"
      by (simp add: smoothed_def m(1) n(1) y(1))
    show "95 / 100 * r \<le> y" "y \<le> 105 / 100 * r"
      using y(2,3) [unfolded distrib_right] m(2,3) n(2,3) assms by linarith+
  qed
qed

text \<open>The threshold for a reduction stays above the steady round trip time.\<close>

lemma decrease_threshold_steady:
  assumes "1 \<le> r" "r \<le> 200" "95 / 100 * of_int r \<le> a" "a \<le> 105 / 100 * of_int r"
  shows "r \<le> to_u32 (f64_add (F64 a) (f64_max (F64 0) (f64_mul (F64 a) (lit (15 / 100)))))"
proof -
  let ?r = "of_int r :: rat"
  have r: "1 \<le> ?r" "?r \<le> 200" using assms(1,2) by simp_all
  from assms r obtain m where m: "f64_mul (F64 a) (lit (15 / 100)) = F64 m"
    "15 / 100 * a * (99999 / 100000) \<le> m" "m \<le> 15 / 100 * a * (100001 / 100000)"
    by (rule_tac f64_mul_lit [of "15 / 100" a]) auto
  have "1 / 1000 \<le> a + m" "a + m \<le> 1000" using m(2,3) assms r by linarith+
  then have "1 / 2 ^ 100 \<le> a + m" "a + m \<le> 2 ^ 100" by simp_all
  then obtain y where y: "f64_round (a + m) = F64 y" "(a + m) * (999999 / 1000000) \<le> y" "y \<le> (a + m) * (1000001 / 1000000)"
    by (rule f64_round_coarse)
  have "?r \<le> y" "0 < y" using y(2) [unfolded distrib_right] m(2) assms r by linarith+
  then have "r \<le> to_u32 (F64 y)" using assms(2) by (simp add: U32_MAX_def le_floor_iff)
  moreover have "0 < m" using m(2) assms r by linarith
  ultimately show ?thesis unfolding m(1) f64_max_def by (simp add: y(1))
qed

lemma increase_threshold_steady:
  assumes "1 \<le> r" "r \<le> 200"
  shows "to_u32 (f64_add (F64 (of_int r)) (f64_max (F64 1) (F64 0))) = r + 1"
proof -
  have "f64_round (of_int r + 1) = F64 (of_int r + 1)"
    using f64_round_of_nat [of "nat (r + 1)"] assms by simp
  with assms show ?thesis by (simp add: f64_max_def U32_MAX_def)
qed

text \<open>
  The measurements of a controller that has seen nothing, or only round trip times of \<open>r\<close> ms.
\<close>

definition calm :: "int \<Rightarrow> abr_controller \<Rightarrow> bool" where
  "calm r c \<longleftrightarrow>
     rtt_jitter c = F64 0 \<and> f64_nonpos (rtt_average_delta c) \<and> r \<le> previous_rtt_ms c
     \<and> previous_rtt_ms c \<le> 300
     \<and> rtt_minimum c \<in> {F64 200, F64 (of_int r)}
     \<and> (rtt_average c = F64 0
        \<or> (\<exists>a. rtt_average c = F64 a \<and> 95 / 100 * of_int r \<le> a \<and> a \<le> 105 / 100 * of_int r))"

text \<open>A sample of a steady link that is far from congestion.\<close>

definition steady :: "int \<Rightarrow> abr_sample \<Rightarrow> bool" where
  "steady r s \<longleftrightarrow>
     \<not> sm_all_links_down s \<and> sc_ready (sm_srt s) \<and> sc_rtt_ms (sm_srt s) = r \<and> sc_send_buffer_packets (sm_srt s) = 0
     \<and> r \<le> sc_latency_ms (sm_srt s) div 5 \<and> r < sc_latency_ms (sm_srt s) div 3"

definition ordinary_rtt :: "int \<Rightarrow> bool" where
  "ordinary_rtt r \<longleftrightarrow> 1 \<le> r \<and> r \<le> 200 \<and> r \<noteq> 100"

lemma f64_less_nonpos: "f64_nonpos x \<Longrightarrow> 0 < v \<Longrightarrow> f64_less x (F64 v)" "f64_nonpos x \<Longrightarrow> \<not> f64_less (F64 0) x"
  by (cases x; simp)+

lemma rtt_delta_nonpos: "r \<le> p \<Longrightarrow> f64_nonpos (f64_sub (f64_of_u32 r) (f64_of_u32 p))"
  by (simp add: f64_sub_def f64_of_u32_def f64_round_nonpos)

lemma smoothed_nonpos:
  "f64_nonpos x \<Longrightarrow> f64_nonpos y \<Longrightarrow> f64_nonpos (smoothed x (8 / 10) y (2 / 10))"
  unfolding smoothed_def by (intro f64_nonpos_add f64_mul_lit_nonpos) auto

lemma minimum_grows:
  assumes "ordinary_rtt r" "m \<in> {200, of_int r}"
  shows "f64_less (f64_of_u32 r) (f64_mul (F64 m) (lit (1001 / 1000)))"
proof -
  have m: "of_int r \<le> m" "1 \<le> m" "m \<le> 200" using assms by (auto simp: ordinary_rtt_def)
  then obtain y where "f64_mul (F64 m) (lit (1001 / 1000)) = F64 y" "1001 / 1000 * m * (99999 / 100000) \<le> y"
    by (rule_tac f64_mul_lit [of "1001 / 1000" m]) auto
  with m show ?thesis unfolding f64_of_u32_def by simp
qed

lemma lit_hundredth: "\<exists>v. 0 < v \<and> lit (1 / 100) = F64 v"
proof -
  have "(1::rat) / 2 ^ 100 \<le> 1 / 100" "(1::rat) / 100 \<le> 2 ^ 100" by simp_all
  then obtain c where "f64_round (1 / 100) = F64 c" "1 / 100 * (999999 / 1000000) \<le> c"
    by (rule f64_round_coarse)
  then show ?thesis unfolding lit_def by auto
qed

lemma measure_rtt_calm:
  assumes r: "ordinary_rtt r" and calm: "calm r c" and rtt: "sc_rtt_ms srt = r"
  shows "rtt_jitter (measure_rtt srt c) = F64 0" "f64_nonpos (rtt_average_delta (measure_rtt srt c))"
    "previous_rtt_ms (measure_rtt srt c) = r" "rtt_minimum (measure_rtt srt c) = F64 (of_int r)"
    "\<exists>a. rtt_average (measure_rtt srt c) = F64 a \<and> 95 / 100 * of_int r \<le> a \<and> a \<le> 105 / 100 * of_int r"
proof -
  let ?delta = "f64_sub (f64_of_u32 r) (f64_of_u32 (previous_rtt_ms c))"
  have delta: "f64_nonpos ?delta" using calm by (simp add: calm_def rtt_delta_nonpos)
  have zero: "f64_mul (F64 0) (lit (99 / 100)) = F64 0" by (rule f64_mul_lit_zero) auto
  show "rtt_jitter (measure_rtt srt c) = F64 0"
    using calm delta unfolding measure_rtt_def Let_def rtt calm_def by (simp only: zero) (simp add: f64_less_nonpos)
  show avg: "f64_nonpos (rtt_average_delta (measure_rtt srt c))"
    unfolding measure_rtt_def Let_def rtt using calm delta smoothed_nonpos by (simp add: calm_def)
  show "previous_rtt_ms (measure_rtt srt c) = r" by (simp add: measure_rtt_def Let_def rtt)
  obtain m where m: "rtt_minimum c = F64 m" "m \<in> {200, of_int r}" using calm by (auto simp: calm_def)
  have "f64_nonpos (smoothed (rtt_average_delta c) (8 / 10) ?delta (2 / 10))"
    using calm delta by (intro smoothed_nonpos) (simp_all add: calm_def)
  then have "f64_less (smoothed (rtt_average_delta c) (8 / 10) ?delta (2 / 10)) (lit 1)"
    unfolding lit_whole by (rule f64_less_nonpos) simp
  then show "rtt_minimum (measure_rtt srt c) = F64 (of_int r)"
    using minimum_grows [OF r m(2)] r unfolding measure_rtt_def Let_def rtt m(1) ordinary_rtt_def
    by (simp add: f64_of_u32_def)
  consider "rtt_average c = F64 0"
    | a where "rtt_average c = F64 a" "a \<noteq> 0" "95 / 100 * of_int r \<le> a" "a \<le> 105 / 100 * of_int r"
    using calm r by (fastforce simp: calm_def ordinary_rtt_def)
  then show "\<exists>a. rtt_average (measure_rtt srt c) = F64 a \<and> 95 / 100 * of_int r \<le> a \<and> a \<le> 105 / 100 * of_int r"
  proof cases
    case 1
    then show ?thesis using r by (simp add: measure_rtt_def Let_def rtt f64_of_u32_def ordinary_rtt_def)
  next
    case 2
    have "1 \<le> (of_int r :: rat)" "(of_int r :: rat) \<le> 200" using r by (simp_all add: ordinary_rtt_def)
    from smoothed_steady [OF this 2(3,4)] obtain a' where
      a': "smoothed (F64 a) (99 / 100) (F64 (of_int r)) (1 / 100) = F64 a'"
      "95 / 100 * of_int r \<le> a'" "a' \<le> 105 / 100 * of_int r" .
    have "rtt_average (measure_rtt srt c) = F64 a'"
      using 2(1,2) a'(1) unfolding measure_rtt_def Let_def rtt f64_of_u32_def by simp
    with a' show ?thesis by blast
  qed
qed

text \<open>What the queue measurement and the thresholds leave alone.\<close>

lemma calm_cong:
  assumes "rtt_jitter c = rtt_jitter d" "rtt_average_delta c = rtt_average_delta d"
    "previous_rtt_ms c = previous_rtt_ms d" "rtt_minimum c = rtt_minimum d" "rtt_average c = rtt_average d"
  shows "calm r c = calm r d"
  using assms by (simp add: calm_def)

definition rtt_part :: "abr_sample \<Rightarrow> abr_controller \<Rightarrow> abr_controller" where
  "rtt_part s c =
     measure_rtt (sm_srt s) (measure_queue (sm_srt s) (c\<lparr>last_srt_sample_ms := Some (sc_sampled_at_ms (sm_srt s))\<rparr>))"

lemma measured_rtt_fields:
  "rtt_jitter (measured s c) = rtt_jitter (rtt_part s c)"
  "rtt_average_delta (measured s c) = rtt_average_delta (rtt_part s c)"
  "previous_rtt_ms (measured s c) = previous_rtt_ms (rtt_part s c)"
  "rtt_minimum (measured s c) = rtt_minimum (rtt_part s c)" "rtt_average (measured s c) = rtt_average (rtt_part s c)"
  by (simp_all add: measured_def rtt_part_def update_thresholds_def update_measurements_def Let_def)

lemma measured_thresholds:
  "rtt_decrease_above_ms (measured s c) = to_u32 (f64_add (rtt_average (rtt_part s c))
     (f64_max (f64_mul (rtt_jitter (rtt_part s c)) (lit 4)) (f64_mul (rtt_average (rtt_part s c)) (lit (15 / 100)))))"
  "rtt_increase_below_ms (measured s c) = to_u32 (f64_add (rtt_minimum (rtt_part s c))
     (f64_max (lit 1) (f64_mul (rtt_jitter (rtt_part s c)) (lit 2))))"
  unfolding measured_def rtt_part_def update_thresholds_def update_measurements_def Let_def by simp_all

lemma measured_calm:
  assumes r: "ordinary_rtt r" and "calm r c" and s: "steady r s"
  shows "calm r (measured s c)" "may_increase (sm_srt s) (measured s c)"
    "\<not> severe_congestion (sm_srt s) (measured s c)" "\<not> heavy_congestion (sm_srt s) (measured s c)" "\<not> light_congestion (sm_srt s) (measured s c)"
proof -
  let ?srt = "sm_srt s" and ?c = "measure_queue (sm_srt s) (c\<lparr>last_srt_sample_ms := Some (sc_sampled_at_ms (sm_srt s))\<rparr>)"
  have "calm r ?c = calm r c" by (rule calm_cong) (simp_all add: measure_queue_def Let_def)
  with assms have "calm r ?c" by simp
  moreover have rtt: "sc_rtt_ms ?srt = r" using s by (simp add: steady_def)
  ultimately have
    m: "rtt_jitter (rtt_part s c) = F64 0" "f64_nonpos (rtt_average_delta (rtt_part s c))"
      "previous_rtt_ms (rtt_part s c) = r" "rtt_minimum (rtt_part s c) = F64 (of_int r)"
      "\<exists>a. rtt_average (rtt_part s c) = F64 a \<and> 95 / 100 * of_int r \<le> a \<and> a \<le> 105 / 100 * of_int r"
    unfolding rtt_part_def using measure_rtt_calm [OF r] by blast+
  show "calm r (measured s c)"
    unfolding calm_def measured_rtt_fields using m r by (auto simp: ordinary_rtt_def)
  have r': "1 \<le> r" "r \<le> 200" using r by (simp_all add: ordinary_rtt_def)
  have zero: "f64_mul (F64 0) (lit 2) = F64 0" "f64_mul (F64 0) (lit 4) = F64 0" by simp_all
  have "rtt_increase_below_ms (measured s c) = r + 1"
    unfolding measured_thresholds m zero lit_whole(1) by (rule increase_threshold_steady [OF r'])
  moreover obtain v where "lit (1 / 100) = F64 v" "0 < v" using lit_hundredth by blast
  ultimately show "may_increase ?srt (measured s c)"
    using f64_less_nonpos(1) [OF m(2)] by (simp add: may_increase_def rtt measured_rtt_fields)
  obtain a where a: "rtt_average (rtt_part s c) = F64 a" "95 / 100 * of_int r \<le> a" "a \<le> 105 / 100 * of_int r"
    using m(5) by blast
  have "r \<le> rtt_decrease_above_ms (measured s c)"
    unfolding measured_thresholds m(1) a(1) zero by (rule decrease_threshold_steady [OF r' a(2,3)])
  moreover have "0 \<le> queue_light_packets (measured s c)" "0 \<le> queue_heavy_packets (measured s c)"
    "0 \<le> queue_severe_packets (measured s c)"
    by (simp_all add: measured_def update_thresholds_def Let_def to_u32_nonneg)
  ultimately show "\<not> severe_congestion ?srt (measured s c)" "\<not> heavy_congestion ?srt (measured s c)" "\<not> light_congestion ?srt (measured s c)"
    using s by (auto simp: severe_congestion_def heavy_congestion_def light_congestion_def steady_def)
qed

section \<open>The climb\<close>

text \<open>Samples more than 500 ms apart, the first after time \<open>t\<close>, each with newer SRT data than the last.\<close>

fun paced :: "int \<Rightarrow> int \<Rightarrow> abr_sample list \<Rightarrow> bool" where
  "paced t u [] = True"
| "paced t u (s # later) =
     (t < sm_now_ms s \<and> u < sc_sampled_at_ms (sm_srt s)
      \<and> paced (sm_now_ms s + 500) (sc_sampled_at_ms (sm_srt s)) later)"

definition climbing :: "int \<Rightarrow> int \<Rightarrow> int \<Rightarrow> abr_controller \<Rightarrow> bool" where
  "climbing r t u c \<longleftrightarrow>
     abr_valid c \<and> calm r c \<and> next_increase_ms c \<le> t
     \<and> (case last_srt_sample_ms c of None \<Rightarrow> True | Some m \<Rightarrow> m \<le> u)"

lemma control_calm:
  assumes "may_increase (sm_srt s) c" "\<not> severe_congestion (sm_srt s) c" "\<not> heavy_congestion (sm_srt s) c" "\<not> light_congestion (sm_srt s) c"
    and "next_increase_ms c < sm_now_ms s"
  shows "control s c = (False, False,
    c\<lparr>internal_bitrate_bps := saturating_add (internal_bitrate_bps c)
        (saturating_add 30000 (internal_bitrate_bps c div 30)),
      next_increase_ms := saturating_add (sm_now_ms s) 500, last_control_state := Increasing\<rparr>)"
  using assms by (simp add: control_def abr_consts Let_def)

lemma climb_step:
  assumes r: "ordinary_rtt r" and c: "climbing r t u c" and s: "steady r s"
    and t: "t < sm_now_ms s" and u: "u < sc_sampled_at_ms (sm_srt s)"
  shows "climbing r (sm_now_ms s + 500) (sc_sampled_at_ms (sm_srt s)) (snd (decide s c))"
    "min (max_bps (ac_config c)) (internal_bitrate_bps c + 30000) \<le> internal_bitrate_bps (snd (decide s c))"
    "dn_applied_bps (fst (decide s c)) =
       clamp (rounded_bps (internal_bitrate_bps (snd (decide s c)))) (min_bps (ac_config c)) (max_bps (ac_config c))"
proof -
  from c have v: "abr_valid c" and calm: "calm r c" and n: "next_increase_ms c \<le> t" by (simp_all add: climbing_def)
  have fresh: "fresh s c"
    using c s u r by (auto simp: fresh_def steady_def unusable_def replayed_def climbing_def ordinary_rtt_def split: option.splits)
  let ?b = "internal_bitrate_bps c" and ?m = "measured s c"
  note m = measured_calm [OF r calm s]
  let ?c1 = "?m\<lparr>internal_bitrate_bps := saturating_add ?b (saturating_add 30000 (?b div 30)),
      next_increase_ms := saturating_add (sm_now_ms s) 500, last_control_state := Increasing\<rparr>"
  have ctl: "control s ?m = (False, False, ?c1)"
    using control_calm [OF m(2-5)] n t by simp
  note d = decide_fresh [OF fresh ctl]
  have "calm r (clamp_internal ?c1) = calm r ?m" by (rule calm_cong) (simp_all add: clamp_internal_def)
  then show "climbing r (sm_now_ms s + 500) (sc_sampled_at_ms (sm_srt s)) (snd (decide s c))"
    using abr_apply_valid [OF v, of "Decide s"] m(1) saturating_add_le [of "sm_now_ms s" 500]
    by (simp add: climbing_def d(1))
  have "30000 \<le> saturating_add 30000 (?b div 30)"
    using abr_validD [OF v] by (intro saturating_add_ge) (auto simp: U64_MAX_def)
  then have "min (max_bps (ac_config c)) (?b + 30000) \<le> saturating_add ?b (saturating_add 30000 (?b div 30))"
    using v by (auto simp: saturating_add_def abr_valid_def)
  then show "min (max_bps (ac_config c)) (?b + 30000) \<le> internal_bitrate_bps (snd (decide s c))"
    by (simp add: d(1) clamp_internal_bitrate clamp_def)
  show "dn_applied_bps (fst (decide s c)) =
       clamp (rounded_bps (internal_bitrate_bps (snd (decide s c)))) (min_bps (ac_config c)) (max_bps (ac_config c))"
    by (simp add: d)
qed

lemma climb_run:
  assumes "ordinary_rtt r" "climbing r t u c" "list_all (steady r) ss" "paced t u ss"
  shows "min (max_bps (ac_config c)) (internal_bitrate_bps c + 30000 * int (length ss))
    \<le> internal_bitrate_bps (fold (\<lambda>s c. snd (decide s c)) ss c)"
  using assms
proof (induction ss arbitrary: t u c)
  case Nil
  then show ?case by (auto simp: climbing_def dest: abr_validD)
next
  case (Cons s ss)
  note one = climb_step [OF Cons.prems(1,2), of s]
  have "steady r s" "t < sm_now_ms s" "u < sc_sampled_at_ms (sm_srt s)" using Cons.prems by simp_all
  note one = one [OF this]
  from Cons.IH [OF Cons.prems(1) one(1)] Cons.prems(3,4) one(2) show ?case by (auto simp: algebra_simps)
qed

lemma abr_after_valid:
  "0 \<le> min_bps cfg \<Longrightarrow> max_bps cfg \<le> U64_MAX \<Longrightarrow> list_all u64_op ops \<Longrightarrow> abr_valid (abr_after cfg ops)"
proof (induction ops)
  case Nil
  then show ?case
    using new_controller_ok [of cfg]
    by (auto simp: abr_valid_def new_controller_def normalized_def Let_def ROUNDING_BPS_def U64_MAX_def)
next
  case (Cons op ops)
  then show ?case by (simp add: abr_apply_valid)
qed

lemma reset_climbing:
  assumes "abr_valid c" "ordinary_rtt r"
  shows "climbing r 0 (- 1) (reset_for_bitrate b c)"
  using abr_apply_valid [OF assms(1), of "Reset b"] assms(2)
  by (simp add: climbing_def calm_def ordinary_rtt_def) (simp add: reset_for_bitrate_def)

lemma fold_decide_config: "ac_config (fold (\<lambda>s c. snd (decide s c)) ss c) = ac_config c"
  by (induction ss arbitrary: c) simp_all

lemma fold_decide_valid: "abr_valid c \<Longrightarrow> abr_valid (fold (\<lambda>s c. snd (decide s c)) ss c)"
proof (induction ss arbitrary: c)
  case (Cons s ss)
  with abr_apply_valid [OF Cons.prems, of "Decide s"] show ?case by simp
qed simp

lemma reset_config [simp]: "ac_config (reset_for_bitrate b c) = ac_config c"
  by (simp add: reset_for_bitrate_def)



end
