(* ===== verification/Srtla_Engine.thy ===== *)
theory Srtla_Engine
  imports Abr_Recovery
begin

text \<open>
  The engine behind the C interface of \<^verbatim>\<open>engine/include/srtla_engine.h\<close> (\<^verbatim>\<open>engine/src/lib.rs\<close>): links,
  datagram queues, session state, statistics and bitrate control. Each exported function is a
  function on the engine its handle refers to, \<open>None\<close> being a null handle. The embedded SRTLA sender and
  the JSON reader are libraries: the sender has a state of type \<open>'r\<close> and the operations of \<open>runner_api\<close>,
  and functions that take JSON text take what the reader makes of it.
\<close>

section \<open>Data\<close>

record engine_link =
  el_id :: int
  el_label :: string
  el_address :: string
  el_enabled :: bool
  el_connected :: bool
  el_capacity_ready :: bool
  el_payload_eligible :: bool
  el_target_bps :: int
  el_quality_percent :: int
  el_rtt_ms :: int
  el_loss_permille :: int
  el_nak_count :: int
  el_used_bps :: int
  el_delivered_bps :: int
  el_state :: string
  el_cc_state :: string
  el_stall_gate_events :: int
  el_exclusion_reason :: string

record engine_settings =
  es_receiver_host :: string
  es_receiver_port :: int
  es_stream_id :: string
  es_latency_ms :: int
  es_passphrase :: string
  es_pbkeylen :: int
  es_scheduler :: string
  es_links :: "engine_link list"
  es_abr :: "abr_config option"
  es_audio_bps :: int

record transport_stats =
  ts_sampled_at_ms :: int
  ts_bandwidth_bps :: int
  ts_send_rate_bps :: int
  ts_sent_unique_bytes :: int
  ts_retransmitted_bytes :: int
  ts_dropped_bytes :: int
  ts_send_buffer_ms :: int
  ts_send_buffer_packets :: int
  ts_packets_in_flight :: int
  ts_rtt_ms :: int
  ts_latency_ms :: int
  ts_sender_loss_packets :: int

definition no_stats :: transport_stats where
  "no_stats = \<lparr>ts_sampled_at_ms = 0, ts_bandwidth_bps = 0, ts_send_rate_bps = 0, ts_sent_unique_bytes = 0,
     ts_retransmitted_bytes = 0, ts_dropped_bytes = 0, ts_send_buffer_ms = 0, ts_send_buffer_packets = 0,
     ts_packets_in_flight = 0, ts_rtt_ms = 0, ts_latency_ms = 0, ts_sender_loss_packets = 0\<rparr>"

definition retransmit_permille :: "transport_stats \<Rightarrow> int" where
  "retransmit_permille st =
     (if ts_retransmitted_bytes st = 0 then 0
      else min 1000 (ts_retransmitted_bytes st * 1000 div max 1 (ts_sent_unique_bytes st)))"

definition no_decision :: abr_decision where
  "no_decision = \<lparr>dn_link_capacity_bps = 0, dn_srt_capacity_bps = 0, dn_estimated_capacity_bps = 0,
     dn_media_budget_bps = 0, dn_recommended_bps = 0, dn_applied_bps = 0, dn_changed = False, dn_emergency = False,
     dn_srt_limited = False, dn_transport_stressed = False, dn_control_state = [], dn_queue_light_packets = 0,
     dn_queue_heavy_packets = 0, dn_queue_severe_packets = 0, dn_rtt_increase_below_ms = 0,
     dn_rtt_decrease_above_ms = 0\<rparr>"

definition SESSION_IDLE :: nat where "SESSION_IDLE = 0"
definition SESSION_CONNECTING :: nat where "SESSION_CONNECTING = 1"
definition SESSION_CONNECTED :: nat where "SESSION_CONNECTED = 2"
definition SESSION_RECONNECTING :: nat where "SESSION_RECONNECTING = 3"
definition SESSION_FATAL :: nat where "SESSION_FATAL = 4"
definition SESSION_STOPPED :: nat where "SESSION_STOPPED = 5"
definition SRT_STATS_MAX_AGE_MS :: int where "SRT_STATS_MAX_AGE_MS = 200"
definition ENGINE_INPUT_CAPACITY :: nat where "ENGINE_INPUT_CAPACITY = 1024"
definition ENGINE_OUTPUT_CAPACITY :: nat where "ENGINE_OUTPUT_CAPACITY = 256"

lemmas session_consts = SESSION_IDLE_def SESSION_CONNECTING_def SESSION_CONNECTED_def SESSION_RECONNECTING_def
  SESSION_FATAL_def SESSION_STOPPED_def

section \<open>Datagram queues\<close>

record datagram_queue =
  dq_packets :: "byte list list"
  dq_capacity :: nat
  dq_closed :: bool

definition new_queue :: "nat \<Rightarrow> datagram_queue" where
  "new_queue capacity = \<lparr>dq_packets = [], dq_capacity = capacity, dq_closed = False\<rparr>"

definition queue_push :: "byte list \<Rightarrow> datagram_queue \<Rightarrow> bool \<times> datagram_queue" where
  "queue_push packet q =
     (if dq_closed q then (False, q)
      else if dq_capacity q \<le> length (dq_packets q) then (False, q)
      else (True, q\<lparr>dq_packets := dq_packets q @ [packet]\<rparr>))"

text \<open>
  Every access holds the lock of the engine, so waiting in \<^verbatim>\<open>pop\<close> does not change the queue.
\<close>

definition queue_pop :: "datagram_queue \<Rightarrow> byte list option \<times> datagram_queue" where
  "queue_pop q =
     (case dq_packets q of
        [] \<Rightarrow> (None, q)
      | packet # rest \<Rightarrow> (Some packet, q\<lparr>dq_packets := rest\<rparr>))"

definition front_len :: "datagram_queue \<Rightarrow> nat option" where
  "front_len q = (case dq_packets q of [] \<Rightarrow> None | packet # rest \<Rightarrow> Some (length packet))"

definition queue_close :: "datagram_queue \<Rightarrow> datagram_queue" where
  "queue_close q = q\<lparr>dq_closed := True\<rparr>"

definition queue_reopen :: "datagram_queue \<Rightarrow> datagram_queue" where
  "queue_reopen q = q\<lparr>dq_closed := False, dq_packets := []\<rparr>"

section \<open>The embedded sender\<close>

record runner_link =
  rl_ip :: string
  rl_connected :: bool
  rl_timed_out :: bool
  rl_admin_enabled :: bool
  rl_payload_eligible :: bool
  rl_capacity_ready :: bool
  rl_cc_target_bps :: int
  rl_quality_multiplier :: f64
  rl_rtt_ms :: int
  rl_bitrate_bytes_per_sec :: int
  rl_delivered_bps :: int
  rl_cc_state :: string
  rl_stall_gated :: bool
  rl_stall_gate_events :: int
  rl_weak_reason :: string
  rl_cc_loss_degraded :: bool
  rl_cc_loss_permille :: int
  rl_nak_count :: int

record runner_stats =
  rs_links :: "runner_link list"
  rs_state :: string
  rs_error :: string

record embedded_link =
  em_id :: int
  em_label :: string
  em_address :: string
  em_enabled :: bool

record runner_config =
  rc_receiver_host :: string
  rc_receiver_port :: int
  rc_links :: "embedded_link list"
  rc_scheduler_classic :: bool

datatype submit_result = SubmitOk | SubmitBackpressure | SubmitStopped

text \<open>
  \<open>ra_is_ip\<close> tells whether a text is an IP address; \<open>ra_stats\<close> is \<open>None\<close> when the statistics text of the
  sender cannot be read.
\<close>

record 'r runner_api =
  ra_is_ip :: "string \<Rightarrow> bool"
  ra_start :: "runner_config \<Rightarrow> 'r"
  ra_stats :: "'r \<Rightarrow> runner_stats option"
  ra_submit :: "byte list \<Rightarrow> 'r \<Rightarrow> submit_result \<times> 'r"
  ra_receive :: "nat \<Rightarrow> 'r \<Rightarrow> byte list option \<times> 'r"
  ra_set_link :: "int \<Rightarrow> bool \<Rightarrow> 'r \<Rightarrow> bool \<times> 'r"
  ra_update_links :: "embedded_link list \<Rightarrow> 'r \<Rightarrow> bool \<times> 'r"

record 'r engine =
  en_config :: engine_settings
  en_input :: datagram_queue
  en_output :: datagram_queue
  en_running :: bool
  en_abr :: abr_controller
  en_current_video_bps :: int
  en_audio_bps :: int
  en_last_error :: string
  en_session_state :: nat
  en_session_error :: string
  en_srt_stats :: transport_stats
  en_last_decision :: abr_decision
  en_runner :: "'r option"

definition set_links :: "engine_link list \<Rightarrow> 'r engine \<Rightarrow> 'r engine" where
  "set_links links e = e\<lparr>en_config := (en_config e)\<lparr>es_links := links\<rparr>\<rparr>"

definition links_of :: "'r engine \<Rightarrow> engine_link list" where
  "links_of e = es_links (en_config e)"

text \<open>\<^verbatim>\<open>iter_mut().find(p)\<close>: the first element that satisfies \<open>p\<close> is changed.\<close>

fun update_first :: "('a \<Rightarrow> bool) \<Rightarrow> ('a \<Rightarrow> 'a) \<Rightarrow> 'a list \<Rightarrow> 'a list" where
  "update_first p f [] = []"
| "update_first p f (x # xs) = (if p x then f x # xs else x # update_first p f xs)"

definition ascii_lower :: "char \<Rightarrow> char" where
  "ascii_lower c = (if 65 \<le> (of_char c :: nat) \<and> of_char c \<le> (90::nat) then char_of (of_char c + (32::nat)) else c)"

definition eq_ignore_ascii_case :: "string \<Rightarrow> string \<Rightarrow> bool" where
  "eq_ignore_ascii_case a b \<longleftrightarrow> map ascii_lower a = map ascii_lower b"

text \<open>\<^verbatim>\<open>CString::new(text).unwrap_or_else(...)\<close>: a text with a NUL is replaced.\<close>

definition cstring_or :: "string \<Rightarrow> string \<Rightarrow> string" where
  "cstring_or fallback text = (if CHR 0x00 \<in> set text then fallback else text)"

definition embedded_links :: "'r runner_api \<Rightarrow> engine_link list \<Rightarrow> embedded_link list" where
  "embedded_links api links =
     map (\<lambda>l. \<lparr>em_id = el_id l, em_label = el_label l, em_address = el_address l, em_enabled = el_enabled l\<rparr>)
       (filter (\<lambda>l. ra_is_ip api (el_address l)) links)"

definition start_runner :: "'r runner_api \<Rightarrow> 'r engine \<Rightarrow> 'r engine" where
  "start_runner api e =
     e\<lparr>en_runner := Some (ra_start api
        \<lparr>rc_receiver_host = es_receiver_host (en_config e), rc_receiver_port = es_receiver_port (en_config e),
         rc_links = embedded_links api (links_of e),
         rc_scheduler_classic = eq_ignore_ascii_case (es_scheduler (en_config e)) ''classic''\<rparr>)\<rparr>"

definition has_address :: "'r runner_api \<Rightarrow> 'r engine \<Rightarrow> bool" where
  "has_address api e \<longleftrightarrow> list_ex (\<lambda>l. ra_is_ip api (el_address l)) (links_of e)"

section \<open>Statistics of the embedded sender\<close>

text \<open>\<^verbatim>\<open>(q.clamp(0.0, 1.0) * 100.0) as u8\<close>.\<close>

definition quality_percent :: "f64 \<Rightarrow> int" where
  "quality_percent q =
     (let clamped = (if f64_less q (F64 0) then F64 0 else if f64_less (F64 1) q then F64 1 else q)
      in min 255 (to_u32 (f64_mul clamped (lit 100))))"

definition link_state :: "runner_link \<Rightarrow> engine_link \<Rightarrow> string" where
  "link_state u l =
     (if \<not> el_enabled l then ''Standby''
      else if \<not> el_connected l then ''Offline''
      else if rl_stall_gated u then ''Stalled''
      else if \<not> rl_capacity_ready u then ''Warming''
      else if rl_cc_state u = ''backing_off'' \<or> rl_cc_loss_degraded u then ''Degraded''
      else ''Live'')"

definition exclusion_reason :: "runner_link \<Rightarrow> string" where
  "exclusion_reason u =
     (if rl_payload_eligible u then []
      else if rl_stall_gated u then ''stalled''
      else if rl_cc_loss_degraded u then ''sustained loss''
      else if rl_weak_reason u \<noteq> [] then rl_weak_reason u
      else ''scheduler'')"

definition sync_link :: "runner_link \<Rightarrow> engine_link \<Rightarrow> engine_link" where
  "sync_link u l =
     (let l = l\<lparr>el_connected := rl_connected u \<and> \<not> rl_timed_out u, el_capacity_ready := rl_capacity_ready u,
          el_target_bps := rl_cc_target_bps u, el_quality_percent := quality_percent (rl_quality_multiplier u),
          el_rtt_ms := rl_rtt_ms u, el_loss_permille := rl_cc_loss_permille u, el_nak_count := max 0 (rl_nak_count u),
          el_used_bps := rl_bitrate_bytes_per_sec u * 8, el_delivered_bps := rl_delivered_bps u\<rparr>
      in l\<lparr>el_state := link_state u l, el_cc_state := rl_cc_state u, el_stall_gate_events := rl_stall_gate_events u,
           el_exclusion_reason := exclusion_reason u, el_enabled := rl_admin_enabled u, el_address := rl_ip u,
           el_payload_eligible := rl_payload_eligible u\<rparr>)"

definition sync_runner_stats :: "'r runner_api \<Rightarrow> 'r engine \<Rightarrow> 'r engine" where
  "sync_runner_stats api e =
     (case en_runner e of
        None \<Rightarrow> e
      | Some runner \<Rightarrow>
          (case ra_stats api runner of
             None \<Rightarrow> e
           | Some stats \<Rightarrow>
               let e = (if eq_ignore_ascii_case (rs_state stats) ''error''
                        then e\<lparr>en_last_error := cstring_or ''embedded runner error'' (rs_error stats)\<rparr> else e)
               in set_links (fold (\<lambda>u. update_first (\<lambda>l. el_address l = rl_ip u) (sync_link u)) (rs_links stats)
                    (links_of e)) e))"

section \<open>Life cycle\<close>

text \<open>\<open>config\<close> is the parsed text, \<open>None\<close> when it cannot be read; a null text is the empty configuration.\<close>

definition empty_settings :: engine_settings where
  "empty_settings = \<lparr>es_receiver_host = [], es_receiver_port = 0, es_stream_id = [], es_latency_ms = 0, es_passphrase = [],
     es_pbkeylen = 0, es_scheduler = [], es_links = [], es_abr = None, es_audio_bps = 0\<rparr>"

definition new_engine :: "engine_settings \<Rightarrow> 'r engine" where
  "new_engine config =
     (let abr = new_controller (case es_abr config of None \<Rightarrow> default_abr_config | Some a \<Rightarrow> a)
      in \<lparr>en_config = config, en_input = new_queue ENGINE_INPUT_CAPACITY, en_output = new_queue ENGINE_OUTPUT_CAPACITY,
          en_running = False, en_abr = abr, en_current_video_bps = start_bps (ac_config abr),
          en_audio_bps = es_audio_bps config, en_last_error = [], en_session_state = SESSION_IDLE,
          en_session_error = [], en_srt_stats = no_stats, en_last_decision = no_decision, en_runner = None\<rparr>)"

definition srtla_engine_create :: "(string \<Rightarrow> engine_settings option) \<Rightarrow> string option \<Rightarrow> 'r engine option" where
  "srtla_engine_create parse config_json =
     (case config_json of
        None \<Rightarrow> Some (new_engine empty_settings)
      | Some text \<Rightarrow> map_option new_engine (parse text))"

definition srtla_engine_start :: "'r runner_api \<Rightarrow> 'r engine \<Rightarrow> int \<times> 'r engine" where
  "srtla_engine_start api e =
     (let e = e\<lparr>en_input := queue_reopen (en_input e), en_output := queue_reopen (en_output e), en_last_error := [],
                en_session_state := SESSION_IDLE, en_session_error := [], en_srt_stats := no_stats,
                en_last_decision := no_decision, en_abr := reset_for_bitrate (en_current_video_bps e) (en_abr e)\<rparr>;
          e = (if en_runner e = None \<and> has_address api e then start_runner api e else e)
      in (0, e\<lparr>en_running := True\<rparr>))"

definition srtla_engine_stop :: "'r engine \<Rightarrow> int \<times> 'r engine" where
  "srtla_engine_stop e =
     (0, e\<lparr>en_running := False, en_session_state := SESSION_STOPPED, en_session_error := [], en_srt_stats := no_stats,
           en_last_decision := no_decision, en_input := queue_close (en_input e), en_output := queue_close (en_output e),
           en_runner := None\<rparr>)"

definition srtla_engine_destroy :: "'r engine option \<Rightarrow> 'r engine option" where
  "srtla_engine_destroy handle = None"

section \<open>Datagrams\<close>

definition srtla_engine_submit_srt_datagram :: "'r runner_api \<Rightarrow> byte list \<Rightarrow> 'r engine \<Rightarrow> int \<times> 'r engine" where
  "srtla_engine_submit_srt_datagram api packet e =
     (if packet = [] then (- 1, e)
      else if \<not> en_running e then (- 4, e\<lparr>en_last_error := ''engine is not running''\<rparr>)
      else
        (case en_runner e of
           None \<Rightarrow>
             let (ok, q) = queue_push packet (en_input e); e = e\<lparr>en_input := q\<rparr>
             in if ok then (0, e\<lparr>en_last_error := []\<rparr>)
                else (- 2, e\<lparr>en_last_error := ''input queue backpressure''\<rparr>)
         | Some runner \<Rightarrow>
             let (result, runner) = ra_submit api packet runner; e = e\<lparr>en_runner := Some runner\<rparr>
             in (case result of
                   SubmitOk \<Rightarrow> (0, e\<lparr>en_last_error := []\<rparr>)
                 | SubmitBackpressure \<Rightarrow> (- 2, e\<lparr>en_last_error := ''input queue backpressure''\<rparr>)
                 | SubmitStopped \<Rightarrow> (- 4, e\<lparr>en_last_error := ''embedded runner stopped''\<rparr>))))"

text \<open>The result, the bytes written to the caller's buffer and the engine.\<close>

definition srtla_engine_receive_srt_datagram ::
    "'r runner_api \<Rightarrow> nat \<Rightarrow> nat \<Rightarrow> 'r engine \<Rightarrow> int \<times> byte list \<times> 'r engine" where
  "srtla_engine_receive_srt_datagram api capacity timeout_ms e =
     (if capacity = 0 then (- 1, [], e)
      else if \<not> en_running e then (0, [], e)
      else
        (case en_runner e of
           None \<Rightarrow>
             if (case front_len (en_output e) of None \<Rightarrow> False | Some len \<Rightarrow> capacity < len)
             then (- 3, [], e\<lparr>en_last_error := ''receive buffer too small''\<rparr>)
             else
               let (packet, q) = queue_pop (en_output e); e = e\<lparr>en_output := q\<rparr>
               in (case packet of None \<Rightarrow> (0, [], e) | Some p \<Rightarrow> (int (length p), p, e))
         | Some runner \<Rightarrow>
             let (packet, runner) = ra_receive api timeout_ms runner; e = e\<lparr>en_runner := Some runner\<rparr>
             in (case packet of
                   None \<Rightarrow> (0, [], e)
                 | Some p \<Rightarrow>
                     if capacity < length p then (- 3, [], e\<lparr>en_last_error := ''receive buffer too small''\<rparr>)
                     else (int (length p), p, e))))"

section \<open>Links\<close>

definition has_link :: "int \<Rightarrow> 'r engine \<Rightarrow> bool" where
  "has_link link_id e \<longleftrightarrow> list_ex (\<lambda>l. el_id l = link_id) (links_of e)"

definition enabled_count :: "'r engine \<Rightarrow> nat" where
  "enabled_count e = length (filter el_enabled (links_of e))"

text \<open>\<^verbatim>\<open>links.iter().find(|link| link.id == link_id).is_some_and(|link| link.enabled)\<close>.\<close>

definition link_enabled :: "int \<Rightarrow> 'r engine \<Rightarrow> bool" where
  "link_enabled link_id e = (case find (\<lambda>l. el_id l = link_id) (links_of e) of None \<Rightarrow> False | Some l \<Rightarrow> el_enabled l)"

definition switch_link :: "bool \<Rightarrow> engine_link \<Rightarrow> engine_link" where
  "switch_link enabled l =
     (let l = (if enabled \<and> \<not> el_enabled l
               then l\<lparr>el_capacity_ready := False, el_target_bps := 0, el_delivered_bps := 0, el_quality_percent := 0,
                      el_state := ''Warming''\<rparr> else l);
          l = (if \<not> enabled
               then l\<lparr>el_capacity_ready := False, el_delivered_bps := 0, el_state := ''Standby''\<rparr> else l)
      in l\<lparr>el_enabled := enabled\<rparr>)"

text \<open>The lazy start of the sender, shared by the two functions that change the links.\<close>

definition ensure_runner :: "'r runner_api \<Rightarrow> 'r engine \<Rightarrow> 'r engine" where
  "ensure_runner api e =
     (if en_running e \<and> en_runner e = None \<and> has_address api e then start_runner api e else e)"

definition srtla_engine_set_link_enabled ::
    "'r runner_api \<Rightarrow> int \<Rightarrow> bool \<Rightarrow> 'r engine \<Rightarrow> int \<times> 'r engine" where
  "srtla_engine_set_link_enabled api link_id enabled e =
     (if \<not> has_link link_id e then (- 2, e)
      else if en_running e \<and> \<not> enabled \<and> link_enabled link_id e \<and> enabled_count e \<le> 1 then (- 3, e)
      else
        let e = set_links (update_first (\<lambda>l. el_id l = link_id) (switch_link enabled) (links_of e)) e;
            e = ensure_runner api e
        in (case en_runner e of
              None \<Rightarrow> (0, e)
            | Some runner \<Rightarrow>
                let (ok, runner) = ra_set_link api link_id enabled runner; e = e\<lparr>en_runner := Some runner\<rparr>
                in if ok then (0, e) else (- 2, e\<lparr>en_last_error := ''link control queue backpressure''\<rparr>)))"

text \<open>\<open>parsed\<close> is the list of adapters, \<open>None\<close> when the text has neither of the two forms.\<close>

definition merge_adapters :: "engine_link list \<Rightarrow> engine_link list \<Rightarrow> engine_link list" where
  "merge_adapters old links =
     map (\<lambda>l. l\<lparr>el_enabled := (case find (\<lambda>o'. el_id o' = el_id l) old of None \<Rightarrow> False | Some o' \<Rightarrow> el_enabled o')\<rparr>) links"

definition srtla_engine_update_adapters ::
    "'r runner_api \<Rightarrow> engine_link list option \<Rightarrow> 'r engine \<Rightarrow> int \<times> 'r engine" where
  "srtla_engine_update_adapters api parsed e =
     (case parsed of
        None \<Rightarrow> (- 2, e\<lparr>en_last_error := ''invalid adapter JSON''\<rparr>)
      | Some links \<Rightarrow>
          let e = ensure_runner api (set_links (merge_adapters (links_of e) links) e)
          in (case en_runner e of
                None \<Rightarrow> (0, e)
              | Some runner \<Rightarrow>
                  let (ok, runner) = ra_update_links api (embedded_links api (links_of e)) runner;
                      e = e\<lparr>en_runner := Some runner\<rparr>
                  in if ok then (0, e) else (- 2, e\<lparr>en_last_error := ''adapter update queue backpressure''\<rparr>)))"

record link_stats_update =
  lu_id :: int
  lu_connected :: bool
  lu_payload_eligible :: bool
  lu_capacity_ready :: bool
  lu_target_bps :: int
  lu_quality_percent :: int
  lu_rtt_ms :: int
  lu_loss_permille :: int
  lu_nak_count :: int
  lu_used_bps :: int
  lu_delivered_bps :: int
  lu_state :: string

definition apply_link_stats :: "link_stats_update \<Rightarrow> engine_link \<Rightarrow> engine_link" where
  "apply_link_stats u l =
     l\<lparr>el_connected := lu_connected u, el_payload_eligible := lu_payload_eligible u,
       el_capacity_ready := lu_capacity_ready u, el_target_bps := lu_target_bps u,
       el_quality_percent := lu_quality_percent u, el_rtt_ms := lu_rtt_ms u, el_loss_permille := lu_loss_permille u,
       el_nak_count := lu_nak_count u, el_used_bps := lu_used_bps u, el_delivered_bps := lu_delivered_bps u,
       el_state := lu_state u\<rparr>"

definition srtla_engine_update_link_stats :: "link_stats_update list option \<Rightarrow> 'r engine \<Rightarrow> int \<times> 'r engine" where
  "srtla_engine_update_link_stats parsed e =
     (case parsed of
        None \<Rightarrow> (- 2, e\<lparr>en_last_error := ''invalid link stats JSON''\<rparr>)
      | Some updates \<Rightarrow>
          (0, set_links (fold (\<lambda>u. update_first (\<lambda>l. el_id l = lu_id u) (apply_link_stats u)) updates (links_of e)) e))"

section \<open>Session and bitrate\<close>

text \<open>\<open>struct_size\<close> is the size the caller states, 88 the size of the structure.\<close>

definition srtla_engine_update_srt_stats :: "nat \<Rightarrow> transport_stats \<Rightarrow> 'r engine \<Rightarrow> int \<times> 'r engine" where
  "srtla_engine_update_srt_stats struct_size stats e =
     (if struct_size < 88 then (- 1, e) else (0, e\<lparr>en_srt_stats := stats\<rparr>))"

definition srtla_engine_set_audio_bitrate :: "int \<Rightarrow> 'r engine \<Rightarrow> int \<times> 'r engine" where
  "srtla_engine_set_audio_bitrate audio_bps e = (0, e\<lparr>en_audio_bps := audio_bps\<rparr>)"

definition srtla_engine_set_video_bitrate :: "int \<Rightarrow> 'r engine \<Rightarrow> int \<times> 'r engine" where
  "srtla_engine_set_video_bitrate video_bps e =
     (0, e\<lparr>en_current_video_bps := max video_bps 1, en_abr := snd (set_current_bps video_bps (en_abr e)),
           en_last_decision := no_decision\<rparr>)"

definition srtla_engine_set_max_video_bitrate :: "int \<Rightarrow> 'r engine \<Rightarrow> int \<times> 'r engine" where
  "srtla_engine_set_max_video_bitrate max_video_bps e =
     (if max_video_bps = 0 then (- 1, e)
      else (0, e\<lparr>en_abr := snd (set_max_bps max_video_bps (en_abr e)), en_last_decision := no_decision\<rparr>))"

definition srtla_engine_set_session_state :: "nat \<Rightarrow> string option \<Rightarrow> 'r engine \<Rightarrow> int \<times> 'r engine" where
  "srtla_engine_set_session_state state error e =
     (if SESSION_STOPPED < state then (- 1, e)
      else
        let previous_state = en_session_state e;
            e = e\<lparr>en_session_state := state\<rparr>;
            e = (if state \<noteq> SESSION_CONNECTED then e\<lparr>en_srt_stats := no_stats, en_last_decision := no_decision\<rparr> else e);
            e = (if previous_state \<noteq> state
                 then e\<lparr>en_abr := reset_for_bitrate (en_current_video_bps e) (en_abr e)\<rparr> else e);
            e = e\<lparr>en_session_error := (case error of None \<Rightarrow> [] | Some text \<Rightarrow> text)\<rparr>;
            e = (if state = SESSION_FATAL
                 then e\<lparr>en_last_error := cstring_or ''SRT session failure'' (en_session_error e)\<rparr> else e)
        in (0, e))"

definition abr_sample_of :: "int \<Rightarrow> 'r engine \<Rightarrow> abr_sample" where
  "abr_sample_of now_ms e =
     (let links = map (\<lambda>l. \<lparr>lc_enabled = el_enabled l, lc_payload_eligible = el_payload_eligible l,
             lc_capacity_ready = el_capacity_ready l, lc_target_bps = el_target_bps l,
             lc_delivered_bps = el_delivered_bps l\<rparr>) (links_of e);
          st = en_srt_stats e
      in \<lparr>sm_links = links, sm_audio_bps = en_audio_bps e, sm_current_video_bps = en_current_video_bps e,
          sm_now_ms = now_ms,
          sm_capacity_ready = list_ex (\<lambda>l. lc_enabled l \<and> lc_payload_eligible l \<and> lc_capacity_ready l) links,
          sm_all_links_down = (en_session_state e \<noteq> SESSION_CONNECTED
            \<or> \<not> list_ex (\<lambda>l. el_enabled l \<and> el_connected l) (links_of e)),
          sm_srt = \<lparr>sc_ready = (en_session_state e = SESSION_CONNECTED
              \<and> saturating_sub now_ms (ts_sampled_at_ms st) \<le> SRT_STATS_MAX_AGE_MS),
            sc_sampled_at_ms = ts_sampled_at_ms st, sc_bandwidth_bps = ts_bandwidth_bps st,
            sc_send_rate_bps = ts_send_rate_bps st, sc_send_buffer_ms = ts_send_buffer_ms st,
            sc_send_buffer_packets = ts_send_buffer_packets st, sc_rtt_ms = ts_rtt_ms st,
            sc_latency_ms = (if 0 < ts_latency_ms st then ts_latency_ms st else max (es_latency_ms (en_config e)) 1),
            sc_retransmit_permille = retransmit_permille st, sc_dropped_bytes = ts_dropped_bytes st\<rparr>\<rparr>)"

definition apply_abr :: "int \<Rightarrow> 'r engine \<Rightarrow> abr_decision \<times> 'r engine" where
  "apply_abr now_ms e =
     (let (d, c) = decide (abr_sample_of now_ms e) (en_abr e)
      in (d, e\<lparr>en_abr := c, en_current_video_bps := dn_applied_bps d, en_last_decision := d\<rparr>))"

definition srtla_engine_apply_abr :: "'r runner_api \<Rightarrow> int \<Rightarrow> 'r engine \<Rightarrow> int \<times> 'r engine" where
  "srtla_engine_apply_abr api now_ms e =
     (let (d, e) = apply_abr now_ms (sync_runner_stats api e) in (dn_applied_bps d, e))"

text \<open>The error text the caller sees; \<^verbatim>\<open>last_error\<close> is a C string already.\<close>

definition srtla_engine_last_error :: "'r engine \<Rightarrow> string" where
  "srtla_engine_last_error e = cstring_or ''engine error'' (en_last_error e)"

section \<open>What the snapshot reports\<close>

definition session_state_text :: "nat \<Rightarrow> string" where
  "session_state_text state =
     (if state = SESSION_CONNECTING then ''Connecting'' else if state = SESSION_CONNECTED then ''Connected''
      else if state = SESSION_RECONNECTING then ''Reconnecting'' else if state = SESSION_FATAL then ''Fatal''
      else if state = SESSION_STOPPED then ''Stopped'' else ''Idle'')"

definition snapshot_state :: "'r engine \<Rightarrow> string" where
  "snapshot_state e =
     (let srt_connected = (en_session_state e = SESSION_CONNECTED);
          has_live_link = list_ex (\<lambda>l. el_enabled l \<and> el_connected l \<and> el_payload_eligible l) (links_of e)
      in if en_last_error e \<noteq> [] \<or> en_session_state e = SESSION_FATAL then ''Error''
         else if \<not> en_running e then ''Idle''
         else if en_session_state e = SESSION_CONNECTING then ''Starting''
         else if en_session_state e = SESSION_RECONNECTING \<or> en_session_state e = SESSION_STOPPED then ''Reconnecting''
         else if srt_connected \<and> has_live_link then ''Live''
         else if list_ex el_enabled (links_of e) then ''Reconnecting''
         else ''Waiting for network'')"

definition snapshot_recommended_bps :: "'r engine \<Rightarrow> int" where
  "snapshot_recommended_bps e =
     (if 0 < dn_recommended_bps (en_last_decision e) then dn_recommended_bps (en_last_decision e)
      else if \<not> list_ex (\<lambda>l. el_enabled l \<and> el_connected l) (links_of e) then min_bps (ac_config (en_abr e))
      else en_current_video_bps e)"

definition snapshot_abr_state :: "'r engine \<Rightarrow> string" where
  "snapshot_abr_state e =
     (if 0 < dn_recommended_bps (en_last_decision e) then dn_control_state (en_last_decision e)
      else if en_session_state e \<noteq> SESSION_CONNECTED then ''Disconnected''
      else ''Waiting for SRT feedback'')"

section \<open>All calls\<close>

datatype engine_op =
    Start | Stop
  | Submit "byte list" | Receive nat nat
  | SetLinkEnabled int bool
  | UpdateAdapters "engine_link list option"
  | UpdateLinkStats "link_stats_update list option"
  | UpdateSrtStats nat transport_stats
  | SetAudioBitrate int | SetVideoBitrate int | SetMaxVideoBitrate int
  | SetSessionState nat "string option"
  | ApplyAbr int
  | CopyStats

fun engine_apply :: "'r runner_api \<Rightarrow> engine_op \<Rightarrow> 'r engine \<Rightarrow> 'r engine" where
  "engine_apply api Start e = snd (srtla_engine_start api e)"
| "engine_apply api Stop e = snd (srtla_engine_stop e)"
| "engine_apply api (Submit packet) e = snd (srtla_engine_submit_srt_datagram api packet e)"
| "engine_apply api (Receive capacity timeout) e = snd (snd (srtla_engine_receive_srt_datagram api capacity timeout e))"
| "engine_apply api (SetLinkEnabled i b) e = snd (srtla_engine_set_link_enabled api i b e)"
| "engine_apply api (UpdateAdapters parsed) e = snd (srtla_engine_update_adapters api parsed e)"
| "engine_apply api (UpdateLinkStats parsed) e = snd (srtla_engine_update_link_stats parsed e)"
| "engine_apply api (UpdateSrtStats len stats) e = snd (srtla_engine_update_srt_stats len stats e)"
| "engine_apply api (SetAudioBitrate v) e = snd (srtla_engine_set_audio_bitrate v e)"
| "engine_apply api (SetVideoBitrate v) e = snd (srtla_engine_set_video_bitrate v e)"
| "engine_apply api (SetMaxVideoBitrate v) e = snd (srtla_engine_set_max_video_bitrate v e)"
| "engine_apply api (SetSessionState st err) e = snd (srtla_engine_set_session_state st err e)"
| "engine_apply api (ApplyAbr now) e = snd (srtla_engine_apply_abr api now e)"
| "engine_apply api CopyStats e = sync_runner_stats api e"

text \<open>The bitrate controller and the queues under one call.\<close>

definition queues_ok :: "'r engine \<Rightarrow> bool" where
  "queues_ok e \<longleftrightarrow>
     dq_capacity (en_input e) = ENGINE_INPUT_CAPACITY \<and> length (dq_packets (en_input e)) \<le> ENGINE_INPUT_CAPACITY
     \<and> dq_packets (en_output e) = []"

lemma sync_fields [simp]:
  "en_abr (sync_runner_stats api e) = en_abr e" "en_input (sync_runner_stats api e) = en_input e"
  "en_output (sync_runner_stats api e) = en_output e" "en_session_state (sync_runner_stats api e) = en_session_state e"
  by (simp_all add: sync_runner_stats_def set_links_def Let_def split: option.splits)

lemma runner_fields [simp]:
  "en_abr (start_runner api e) = en_abr e" "en_input (start_runner api e) = en_input e"
  "en_output (start_runner api e) = en_output e" "en_abr (ensure_runner api e) = en_abr e"
  "en_input (ensure_runner api e) = en_input e" "en_output (ensure_runner api e) = en_output e"
  "en_abr (set_links ls e) = en_abr e" "en_input (set_links ls e) = en_input e" "en_output (set_links ls e) = en_output e"
  "en_config (start_runner api e) = en_config e" "en_config (ensure_runner api e) = en_config e"
  "links_of (set_links ls e) = ls"
  by (simp_all add: start_runner_def ensure_runner_def set_links_def links_of_def)

lemma links_of_runner [simp]:
  "links_of (start_runner api e) = links_of e" "links_of (ensure_runner api e) = links_of e"
  "links_of (e\<lparr>en_runner := r\<rparr>) = links_of e" "links_of (e\<lparr>en_last_error := t\<rparr>) = links_of e"
  by (simp_all add: links_of_def)

text \<open>What each call means for the controller.\<close>

fun abr_op_of :: "engine_op \<Rightarrow> 'r runner_api \<Rightarrow> 'r engine \<Rightarrow> abr_op option" where
  "abr_op_of Start api e = Some (Reset (en_current_video_bps e))"
| "abr_op_of (SetVideoBitrate v) api e = Some (SetCurrent v)"
| "abr_op_of (SetMaxVideoBitrate v) api e = (if v = 0 then None else Some (SetMax v))"
| "abr_op_of (SetSessionState st err) api e =
     (if st \<le> SESSION_STOPPED \<and> en_session_state e \<noteq> st then Some (Reset (en_current_video_bps e)) else None)"
| "abr_op_of (ApplyAbr now) api e = Some (Decide (abr_sample_of now (sync_runner_stats api e)))"
| "abr_op_of op api e = None"

lemma engine_apply_abr:
  "en_abr (engine_apply api op e) =
     (case abr_op_of op api e of None \<Rightarrow> en_abr e | Some a \<Rightarrow> abr_apply a (en_abr e))"
proof (cases op)
  case (SetSessionState st err)
  then show ?thesis by (simp add: srtla_engine_set_session_state_def Let_def not_le)
next
  case (Submit p)
  then show ?thesis
    by (auto simp: srtla_engine_submit_srt_datagram_def Let_def split: option.splits prod.splits submit_result.splits)
next
  case (Receive capacity timeout)
  then show ?thesis
    by (auto simp: srtla_engine_receive_srt_datagram_def Let_def split: option.splits prod.splits)
next
  case (SetLinkEnabled i b)
  then show ?thesis by (auto simp: srtla_engine_set_link_enabled_def Let_def split: option.splits prod.splits)
next
  case (UpdateAdapters parsed)
  then show ?thesis by (auto simp: srtla_engine_update_adapters_def Let_def split: option.splits prod.splits)
qed (simp_all add: srtla_engine_start_def srtla_engine_stop_def srtla_engine_update_link_stats_def
    srtla_engine_update_srt_stats_def srtla_engine_set_audio_bitrate_def srtla_engine_set_video_bitrate_def
    srtla_engine_set_max_video_bitrate_def srtla_engine_apply_abr_def apply_abr_def Let_def
    split: option.splits prod.splits)

lemma queue_push_ok:
  assumes "queue_push p q = (ok, q')" "length (dq_packets q) \<le> dq_capacity q"
  shows "dq_capacity q' = dq_capacity q" "length (dq_packets q') \<le> dq_capacity q"
  using assms by (auto simp: queue_push_def split: if_splits)

lemma engine_apply_queues: "queues_ok e \<Longrightarrow> queues_ok (engine_apply api op e)"
proof (cases op)
  case (Submit p)
  assume "queues_ok e"
  with Submit show ?thesis
    using queue_push_ok [of p "en_input e"]
    by (auto simp: queues_ok_def srtla_engine_submit_srt_datagram_def Let_def
        split: option.splits prod.splits submit_result.splits)
next
  case (Receive capacity timeout)
  assume "queues_ok e"
  with Receive show ?thesis
    by (auto simp: queues_ok_def srtla_engine_receive_srt_datagram_def front_len_def queue_pop_def Let_def
        split: option.splits prod.splits)
next
  case (SetLinkEnabled i b)
  assume "queues_ok e"
  with SetLinkEnabled show ?thesis
    by (auto simp: queues_ok_def srtla_engine_set_link_enabled_def Let_def split: option.splits prod.splits)
next
  case (UpdateAdapters parsed)
  assume "queues_ok e"
  with UpdateAdapters show ?thesis
    by (auto simp: queues_ok_def srtla_engine_update_adapters_def Let_def split: option.splits prod.splits)
qed (auto simp: queues_ok_def srtla_engine_start_def srtla_engine_stop_def srtla_engine_update_link_stats_def
    srtla_engine_update_srt_stats_def srtla_engine_set_audio_bitrate_def srtla_engine_set_video_bitrate_def
    srtla_engine_set_max_video_bitrate_def srtla_engine_set_session_state_def srtla_engine_apply_abr_def apply_abr_def
    queue_reopen_def queue_close_def Let_def split: option.splits prod.splits)

section \<open>The bitrate of the engine\<close>

definition abr_config_of :: "engine_settings \<Rightarrow> abr_config" where
  "abr_config_of config = (case es_abr config of None \<Rightarrow> default_abr_config | Some a \<Rightarrow> a)"

text \<open>The engine after a sequence of calls, the last one first, and the maximum set last.\<close>

fun engine_history :: "'r runner_api \<Rightarrow> engine_settings \<Rightarrow> engine_op list \<Rightarrow> 'r engine" where
  "engine_history api config [] = new_engine config"
| "engine_history api config (op # earlier) = engine_apply api op (engine_history api config earlier)"

fun engine_maximum :: "engine_settings \<Rightarrow> engine_op list \<Rightarrow> int" where
  "engine_maximum config [] = max (max_bps (abr_config_of config)) 100000"
| "engine_maximum config (SetMaxVideoBitrate v # earlier) =
     (if v = 0 then engine_maximum config earlier else max v (max (lower_limit (abr_config_of config)) 100000))"
| "engine_maximum config (op # earlier) = engine_maximum config earlier"

lemma engine_history_abr:
  "\<exists>ops'. en_abr (engine_history api config ops) = abr_after (abr_config_of config) ops'
     \<and> upper_limit (abr_config_of config) ops' = engine_maximum config ops"
proof (induction ops)
  case Nil
  show ?case by (rule exI [of _ "[]"]) (simp add: new_engine_def abr_config_of_def Let_def)
next
  case (Cons op ops)
  then obtain ops' where ops': "en_abr (engine_history api config ops) = abr_after (abr_config_of config) ops'"
    "upper_limit (abr_config_of config) ops' = engine_maximum config ops" by blast
  show ?case
  proof (cases "abr_op_of op api (engine_history api config ops)")
    case None
    then have "engine_maximum config (op # ops) = engine_maximum config ops" by (cases op) (auto split: if_splits)
    with None ops' show ?thesis by (intro exI [of _ ops']) (simp add: engine_apply_abr)
  next
    case (Some a)
    then have "upper_limit (abr_config_of config) (a # ops') = engine_maximum config (op # ops)"
      using ops'(2) by (cases op) (auto split: if_splits)
    with Some ops' show ?thesis by (intro exI [of _ "a # ops'"]) (simp add: engine_apply_abr)
  qed
qed

lemma engine_history_queues: "queues_ok (engine_history api config ops)"
proof (induction ops)
  case Nil
  then show ?case by (simp add: new_engine_def queues_ok_def new_queue_def Let_def)
qed (simp add: engine_apply_queues)

lemma engine_history_limits:
  "abr_ok (en_abr (engine_history api config ops))"
  "min_bps (ac_config (en_abr (engine_history api config ops))) = lower_limit (abr_config_of config)"
  "max_bps (ac_config (en_abr (engine_history api config ops))) = engine_maximum config ops"
  using engine_history_abr [of api config ops] abr_after_ok abr_after_limits by metis+

lemma apply_abr_result:
  "fst (srtla_engine_apply_abr api now e) =
     dn_applied_bps (fst (decide (abr_sample_of now (sync_runner_stats api e)) (en_abr e)))"
  by (simp add: srtla_engine_apply_abr_def apply_abr_def split: prod.splits)

lemma session_down: "en_session_state e \<noteq> SESSION_CONNECTED \<Longrightarrow> sm_all_links_down (abr_sample_of now e)"
  by (simp add: abr_sample_of_def Let_def)

text \<open>
  C13. The bitrate \<^verbatim>\<open>srtla_engine_apply_abr\<close> returns lies between the configured minimum and the maximum
  set last, after any sequence of calls of the interface, whatever the embedded sender does; while the
  session is not connected it is the minimum, rounded. The input queue never holds more than 1024
  datagrams.
\<close>

theorem engine_bitrate_within_limits:
  "let e = engine_history api config ops; lo = lower_limit (abr_config_of config); hi = engine_maximum config ops;
       r = fst (srtla_engine_apply_abr api now e)
   in lo \<le> r \<and> r \<le> hi \<and> (en_session_state e = SESSION_CONNECTED \<or> r = clamp (rounded_bps lo) lo hi)
      \<and> length (dq_packets (en_input e)) \<le> 1024"
proof -
  let ?e = "engine_history api config ops"
  note lim = engine_history_limits [of api config ops]
  have "fst (srtla_engine_apply_abr api now ?e) =
      clamp (rounded_bps (lower_limit (abr_config_of config))) (lower_limit (abr_config_of config)) (engine_maximum config ops)"
    if "en_session_state ?e \<noteq> SESSION_CONNECTED"
    using that decide_down(2) [OF session_down, of "sync_runner_stats api ?e" now "en_abr ?e"] lim
    by (simp add: apply_abr_result)
  moreover have "length (dq_packets (en_input ?e)) \<le> 1024"
    using engine_history_queues [of api config ops] by (simp add: queues_ok_def ENGINE_INPUT_CAPACITY_def)
  ultimately show ?thesis
    using decide_applied [OF lim(1)] lim(2,3) unfolding Let_def apply_abr_result by auto
qed

section \<open>Links\<close>

lemma update_first_map: "(\<And>x. f (g x) = f x) \<Longrightarrow> map f (update_first p g xs) = map f xs"
  by (induction xs) auto

lemma switch_link_fields [simp]: "el_id (switch_link b l) = el_id l" "el_enabled (switch_link b l) = b"
  by (simp_all add: switch_link_def Let_def)

lemma enabled_count_switch:
  "list_ex (\<lambda>l. el_id l = i) ls \<Longrightarrow>
     (case find (\<lambda>l. el_id l = i) ls of None \<Rightarrow> False | Some l \<Rightarrow> el_enabled l) \<Longrightarrow>
     Suc (length (filter el_enabled (update_first (\<lambda>l. el_id l = i) (switch_link False) ls)))
       = length (filter el_enabled ls)"
  "\<not> (case find (\<lambda>l. el_id l = i) ls of None \<Rightarrow> False | Some l \<Rightarrow> el_enabled l) \<Longrightarrow>
     length (filter el_enabled (update_first (\<lambda>l. el_id l = i) (switch_link False) ls)) = length (filter el_enabled ls)"
  by (induction ls) auto

lemma set_link_links:
  assumes "srtla_engine_set_link_enabled api i b e = (r, e')"
  shows "links_of e' = links_of e
    \<or> links_of e' = update_first (\<lambda>l. el_id l = i) (switch_link b) (links_of e)
      \<and> has_link i e \<and> \<not> (en_running e \<and> \<not> b \<and> link_enabled i e \<and> enabled_count e \<le> 1)"
  using assms unfolding srtla_engine_set_link_enabled_def Let_def
  by (auto split: if_splits option.splits prod.splits)

lemma merge_adapters_enabled:
  "l \<in> set (merge_adapters old links) \<Longrightarrow> el_enabled l \<Longrightarrow>
     \<exists>o'\<in>set old. el_id o' = el_id l \<and> el_enabled o'"
  by (fastforce simp: merge_adapters_def find_Some_iff split: option.splits intro: nth_mem)

lemma update_adapters_links:
  assumes "srtla_engine_update_adapters api parsed e = (r, e')"
  shows "links_of e' = (case parsed of None \<Rightarrow> links_of e | Some links \<Rightarrow> merge_adapters (links_of e) links)"
  using assms unfolding srtla_engine_update_adapters_def Let_def
  by (auto split: if_splits option.splits prod.splits)

definition enabled_ids :: "'r engine \<Rightarrow> int set" where
  "enabled_ids e = el_id ` set (filter el_enabled (links_of e))"

lemma enabled_ids_cong:
  assumes "map (\<lambda>l. (el_id l, el_enabled l)) (links_of d) = map (\<lambda>l. (el_id l, el_enabled l)) (links_of e)"
  shows "enabled_ids d = enabled_ids e"
proof -
  have eq: "enabled_ids x = fst ` set (filter snd (map (\<lambda>l. (el_id l, el_enabled l)) (links_of x)))" for x
    by (force simp: enabled_ids_def)
  show ?thesis unfolding eq assms ..
qed


definition demo_link :: "int \<Rightarrow> bool \<Rightarrow> engine_link" where
  "demo_link i enabled =
     \<lparr>el_id = i, el_label = ''eth'', el_address = [], el_enabled = enabled, el_connected = True, el_capacity_ready = True,
      el_payload_eligible = True, el_target_bps = 4000000, el_quality_percent = 90, el_rtt_ms = 50, el_loss_permille = 0,
      el_nak_count = 0, el_used_bps = 0, el_delivered_bps = 0, el_state = ''Live'', el_cc_state = [],
      el_stall_gate_events = 0, el_exclusion_reason = []\<rparr>"

definition demo_api :: "unit runner_api" where
  "demo_api = \<lparr>ra_is_ip = (\<lambda>_. False), ra_start = (\<lambda>_. ()), ra_stats = (\<lambda>_. None), ra_submit = (\<lambda>_ r. (SubmitOk, r)),
     ra_receive = (\<lambda>_ r. (None, r)), ra_set_link = (\<lambda>_ _ r. (True, r)), ra_update_links = (\<lambda>_ r. (True, r))\<rparr>"

definition demo_engine :: "unit engine" where
  "demo_engine = engine_history demo_api (empty_settings\<lparr>es_links := [demo_link 1 True, demo_link 2 False]\<rparr>) [Start]"

lemma demo_engine_links:
  "links_of demo_engine = [demo_link 1 True, demo_link 2 False]" "en_running demo_engine"
  by (simp_all add: demo_engine_def srtla_engine_start_def new_engine_def has_address_def demo_api_def links_of_def
      demo_link_def Let_def)


end
