(* ===== verification/Engine_Output.thy ===== *)
theory Engine_Output
  imports Srtla_Engine Output_Limits
begin

text \<open>
  The OBS output together with the engine it calls. The output model records its calls of the
  engine; replaying them on the engine model gives the engine's state, and the engine's answers
  are those of that state. The theorems show that the two agree on the bitrate limits and that the
  adaptive bitrate an encoder is given lies between them.
\<close>

section \<open>The calls of the output\<close>

text \<open>
  How the engine reads the structure of the plugin; \<open>u\<close> is the value of a conversion that C++ leaves
  undefined.
\<close>

definition transport_stats_of :: "int \<Rightarrow> srtla_srt_stats \<Rightarrow> transport_stats" where
  "transport_stats_of u st =
     (let value = (\<lambda>n. case n of None \<Rightarrow> u | Some v \<Rightarrow> int v)
      in \<lparr>ts_sampled_at_ms = uint (sr_sampled_at_ms st), ts_bandwidth_bps = value (sr_bandwidth_bps st),
          ts_send_rate_bps = value (sr_send_rate_bps st), ts_sent_unique_bytes = uint (sr_sent_unique_bytes st),
          ts_retransmitted_bytes = uint (sr_retransmitted_bytes st), ts_dropped_bytes = uint (sr_dropped_bytes st),
          ts_send_buffer_ms = int (sr_send_buffer_ms st), ts_send_buffer_packets = int (sr_send_buffer_packets st),
          ts_packets_in_flight = int (sr_packets_in_flight st), ts_rtt_ms = value (sr_rtt_ms st),
          ts_latency_ms = int (sr_latency_ms st), ts_sender_loss_packets = int (sr_sender_loss_packets st)\<rparr>)"

text \<open>
  A recorded call as a call of the interface: \<open>now_ms\<close> is the time the output passes, \<open>links_of_json\<close>
  the JSON reader. Creating and destroying an engine are not calls on one.
\<close>

fun engine_op_of :: "int \<Rightarrow> int \<Rightarrow> (string \<Rightarrow> engine_link list option) \<Rightarrow> engine_call \<Rightarrow> engine_op option" where
  "engine_op_of u now_ms links_of_json EngineCreate = None"
| "engine_op_of u now_ms links_of_json EngineDestroy = None"
| "engine_op_of u now_ms links_of_json EngineStart = Some Start"
| "engine_op_of u now_ms links_of_json EngineStop = Some Stop"
| "engine_op_of u now_ms links_of_json (EngineAudioBitrate v) = Some (SetAudioBitrate (uint v))"
| "engine_op_of u now_ms links_of_json (EngineVideoBitrate v) = Some (SetVideoBitrate v)"
| "engine_op_of u now_ms links_of_json (EngineMaxBitrate v) = Some (SetMaxVideoBitrate v)"
| "engine_op_of u now_ms links_of_json (EngineSrtStats st) =
     Some (UpdateSrtStats (sr_struct_size st) (transport_stats_of u st))"
| "engine_op_of u now_ms links_of_json EngineApplyAbr = Some (ApplyAbr now_ms)"
| "engine_op_of u now_ms links_of_json (EngineLink i b) = Some (SetLinkEnabled (uint i) b)"
| "engine_op_of u now_ms links_of_json (EngineAdapters json) = Some (UpdateAdapters (links_of_json json))"

definition replay :: "'r runner_api \<Rightarrow> int \<Rightarrow> int \<Rightarrow> (string \<Rightarrow> engine_link list option) \<Rightarrow> engine_call list \<Rightarrow> 'r engine \<Rightarrow> 'r engine" where
  "replay api u now_ms links_of_json calls =
     fold (\<lambda>call e. case engine_op_of u now_ms links_of_json call of None \<Rightarrow> e | Some op \<Rightarrow> engine_apply api op e) calls"

text \<open>The calls \<open>d'\<close> made after \<open>d\<close>.\<close>

definition new_calls :: "srtla_output \<Rightarrow> srtla_output \<Rightarrow> engine_call list" where
  "new_calls d d' = drop (length (so_calls d)) (so_calls d')"

section \<open>Agreement on the limits\<close>

definition coupled :: "srtla_output \<Rightarrow> 'r engine \<Rightarrow> bool" where
  "coupled d e \<longleftrightarrow>
     abr_ok (en_abr e) \<and> min_bps (ac_config (en_abr e)) = so_min_bitrate_kbps d * 1000
     \<and> max_bps (ac_config (en_abr e)) = so_max_bitrate_kbps d * 1000
     \<and> 500 \<le> so_min_bitrate_kbps d \<and> so_min_bitrate_kbps d \<le> so_max_bitrate_kbps d \<and> so_max_bitrate_kbps d \<le> 30000"

text \<open>Of all calls, only the one that sets the maximum changes the limits of the engine.\<close>

fun sets_limit :: "engine_call \<Rightarrow> bool" where
  "sets_limit (EngineMaxBitrate v) = True"
| "sets_limit call = False"

lemma engine_apply_config:
  "(\<And>v. op \<noteq> SetMaxVideoBitrate v) \<Longrightarrow> ac_config (en_abr (engine_apply api op e)) = ac_config (en_abr e)"
  unfolding engine_apply_abr
  by (cases op) (auto simp: set_current_bps_def Let_def split: option.splits)

lemma engine_apply_ok: "abr_ok (en_abr e) \<Longrightarrow> abr_ok (en_abr (engine_apply api op e))"
  unfolding engine_apply_abr by (auto simp: abr_apply_ok split: option.splits)

lemma replay_config:
  "list_all (\<lambda>call. \<not> sets_limit call) calls \<Longrightarrow>
     ac_config (en_abr (replay api u now rd calls e)) = ac_config (en_abr e)"
  unfolding replay_def
proof (induction calls arbitrary: e)
  case (Cons call calls)
  then show ?case
    by (cases call) (simp_all add: engine_apply_config del: engine_apply.simps)
qed simp

lemma replay_ok: "abr_ok (en_abr e) \<Longrightarrow> abr_ok (en_abr (replay api u now rd calls e))"
  unfolding replay_def
  by (induction calls arbitrary: e) (auto simp: engine_apply_ok simp del: engine_apply.simps split: option.splits)

lemma replay_append: "replay api u now rd (xs @ ys) e = replay api u now rd ys (replay api u now rd xs e)"
  by (simp add: replay_def)

lemma coupled_cong:
  assumes "coupled d e" "so_min_bitrate_kbps d' = so_min_bitrate_kbps d" "so_max_bitrate_kbps d' = so_max_bitrate_kbps d"
    "list_all (\<lambda>call. \<not> sets_limit call) calls"
  shows "coupled d' (replay api u now rd calls e)"
  using assms replay_config [OF assms(4), of api u now rd e] replay_ok [of e api u now rd calls]
  by (simp add: coupled_def)

section \<open>What the operations of the output do to limits and calls\<close>

text \<open>The output keeps its limits and makes no call that changes those of the engine.\<close>

definition quiet :: "srtla_output \<Rightarrow> srtla_output \<Rightarrow> bool" where
  "quiet d d' \<longleftrightarrow>
     snd (limits_view d') = snd (limits_view d) \<and> so_calls d' = so_calls d @ new_calls d d'
     \<and> list_all (\<lambda>call. \<not> sets_limit call) (new_calls d d')"

lemma quietI:
  assumes "snd (limits_view d') = snd (limits_view d)" "so_calls d' = so_calls d @ new" "list_all (\<lambda>call. \<not> sets_limit call) new"
  shows "quiet d d'"
  using assms by (simp add: quiet_def new_calls_def)

lemma coupled_quiet:
  assumes "coupled d e" "quiet d d'"
  shows "coupled d' (replay api u now rd (new_calls d d') e)"
  using assms by (intro coupled_cong) (simp_all add: quiet_def limits_view_def)

lemma calls_cong: "same_control d e \<Longrightarrow> so_calls d = so_calls e"
  using same_controlD [of d e] by simp

lemma so_calls_queue [simp]:
  fixes d :: srtla_output
  shows "so_calls (enqueue_all ds d) = so_calls d" "so_calls (clear_queue d) = so_calls d"
  "so_calls (stop_worker_locked d) = so_calls d" "so_calls (start_queue d) = so_calls d"
  "so_calls (mark_muxer_reset d) = so_calls d" "so_calls (session_reconnecting d) = so_calls d"
  by (rule calls_cong, simp add: same_control_def enqueue_all_more queue_ops_more queue_ops_running)+

lemma so_calls_fatal [simp]: "so_calls (queue_fatal_output ta e d) = so_calls d"
  by (simp add: queue_fatal_output_def)

lemma so_calls_deliver [simp]: "so_calls (deliver_reports ta n ses d) = so_calls d"
proof -
  have step: "so_calls (on_session_status ta r e) = so_calls e" for r e
    by (cases r) (simp add: on_session_status_def)
  have "so_calls (fold (on_session_status ta) rs e) = so_calls e" for rs e
    by (induction rs arbitrary: e) (simp_all add: step)
  then show ?thesis by (simp add: deliver_reports_def)
qed

lemma so_calls_teardown [simp]:
  "so_calls (release_muxer ff d) = so_calls d" "so_calls (release_session td d) = so_calls d"
  "so_calls (stop_worker d) = so_calls d" "so_calls (stop_abr_worker d) = so_calls d"
  "so_calls (end_lifecycle d) = so_calls d" "so_calls (apply_manual_bitrate d) = so_calls d"
  "so_calls (set_encoder_bitrate k d) = so_calls d"
  "so_calls (stop_engine d) = so_calls d @ (if so_engine d then [EngineStop] else [])"
  by (simp_all add: release_muxer_def release_session_def stop_worker_def stop_abr_worker_def end_lifecycle_def
      stop_engine_def apply_manual_bitrate_def set_encoder_bitrate_def Let_def split: option.split)

text \<open>Calls of a start: none of them sets the limit.\<close>

definition grows :: "srtla_output \<Rightarrow> srtla_output \<Rightarrow> bool" where
  "grows d d' \<longleftrightarrow> (\<exists>new. so_calls d' = so_calls d @ new \<and> list_all (\<lambda>call. \<not> sets_limit call) new)"

lemma grows_refl: "so_calls d' = so_calls d \<Longrightarrow> grows d d'"
  by (simp add: grows_def)

lemma grows_trans: "grows a b \<Longrightarrow> grows b c \<Longrightarrow> grows a c"
  unfolding grows_def by (metis append.assoc list_all_append)

lemma grows_calls: "so_calls d' = so_calls d @ new \<Longrightarrow> list_all (\<lambda>call. \<not> sets_limit call) new \<Longrightarrow> grows d d'"
  by (auto simp: grows_def)

lemma grows_engine: "so_calls e = so_calls d \<Longrightarrow> \<not> sets_limit c \<Longrightarrow> grows d (engine_does c e)"
  by (rule grows_calls [of _ _ "[c]"]) simp_all

lemma quiet_grows: "snd (limits_view d') = snd (limits_view d) \<Longrightarrow> grows d d' \<Longrightarrow> quiet d d'"
  by (auto simp: grows_def intro: quietI)

lemma grows_stop: "grows d (srtla_output_stop td d)"
  by (rule grows_calls, simp add: srtla_output_stop_def, simp)

lemma grows_session: "grows d (snd (start_session sa d))"
  by (cases "fst (start_session sa d)")
    (auto simp: start_session_def Let_def split: prod.splits if_splits intro!: grows_calls)

lemma grows_transport: "grows d (snd (start_transport sa d))"
proof -
  let ?d1 = "engine_does (EngineAudioBitrate (so_audio_bitrate_bps d)) (engine_does EngineStart d)"
  have one: "grows d ?d1" by (rule grows_calls, simp, simp)
  have "grows ?d1 (engine_does EngineStop (set_last_error m ?d1))" for m by (rule grows_calls, simp, simp)
  with one grows_session [of ?d1 sa] show ?thesis
    unfolding start_transport_def Let_def by (auto intro: grows_trans grows_refl)
qed

lemma grows_failed_media: "grows d (start_failed_media sa m d)"
  by (rule grows_calls, simp add: start_failed_media_def, simp)

lemma grows_bitrate: "grows d (snd (start_bitrate sa d))"
proof -
  have "grows d (engine_does (EngineVideoBitrate b) d')" if "so_calls d' = so_calls d" for b d'
    by (rule grows_calls, simp add: that, simp)
  then show ?thesis
    unfolding start_bitrate_def Let_def by (auto intro: grows_trans [OF _ grows_failed_media])
qed

lemma grows_media: "grows d (snd (start_media sa d))"
proof -
  have "grows d (start_failed_media sa m (start_queue d))" for m
    by (rule grows_trans [OF grows_refl grows_failed_media]) simp
  then show ?thesis by (simp add: start_media_def Let_def grows_refl)
qed

lemma grows_rollback: "so_calls d' = so_calls d \<Longrightarrow> grows d (start_rollback sa e d')"
  by (rule grows_calls, simp add: start_rollback_def, simp)

lemma grows_capture: "grows d (snd (start_capture sa d))"
  unfolding start_capture_def Let_def
  by (simp add: split_def grows_rollback grows_refl split: option.split)

lemma grows_prepare: "grows d (snd (start_prepare sa d))"
  by (rule grows_refl) (simp add: start_prepare_def Let_def split_def)

lemma grows_and_then: "grows d (snd (f d)) \<Longrightarrow> (\<And>d'. grows d' (snd (g d'))) \<Longrightarrow> grows d (snd (and_then f g d))"
  by (auto simp: and_then_def split_def intro: grows_trans)

lemma grows_start: "grows d (snd (srtla_output_start sa d))"
  unfolding srtla_output_start_def
  by (intro grows_and_then grows_prepare grows_transport grows_bitrate grows_media grows_capture)

lemma quiet_start: "\<not> running d \<Longrightarrow> quiet d (snd (srtla_output_start sa d))"
  using limits_start [of sa d] grows_start [of d sa] by (cases "srtla_output_start sa d") (auto intro: quiet_grows)

lemma quiet_stop: "quiet d (srtla_output_stop td d)"
  by (rule quiet_grows) (simp_all add: limits_stop grows_stop)

lemma quiet_fatal: "quiet d (signal_fatal_output_on_ui td d)"
proof -
  have "grows d (signal_fatal_output_on_ui td d)"
    unfolding signal_fatal_output_on_ui_def Let_def
    by (auto simp: grows_refl split: list.split intro: grows_trans [OF grows_refl grows_stop])
  then show ?thesis using limits_fatal_task [of td d] by (auto intro: quiet_grows)
qed

lemma quiet_packet: "quiet d (srtla_output_encoded_packet ff ov ta p d)"
  by (rule quiet_grows, simp add: limits_packet, rule grows_refl)
    (auto simp: srtla_output_encoded_packet_def Let_def split: option.splits prod.splits)

lemma quiet_session: "quiet d (session_advances ta a d)"
  by (rule quiet_grows, simp add: limits_session, rule grows_refl)
    (simp add: session_advances_def Let_def split: option.split)

lemma grows_report: "grows d (abr_report_stats ab d)"
  unfolding abr_report_stats_def
  by (auto simp: grows_refl split: option.split prod.split intro: grows_calls)

text \<open>The round of the control thread asks the engine after it has reported the statistics.\<close>

lemma abr_round_calls:
  "abr_round ab d = d \<or> so_calls (abr_round ab d) = so_calls d
   \<or> so_calls (abr_round ab d) = so_calls (abr_report_stats ab d)
   \<or> so_calls (abr_round ab d) = so_calls (abr_report_stats ab d) @ [EngineApplyAbr]"
  by (simp add: abr_round_def Let_def)

lemma quiet_round: "quiet d (abr_round ab d)"
proof -
  have "grows d d'" if "so_calls d' = so_calls (abr_report_stats ab d) @ [EngineApplyAbr]" for d'
    by (rule grows_trans [OF grows_report grows_calls [OF that]]) simp
  then have "grows d (abr_round ab d)"
    using abr_round_calls [of ab d] grows_report [of d ab] grows_trans grows_refl by metis
  then show ?thesis by (intro quiet_grows) (simp_all add: limits_abr)
qed

lemma quiet_control:
  "srtla_output_set_bitrate_control f b k (Some d) = (r, Some d') \<Longrightarrow> quiet d d'"
  unfolding srtla_output_set_bitrate_control_def Let_def
  by (rule quiet_grows) (auto simp: grows_refl split: if_splits intro!: grows_engine)

lemma quiet_links:
  "srtla_output_set_link_enabled f i b (Some d) = (r, Some d') \<Longrightarrow> quiet d d'"
  "srtla_output_update_adapters g adapters (Some d) = (r, Some d') \<Longrightarrow> quiet d d'"
  unfolding srtla_output_set_link_enabled_def srtla_output_update_adapters_def Let_def
  by (rule quiet_grows; auto simp: grows_refl split: if_splits intro!: grows_engine)+

section \<open>A new maximum\<close>

lemma set_max_result:
  assumes "srtla_output_set_max_bitrate f g m (Some d) = (r, Some d')"
  defines "mx \<equiv> clamp m (max 1 (so_min_bitrate_kbps d)) ABSOLUTE_MAX_BITRATE_KBPS"
  defines "d1 \<equiv> (engine_does (EngineMaxBitrate (mx * 1000)) d)\<lparr>so_max_bitrate_kbps := mx\<rparr>"
  assumes "f (mx * 1000) = 0"
  obtains "d' = d" | "d' = d1"
    | active where "d' = engine_does (EngineVideoBitrate (active * 1000)) (set_encoder_bitrate active d1)"
  using assms(1,4) that unfolding srtla_output_set_max_bitrate_def Let_def option.case mx_def [symmetric] d1_def [symmetric]
  by (simp split: if_splits) blast+

lemma set_max_coupled:
  assumes c: "coupled d e"
    and r: "srtla_output_set_max_bitrate (\<lambda>v. fst (srtla_engine_set_max_video_bitrate v e))
        (\<lambda>v. fst (srtla_engine_set_video_bitrate v e')) m (Some d) = (r, Some d')"
  shows "coupled d' (replay api u now rd (new_calls d d') e)"
proof -
  let ?max = "clamp m (max 1 (so_min_bitrate_kbps d)) ABSOLUTE_MAX_BITRATE_KBPS"
  have m: "so_min_bitrate_kbps d \<le> ?max" "?max \<le> 30000" "500 \<le> ?max"
    using c set_max_clamp [of "so_min_bitrate_kbps d" m] by (auto simp: coupled_def)
  have ok: "fst (srtla_engine_set_max_video_bitrate (?max * 1000) e) = 0"
    using m by (simp add: srtla_engine_set_max_video_bitrate_def)
  let ?d1 = "(engine_does (EngineMaxBitrate (?max * 1000)) d)\<lparr>so_max_bitrate_kbps := ?max\<rparr>"
  consider "d' = d"
    | rest where "so_min_bitrate_kbps d' = so_min_bitrate_kbps d" "so_max_bitrate_kbps d' = ?max"
      "so_calls d' = so_calls d @ EngineMaxBitrate (?max * 1000) # rest" "list_all (\<lambda>call. \<not> sets_limit call) rest"
  proof (rule set_max_result [OF r ok])
    assume "d' = ?d1"
    then show thesis using that(2) [of "[]"] by (simp add: engine_does_def)
  next
    fix active
    assume "d' = engine_does (EngineVideoBitrate (active * 1000)) (set_encoder_bitrate active ?d1)"
    then show thesis
      using that(2) [of "[EngineVideoBitrate (active * 1000)]"] by (simp add: engine_does_def set_encoder_bitrate_def)
  qed (use that in blast)
  then show ?thesis
  proof cases
    case 1
    with c show ?thesis by (simp add: new_calls_def replay_def)
  next
    case (2 rest)
    let ?e = "replay api u now rd [EngineMaxBitrate (?max * 1000)] e"
    have cfg: "ac_config (en_abr ?e) = (ac_config (en_abr e))\<lparr>max_bps := ?max * 1000\<rparr>"
      using c m by (simp add: replay_def srtla_engine_set_max_video_bitrate_def set_max_bps_def coupled_def
          ROUNDING_BPS_def Let_def)
    have "replay api u now rd (new_calls d d') e = replay api u now rd rest ?e"
      using 2 replay_append [of api u now rd "[EngineMaxBitrate (?max * 1000)]" rest e] by (simp add: new_calls_def)
    moreover have "coupled d' ?e"
      using c m 2 cfg replay_ok [of e api u now rd "[EngineMaxBitrate (?max * 1000)]"]
      by (simp add: coupled_def)
    ultimately show ?thesis using coupled_cong [of d' ?e d' rest api u now rd] 2(4) by simp
  qed
qed

section \<open>Output and engine together\<close>

text \<open>The limits \<^verbatim>\<open>create_engine_from_settings\<close> writes into the configuration of the engine.\<close>

definition configured_abr :: "'d obs_data_api \<Rightarrow> 'd option \<Rightarrow> abr_config" where
  "configured_abr oapi settings =
     (let max_bitrate = configured_max_bitrate_kbps oapi settings;
          min_bitrate = configured_min_bitrate_kbps oapi settings max_bitrate
      in \<lparr>min_bps = max 1 min_bitrate * 1000, start_bps = max 1 max_bitrate * 1000, max_bps = max 1 max_bitrate * 1000\<rparr>)"

inductive joint_init :: "'d obs_data_api \<Rightarrow> srtla_output \<times> 'r engine \<Rightarrow> bool" for oapi where
  "srtla_output_create engine_create oapi bits adapters video audio settings0 = (d, settings)
   \<Longrightarrow> es_abr config = Some (configured_abr oapi settings)
   \<Longrightarrow> joint_init oapi (d, new_engine config)"

text \<open>
  The steps: the operations of the output with their calls of the engine, an update of the settings that
  makes a new engine, and everything the session, the transport and the statistics do with the engine.
\<close>

inductive joint_step ::
    "'d obs_data_api \<Rightarrow> 'r runner_api \<Rightarrow> (string \<Rightarrow> engine_link list option)
      \<Rightarrow> srtla_output \<times> 'r engine \<Rightarrow> srtla_output \<times> 'r engine \<Rightarrow> bool" for oapi api rd where
  round: "d' = abr_round ab d \<Longrightarrow> joint_step oapi api rd (d, e) (d', replay api u (uint (ab_now ab)) rd (new_calls d d') e)"
| set_max: "srtla_output_set_max_bitrate (\<lambda>v. fst (srtla_engine_set_max_video_bitrate v e))
       (\<lambda>v. fst (srtla_engine_set_video_bitrate v e)) m (Some d) = (r, Some d')
     \<Longrightarrow> joint_step oapi api rd (d, e) (d', replay api u now rd (new_calls d d') e)"
| set_control: "srtla_output_set_bitrate_control (\<lambda>v. fst (srtla_engine_set_video_bitrate v e)) automatic m (Some d) = (r, Some d')
     \<Longrightarrow> joint_step oapi api rd (d, e) (d', replay api u now rd (new_calls d d') e)"
| set_link: "srtla_output_set_link_enabled (\<lambda>i b. fst (srtla_engine_set_link_enabled api (uint i) b e)) link_id enabled (Some d)
       = (r, Some d')
     \<Longrightarrow> joint_step oapi api rd (d, e) (d', replay api u now rd (new_calls d d') e)"
| adapters: "srtla_output_update_adapters (\<lambda>json. fst (srtla_engine_update_adapters api (rd json) e)) adapters (Some d) = (r, Some d')
     \<Longrightarrow> joint_step oapi api rd (d, e) (d', replay api u now rd (new_calls d d') e)"
| packet: "d' = srtla_output_encoded_packet ff ov ta p d
     \<Longrightarrow> joint_step oapi api rd (d, e) (d', replay api u now rd (new_calls d d') e)"
| session: "d' = session_advances ta a d \<Longrightarrow> joint_step oapi api rd (d, e) (d', replay api u now rd (new_calls d d') e)"
| fatal: "d' = signal_fatal_output_on_ui td d \<Longrightarrow> joint_step oapi api rd (d, e) (d', replay api u now rd (new_calls d d') e)"
| start: "\<not> running d \<Longrightarrow> srtla_output_start sa d = (ok, d')
     \<Longrightarrow> joint_step oapi api rd (d, e) (d', replay api u now rd (new_calls d d') e)"
| stop: "d' = srtla_output_stop td d \<Longrightarrow> joint_step oapi api rd (d, e) (d', replay api u now rd (new_calls d d') e)"
| update: "\<not> running d \<Longrightarrow> srtla_output_update engine_create oapi bits adapters settings0 d = (d', settings)
     \<Longrightarrow> es_abr config = Some (configured_abr oapi settings) \<Longrightarrow> joint_step oapi api rd (d, e) (d', new_engine config)"
| engine: "(\<And>v. op \<noteq> SetMaxVideoBitrate v) \<Longrightarrow> joint_step oapi api rd (d, e) (d, engine_apply api op e)"

lemma new_engine_coupled:
  assumes "es_abr config = Some (configured_abr oapi settings)"
    and "so_max_bitrate_kbps d = configured_max_bitrate_kbps oapi settings"
    and "so_min_bitrate_kbps d = configured_min_bitrate_kbps oapi settings (configured_max_bitrate_kbps oapi settings)"
  shows "coupled d (new_engine config :: 'r engine)"
proof -
  note mx = configured_max_bounds [of oapi settings] and mn = configured_min_bounds [OF configured_max_bounds(1), of oapi settings oapi settings]
  have "ac_config (en_abr (new_engine config :: 'r engine)) =
      \<lparr>min_bps = so_min_bitrate_kbps d * 1000, start_bps = so_max_bitrate_kbps d * 1000, max_bps = so_max_bitrate_kbps d * 1000\<rparr>"
    using assms mx mn
    by (simp add: new_engine_def new_controller_def normalized_def configured_abr_def ROUNDING_BPS_def clamp_def Let_def)
  moreover have "abr_ok (en_abr (new_engine config :: 'r engine))"
    by (simp add: new_engine_def new_controller_ok Let_def)
  ultimately show ?thesis using assms mx mn by (simp add: coupled_def)
qed

lemma apply_settings_limit_fields:
  "so_max_bitrate_kbps (apply_settings oapi bits settings d) = configured_max_bitrate_kbps oapi settings"
  "so_min_bitrate_kbps (apply_settings oapi bits settings d) =
     configured_min_bitrate_kbps oapi settings (configured_max_bitrate_kbps oapi settings)"
  by (simp_all add: apply_settings_def Let_def)

lemma init_coupled: "joint_init oapi (d, e) \<Longrightarrow> coupled d e"
  by (cases rule: joint_init.cases, assumption)
    (auto intro!: new_engine_coupled simp: srtla_output_create_def apply_settings_limit_fields engine_does_def Let_def
      split: prod.splits)

lemma engine_coupled: "coupled d e \<Longrightarrow> (\<And>v. op \<noteq> SetMaxVideoBitrate v) \<Longrightarrow> coupled d (engine_apply api op e)"
  using engine_apply_config [of op api e] engine_apply_ok [of e api op] by (simp add: coupled_def)

lemma step_coupled:
  assumes "joint_step oapi api rd (d, e) (d', e')" and "coupled d e"
  shows "coupled d' e'"
  using assms
proof (cases rule: joint_step.cases)
  case (update engine_create bits adapters settings0 settings config)
  then show ?thesis
    by (auto intro!: new_engine_coupled simp: srtla_output_update_def apply_settings_limit_fields Let_def split: prod.splits)
next
  case (start sa ok u now)
  with quiet_start [of d sa] assms(2) show ?thesis by (auto intro: coupled_quiet)
qed (use assms(2) in \<open>auto intro: coupled_quiet quiet_round quiet_control quiet_links quiet_packet quiet_session quiet_fatal
    quiet_stop set_max_coupled engine_coupled\<close>)

interpretation joint: invariant_system "joint_init oapi" "joint_step oapi api rd" "\<lambda>(d, e). coupled d e" for oapi api rd
  by unfold_locales (auto intro: init_coupled step_coupled)

section \<open>The adaptive bitrate of the encoder\<close>

lemma coupled_answer:
  assumes "coupled d e"
  shows "so_min_bitrate_kbps d * 1000 \<le> fst (srtla_engine_apply_abr api now e)"
    "fst (srtla_engine_apply_abr api now e) \<le> so_max_bitrate_kbps d * 1000"
  using decide_applied [of "en_abr e"] assms by (simp_all add: coupled_def apply_abr_result)

lemma report_encoder [simp]: "so_video_encoder (abr_report_stats ab d) = so_video_encoder d"
  by (simp add: abr_report_stats_def split: option.split prod.split)

lemma quiet_report: "quiet d (abr_report_stats ab d)"
  using grows_report [of d ab]
  by (rule quiet_grows [rotated]) (simp add: abr_report_stats_def split: option.split prod.split)

lemma abr_round_encoder:
  "so_video_encoder (abr_round ab d) = so_video_encoder d
   \<or> (\<exists>enc. so_video_encoder d = Some enc
       \<and> so_video_encoder (abr_round ab d) = Some (enc\<lparr>ec_bitrate := cast_int (int (ab_applied_bps ab) div 1000)\<rparr>))"
proof -
  have set: "so_video_encoder (set_encoder_bitrate k x) = so_video_encoder x
      \<or> (\<exists>enc. so_video_encoder x = Some enc \<and> so_video_encoder (set_encoder_bitrate k x) = Some (enc\<lparr>ec_bitrate := k\<rparr>))" for k x
    by (cases "so_video_encoder x") (simp_all add: set_encoder_bitrate_def)
  have fatal: "so_video_encoder (queue_fatal_output ta m x) = so_video_encoder x" for ta m x
    by (simp add: queue_fatal_output_def)
  show ?thesis
    using set [of "cast_int (int (ab_applied_bps ab) div 1000)" "engine_does EngineApplyAbr (abr_report_stats ab d)"]
    by (auto simp: abr_round_def fatal Let_def)
qed


text \<open>Without a report of the session the engine answers with the minimum.\<close>

lemma replay_unconnected:
  "en_session_state e \<noteq> SESSION_CONNECTED \<Longrightarrow> en_session_state (replay api u now rd calls e) \<noteq> SESSION_CONNECTED"
  unfolding replay_def
proof (induction calls arbitrary: e)
  case (Cons call calls)
  have links: "en_session_state (ensure_runner api x) = en_session_state x" "en_session_state (set_links ls x) = en_session_state x" for x ls
    by (simp_all add: ensure_runner_def start_runner_def set_links_def)
  have "en_session_state (engine_apply api op e) \<noteq> SESSION_CONNECTED" if "engine_op_of u now rd call = Some op" for op
    using that Cons.prems
    by (cases call) (auto simp: srtla_engine_start_def srtla_engine_stop_def srtla_engine_set_audio_bitrate_def
        srtla_engine_set_video_bitrate_def srtla_engine_set_max_video_bitrate_def srtla_engine_update_srt_stats_def
        srtla_engine_apply_abr_def apply_abr_def srtla_engine_set_link_enabled_def srtla_engine_update_adapters_def
        start_runner_def links session_consts Let_def split: option.splits prod.splits if_splits)
  then show ?case using Cons by (simp split: option.split)
qed simp

lemma unconnected_answer:
  assumes "coupled d e" "en_session_state e \<noteq> SESSION_CONNECTED" "so_min_bitrate_kbps d = 500"
  shows "fst (srtla_engine_apply_abr api now e) = 500000"
proof -
  have "sm_all_links_down (abr_sample_of now (sync_runner_stats api e))" using assms(2) by (simp add: session_down)
  then show ?thesis
    using assms(1,3) by (simp add: apply_abr_result decide_down coupled_def rounded_bps_def ROUNDING_BPS_def clamp_def)
qed

text \<open>The part of the output that decides whether a round reaches the encoder.\<close>

definition control_view :: "srtla_output \<Rightarrow> bool \<times> bool \<times> (string option \<times> bool \<times> bool) option" where
  "control_view d = (so_auto_bitrate d, so_output d, 
     map_option (\<lambda>enc. (ec_codec enc, ec_dyn_bitrate enc, ec_has_settings enc)) (so_video_encoder d))"

lemma encoder_dynamic_view: "encoder_dynamic d = (case snd (snd (control_view d)) of None \<Rightarrow> False | Some (_, dyn, _) \<Rightarrow> dyn)"
  by (simp add: encoder_dynamic_def control_view_def split: option.split)

lemma control_view_cong: "same_control d e \<Longrightarrow> control_view d = control_view e"
  using same_controlD [of d e] by (simp add: control_view_def)

lemma control_view_updates [simp]:
  "control_view (d\<lparr>so_muxer := x_m\<rparr>) = control_view d" "control_view (d\<lparr>so_session := x_s\<rparr>) = control_view d"
  "control_view (d\<lparr>needs_muxer_reset := x_b\<rparr>) = control_view d" "control_view (d\<lparr>worker_stop := x_b\<rparr>) = control_view d"
  "control_view (d\<lparr>so_capture_lifecycle := x_l\<rparr>) = control_view d" "control_view (d\<lparr>running := x_b\<rparr>) = control_view d"
  "control_view (d\<lparr>so_fatal_signal_queued := x_b\<rparr>) = control_view d"
  "control_view (d\<lparr>so_capture_active := x_b\<rparr>) = control_view d" "control_view (d\<lparr>so_abr_stop := x_b\<rparr>) = control_view d"
  "control_view (d\<lparr>so_worker := x_b\<rparr>) = control_view d" "control_view (d\<lparr>so_abr_worker := x_b\<rparr>) = control_view d"
  "control_view (d\<lparr>so_bitrate_overridden := x_b\<rparr>) = control_view d"
  "control_view (d\<lparr>so_original_bitrate_kbps := x_n\<rparr>) = control_view d"
  "control_view (engine_does c d) = control_view d" "control_view (set_last_error m d) = control_view d"
  "control_view (queue_fatal_output ta m d) = control_view d" "control_view (set_encoder_bitrate k d) = control_view d"
  by (simp_all add: control_view_def engine_does_def set_last_error_def queue_fatal_output_def set_encoder_bitrate_def
      option.map_comp comp_def)

lemma control_view_queue [simp]:
  "control_view (enqueue_all ds d) = control_view d" "control_view (start_queue d) = control_view d"
  "control_view (mark_muxer_reset d) = control_view d" "control_view (session_reconnecting d) = control_view d"
  by (rule control_view_cong, simp add: same_control_def enqueue_all_more queue_ops_more queue_ops_running)+

lemma control_view_deliver [simp]: "control_view (deliver_reports ta n ses d) = control_view d"
proof -
  have step: "control_view (on_session_status ta r e) = control_view e" for r e
    by (cases r) (simp add: on_session_status_def)
  have "control_view (fold (on_session_status ta) rs e) = control_view e" for rs e
    by (induction rs arbitrary: e) (simp_all add: step)
  then show ?thesis by (simp add: deliver_reports_def)
qed

lemma control_view_parts [simp]:
  "control_view (release_muxer ff d) = control_view d" "control_view (apply_manual_bitrate d) = control_view d"
  by (simp_all add: release_muxer_def apply_manual_bitrate_def Let_def split: option.split)

text \<open>A start that succeeds with a dynamic encoder.\<close>

lemma started_control:
  assumes "srtla_output_start sa d = (True, d')" and "encoder_dynamic d"
  shows "control_view d' = control_view d" "\<not> so_abr_stop d'"
proof -
  from assms(1) obtain p t b m where
    p: "start_prepare sa d = (True, p)" and t: "start_transport sa p = (True, t)"
    and b: "start_bitrate sa t = (True, b)" and m: "start_media sa b = (True, m)" and c: "start_capture sa m = (True, d')"
    by (auto simp: srtla_output_start_def and_then_def split: prod.splits if_splits)
  have "control_view p = control_view d"
    using p by (auto simp: start_prepare_def Let_def split: if_splits prod.splits)
  moreover have vt: "control_view t = control_view p"
    using t by (auto simp: start_transport_def start_session_def Let_def split: if_splits prod.splits)
  ultimately have "encoder_dynamic t"
    using assms(2) by (simp add: encoder_dynamic_view)
  then have "control_view b = control_view t"
    using b by (auto simp: start_bitrate_def Let_def split: if_splits)
  moreover have "control_view m = control_view b"
    using m by (auto simp: start_media_def Let_def split: if_splits)
  moreover have "control_view d' = control_view m" "\<not> so_abr_stop d'"
    using c by (auto simp: start_capture_def Let_def split: if_splits option.splits prod.splits)
  ultimately show "control_view d' = control_view d" "\<not> so_abr_stop d'"
    using vt \<open>control_view p = control_view d\<close> by simp_all
qed

text \<open>A new output, started; the session has not reported to the engine yet.\<close>

definition demo_creation :: "srtla_output \<times> (string \<rightharpoonup> setting) option" where
  "demo_creation = srtla_output_create (\<lambda>_. True) map_settings 64 [] (so_video_encoder demo_output) None
     (Some [''url'' \<mapsto> SStr ''srtla://relay:5000'', ''latency_ms'' \<mapsto> SInt 2000, ''pbkeylen'' \<mapsto> SInt 16,
       ''min_bitrate'' \<mapsto> SInt 500, ''max_bitrate'' \<mapsto> SInt 6000])"

definition demo_created :: srtla_output where
  "demo_created = fst demo_creation"

definition demo_live_output :: srtla_output where
  "demo_live_output = snd (srtla_output_start demo_start_answers demo_created)"

definition demo_round :: abr_answers where
  "demo_round = \<lparr>ab_engine_error = None, ab_now = 20, ab_fl = Some, ab_bistats = (\<lambda>_. None), ab_snddata = (\<lambda>_. None),
     ab_applied_bps = 500000, ab_task = \<lparr>ta_get_ref = True, ta_queued = True\<rparr>\<rparr>"

definition demo_joint_engine :: "unit engine" where
  "demo_joint_engine = new_engine (empty_settings\<lparr>es_abr := Some (configured_abr map_settings (snd demo_creation))\<rparr>)"

lemma demo_endpoint: "parse_endpoint 64 (Some ''srtla://relay:5000'') = (''relay'', 5000)"
  by code_simp

lemma demo_created_eq:
  "demo_created = (engine_does EngineCreate ((apply_settings map_settings 64 (snd demo_creation)
      (new_srtla_output\<lparr>so_output := True, so_video_encoder := so_video_encoder demo_output, so_audio_encoder := None\<rparr>))
        \<lparr>so_credential_error := False\<rparr>))\<lparr>so_engine := True\<rparr>"
  "snd demo_creation = Some [''url'' \<mapsto> SStr ''srtla://relay:5000'', ''latency_ms'' \<mapsto> SInt 2000, ''pbkeylen'' \<mapsto> SInt 16,
       ''min_bitrate'' \<mapsto> SInt 500, ''max_bitrate'' \<mapsto> SInt 6000]"
  by (simp_all add: demo_created_def demo_creation_def srtla_output_create_def split_url_query_into_settings_def
      normalize_passphrase_setting_def passphrase_from_settings_def create_engine_from_settings_def map_settings_def
      nonempty_cstr_def str_find_def Let_def)

lemma demo_created_fields:
  "session_config_of demo_created = session_config_of demo_output" "startable demo_created" "output_idle demo_created"
  "so_min_bitrate_kbps demo_created = 500" "so_max_bitrate_kbps demo_created = 6000"
  "so_video_encoder demo_created = so_video_encoder demo_output" "so_auto_bitrate demo_created" "so_output demo_created"
  unfolding demo_created_eq
  by (simp_all add: demo_endpoint apply_settings_def session_config_of_def startable_def output_idle_def demo_output_def
    new_srtla_output_def engine_does_def map_settings_def configured_max_bitrate_kbps_def configured_min_bitrate_kbps_def
    bitrate_consts clamp_def cast_int_def settings_string_def settings_int_def settings_bool_def value_or_def
    passphrase_from_settings_def nonempty_cstr_def supported_video_encoder_def supported_audio_encoder_def capture_on_def engine_on_def Let_def)

lemma demo_start_ok: "srtla_output_start demo_start_answers demo_created = (True, demo_live_output)"
  using demo_start [OF demo_created_fields(2,1)] by (simp add: demo_live_output_def prod_eq_iff)

lemma demo_created_idle: "\<not> running demo_created"
  by (simp add: demo_created_eq(1) apply_settings_def new_srtla_output_def engine_does_def Let_def)

lemma demo_live_fields:
  "running demo_live_output" "so_engine demo_live_output" "\<not> so_abr_stop demo_live_output" "so_auto_bitrate demo_live_output"
  "so_output demo_live_output" "so_min_bitrate_kbps demo_live_output = 500" "so_max_bitrate_kbps demo_live_output = 6000"
  "\<exists>enc. so_video_encoder demo_live_output = Some enc \<and> ec_dyn_bitrate enc \<and> ec_has_settings enc"
proof -
  have dyn: "encoder_dynamic demo_created" by (simp add: encoder_dynamic_def demo_created_fields(6)) (simp add: demo_output_def)
  note v = started_control [OF demo_start_ok dyn]
  show "running demo_live_output" "so_engine demo_live_output"
    using start_result [OF demo_created_fields(3) _ demo_start_ok] demo_output_idle(2) demo_created_fields(6) by simp_all
  show "\<not> so_abr_stop demo_live_output" by (rule v(2))
  show "so_auto_bitrate demo_live_output" "so_output demo_live_output"
    "\<exists>enc. so_video_encoder demo_live_output = Some enc \<and> ec_dyn_bitrate enc \<and> ec_has_settings enc"
    using v(1) demo_created_fields(6-8) by (auto simp: control_view_def demo_output_def)
  have "quiet demo_created demo_live_output"
    using quiet_start [OF demo_created_idle, of demo_start_answers] by (simp add: demo_live_output_def)
  then show "so_min_bitrate_kbps demo_live_output = 500" "so_max_bitrate_kbps demo_live_output = 6000"
    using demo_created_fields(4,5) by (simp_all add: quiet_def limits_view_def)
qed

lemma demo_joint_start:
  "reach (joint_init map_settings) (joint_step map_settings demo_api (\<lambda>_. None))
     (demo_live_output, replay demo_api 0 0 (\<lambda>_. None) (new_calls demo_created demo_live_output) demo_joint_engine)"
proof -
  have "demo_creation = (demo_created, snd demo_creation)" by (simp add: demo_created_def)
  then have "joint_init map_settings (demo_created, demo_joint_engine)"
    unfolding demo_joint_engine_def by (intro joint_init.intros) (simp_all add: demo_creation_def)
  moreover have "joint_step map_settings demo_api (\<lambda>_. None) (demo_created, demo_joint_engine)
      (demo_live_output, replay demo_api 0 0 (\<lambda>_. None) (new_calls demo_created demo_live_output) demo_joint_engine)"
    by (rule joint_step.start [OF demo_created_idle demo_start_ok])
  ultimately show ?thesis by (blast intro: reach_init reach_step)
qed

lemma demo_round_applies: "\<exists>enc. so_video_encoder (abr_round demo_round demo_live_output) = Some enc \<and> ec_bitrate enc = 500"
proof -
  have report: "so_auto_bitrate (abr_report_stats demo_round demo_live_output)" "so_output (abr_report_stats demo_round demo_live_output)"
    using demo_live_fields(4,5) by (simp_all add: abr_report_stats_def split: option.split prod.split)
  then show ?thesis
    using demo_live_fields
    by (auto simp: abr_round_def encoder_dynamic_def encoder_settings_def set_encoder_bitrate_def demo_round_def
        nonempty_cstr_def cast_int_def Let_def)
qed


section \<open>Backpressure\<close>

text \<open>
  A datagram the embedded sender cannot take at the moment is refused with \<^verbatim>\<open>-2\<close> and the engine runs on, but the
  refusal is also its last error, which the control thread of the output treats as fatal: a round
  between the refusal and the next accepted datagram queues the task that stops the output.
\<close>

lemma backpressure_stops_output:
  assumes "en_running e" and "en_runner e = Some r" and "fst (ra_submit api p r) = SubmitBackpressure" and "p \<noteq> []"
    and "running d" and "so_engine d" and "\<not> so_abr_stop d" and "\<not> so_fatal_signal_queued d"
    and "ta_get_ref (ab_task ab)" and "ta_queued (ab_task ab)"
    and "ab_engine_error ab = Some (srtla_engine_last_error (snd (srtla_engine_submit_srt_datagram api p e)))"
  shows "fst (srtla_engine_submit_srt_datagram api p e) = - 2 \<and> en_running (snd (srtla_engine_submit_srt_datagram api p e))
    \<and> so_tasks (abr_round ab d) = so_tasks d @ [''input queue backpressure'']"
proof -
  obtain r' where "ra_submit api p r = (SubmitBackpressure, r')" using assms(3) by (cases "ra_submit api p r") simp
  then have s: "srtla_engine_submit_srt_datagram api p e =
      (- 2, e\<lparr>en_runner := Some r', en_last_error := ''input queue backpressure''\<rparr>)"
    using assms(1,2,4) by (simp add: srtla_engine_submit_srt_datagram_def)
  then have "ab_engine_error ab = Some ''input queue backpressure''"
    using assms(11) by (simp add: srtla_engine_last_error_def cstring_or_def)
  then show ?thesis
    using assms s by (simp add: abr_round_def queue_fatal_output_def nonempty_cstr_def)
qed

end
