(* ===== verification/Spec2Isabelle.thy ===== *)
theory Spec2Isabelle
  imports Endpoint_Text Utf8 Capture_Lifecycle Network_Monitor Obs_Settings Stats_Json Media_Queue
    Mpegts_Sink Srt_Session Srtla_Output Dock_Host Dock_Charts Profile_Roundtrip Srtla_Websocket Srtla_Module
    Engine_Output
begin

text \<open>
  A verification of the SRTLA output plugin for OBS: the C++ code under \<^verbatim>\<open>src/plugin\<close> and the
  Rust engine under \<^verbatim>\<open>src/engine\<close>.

  \<^bold>\<open>The program.\<close> OBS hands encoded packets to the output (\<^verbatim>\<open>srtla-output.cpp\<close>). The output muxes them
  into an MPEG transport stream (\<^verbatim>\<open>mpegts-avformat-sink.cpp\<close>), cuts the stream into datagrams, puts
  these into a bounded queue and sends them from a worker thread over an SRT session
  (\<^verbatim>\<open>srt-session.cpp\<close>). The session's transport is the SRTLA engine, a Rust library behind a C interface
  (\<^verbatim>\<open>engine/src/lib.rs\<close>) that bonds several network links with an embedded sender and computes the
  adaptive bitrate (\<^verbatim>\<open>engine/src/abr.rs\<close>); the adapters come from the network
  monitor (\<^verbatim>\<open>network-monitor-posix.cpp\<close>, \<^verbatim>\<open>network-monitor-windows.cpp\<close>). A dock in the OBS window
  (\<^verbatim>\<open>srtla-dock.cpp\<close>) edits the profile, starts and stops the output, chooses links and shows telemetry;
  WebSocket clients do the same through \<^verbatim>\<open>srtla-websocket.cpp\<close>; \<^verbatim>\<open>srtla-module.cpp\<close> creates and destroys
  the dock and forwards the events of the OBS frontend.

  \<^bold>\<open>Conventions.\<close> A C++ object is a record, an operation a function from the old to the new state with
  its result; an error is a value. Calls out of the program (OBS, Qt, libavformat, libsrt, the embedded
  SRTLA sender, the operating system) are parameters: records of functions or the answers they give. What is relied
  on of them are named predicates (\<open>obs_data_laws\<close>, \<open>reply_laws\<close>, \<open>config_laws\<close>, \<open>registry_laws\<close>,
  \<open>adapters_ok\<close>, \<open>qt_rows_ok\<close>), each shown to hold for a concrete instance. Threads are interleavings of
  steps; the general rule for invariants of such systems is the locale \<open>invariant_system\<close> of the
  prelude, interpreted for the session, the media pipeline, the dock, the plugin, the bitrate controller
  and the output with its engine. The theories of the C++ side take the answers of the engine as parameters, so
  their theorems hold for any engine; \<open>Engine_Output\<close> puts the model of the engine in their place. Machine integers
  are words, or integers with the conversion written out (\<open>cast_int\<close>, \<open>cast_unsigned\<close>). All functions
  are total: loops are recursions with termination proofs and no fuel is used; the connector thread,
  which may run for ever, is a step function.

  \<^bold>\<open>Theories.\<close>
  \<^item> \<open>Prelude\<close>: C++ conversions, \<^verbatim>\<open>std::string\<close> operations, decimal numbers, \<^verbatim>\<open>from_chars\<close>, the locales
    \<open>invariant_system\<close> and \<open>text_codec\<close>.
  \<^item> \<open>Endpoint_Text\<close>, \<open>Utf8\<close>, \<open>Obs_Settings\<close>: the text formats and settings of \<^verbatim>\<open>srtla-output.cpp\<close>,
    \<^verbatim>\<open>passphrase-store.cpp\<close> and the UTF-8 check of \<^verbatim>\<open>srt-session.cpp\<close>: round trips, bounds, and the
    equivalence of the check with the definition of UTF-8.
  \<^item> \<open>Media_Queue\<close>: the queue and the sender thread (\<^verbatim>\<open>enqueue_datagram\<close>, \<^verbatim>\<open>start_worker\<close>,
    \<^verbatim>\<open>stop_worker\<close>): exact accounting, order, the two bounds (8 MiB, two seconds), refinement of an
    abstract queue with a keyframe gate.
  \<^item> \<open>Mpegts_Sink\<close>: the muxer: no byte is lost or reordered; the locale \<open>datagram_consumer\<close> connects
    it to the queue.
  \<^item> \<open>Srt_Session\<close>: the connector thread, stop, sending and statistics: sockets are closed exactly
    once, states are reported in order, the thread ends after a stop.
  \<^item> \<open>Capture_Lifecycle\<close>, \<open>Network_Monitor\<close>, \<open>Stats_Json\<close>: the seam to OBS's capture calls, the list
    of adapters, and the copy protocol of the statistics.
  \<^item> \<open>Srtla_Output\<close>, \<open>Output_Limits\<close>: the output object as a whole, with create, update, start with
    all its failures, stop, fatal errors and the bitrate controller: a start is all or nothing, a stop
    restores everything, the limits stay in range.
  \<^item> \<open>Dock_State\<close>, \<open>Dock_Links\<close>, \<open>Dock_Profile\<close>, \<open>Dock_Output\<close>, \<open>Dock_Status\<close>: the dock, function by
    function, with its signal handlers; \<open>dock_step\<close> is everything that happens on the UI thread.
    \<open>Dock_Invariants\<close>, \<open>Dock_Steps\<close>, \<open>Dock_Properties\<close>: every operation keeps the dock well-formed;
    the balance of references to OBS objects. \<open>Profile_Roundtrip\<close>: the profile survives a restart.
    \<open>Dock_Charts\<close>: the curves the trend widgets draw stay in their area.
  \<^item> \<open>Dock_Host\<close>: dock and output together. The locale \<open>limit_keeper\<close> states what the dock needs of an
    output; it is interpreted with the operations of \<open>Srtla_Output\<close>.
  \<^item> \<open>Rust_Float\<close>: binary64 arithmetic on rational numbers with the rounding of IEEE 754, and its relative
    error. \<open>Abr_Controller\<close>: the controller of \<^verbatim>\<open>abr.rs\<close>; its limits hold after any sequence of operations,
    and its changes are bounded and spaced. \<open>Abr_Recovery\<close>: on a steady link the bitrate reaches its maximum.
  \<^item> \<open>Srtla_Engine\<close>: the functions of the C interface over the engine's state. \<open>Engine_Output\<close>: output and
    engine together; the recorded calls of the output are replayed on the engine, the two agree on the
    limits, and the encoder gets bitrates within them; also the lemma that a momentary backpressure of the
    sender stops the output.
  \<^item> \<open>Srtla_Websocket\<close>: registration and requests: all or nothing, always answered.
  \<^item> \<open>Srtla_Module\<close>: the module, and the plugin as a system of steps over a heap: no dock is used
    after its destruction.

  \<^bold>\<open>How state and operations correspond.\<close> The fields of \<open>srtla_output\<close>, \<open>session\<close>, \<open>sink\<close>, \<open>lifecycle\<close>
  and \<open>dock\<close> are the members of the classes of the same name; \<open>dock_view\<close> collects the texts and curves
  the dock shows. Besides, a dock records the references it obtained and released (\<open>dk_refs\<close>), the
  outputs it let go (\<open>dk_retired\<close>) and the documents it sent (\<open>dk_emitted\<close>), and a session and a sink
  the calls they made, so that properties can speak about them. A mutex-protected section is one step.

  \<^bold>\<open>Not modelled.\<close> Layout and style of the widgets, pens and fonts, tool tips other than the one of
  the state label, log messages; the rounding of floating-point values in the dock, which are kept as the integers
  they come from (\<open>sample\<close>) and drawn with rational coordinates; the bookkeeping of memory by smart
  pointers. Of the snapshot of the engine only the derived fields (state, recommended bitrate, controller and session
  state) are definitions; the others are copies. Waiting for a datagram and submitting one happen outside the
  engine's lock in the code and are single steps here. The embedded SRTLA sender (vendored), the JSON libraries, libsrt,
  libavformat, Qt and OBS are parameters. A WebSocket request is one step on the UI thread; that its thread loads
  the dock's pointer before is only considered by the lemma \<open>request_under_way_dangles\<close>.
\<close>

end
